(* ===== verification/ST_Prelude.thy ===== *)
theory ST_Prelude
  imports Main
begin

text \<open>
  The prelude of the ShadowTrace development: the result type every fallible
  operation of the backend returns (\<open>Inl\<close> is a raised exception, \<open>Inr\<close> a
  returned value), its sequencing operator, the lookup of a Python \<open>StrEnum\<close>
  member by its value, the ``first match'' loop the services use on query
  results, and the interface contracts (locales) shared by several components.
\<close>

named_theorems table_simps \<open>unfolding rules of the transition tables\<close>
named_theorems enum_simps \<open>unfolding rules of the enumerations' value tables\<close>
named_theorems enum_literals \<open>the string values of the enumerations' members\<close>
named_theorems gate_simps \<open>unfolding rules of the validators\<close>

section \<open>Results\<close>

text \<open>Sequencing: the second computation runs only when the first returned.\<close>

fun bind_res :: "'e + 'a \<Rightarrow> ('a \<Rightarrow> 'e + 'b) \<Rightarrow> 'e + 'b" where
  "bind_res (Inl e) f = Inl e"
| "bind_res (Inr x) f = f x"

text \<open>\<open>ensure b e\<close> is \<open>if not b: raise e\<close>.\<close>

definition ensure :: "bool \<Rightarrow> 'e \<Rightarrow> 'e + unit" where
  "ensure b e = (if b then Inr () else Inl e)"

text \<open>\<open>of_opt e\<close> raises \<open>e\<close> when a lookup found nothing.\<close>

definition of_opt :: "'e \<Rightarrow> 'a option \<Rightarrow> 'e + 'a" where
  "of_opt e r = (case r of None \<Rightarrow> Inl e | Some x \<Rightarrow> Inr x)"

definition is_ok :: "'e + 'a \<Rightarrow> bool" where
  "is_ok r = (case r of Inl _ \<Rightarrow> False | Inr _ \<Rightarrow> True)"

lemma bind_res_Inr_iff [simp]:
  "bind_res m f = Inr y \<longleftrightarrow> (\<exists>x. m = Inr x \<and> f x = Inr y)"
  by (cases m) auto

lemma bind_res_Inl_iff:
  "bind_res m f = Inl e \<longleftrightarrow> m = Inl e \<or> (\<exists>x. m = Inr x \<and> f x = Inl e)"
  by (cases m) auto

lemma ensure_Inr_iff [simp]: "ensure b e = Inr u \<longleftrightarrow> b"
  by (cases u) (simp add: ensure_def)

lemma ensure_Inl_iff [simp]: "ensure b e = Inl e' \<longleftrightarrow> \<not> b \<and> e' = e"
  by (auto simp: ensure_def)

lemma of_opt_Inr_iff [simp]: "of_opt e r = Inr x \<longleftrightarrow> r = Some x"
  by (cases r) (auto simp: of_opt_def)

lemma of_opt_Inl_iff [simp]: "of_opt e r = Inl e' \<longleftrightarrow> r = None \<and> e' = e"
  by (cases r) (auto simp: of_opt_def)

lemma is_ok_simps [simp]: "is_ok (Inr x)" "\<not> is_ok (Inl e)"
  by (simp_all add: is_ok_def)

lemma is_ok_iff: "is_ok r \<longleftrightarrow> (\<exists>x. r = Inr x)"
  by (cases r) auto

lemma is_ok_unit_iff: "is_ok (r :: 'e + unit) \<longleftrightarrow> r = Inr ()"
  by (cases r) auto

lemma is_ok_bind_iff: "is_ok (bind_res m f) \<longleftrightarrow> (\<exists>x. m = Inr x \<and> is_ok (f x))"
  by (cases m) auto

lemma unit_sum_cases: "(r :: 'e + unit) \<noteq> Inr () \<Longrightarrow> \<exists>e. r = Inl e"
  by (cases r) auto

text \<open>A loop that collects the results of a fallible body.\<close>

fun map_res :: "('a \<Rightarrow> 'e + 'b) \<Rightarrow> 'a list \<Rightarrow> 'e + 'b list" where
  "map_res f [] = Inr []"
| "map_res f (x # xs) =
     bind_res (f x) (\<lambda>y. bind_res (map_res f xs) (\<lambda>ys. Inr (y # ys)))"

text \<open>
  A service call returns the state with its result: \<open>commit\<close> runs one transaction, whose
  exception leaves the state as it was, and \<open>then_do\<close> continues after a call unless it
  raised.
\<close>

fun commit :: "'s \<Rightarrow> 'e + 'a \<times> 's \<Rightarrow> 's \<times> ('e + 'a)" where
  "commit s (Inl e) = (s, Inl e)"
| "commit s (Inr (x, s')) = (s', Inr x)"

fun then_do :: "'s \<times> ('e + 'a) \<Rightarrow> ('s \<Rightarrow> 'a \<Rightarrow> 's \<times> ('e + 'b)) \<Rightarrow> 's \<times> ('e + 'b)" where
  "then_do (s, Inl e) f = (s, Inl e)"
| "then_do (s, Inr x) f = f s x"

lemma commit_cases:
  "commit s r = (s', x) \<Longrightarrow>
     (\<exists>e. r = Inl e \<and> s' = s \<and> x = Inl e) \<or> (\<exists>y. r = Inr (y, s') \<and> x = Inr y)"
  by (cases "(s, r)" rule: commit.cases) auto

lemma then_do_cases:
  "then_do m f = (s', x) \<Longrightarrow>
     (\<exists>e. m = (s', Inl e) \<and> x = Inl e) \<or> (\<exists>s y. m = (s, Inr y) \<and> f s y = (s', x))"
  by (cases "(m, f)" rule: then_do.cases) auto

section \<open>Postconditions\<close>

text \<open>Every value the computation returns satisfies \<open>Q\<close>; the rules follow the program text.\<close>

definition returns :: "('a \<Rightarrow> bool) \<Rightarrow> 'e + 'a \<Rightarrow> bool" where
  "returns Q m \<longleftrightarrow> (\<forall>y. m = Inr y \<longrightarrow> Q y)"

lemma returnsD: "returns Q m \<Longrightarrow> m = Inr y \<Longrightarrow> Q y"
  by (simp add: returns_def)

lemma returns_Inr: "Q y \<Longrightarrow> returns Q (Inr y)"
  and returns_Inl: "returns Q (Inl e)"
  and returns_bind: "(\<And>x. p = Inr x \<Longrightarrow> returns Q (f x)) \<Longrightarrow> returns Q (bind_res p f)"
  and returns_if: "(c \<Longrightarrow> returns Q m) \<Longrightarrow> (\<not> c \<Longrightarrow> returns Q n) \<Longrightarrow> returns Q (if c then m else n)"
  and returns_let: "(\<And>x. x = v \<Longrightarrow> returns Q (g x)) \<Longrightarrow> returns Q (Let v g)"
  and returns_option: "(opt = None \<Longrightarrow> returns Q n) \<Longrightarrow> (\<And>z. opt = Some z \<Longrightarrow> returns Q (h z))
        \<Longrightarrow> returns Q (case opt of None \<Rightarrow> n | Some z \<Rightarrow> h z)"
  and returns_pair: "(\<And>a b. pq = (a, b) \<Longrightarrow> returns Q (k a b)) \<Longrightarrow> returns Q (case pq of (a, b) \<Rightarrow> k a b)"
  by (auto simp: returns_def split: option.splits prod.splits)

lemmas returns_rules = returns_Inr returns_Inl returns_bind returns_if returns_let returns_option
  returns_pair

lemma returns_mono: "returns P m \<Longrightarrow> (\<And>y. P y \<Longrightarrow> Q y) \<Longrightarrow> returns Q m"
  unfolding returns_def by blast

section \<open>Lists, options and records of rows\<close>

text \<open>
  The loop \<open>for x in xs: v = f(x); if v is not None: return v\<close> followed by
  \<open>return None\<close>.
\<close>

fun first_some :: "('a \<Rightarrow> 'b option) \<Rightarrow> 'a list \<Rightarrow> 'b option" where
  "first_some f [] = None"
| "first_some f (x # xs) = (case f x of Some v \<Rightarrow> Some v | None \<Rightarrow> first_some f xs)"

lemma first_some_None_iff: "first_some f xs = None \<longleftrightarrow> (\<forall>x\<in>set xs. f x = None)"
  by (induction xs) (auto split: option.splits)

lemma first_some_SomeD: "first_some f xs = Some v \<Longrightarrow> \<exists>x\<in>set xs. f x = Some v"
  by (induction xs) (auto split: option.splits)

text \<open>\<open>SELECT ... LIMIT 1\<close>: the first row the database returns that satisfies the filter.\<close>

definition scalar :: "('a \<Rightarrow> bool) \<Rightarrow> 'a list \<Rightarrow> 'a option" where
  "scalar P xs = find P xs"

lemma scalar_None_iff: "scalar P xs = None \<longleftrightarrow> (\<forall>x\<in>set xs. \<not> P x)"
  by (auto simp: scalar_def find_None_iff)

lemma scalar_SomeD: "scalar P xs = Some x \<Longrightarrow> x \<in> set xs \<and> P x"
  by (auto simp: scalar_def find_Some_iff)

text \<open>\<open>SELECT max(k)\<close> over the rows: \<open>None\<close> when there is no row.\<close>

definition max_of :: "('a \<Rightarrow> int) \<Rightarrow> 'a list \<Rightarrow> int option" where
  "max_of k xs = (if xs = [] then None else Some (Max (k ` set xs)))"

lemma max_of_None_iff [simp]: "max_of k xs = None \<longleftrightarrow> xs = []"
  by (simp add: max_of_def)

lemma max_of_SomeD:
  assumes "max_of k xs = Some m"
  shows "\<forall>x\<in>set xs. k x \<le> m" and "\<exists>x\<in>set xs. k x = m"
proof -
  from assms have ne: "xs \<noteq> []" and m: "m = Max (k ` set xs)"
    by (auto simp: max_of_def split: if_splits)
  from m show "\<forall>x\<in>set xs. k x \<le> m" by simp
  from ne have "Max (k ` set xs) \<in> k ` set xs" by (intro Max_in) auto
  with m show "\<exists>x\<in>set xs. k x = m" by force
qed

text \<open>
  \<open>ORDER BY k DESC LIMIT 1\<close>: a row with the greatest key (the first one of the
  list among equal keys).
\<close>

fun max_by :: "('a \<Rightarrow> int) \<Rightarrow> 'a list \<Rightarrow> 'a option" where
  "max_by k [] = None"
| "max_by k (x # xs) =
     (case max_by k xs of
        None \<Rightarrow> Some x
      | Some y \<Rightarrow> if k x < k y then Some y else Some x)"

lemma max_by_None_iff [simp]: "max_by k xs = None \<longleftrightarrow> xs = []"
  by (cases xs) (auto split: option.splits)

lemma max_by_SomeD:
  "max_by k xs = Some y \<Longrightarrow> y \<in> set xs \<and> (\<forall>x\<in>set xs. k x \<le> k y)"
  by (induction xs arbitrary: y) (fastforce split: option.splits if_splits)+

text \<open>\<open>UPDATE ... WHERE\<close>: rewrite the rows that satisfy the filter, keep the others.\<close>

definition update_where :: "('a \<Rightarrow> bool) \<Rightarrow> ('a \<Rightarrow> 'a) \<Rightarrow> 'a list \<Rightarrow> 'a list" where
  "update_where P f xs = map (\<lambda>x. if P x then f x else x) xs"

lemma length_update_where [simp]: "length (update_where P f xs) = length xs"
  by (simp add: update_where_def)

lemma set_update_where:
  "set (update_where P f xs) = f ` {x \<in> set xs. P x} \<union> {x \<in> set xs. \<not> P x}"
  by (auto simp: update_where_def)

lemma map_update_where_frame:
  assumes "\<And>x. g (f x) = g x"
  shows "map g (update_where P f xs) = map g xs"
  using assms by (simp add: update_where_def)

lemma find_append: "find P (xs @ ys) = (case find P xs of None \<Rightarrow> find P ys | Some x \<Rightarrow> Some x)"
  by (induction xs) auto

section \<open>Strings\<close>

text \<open>\<open>sep.join(parts)\<close>.\<close>

fun join :: "string \<Rightarrow> string list \<Rightarrow> string" where
  "join sep [] = []"
| "join sep [x] = x"
| "join sep (x # y # ys) = x @ sep @ join sep (y # ys)"

text \<open>\<open>str(n)\<close> of an integer: decimal digits with a minus sign.\<close>

fun string_of_nat :: "nat \<Rightarrow> string" where
  "string_of_nat n =
     (if n < 10 then [char_of (48 + n)]
      else string_of_nat (n div 10) @ [char_of (48 + n mod 10)])"

declare string_of_nat.simps [simp del]

definition string_of_int :: "int \<Rightarrow> string" where
  "string_of_int i =
     (if i < 0 then CHR ''-'' # string_of_nat (nat (- i)) else string_of_nat (nat i))"

lemma string_of_nat_nonempty [simp]: "string_of_nat n \<noteq> []"
  by (subst string_of_nat.simps) simp

lemma digit_inject: "a < 10 \<Longrightarrow> b < 10 \<Longrightarrow> (char_of (48 + a :: nat) = char_of (48 + b)) = (a = b)"
  by (auto dest: arg_cong [of _ _ "of_char :: char \<Rightarrow> nat"])

lemma string_of_nat_digits:
  "n < 10 \<Longrightarrow> string_of_nat n = [char_of (48 + n)]"
  "\<not> n < 10 \<Longrightarrow> string_of_nat n = string_of_nat (n div 10) @ [char_of (48 + n mod 10)]"
  using string_of_nat.simps [of n] by simp_all

lemma string_of_nat_short: "n < 10 \<longleftrightarrow> length (string_of_nat n) = 1"
proof (cases "n < 10")
  case False
  have "0 < length (string_of_nat (n div 10))" by simp
  with False show ?thesis unfolding string_of_nat_digits(2) [OF False] by simp
qed (simp add: string_of_nat_digits(1))

lemma string_of_nat_inject: "string_of_nat m = string_of_nat n \<Longrightarrow> m = n"
proof (induction m arbitrary: n rule: less_induct)
  case (less m)
  have short: "m < 10 \<longleftrightarrow> n < 10" using less.prems by (simp add: string_of_nat_short)
  show ?case
  proof (cases "m < 10")
    case True
    with less.prems short show ?thesis by (simp add: string_of_nat_digits(1) digit_inject)
  next
    case False
    with less.prems short have eq: "string_of_nat (m div 10) = string_of_nat (n div 10)"
      "char_of (48 + m mod 10) = (char_of (48 + n mod 10) :: char)"
      using string_of_nat_digits(2) [of m] string_of_nat_digits(2) [of n] by simp_all
    have "m div 10 = n div 10" by (rule less.IH [OF _ eq(1)]) (use False in simp)
    moreover have "m mod 10 = n mod 10" using eq(2) by (simp add: digit_inject)
    ultimately show ?thesis by (metis div_mult_mod_eq)
  qed
qed

lemma string_of_nat_hd: "hd (string_of_nat n) \<noteq> CHR ''-''"
proof (induction n rule: less_induct)
  case (less n)
  show ?case
  proof (cases "n < 10")
    case True
    have "of_char (char_of (48 + n) :: char) \<noteq> (of_char (CHR ''-'') :: nat)" using True by simp
    then have "char_of (48 + n) \<noteq> CHR ''-''" by metis
    with True show ?thesis by (simp add: string_of_nat_digits(1))
  next
    case False
    have "hd (string_of_nat (n div 10)) \<noteq> CHR ''-''" by (rule less.IH) (use False in simp)
    then show ?thesis by (simp add: string_of_nat_digits(2) [OF False])
  qed
qed

lemma string_of_int_inject:
  assumes "string_of_int v = string_of_int w"
  shows "v = w"
proof -
  have "(v < 0) = (w < 0)"
    using assms string_of_nat_hd [of "nat v"] string_of_nat_hd [of "nat w"]
    by (auto simp: string_of_int_def split: if_splits) (metis list.sel(1))+
  then show ?thesis
    using assms string_of_nat_inject [of "nat (- v)" "nat (- w)"] string_of_nat_inject [of "nat v" "nat w"]
    by (auto simp: string_of_int_def split: if_splits)
qed

text \<open>\<open>needle in haystack\<close> on strings.\<close>

fun is_substring :: "string \<Rightarrow> string \<Rightarrow> bool" where
  "is_substring needle [] = (needle = [])"
| "is_substring needle (c # cs) =
     (take (length needle) (c # cs) = needle \<or> is_substring needle cs)"

section \<open>String enumerations\<close>

text \<open>
  \<open>E(raw)\<close> for a Python \<open>StrEnum\<close> \<open>E\<close>: the member whose value is \<open>raw\<close>,
  \<open>None\<close> where Python raises \<open>ValueError\<close>.
\<close>

definition enum_parse :: "'e list \<Rightarrow> ('e \<Rightarrow> string) \<Rightarrow> string \<Rightarrow> 'e option" where
  "enum_parse members val raw = find (\<lambda>e. val e = raw) members"

text \<open>
  The contract of a string enumeration: the member list is complete and no two
  members share a value. Every enumeration of \<open>Enums\<close> interprets it.
\<close>

locale str_enum =
  fixes members :: "'e list" and val :: "'e \<Rightarrow> string"
  assumes complete: "e \<in> set members"
    and distinct_values: "distinct (map val members)"
begin

lemma value_inject: "val a = val b \<Longrightarrow> a = b"
  using distinct_values complete by (auto simp: distinct_map dest: inj_onD)

lemma value_eq_iff: "val a = val b \<longleftrightarrow> a = b"
  using value_inject by blast

lemma parse_val: "enum_parse members val (val e) = Some e"
proof -
  have "find (\<lambda>x. val x = val e) members \<noteq> None"
    using complete [of e] by (auto simp: find_None_iff)
  then obtain e' where e': "find (\<lambda>x. val x = val e) members = Some e'"
    by blast
  then have "val e' = val e" by (auto simp: find_Some_iff)
  with e' show ?thesis using value_inject by (simp add: enum_parse_def)
qed

lemma parse_SomeD: "enum_parse members val raw = Some e \<Longrightarrow> val e = raw"
  by (auto simp: enum_parse_def find_Some_iff)

lemma parse_iff: "enum_parse members val raw = Some e \<longleftrightarrow> raw = val e"
  using parse_val [of e] parse_SomeD [of raw e] by blast

lemma parse_None_iff: "enum_parse members val raw = None \<longleftrightarrow> (\<forall>e. val e \<noteq> raw)"
  using parse_val parse_SomeD [of raw] by (cases "enum_parse members val raw") fastforce+

end

section \<open>Transition tables\<close>

text \<open>
  \<open>_edge_allowed(table, current, target)\<close> of \<open>models/workflow.py\<close>:
  \<open>target in table.get(current, set())\<close>. The tables are total functions here,
  since every table of the source has an entry for every member.
\<close>

definition edge_allowed :: "('s \<Rightarrow> 's set) \<Rightarrow> 's \<Rightarrow> 's \<Rightarrow> bool" where
  "edge_allowed table current target \<longleftrightarrow> target \<in> table current"

lemma map_filter_set: "set (List.map_filter f xs) = {y. \<exists>x\<in>set xs. f x = Some y}"
  by (induction xs) (auto simp: List.map_filter_def split: option.splits)

text \<open>
  The contract of a guarded status machine: a validator that accepts only edges
  of its table. A run is a sequence of statuses in which the validator accepted
  every step under some caller-supplied evidence.
\<close>

locale guarded_table =
  fixes table :: "'s \<Rightarrow> 's set" and accepts :: "'ev \<Rightarrow> 's \<Rightarrow> 's \<Rightarrow> bool"
  assumes accepts_edge: "accepts ev s t \<Longrightarrow> t \<in> table s"
begin

inductive run :: "'s \<Rightarrow> 's \<Rightarrow> bool" where
  run_refl: "run s s"
| run_step: "run s t \<Longrightarrow> accepts ev t u \<Longrightarrow> run s u"

lemma run_terminal:
  assumes "run s t" and "table s = {}"
  shows "t = s"
  using assms by (induction rule: run.induct) (auto dest: accepts_edge)

lemma run_invariant:
  assumes "run s t" and "P s"
    and "\<And>ev a b. P a \<Longrightarrow> accepts ev a b \<Longrightarrow> P b"
  shows "P t"
  using assms by (induction rule: run.induct) auto

lemma run_trans:
  assumes "run t u" and "run s t"
  shows "run s u"
  using assms by (induction rule: run.induct) (auto intro: run.intros)

end

end
