(* ===== verification/Enums.thy ===== *)
theory Enums
  imports ST_Prelude
begin

text \<open>
  The enumerations of \<open>backend/app/models/enums.py\<close> the modelled components
  use: one datatype per \<open>StrEnum\<close>, its member list in declaration order and its
  value table. Constructors carry a short prefix, since the source reuses member
  names across enumerations (\<open>EventStatus.FAILED\<close> is \<open>ES_FAILED\<close>,
  \<open>ActionStatus.FAILED\<close> is \<open>AS_FAILED\<close>). Each enumeration interprets the
  contract \<open>str_enum\<close>, which gives the parse/print round trip the services rely
  on when they read a status column. \<open>E_parse raw\<close> is Python's \<open>E(raw)\<close>, with
  \<open>None\<close> for \<open>ValueError\<close>.
\<close>

section \<open>EventStatus\<close>

datatype EventStatus =
    ES_NEW | ES_TRIAGING | ES_COLLECTING_EVIDENCE | ES_ANALYZING |
  ES_SCORING | ES_PLANNING_RESPONSE | ES_WAITING_APPROVAL |
  ES_EXECUTING_RESPONSE | ES_VERIFYING | ES_REPLANNING | ES_CONTAINED |
  ES_FAILED | ES_REPORTING | ES_CLOSED

definition EventStatus_members :: "EventStatus list" where
  "EventStatus_members =
     [ES_NEW, ES_TRIAGING, ES_COLLECTING_EVIDENCE, ES_ANALYZING, ES_SCORING,
      ES_PLANNING_RESPONSE, ES_WAITING_APPROVAL, ES_EXECUTING_RESPONSE,
      ES_VERIFYING, ES_REPLANNING, ES_CONTAINED, ES_FAILED, ES_REPORTING,
      ES_CLOSED]"

primrec EventStatus_value :: "EventStatus \<Rightarrow> string" where
  "EventStatus_value ES_NEW = ''new''"
| "EventStatus_value ES_TRIAGING = ''triaging''"
| "EventStatus_value ES_COLLECTING_EVIDENCE = ''collecting_evidence''"
| "EventStatus_value ES_ANALYZING = ''analyzing''"
| "EventStatus_value ES_SCORING = ''scoring''"
| "EventStatus_value ES_PLANNING_RESPONSE = ''planning_response''"
| "EventStatus_value ES_WAITING_APPROVAL = ''waiting_approval''"
| "EventStatus_value ES_EXECUTING_RESPONSE = ''executing_response''"
| "EventStatus_value ES_VERIFYING = ''verifying''"
| "EventStatus_value ES_REPLANNING = ''replanning''"
| "EventStatus_value ES_CONTAINED = ''contained''"
| "EventStatus_value ES_FAILED = ''failed''"
| "EventStatus_value ES_REPORTING = ''reporting''"
| "EventStatus_value ES_CLOSED = ''closed''"

abbreviation EventStatus_parse :: "string \<Rightarrow> EventStatus option" where
  "EventStatus_parse \<equiv> enum_parse EventStatus_members EventStatus_value"

section \<open>FinalVerdict\<close>

datatype FinalVerdict =
    FV_NONE | FV_POSSIBLE_FALSE_POSITIVE | FV_FALSE_POSITIVE |
  FV_CONFIRMED_THREAT

definition FinalVerdict_members :: "FinalVerdict list" where
  "FinalVerdict_members =
     [FV_NONE, FV_POSSIBLE_FALSE_POSITIVE, FV_FALSE_POSITIVE,
      FV_CONFIRMED_THREAT]"

primrec FinalVerdict_value :: "FinalVerdict \<Rightarrow> string" where
  "FinalVerdict_value FV_NONE = ''none''"
| "FinalVerdict_value FV_POSSIBLE_FALSE_POSITIVE = ''possible_false_positive''"
| "FinalVerdict_value FV_FALSE_POSITIVE = ''false_positive''"
| "FinalVerdict_value FV_CONFIRMED_THREAT = ''confirmed_threat''"

abbreviation FinalVerdict_parse :: "string \<Rightarrow> FinalVerdict option" where
  "FinalVerdict_parse \<equiv> enum_parse FinalVerdict_members FinalVerdict_value"

section \<open>CaseLabel\<close>

datatype CaseLabel =
    CL_TRUE_POSITIVE | CL_FALSE_POSITIVE | CL_UNCERTAIN

definition CaseLabel_members :: "CaseLabel list" where
  "CaseLabel_members =
     [CL_TRUE_POSITIVE, CL_FALSE_POSITIVE, CL_UNCERTAIN]"

primrec CaseLabel_value :: "CaseLabel \<Rightarrow> string" where
  "CaseLabel_value CL_TRUE_POSITIVE = ''true_positive''"
| "CaseLabel_value CL_FALSE_POSITIVE = ''false_positive''"
| "CaseLabel_value CL_UNCERTAIN = ''uncertain''"

abbreviation CaseLabel_parse :: "string \<Rightarrow> CaseLabel option" where
  "CaseLabel_parse \<equiv> enum_parse CaseLabel_members CaseLabel_value"

section \<open>ActionStatus\<close>

datatype ActionStatus =
    AS_PENDING | AS_WAITING_APPROVAL | AS_APPROVED | AS_REJECTED |
  AS_SUPERSEDED | AS_EXECUTING | AS_PARTIAL_SUCCESS | AS_SUCCESS |
  AS_FAILED | AS_UNKNOWN | AS_ROLLED_BACK

definition ActionStatus_members :: "ActionStatus list" where
  "ActionStatus_members =
     [AS_PENDING, AS_WAITING_APPROVAL, AS_APPROVED, AS_REJECTED,
      AS_SUPERSEDED, AS_EXECUTING, AS_PARTIAL_SUCCESS, AS_SUCCESS, AS_FAILED,
      AS_UNKNOWN, AS_ROLLED_BACK]"

primrec ActionStatus_value :: "ActionStatus \<Rightarrow> string" where
  "ActionStatus_value AS_PENDING = ''pending''"
| "ActionStatus_value AS_WAITING_APPROVAL = ''waiting_approval''"
| "ActionStatus_value AS_APPROVED = ''approved''"
| "ActionStatus_value AS_REJECTED = ''rejected''"
| "ActionStatus_value AS_SUPERSEDED = ''superseded''"
| "ActionStatus_value AS_EXECUTING = ''executing''"
| "ActionStatus_value AS_PARTIAL_SUCCESS = ''partial_success''"
| "ActionStatus_value AS_SUCCESS = ''success''"
| "ActionStatus_value AS_FAILED = ''failed''"
| "ActionStatus_value AS_UNKNOWN = ''unknown''"
| "ActionStatus_value AS_ROLLED_BACK = ''rolled_back''"

abbreviation ActionStatus_parse :: "string \<Rightarrow> ActionStatus option" where
  "ActionStatus_parse \<equiv> enum_parse ActionStatus_members ActionStatus_value"

section \<open>ActionCategory\<close>

datatype ActionCategory =
    AC_SYSTEM | AC_RESPONSE | AC_VERIFICATION | AC_ROLLBACK

definition ActionCategory_members :: "ActionCategory list" where
  "ActionCategory_members =
     [AC_SYSTEM, AC_RESPONSE, AC_VERIFICATION, AC_ROLLBACK]"

primrec ActionCategory_value :: "ActionCategory \<Rightarrow> string" where
  "ActionCategory_value AC_SYSTEM = ''system''"
| "ActionCategory_value AC_RESPONSE = ''response''"
| "ActionCategory_value AC_VERIFICATION = ''verification''"
| "ActionCategory_value AC_ROLLBACK = ''rollback''"

abbreviation ActionCategory_parse :: "string \<Rightarrow> ActionCategory option" where
  "ActionCategory_parse \<equiv> enum_parse ActionCategory_members ActionCategory_value"

section \<open>ActionExecutionPhase\<close>

datatype ActionExecutionPhase =
    AP_IMMEDIATE | AP_POST_VERIFY

definition ActionExecutionPhase_members :: "ActionExecutionPhase list" where
  "ActionExecutionPhase_members =
     [AP_IMMEDIATE, AP_POST_VERIFY]"

primrec ActionExecutionPhase_value :: "ActionExecutionPhase \<Rightarrow> string" where
  "ActionExecutionPhase_value AP_IMMEDIATE = ''immediate''"
| "ActionExecutionPhase_value AP_POST_VERIFY = ''post_verify''"

abbreviation ActionExecutionPhase_parse :: "string \<Rightarrow> ActionExecutionPhase option" where
  "ActionExecutionPhase_parse \<equiv> enum_parse ActionExecutionPhase_members ActionExecutionPhase_value"

section \<open>Severity\<close>

datatype Severity =
    SEV_LOW | SEV_MEDIUM | SEV_HIGH | SEV_CRITICAL

definition Severity_members :: "Severity list" where
  "Severity_members =
     [SEV_LOW, SEV_MEDIUM, SEV_HIGH, SEV_CRITICAL]"

primrec Severity_value :: "Severity \<Rightarrow> string" where
  "Severity_value SEV_LOW = ''low''"
| "Severity_value SEV_MEDIUM = ''medium''"
| "Severity_value SEV_HIGH = ''high''"
| "Severity_value SEV_CRITICAL = ''critical''"

abbreviation Severity_parse :: "string \<Rightarrow> Severity option" where
  "Severity_parse \<equiv> enum_parse Severity_members Severity_value"

section \<open>ActionLevel\<close>

datatype ActionLevel =
    L0 | L1 | L2 | L3 | L4 | L5

definition ActionLevel_members :: "ActionLevel list" where
  "ActionLevel_members =
     [L0, L1, L2, L3, L4, L5]"

primrec ActionLevel_value :: "ActionLevel \<Rightarrow> string" where
  "ActionLevel_value L0 = ''l0''"
| "ActionLevel_value L1 = ''l1''"
| "ActionLevel_value L2 = ''l2''"
| "ActionLevel_value L3 = ''l3''"
| "ActionLevel_value L4 = ''l4''"
| "ActionLevel_value L5 = ''l5''"

abbreviation ActionLevel_parse :: "string \<Rightarrow> ActionLevel option" where
  "ActionLevel_parse \<equiv> enum_parse ActionLevel_members ActionLevel_value"

section \<open>SourceDisposition\<close>

datatype SourceDisposition =
    SD_PENDING | SD_PROCESSING | SD_CONTAINED | SD_COMPLETED |
  SD_SUSPENDED | SD_IGNORED | SD_UNKNOWN

definition SourceDisposition_members :: "SourceDisposition list" where
  "SourceDisposition_members =
     [SD_PENDING, SD_PROCESSING, SD_CONTAINED, SD_COMPLETED, SD_SUSPENDED,
      SD_IGNORED, SD_UNKNOWN]"

primrec SourceDisposition_value :: "SourceDisposition \<Rightarrow> string" where
  "SourceDisposition_value SD_PENDING = ''pending''"
| "SourceDisposition_value SD_PROCESSING = ''processing''"
| "SourceDisposition_value SD_CONTAINED = ''contained''"
| "SourceDisposition_value SD_COMPLETED = ''completed''"
| "SourceDisposition_value SD_SUSPENDED = ''suspended''"
| "SourceDisposition_value SD_IGNORED = ''ignored''"
| "SourceDisposition_value SD_UNKNOWN = ''unknown''"

abbreviation SourceDisposition_parse :: "string \<Rightarrow> SourceDisposition option" where
  "SourceDisposition_parse \<equiv> enum_parse SourceDisposition_members SourceDisposition_value"

section \<open>DispositionPolicy\<close>

datatype DispositionPolicy =
    DP_REQUIRED | DP_NOT_REQUIRED

definition DispositionPolicy_members :: "DispositionPolicy list" where
  "DispositionPolicy_members =
     [DP_REQUIRED, DP_NOT_REQUIRED]"

primrec DispositionPolicy_value :: "DispositionPolicy \<Rightarrow> string" where
  "DispositionPolicy_value DP_REQUIRED = ''required''"
| "DispositionPolicy_value DP_NOT_REQUIRED = ''not_required''"

abbreviation DispositionPolicy_parse :: "string \<Rightarrow> DispositionPolicy option" where
  "DispositionPolicy_parse \<equiv> enum_parse DispositionPolicy_members DispositionPolicy_value"

section \<open>ExecutionJobStatus\<close>

datatype ExecutionJobStatus =
    JS_QUEUED | JS_RUNNING | JS_PARTIAL_SUCCESS | JS_SUCCESS | JS_FAILED |
  JS_TIMED_OUT | JS_CANCELLED | JS_UNKNOWN

definition ExecutionJobStatus_members :: "ExecutionJobStatus list" where
  "ExecutionJobStatus_members =
     [JS_QUEUED, JS_RUNNING, JS_PARTIAL_SUCCESS, JS_SUCCESS, JS_FAILED,
      JS_TIMED_OUT, JS_CANCELLED, JS_UNKNOWN]"

primrec ExecutionJobStatus_value :: "ExecutionJobStatus \<Rightarrow> string" where
  "ExecutionJobStatus_value JS_QUEUED = ''queued''"
| "ExecutionJobStatus_value JS_RUNNING = ''running''"
| "ExecutionJobStatus_value JS_PARTIAL_SUCCESS = ''partial_success''"
| "ExecutionJobStatus_value JS_SUCCESS = ''success''"
| "ExecutionJobStatus_value JS_FAILED = ''failed''"
| "ExecutionJobStatus_value JS_TIMED_OUT = ''timed_out''"
| "ExecutionJobStatus_value JS_CANCELLED = ''cancelled''"
| "ExecutionJobStatus_value JS_UNKNOWN = ''unknown''"

abbreviation ExecutionJobStatus_parse :: "string \<Rightarrow> ExecutionJobStatus option" where
  "ExecutionJobStatus_parse \<equiv> enum_parse ExecutionJobStatus_members ExecutionJobStatus_value"

section \<open>WritebackReadiness\<close>

datatype WritebackReadiness =
    WR_NOT_REQUIRED | WR_READY | WR_SOURCE_UNRESOLVED | WR_NOT_CONFIGURED |
  WR_CAPABILITY_UNKNOWN | WR_CAPABILITY_UNSUPPORTED |
  WR_PERMISSION_DENIED | WR_CONNECTOR_UNAVAILABLE

definition WritebackReadiness_members :: "WritebackReadiness list" where
  "WritebackReadiness_members =
     [WR_NOT_REQUIRED, WR_READY, WR_SOURCE_UNRESOLVED, WR_NOT_CONFIGURED,
      WR_CAPABILITY_UNKNOWN, WR_CAPABILITY_UNSUPPORTED, WR_PERMISSION_DENIED,
      WR_CONNECTOR_UNAVAILABLE]"

primrec WritebackReadiness_value :: "WritebackReadiness \<Rightarrow> string" where
  "WritebackReadiness_value WR_NOT_REQUIRED = ''not_required''"
| "WritebackReadiness_value WR_READY = ''ready''"
| "WritebackReadiness_value WR_SOURCE_UNRESOLVED = ''source_unresolved''"
| "WritebackReadiness_value WR_NOT_CONFIGURED = ''not_configured''"
| "WritebackReadiness_value WR_CAPABILITY_UNKNOWN = ''capability_unknown''"
| "WritebackReadiness_value WR_CAPABILITY_UNSUPPORTED = ''capability_unsupported''"
| "WritebackReadiness_value WR_PERMISSION_DENIED = ''permission_denied''"
| "WritebackReadiness_value WR_CONNECTOR_UNAVAILABLE = ''connector_unavailable''"

abbreviation WritebackReadiness_parse :: "string \<Rightarrow> WritebackReadiness option" where
  "WritebackReadiness_parse \<equiv> enum_parse WritebackReadiness_members WritebackReadiness_value"

section \<open>OutboxDeliveryStatus\<close>

datatype OutboxDeliveryStatus =
    OD_READY | OD_LEASED | OD_WAITING_RETRY | OD_DELIVERED | OD_PAUSED |
  OD_DEAD_LETTER

definition OutboxDeliveryStatus_members :: "OutboxDeliveryStatus list" where
  "OutboxDeliveryStatus_members =
     [OD_READY, OD_LEASED, OD_WAITING_RETRY, OD_DELIVERED, OD_PAUSED,
      OD_DEAD_LETTER]"

primrec OutboxDeliveryStatus_value :: "OutboxDeliveryStatus \<Rightarrow> string" where
  "OutboxDeliveryStatus_value OD_READY = ''ready''"
| "OutboxDeliveryStatus_value OD_LEASED = ''leased''"
| "OutboxDeliveryStatus_value OD_WAITING_RETRY = ''waiting_retry''"
| "OutboxDeliveryStatus_value OD_DELIVERED = ''delivered''"
| "OutboxDeliveryStatus_value OD_PAUSED = ''paused''"
| "OutboxDeliveryStatus_value OD_DEAD_LETTER = ''dead_letter''"

abbreviation OutboxDeliveryStatus_parse :: "string \<Rightarrow> OutboxDeliveryStatus option" where
  "OutboxDeliveryStatus_parse \<equiv> enum_parse OutboxDeliveryStatus_members OutboxDeliveryStatus_value"

section \<open>WritebackStatus\<close>

datatype WritebackStatus =
    WB_PENDING | WB_SENDING | WB_ACCEPTED | WB_CONFIRMED | WB_PARTIAL |
  WB_FAILED | WB_CONFLICT | WB_UNKNOWN

definition WritebackStatus_members :: "WritebackStatus list" where
  "WritebackStatus_members =
     [WB_PENDING, WB_SENDING, WB_ACCEPTED, WB_CONFIRMED, WB_PARTIAL,
      WB_FAILED, WB_CONFLICT, WB_UNKNOWN]"

primrec WritebackStatus_value :: "WritebackStatus \<Rightarrow> string" where
  "WritebackStatus_value WB_PENDING = ''pending''"
| "WritebackStatus_value WB_SENDING = ''sending''"
| "WritebackStatus_value WB_ACCEPTED = ''accepted''"
| "WritebackStatus_value WB_CONFIRMED = ''confirmed''"
| "WritebackStatus_value WB_PARTIAL = ''partial''"
| "WritebackStatus_value WB_FAILED = ''failed''"
| "WritebackStatus_value WB_CONFLICT = ''conflict''"
| "WritebackStatus_value WB_UNKNOWN = ''unknown''"

abbreviation WritebackStatus_parse :: "string \<Rightarrow> WritebackStatus option" where
  "WritebackStatus_parse \<equiv> enum_parse WritebackStatus_members WritebackStatus_value"

section \<open>ConfirmationEvidence\<close>

datatype ConfirmationEvidence =
    CE_ADAPTER_ACKNOWLEDGED | CE_STATUS_QUERIED | CE_READBACK_VERIFIED |
  CE_MANUAL_CONFIRMED

definition ConfirmationEvidence_members :: "ConfirmationEvidence list" where
  "ConfirmationEvidence_members =
     [CE_ADAPTER_ACKNOWLEDGED, CE_STATUS_QUERIED, CE_READBACK_VERIFIED,
      CE_MANUAL_CONFIRMED]"

primrec ConfirmationEvidence_value :: "ConfirmationEvidence \<Rightarrow> string" where
  "ConfirmationEvidence_value CE_ADAPTER_ACKNOWLEDGED = ''adapter_acknowledged''"
| "ConfirmationEvidence_value CE_STATUS_QUERIED = ''status_queried''"
| "ConfirmationEvidence_value CE_READBACK_VERIFIED = ''readback_verified''"
| "ConfirmationEvidence_value CE_MANUAL_CONFIRMED = ''manual_confirmed''"

abbreviation ConfirmationEvidence_parse :: "string \<Rightarrow> ConfirmationEvidence option" where
  "ConfirmationEvidence_parse \<equiv> enum_parse ConfirmationEvidence_members ConfirmationEvidence_value"

section \<open>ExecutionOwner\<close>

datatype ExecutionOwner =
    EO_XDR_MANAGED | EO_DIRECT_TOOL

definition ExecutionOwner_members :: "ExecutionOwner list" where
  "ExecutionOwner_members =
     [EO_XDR_MANAGED, EO_DIRECT_TOOL]"

primrec ExecutionOwner_value :: "ExecutionOwner \<Rightarrow> string" where
  "ExecutionOwner_value EO_XDR_MANAGED = ''xdr_managed''"
| "ExecutionOwner_value EO_DIRECT_TOOL = ''direct_tool''"

abbreviation ExecutionOwner_parse :: "string \<Rightarrow> ExecutionOwner option" where
  "ExecutionOwner_parse \<equiv> enum_parse ExecutionOwner_members ExecutionOwner_value"

section \<open>ExecutionSubstate\<close>

datatype ExecutionSubstate =
    XS_NONE | XS_WAITING_APPROVAL | XS_WAITING_EXECUTION |
  XS_WAITING_WRITEBACK | XS_MANUAL_RESOLUTION

definition ExecutionSubstate_members :: "ExecutionSubstate list" where
  "ExecutionSubstate_members =
     [XS_NONE, XS_WAITING_APPROVAL, XS_WAITING_EXECUTION,
      XS_WAITING_WRITEBACK, XS_MANUAL_RESOLUTION]"

primrec ExecutionSubstate_value :: "ExecutionSubstate \<Rightarrow> string" where
  "ExecutionSubstate_value XS_NONE = ''none''"
| "ExecutionSubstate_value XS_WAITING_APPROVAL = ''waiting_approval''"
| "ExecutionSubstate_value XS_WAITING_EXECUTION = ''waiting_execution''"
| "ExecutionSubstate_value XS_WAITING_WRITEBACK = ''waiting_writeback''"
| "ExecutionSubstate_value XS_MANUAL_RESOLUTION = ''manual_resolution''"

abbreviation ExecutionSubstate_parse :: "string \<Rightarrow> ExecutionSubstate option" where
  "ExecutionSubstate_parse \<equiv> enum_parse ExecutionSubstate_members ExecutionSubstate_value"

section \<open>DispositionIntentKind\<close>

datatype DispositionIntentKind =
    IK_ENTITY_ACTION_SUBMIT | IK_EXECUTION_RESULT_RECORD |
  IK_COMPENSATION_RECORD | IK_EVENT_STATUS_UPDATE

definition DispositionIntentKind_members :: "DispositionIntentKind list" where
  "DispositionIntentKind_members =
     [IK_ENTITY_ACTION_SUBMIT, IK_EXECUTION_RESULT_RECORD,
      IK_COMPENSATION_RECORD, IK_EVENT_STATUS_UPDATE]"

primrec DispositionIntentKind_value :: "DispositionIntentKind \<Rightarrow> string" where
  "DispositionIntentKind_value IK_ENTITY_ACTION_SUBMIT = ''entity_action_submit''"
| "DispositionIntentKind_value IK_EXECUTION_RESULT_RECORD = ''execution_result_record''"
| "DispositionIntentKind_value IK_COMPENSATION_RECORD = ''compensation_record''"
| "DispositionIntentKind_value IK_EVENT_STATUS_UPDATE = ''event_status_update''"

abbreviation DispositionIntentKind_parse :: "string \<Rightarrow> DispositionIntentKind option" where
  "DispositionIntentKind_parse \<equiv> enum_parse DispositionIntentKind_members DispositionIntentKind_value"

section \<open>InvestigationIntentStatus\<close>

datatype InvestigationIntentStatus =
    II_PENDING | II_CLAIMED | II_ENQUEUED | II_STARTED | II_TERMINAL |
  II_SKIPPED | II_RETRY | II_DEAD

definition InvestigationIntentStatus_members :: "InvestigationIntentStatus list" where
  "InvestigationIntentStatus_members =
     [II_PENDING, II_CLAIMED, II_ENQUEUED, II_STARTED, II_TERMINAL,
      II_SKIPPED, II_RETRY, II_DEAD]"

primrec InvestigationIntentStatus_value :: "InvestigationIntentStatus \<Rightarrow> string" where
  "InvestigationIntentStatus_value II_PENDING = ''pending''"
| "InvestigationIntentStatus_value II_CLAIMED = ''claimed''"
| "InvestigationIntentStatus_value II_ENQUEUED = ''enqueued''"
| "InvestigationIntentStatus_value II_STARTED = ''started''"
| "InvestigationIntentStatus_value II_TERMINAL = ''terminal''"
| "InvestigationIntentStatus_value II_SKIPPED = ''skipped''"
| "InvestigationIntentStatus_value II_RETRY = ''retry''"
| "InvestigationIntentStatus_value II_DEAD = ''dead''"

abbreviation InvestigationIntentStatus_parse :: "string \<Rightarrow> InvestigationIntentStatus option" where
  "InvestigationIntentStatus_parse \<equiv> enum_parse InvestigationIntentStatus_members InvestigationIntentStatus_value"

section \<open>GraphResumeIntentStatus\<close>

datatype GraphResumeIntentStatus =
    GI_PENDING | GI_CLAIMED | GI_STARTED | GI_TERMINAL | GI_SKIPPED |
  GI_RETRY | GI_DEAD

definition GraphResumeIntentStatus_members :: "GraphResumeIntentStatus list" where
  "GraphResumeIntentStatus_members =
     [GI_PENDING, GI_CLAIMED, GI_STARTED, GI_TERMINAL, GI_SKIPPED, GI_RETRY,
      GI_DEAD]"

primrec GraphResumeIntentStatus_value :: "GraphResumeIntentStatus \<Rightarrow> string" where
  "GraphResumeIntentStatus_value GI_PENDING = ''pending''"
| "GraphResumeIntentStatus_value GI_CLAIMED = ''claimed''"
| "GraphResumeIntentStatus_value GI_STARTED = ''started''"
| "GraphResumeIntentStatus_value GI_TERMINAL = ''terminal''"
| "GraphResumeIntentStatus_value GI_SKIPPED = ''skipped''"
| "GraphResumeIntentStatus_value GI_RETRY = ''retry''"
| "GraphResumeIntentStatus_value GI_DEAD = ''dead''"

abbreviation GraphResumeIntentStatus_parse :: "string \<Rightarrow> GraphResumeIntentStatus option" where
  "GraphResumeIntentStatus_parse \<equiv> enum_parse GraphResumeIntentStatus_members GraphResumeIntentStatus_value"

section \<open>EventType\<close>

datatype EventType =
    ET_ACCOUNT_ANOMALY | ET_HOST_COMPROMISE | ET_DATA_EXFILTRATION |
  ET_INSIDER_THREAT | ET_MALICIOUS_PROCESS | ET_SUSPICIOUS_DOMAIN |
  ET_LATERAL_MOVEMENT | ET_OTHER

definition EventType_members :: "EventType list" where
  "EventType_members =
     [ET_ACCOUNT_ANOMALY, ET_HOST_COMPROMISE, ET_DATA_EXFILTRATION,
      ET_INSIDER_THREAT, ET_MALICIOUS_PROCESS, ET_SUSPICIOUS_DOMAIN,
      ET_LATERAL_MOVEMENT, ET_OTHER]"

primrec EventType_value :: "EventType \<Rightarrow> string" where
  "EventType_value ET_ACCOUNT_ANOMALY = ''account_anomaly''"
| "EventType_value ET_HOST_COMPROMISE = ''host_compromise''"
| "EventType_value ET_DATA_EXFILTRATION = ''data_exfiltration''"
| "EventType_value ET_INSIDER_THREAT = ''insider_threat''"
| "EventType_value ET_MALICIOUS_PROCESS = ''malicious_process''"
| "EventType_value ET_SUSPICIOUS_DOMAIN = ''suspicious_domain''"
| "EventType_value ET_LATERAL_MOVEMENT = ''lateral_movement''"
| "EventType_value ET_OTHER = ''other''"

abbreviation EventType_parse :: "string \<Rightarrow> EventType option" where
  "EventType_parse \<equiv> enum_parse EventType_members EventType_value"

section \<open>CapabilityState\<close>

datatype CapabilityState =
    CS_UNKNOWN | CS_SUPPORTED | CS_UNSUPPORTED

definition CapabilityState_members :: "CapabilityState list" where
  "CapabilityState_members =
     [CS_UNKNOWN, CS_SUPPORTED, CS_UNSUPPORTED]"

primrec CapabilityState_value :: "CapabilityState \<Rightarrow> string" where
  "CapabilityState_value CS_UNKNOWN = ''unknown''"
| "CapabilityState_value CS_SUPPORTED = ''supported''"
| "CapabilityState_value CS_UNSUPPORTED = ''unsupported''"

abbreviation CapabilityState_parse :: "string \<Rightarrow> CapabilityState option" where
  "CapabilityState_parse \<equiv> enum_parse CapabilityState_members CapabilityState_value"

section \<open>TargetExecutionStatus\<close>

datatype TargetExecutionStatus =
    TX_SUCCESS | TX_FAILED | TX_UNKNOWN | TX_SKIPPED

definition TargetExecutionStatus_members :: "TargetExecutionStatus list" where
  "TargetExecutionStatus_members =
     [TX_SUCCESS, TX_FAILED, TX_UNKNOWN, TX_SKIPPED]"

primrec TargetExecutionStatus_value :: "TargetExecutionStatus \<Rightarrow> string" where
  "TargetExecutionStatus_value TX_SUCCESS = ''success''"
| "TargetExecutionStatus_value TX_FAILED = ''failed''"
| "TargetExecutionStatus_value TX_UNKNOWN = ''unknown''"
| "TargetExecutionStatus_value TX_SKIPPED = ''skipped''"

abbreviation TargetExecutionStatus_parse :: "string \<Rightarrow> TargetExecutionStatus option" where
  "TargetExecutionStatus_parse \<equiv> enum_parse TargetExecutionStatus_members TargetExecutionStatus_value"

section \<open>Named sets of members\<close>

definition TERMINAL_SOURCE_DISPOSITIONS :: "SourceDisposition set" where
  "TERMINAL_SOURCE_DISPOSITIONS = {SD_CONTAINED, SD_COMPLETED, SD_SUSPENDED, SD_IGNORED}"

section \<open>The contract holds for every enumeration\<close>

interpretation EventStatus_enum: str_enum EventStatus_members EventStatus_value
proof
  fix e show "e \<in> set EventStatus_members" by (cases e) (simp_all add: EventStatus_members_def)
  show "distinct (map EventStatus_value EventStatus_members)" by (simp add: EventStatus_members_def)
qed

interpretation FinalVerdict_enum: str_enum FinalVerdict_members FinalVerdict_value
proof
  fix e show "e \<in> set FinalVerdict_members" by (cases e) (simp_all add: FinalVerdict_members_def)
  show "distinct (map FinalVerdict_value FinalVerdict_members)" by (simp add: FinalVerdict_members_def)
qed

interpretation CaseLabel_enum: str_enum CaseLabel_members CaseLabel_value
proof
  fix e show "e \<in> set CaseLabel_members" by (cases e) (simp_all add: CaseLabel_members_def)
  show "distinct (map CaseLabel_value CaseLabel_members)" by (simp add: CaseLabel_members_def)
qed

interpretation ActionStatus_enum: str_enum ActionStatus_members ActionStatus_value
proof
  fix e show "e \<in> set ActionStatus_members" by (cases e) (simp_all add: ActionStatus_members_def)
  show "distinct (map ActionStatus_value ActionStatus_members)" by (simp add: ActionStatus_members_def)
qed

interpretation ActionCategory_enum: str_enum ActionCategory_members ActionCategory_value
proof
  fix e show "e \<in> set ActionCategory_members" by (cases e) (simp_all add: ActionCategory_members_def)
  show "distinct (map ActionCategory_value ActionCategory_members)" by (simp add: ActionCategory_members_def)
qed

interpretation ActionExecutionPhase_enum: str_enum ActionExecutionPhase_members ActionExecutionPhase_value
proof
  fix e show "e \<in> set ActionExecutionPhase_members" by (cases e) (simp_all add: ActionExecutionPhase_members_def)
  show "distinct (map ActionExecutionPhase_value ActionExecutionPhase_members)" by (simp add: ActionExecutionPhase_members_def)
qed

interpretation Severity_enum: str_enum Severity_members Severity_value
proof
  fix e show "e \<in> set Severity_members" by (cases e) (simp_all add: Severity_members_def)
  show "distinct (map Severity_value Severity_members)" by (simp add: Severity_members_def)
qed

interpretation ActionLevel_enum: str_enum ActionLevel_members ActionLevel_value
proof
  fix e show "e \<in> set ActionLevel_members" by (cases e) (simp_all add: ActionLevel_members_def)
  show "distinct (map ActionLevel_value ActionLevel_members)" by (simp add: ActionLevel_members_def)
qed

interpretation SourceDisposition_enum: str_enum SourceDisposition_members SourceDisposition_value
proof
  fix e show "e \<in> set SourceDisposition_members" by (cases e) (simp_all add: SourceDisposition_members_def)
  show "distinct (map SourceDisposition_value SourceDisposition_members)" by (simp add: SourceDisposition_members_def)
qed

interpretation DispositionPolicy_enum: str_enum DispositionPolicy_members DispositionPolicy_value
proof
  fix e show "e \<in> set DispositionPolicy_members" by (cases e) (simp_all add: DispositionPolicy_members_def)
  show "distinct (map DispositionPolicy_value DispositionPolicy_members)" by (simp add: DispositionPolicy_members_def)
qed

interpretation ExecutionJobStatus_enum: str_enum ExecutionJobStatus_members ExecutionJobStatus_value
proof
  fix e show "e \<in> set ExecutionJobStatus_members" by (cases e) (simp_all add: ExecutionJobStatus_members_def)
  show "distinct (map ExecutionJobStatus_value ExecutionJobStatus_members)" by (simp add: ExecutionJobStatus_members_def)
qed

interpretation WritebackReadiness_enum: str_enum WritebackReadiness_members WritebackReadiness_value
proof
  fix e show "e \<in> set WritebackReadiness_members" by (cases e) (simp_all add: WritebackReadiness_members_def)
  show "distinct (map WritebackReadiness_value WritebackReadiness_members)" by (simp add: WritebackReadiness_members_def)
qed

interpretation OutboxDeliveryStatus_enum: str_enum OutboxDeliveryStatus_members OutboxDeliveryStatus_value
proof
  fix e show "e \<in> set OutboxDeliveryStatus_members" by (cases e) (simp_all add: OutboxDeliveryStatus_members_def)
  show "distinct (map OutboxDeliveryStatus_value OutboxDeliveryStatus_members)" by (simp add: OutboxDeliveryStatus_members_def)
qed

interpretation WritebackStatus_enum: str_enum WritebackStatus_members WritebackStatus_value
proof
  fix e show "e \<in> set WritebackStatus_members" by (cases e) (simp_all add: WritebackStatus_members_def)
  show "distinct (map WritebackStatus_value WritebackStatus_members)" by (simp add: WritebackStatus_members_def)
qed

interpretation ConfirmationEvidence_enum: str_enum ConfirmationEvidence_members ConfirmationEvidence_value
proof
  fix e show "e \<in> set ConfirmationEvidence_members" by (cases e) (simp_all add: ConfirmationEvidence_members_def)
  show "distinct (map ConfirmationEvidence_value ConfirmationEvidence_members)" by (simp add: ConfirmationEvidence_members_def)
qed

interpretation ExecutionOwner_enum: str_enum ExecutionOwner_members ExecutionOwner_value
proof
  fix e show "e \<in> set ExecutionOwner_members" by (cases e) (simp_all add: ExecutionOwner_members_def)
  show "distinct (map ExecutionOwner_value ExecutionOwner_members)" by (simp add: ExecutionOwner_members_def)
qed

interpretation ExecutionSubstate_enum: str_enum ExecutionSubstate_members ExecutionSubstate_value
proof
  fix e show "e \<in> set ExecutionSubstate_members" by (cases e) (simp_all add: ExecutionSubstate_members_def)
  show "distinct (map ExecutionSubstate_value ExecutionSubstate_members)" by (simp add: ExecutionSubstate_members_def)
qed

interpretation DispositionIntentKind_enum: str_enum DispositionIntentKind_members DispositionIntentKind_value
proof
  fix e show "e \<in> set DispositionIntentKind_members" by (cases e) (simp_all add: DispositionIntentKind_members_def)
  show "distinct (map DispositionIntentKind_value DispositionIntentKind_members)" by (simp add: DispositionIntentKind_members_def)
qed

interpretation InvestigationIntentStatus_enum: str_enum InvestigationIntentStatus_members InvestigationIntentStatus_value
proof
  fix e show "e \<in> set InvestigationIntentStatus_members" by (cases e) (simp_all add: InvestigationIntentStatus_members_def)
  show "distinct (map InvestigationIntentStatus_value InvestigationIntentStatus_members)" by (simp add: InvestigationIntentStatus_members_def)
qed

interpretation GraphResumeIntentStatus_enum: str_enum GraphResumeIntentStatus_members GraphResumeIntentStatus_value
proof
  fix e show "e \<in> set GraphResumeIntentStatus_members" by (cases e) (simp_all add: GraphResumeIntentStatus_members_def)
  show "distinct (map GraphResumeIntentStatus_value GraphResumeIntentStatus_members)" by (simp add: GraphResumeIntentStatus_members_def)
qed

interpretation EventType_enum: str_enum EventType_members EventType_value
proof
  fix e show "e \<in> set EventType_members" by (cases e) (simp_all add: EventType_members_def)
  show "distinct (map EventType_value EventType_members)" by (simp add: EventType_members_def)
qed

interpretation CapabilityState_enum: str_enum CapabilityState_members CapabilityState_value
proof
  fix e show "e \<in> set CapabilityState_members" by (cases e) (simp_all add: CapabilityState_members_def)
  show "distinct (map CapabilityState_value CapabilityState_members)" by (simp add: CapabilityState_members_def)
qed

interpretation TargetExecutionStatus_enum: str_enum TargetExecutionStatus_members TargetExecutionStatus_value
proof
  fix e show "e \<in> set TargetExecutionStatus_members" by (cases e) (simp_all add: TargetExecutionStatus_members_def)
  show "distinct (map TargetExecutionStatus_value TargetExecutionStatus_members)" by (simp add: TargetExecutionStatus_members_def)
qed

lemmas enum_parse_iffs [enum_simps] =
  EventStatus_enum.parse_iff
  FinalVerdict_enum.parse_iff
  CaseLabel_enum.parse_iff
  ActionStatus_enum.parse_iff
  ActionCategory_enum.parse_iff
  ActionExecutionPhase_enum.parse_iff
  Severity_enum.parse_iff
  ActionLevel_enum.parse_iff
  SourceDisposition_enum.parse_iff
  DispositionPolicy_enum.parse_iff
  ExecutionJobStatus_enum.parse_iff
  WritebackReadiness_enum.parse_iff
  OutboxDeliveryStatus_enum.parse_iff
  WritebackStatus_enum.parse_iff
  ConfirmationEvidence_enum.parse_iff
  ExecutionOwner_enum.parse_iff
  ExecutionSubstate_enum.parse_iff
  DispositionIntentKind_enum.parse_iff
  InvestigationIntentStatus_enum.parse_iff
  GraphResumeIntentStatus_enum.parse_iff
  EventType_enum.parse_iff
  CapabilityState_enum.parse_iff
  TargetExecutionStatus_enum.parse_iff

lemmas enum_parse_vals [simp] =
  EventStatus_enum.parse_val
  FinalVerdict_enum.parse_val
  CaseLabel_enum.parse_val
  ActionStatus_enum.parse_val
  ActionCategory_enum.parse_val
  ActionExecutionPhase_enum.parse_val
  Severity_enum.parse_val
  ActionLevel_enum.parse_val
  SourceDisposition_enum.parse_val
  DispositionPolicy_enum.parse_val
  ExecutionJobStatus_enum.parse_val
  WritebackReadiness_enum.parse_val
  OutboxDeliveryStatus_enum.parse_val
  WritebackStatus_enum.parse_val
  ConfirmationEvidence_enum.parse_val
  ExecutionOwner_enum.parse_val
  ExecutionSubstate_enum.parse_val
  DispositionIntentKind_enum.parse_val
  InvestigationIntentStatus_enum.parse_val
  GraphResumeIntentStatus_enum.parse_val
  EventType_enum.parse_val
  CapabilityState_enum.parse_val
  TargetExecutionStatus_enum.parse_val

lemmas enum_value_eq_iffs [simp] =
  EventStatus_enum.value_eq_iff
  FinalVerdict_enum.value_eq_iff
  CaseLabel_enum.value_eq_iff
  ActionStatus_enum.value_eq_iff
  ActionCategory_enum.value_eq_iff
  ActionExecutionPhase_enum.value_eq_iff
  Severity_enum.value_eq_iff
  ActionLevel_enum.value_eq_iff
  SourceDisposition_enum.value_eq_iff
  DispositionPolicy_enum.value_eq_iff
  ExecutionJobStatus_enum.value_eq_iff
  WritebackReadiness_enum.value_eq_iff
  OutboxDeliveryStatus_enum.value_eq_iff
  WritebackStatus_enum.value_eq_iff
  ConfirmationEvidence_enum.value_eq_iff
  ExecutionOwner_enum.value_eq_iff
  ExecutionSubstate_enum.value_eq_iff
  DispositionIntentKind_enum.value_eq_iff
  InvestigationIntentStatus_enum.value_eq_iff
  GraphResumeIntentStatus_enum.value_eq_iff
  EventType_enum.value_eq_iff
  CapabilityState_enum.value_eq_iff
  TargetExecutionStatus_enum.value_eq_iff

text \<open>Members stand for their values; proofs about concrete strings unfold \<open>enum_literals\<close>.\<close>

declare EventStatus_value.simps [simp del, enum_literals]
declare FinalVerdict_value.simps [simp del, enum_literals]
declare CaseLabel_value.simps [simp del, enum_literals]
declare ActionStatus_value.simps [simp del, enum_literals]
declare ActionCategory_value.simps [simp del, enum_literals]
declare ActionExecutionPhase_value.simps [simp del, enum_literals]
declare Severity_value.simps [simp del, enum_literals]
declare ActionLevel_value.simps [simp del, enum_literals]
declare SourceDisposition_value.simps [simp del, enum_literals]
declare DispositionPolicy_value.simps [simp del, enum_literals]
declare ExecutionJobStatus_value.simps [simp del, enum_literals]
declare WritebackReadiness_value.simps [simp del, enum_literals]
declare OutboxDeliveryStatus_value.simps [simp del, enum_literals]
declare WritebackStatus_value.simps [simp del, enum_literals]
declare ConfirmationEvidence_value.simps [simp del, enum_literals]
declare ExecutionOwner_value.simps [simp del, enum_literals]
declare ExecutionSubstate_value.simps [simp del, enum_literals]
declare DispositionIntentKind_value.simps [simp del, enum_literals]
declare InvestigationIntentStatus_value.simps [simp del, enum_literals]
declare GraphResumeIntentStatus_value.simps [simp del, enum_literals]
declare EventType_value.simps [simp del, enum_literals]
declare CapabilityState_value.simps [simp del, enum_literals]
declare TargetExecutionStatus_value.simps [simp del, enum_literals]

end
