(* ===== verification/Convergence_Model.thy ===== *)
theory Convergence_Model
  imports Enums
begin

text \<open>
  The projections of \<open>backend/app/models/side_effect_convergence.py\<close>: which side
  effect of an action is outstanding, why it blocks, and whether it takes part in
  the \<open>CLOSED\<close> gate.
\<close>

datatype SideEffectScope = GATE_APPLICABLE | BACKGROUND_DETACHED

datatype SideEffectConvergencePolicy =
  TERMINAL_WRITEBACK | INDEPENDENT_ENTITY_EFFECT | EXECUTION_JOB_ONLY

datatype SideEffectConvergenceReason =
    IN_FLIGHT_JOB
  | EXECUTING_ACTION
  | EFFECT_UNVERIFIED
  | TERMINAL_WRITEBACK_UNCONFIRMED
  | OUTBOX_NOT_CONFIRMED
  | OUTBOX_UNDELIVERED

record OutstandingSideEffectView =
  ov_action_id :: string
  ov_scope :: SideEffectScope
  ov_action_status :: ActionStatus
  ov_execution_phase :: ActionExecutionPhase
  ov_writeback_applicable :: bool
  ov_convergence_policy :: "SideEffectConvergencePolicy option"
  ov_job_status :: "ExecutionJobStatus option"
  ov_outbox_delivery_status :: "OutboxDeliveryStatus option"
  ov_outbox_writeback_status :: "WritebackStatus option"
  ov_plan_revision :: int
  ov_superseded :: bool
  ov_blocking_reason :: "SideEffectConvergenceReason option"

record SideEffectConvergenceSummary =
  sm_event_id :: string
  sm_current_plan_revision :: "int option"
  sm_gate_applicable_outstanding_count :: nat
  sm_background_outstanding_count :: nat
  sm_outstanding_actions :: "OutstandingSideEffectView list"
  sm_background_side_effects_pending :: bool

record SideEffectConvergenceViolation =
  vi_reason :: SideEffectConvergenceReason
  vi_action_id :: string
  vi_scope :: SideEffectScope
  vi_convergence_policy :: "SideEffectConvergencePolicy option"

end
