(* ===== verification/Errors.thy ===== *)
theory Errors
  imports Convergence_Model
begin

text \<open>
  The exceptions of \<open>backend/app/core/errors.py\<close> the modelled operations raise,
  as values. \<open>InvalidStateTransitionError\<close> carries a fault, one constructor per
  \<open>raise\<close> statement of the validators and services (the source tells them apart
  by message and by \<open>details\<close>), grouped by the status machine it belongs to.
  \<open>ValueError\<close> is the built-in exception of a failed enumeration lookup (\<open>KeyError\<close>
  and \<open>TypeError\<close> the other built-in ones), \<open>PydanticValidationError\<close> that of a model
  built from a value of the wrong type, and \<open>IntegrityError\<close> the database's refusal of a
  duplicate unique key. \<open>InvestigationIntentTransitionError\<close> is the \<open>ValueError\<close> of
  \<open>models/investigation_intent.py\<close>. \<open>CodedValidationError\<close> is a \<open>ValidationError\<close> raised with
  an error code of its own; the three disposition errors carry the code they are raised with.
  \<open>ProviderError\<close> is any other exception of an adapter's call to its provider, and
  \<open>RedisError\<close> that of the Redis client.
\<close>

datatype event_fault =
    Closed_is_terminal EventStatus
  | Illegal_transition EventStatus EventStatus
  | Force_close_not_allowed
  | Triaging_closed_needs_not_required "DispositionPolicy option"
  | Triaging_closed_needs_low_or_fp
  | Disposition_only_needs_fp_signal
  | Disposition_only_needs_intent
  | Force_close_already_closed
  | Force_close_illegal EventStatus
  | Replan_count_exceeded int

datatype closed_fault =
    Closed_requires_report
  | Closed_requires_policy
  | Closed_convergence_missing
  | Closed_side_effects_pending SideEffectConvergenceViolation
  | Closed_stale_reconcile_failed
  | Closed_no_applicable
  | Closed_readiness_not_ready "string option" "WritebackReadiness option"
  | Closed_no_command "string option"
  | Closed_intents_not_confirmed "string option" "WritebackStatus option"
  | Closed_status_not_confirmed "string option" "WritebackStatus option"
  | Closed_terminal_missing
  | Closed_terminal_kind DispositionIntentKind
  | Closed_plan_revision_mismatch int int
  | Closed_closure_cycle_mismatch int int
  | Closed_approved_not_terminal SourceDisposition
  | Closed_actual_not_terminal SourceDisposition
  | Closed_disposition_mismatch SourceDisposition SourceDisposition
  | Closed_receipt_not_confirmed WritebackStatus
  | Closed_simulated_receipt_rejected "bool option"
  | Closed_weak_confirmation_evidence "ConfirmationEvidence option"

datatype action_fault =
    Illegal_action_status ActionCategory ActionStatus ActionStatus
  | Approval_record_required ActionLevel
  | Superseded_has_job_or_outbox
  | Superseded_from_dispatched
  | Post_verify_not_resolved
  | Reclaim_requires_expired_lease
  | Rolled_back_not_response
  | Approval_blocked_by_gate string
  | Not_waiting_approval ActionStatus
  | Action_not_claimable ActionStatus
  | Resolve_needs_unknown ActionStatus ActionStatus

datatype delivery_fault =
    Substate_forbidden EventStatus ExecutionSubstate
  | Substate_not_hosted EventStatus ExecutionSubstate
  | Illegal_substate ExecutionSubstate ExecutionSubstate
  | Job_requeue_requires_reclaim
  | Job_fail_requires_reclaim
  | Illegal_job_status ExecutionJobStatus ExecutionJobStatus
  | Job_unknown_needs_provider
  | Operator_pause_target
  | Operator_pause_source
  | Expired_lease_resend
  | Retry_needs_pre_egress_failure
  | Delivered_needs_lookup
  | Illegal_outbox_delivery OutboxDeliveryStatus OutboxDeliveryStatus
  | Illegal_writeback_status WritebackStatus WritebackStatus
  | Unknown_pending_needs_lookup
  | Unknown_needs_adjudication
  | Retry_needs_safe_adapter
  | Settle_needs_adjudication

datatype transition_fault =
    Event_fault event_fault
  | Closed_fault closed_fault
  | Action_fault action_fault
  | Delivery_fault delivery_fault

datatype verdict_fault =
    Entity_side_effects_in_fp_plan
  | Fp_plan_not_disposition_only
  | Verdict_illegal_with_status FinalVerdict EventStatus

datatype st_error =
    InvalidStateTransitionError transition_fault
  | InvalidVerdictStatusCombinationError verdict_fault
  | EventNotFoundError string
  | ResourceNotFoundError string
  | ApprovalDecisionConflictError string
  | AuthorizationError
  | ValidationError string
  | PydanticValidationError string
  | ValueError string
  | KeyError string
  | TypeError string
  | IntegrityError string
  | InvestigationInProgressError string
  | IdempotencyKeyReuseError
  | DependencyUnavailableError string
  | InvestigationIntentTransitionError InvestigationIntentStatus InvestigationIntentStatus
  | CodedValidationError string
  | GuardrailViolationError string
  | WritebackConflictError string
  | WritebackUnsupportedError string
  | AdapterNotFoundError string
  | ProviderError string
  | RedisError string

text \<open>
  The \<open>error_code\<close> a \<open>ShadowTraceError\<close> reports: the class default, or the code
  the \<open>raise\<close> statement passes. The authorization error and the
  exceptions of the libraries carry none.
\<close>

fun error_code :: "st_error \<Rightarrow> string option" where
  "error_code (InvalidStateTransitionError (Closed_fault f)) =
     (case f of
        Closed_requires_report \<Rightarrow> Some ''closed_requires_report''
      | Closed_convergence_missing \<Rightarrow> Some ''closed_side_effects_pending''
      | Closed_side_effects_pending _ \<Rightarrow> Some ''closed_side_effects_pending''
      | Closed_stale_reconcile_failed \<Rightarrow> Some ''closed_side_effects_pending''
      | Closed_simulated_receipt_rejected _ \<Rightarrow> Some ''closed_simulated_receipt_rejected''
      | Closed_weak_confirmation_evidence _ \<Rightarrow> Some ''closed_weak_confirmation_evidence''
      | _ \<Rightarrow> Some ''invalid_state_transition'')"
| "error_code (InvalidStateTransitionError _) = Some ''invalid_state_transition''"
| "error_code (InvalidVerdictStatusCombinationError _) =
     Some ''invalid_verdict_status_combination''"
| "error_code (EventNotFoundError _) = Some ''event_not_found''"
| "error_code (ResourceNotFoundError _) = Some ''not_found''"
| "error_code (ApprovalDecisionConflictError _) = Some ''approval_decision_conflict''"
| "error_code AuthorizationError = None"
| "error_code (ValidationError _) = Some ''validation_error''"
| "error_code (PydanticValidationError _) = None"
| "error_code (ValueError _) = None"
| "error_code (KeyError _) = None"
| "error_code (TypeError _) = None"
| "error_code (IntegrityError _) = None"
| "error_code (InvestigationInProgressError _) = Some ''investigation_in_progress''"
| "error_code IdempotencyKeyReuseError = Some ''idempotency_key_reuse''"
| "error_code (DependencyUnavailableError _) = Some ''dependency_unavailable''"
| "error_code (InvestigationIntentTransitionError _ _) = None"
| "error_code (CodedValidationError code) = Some code"
| "error_code (GuardrailViolationError code) = Some code"
| "error_code (WritebackConflictError code) = Some code"
| "error_code (WritebackUnsupportedError code) = Some code"
| "error_code (AdapterNotFoundError _) = Some ''adapter_not_found''"
| "error_code (ProviderError _) = None"
| "error_code (RedisError _) = None"

type_synonym 'a res = "st_error + 'a"

abbreviation event_err :: "event_fault \<Rightarrow> 'a res" where
  "event_err f \<equiv> Inl (InvalidStateTransitionError (Event_fault f))"

abbreviation closed_err :: "closed_fault \<Rightarrow> 'a res" where
  "closed_err f \<equiv> Inl (InvalidStateTransitionError (Closed_fault f))"

abbreviation action_err :: "action_fault \<Rightarrow> 'a res" where
  "action_err f \<equiv> Inl (InvalidStateTransitionError (Action_fault f))"

abbreviation delivery_err :: "delivery_fault \<Rightarrow> 'a res" where
  "delivery_err f \<equiv> Inl (InvalidStateTransitionError (Delivery_fault f))"

text \<open>\<open>E(raw)\<close> where the caller does not catch the \<open>ValueError\<close>.\<close>

definition parse_or_raise :: "(string \<Rightarrow> 'e option) \<Rightarrow> string \<Rightarrow> 'e res" where
  "parse_or_raise parse raw = of_opt (ValueError raw) (parse raw)"

lemma parse_or_raise_Inr_iff [simp]: "parse_or_raise p raw = Inr e \<longleftrightarrow> p raw = Some e"
  by (simp add: parse_or_raise_def)

end
