(* ===== verification/Workflow.thy ===== *)
theory Workflow
  imports Errors
begin

text \<open>
  The status machines of \<open>backend/app/models/workflow.py\<close>: the transition
  tables of events, actions, execution substates, execution jobs, outbox
  deliveries and writebacks, and the validators that guard their edges. A
  validator returns \<open>Inr ()\<close> where the source returns and \<open>Inl e\<close> where it
  raises; keyword arguments are fields of an evidence record, whose default value
  is the source's default.
\<close>

section \<open>Workflow constants\<close>

definition MAX_REPLAN_COUNT :: int where "MAX_REPLAN_COUNT = 3"
definition GLOBAL_MAX_STEPS :: nat where "GLOBAL_MAX_STEPS = 80"
definition MAX_OSCILLATION :: nat where "MAX_OSCILLATION = 2"
definition MAX_DUPLICATE_TOOL_CALLS :: nat where "MAX_DUPLICATE_TOOL_CALLS = 3"
definition MAX_TOTAL_LLM_CALLS :: nat where "MAX_TOTAL_LLM_CALLS = 30"

definition AUTO_APPROVABLE_ACTION_LEVELS :: "ActionLevel set" where
  "AUTO_APPROVABLE_ACTION_LEVELS = {L0, L1}"

section \<open>Event statuses\<close>

text \<open>The keyword argument \<open>allow_failed\<close> has the default \<open>True\<close>, which every row of the table uses.\<close>

definition with_failed :: "bool \<Rightarrow> EventStatus set \<Rightarrow> EventStatus set" where
  "with_failed allow_failed targets =
     (if allow_failed then insert ES_FAILED targets else targets)"

primrec STATE_TRANSITIONS :: "EventStatus \<Rightarrow> EventStatus set" where
  "STATE_TRANSITIONS ES_NEW = with_failed True {ES_TRIAGING}"
| "STATE_TRANSITIONS ES_TRIAGING =
     with_failed True {ES_COLLECTING_EVIDENCE, ES_CLOSED, ES_PLANNING_RESPONSE}"
| "STATE_TRANSITIONS ES_COLLECTING_EVIDENCE = with_failed True {ES_ANALYZING}"
| "STATE_TRANSITIONS ES_ANALYZING = with_failed True {ES_SCORING}"
| "STATE_TRANSITIONS ES_SCORING = with_failed True {ES_PLANNING_RESPONSE, ES_REPORTING}"
| "STATE_TRANSITIONS ES_PLANNING_RESPONSE =
     with_failed True {ES_WAITING_APPROVAL, ES_EXECUTING_RESPONSE}"
| "STATE_TRANSITIONS ES_WAITING_APPROVAL =
     with_failed True {ES_EXECUTING_RESPONSE, ES_REPORTING}"
| "STATE_TRANSITIONS ES_EXECUTING_RESPONSE = with_failed True {ES_VERIFYING}"
| "STATE_TRANSITIONS ES_VERIFYING =
     with_failed True {ES_REPORTING, ES_CONTAINED, ES_REPLANNING}"
| "STATE_TRANSITIONS ES_REPLANNING =
     with_failed True {ES_COLLECTING_EVIDENCE, ES_PLANNING_RESPONSE,
                  ES_EXECUTING_RESPONSE, ES_CONTAINED}"
| "STATE_TRANSITIONS ES_CONTAINED = with_failed True {ES_REPORTING}"
| "STATE_TRANSITIONS ES_FAILED = {ES_REPORTING}"
| "STATE_TRANSITIONS ES_REPORTING = with_failed True {ES_CLOSED}"
| "STATE_TRANSITIONS ES_CLOSED = {}"

text \<open>
  \<open>VERDICT_STATUS_RULES.get(verdict, frozenset())\<close>: the statuses a verdict
  forbids.
\<close>

definition VERDICT_STATUS_RULES :: "FinalVerdict \<Rightarrow> EventStatus set" where
  "VERDICT_STATUS_RULES v =
     (if v = FV_FALSE_POSITIVE
      then {ES_PLANNING_RESPONSE, ES_WAITING_APPROVAL, ES_EXECUTING_RESPONSE, ES_VERIFYING}
      else {})"

section \<open>Action statuses\<close>

fun RESPONSE_TRANSITIONS :: "ActionStatus \<Rightarrow> ActionStatus set" where
  "RESPONSE_TRANSITIONS AS_PENDING =
     {AS_WAITING_APPROVAL, AS_APPROVED, AS_REJECTED, AS_SUPERSEDED}"
| "RESPONSE_TRANSITIONS AS_WAITING_APPROVAL = {AS_APPROVED, AS_REJECTED, AS_SUPERSEDED}"
| "RESPONSE_TRANSITIONS AS_APPROVED = {AS_EXECUTING, AS_WAITING_APPROVAL, AS_SUPERSEDED}"
| "RESPONSE_TRANSITIONS AS_EXECUTING =
     {AS_PARTIAL_SUCCESS, AS_SUCCESS, AS_FAILED, AS_UNKNOWN, AS_APPROVED}"
| "RESPONSE_TRANSITIONS AS_UNKNOWN = {AS_PARTIAL_SUCCESS, AS_SUCCESS, AS_FAILED}"
| "RESPONSE_TRANSITIONS AS_SUCCESS = {AS_ROLLED_BACK}"
| "RESPONSE_TRANSITIONS AS_PARTIAL_SUCCESS = {AS_ROLLED_BACK}"
| "RESPONSE_TRANSITIONS AS_REJECTED = {}"
| "RESPONSE_TRANSITIONS AS_SUPERSEDED = {}"
| "RESPONSE_TRANSITIONS AS_FAILED = {}"
| "RESPONSE_TRANSITIONS AS_ROLLED_BACK = {}"

fun VERIFICATION_TRANSITIONS :: "ActionStatus \<Rightarrow> ActionStatus set" where
  "VERIFICATION_TRANSITIONS AS_PENDING = {AS_EXECUTING}"
| "VERIFICATION_TRANSITIONS AS_EXECUTING = {AS_SUCCESS, AS_FAILED, AS_UNKNOWN}"
| "VERIFICATION_TRANSITIONS AS_UNKNOWN = {AS_SUCCESS, AS_FAILED}"
| "VERIFICATION_TRANSITIONS _ = {}"

fun ROLLBACK_TRANSITIONS :: "ActionStatus \<Rightarrow> ActionStatus set" where
  "ROLLBACK_TRANSITIONS AS_PENDING =
     {AS_WAITING_APPROVAL, AS_APPROVED, AS_REJECTED, AS_SUPERSEDED}"
| "ROLLBACK_TRANSITIONS AS_WAITING_APPROVAL = {AS_APPROVED, AS_REJECTED, AS_SUPERSEDED}"
| "ROLLBACK_TRANSITIONS AS_APPROVED = {AS_EXECUTING, AS_WAITING_APPROVAL, AS_SUPERSEDED}"
| "ROLLBACK_TRANSITIONS AS_EXECUTING =
     {AS_PARTIAL_SUCCESS, AS_SUCCESS, AS_FAILED, AS_UNKNOWN, AS_APPROVED}"
| "ROLLBACK_TRANSITIONS AS_UNKNOWN = {AS_PARTIAL_SUCCESS, AS_SUCCESS, AS_FAILED}"
| "ROLLBACK_TRANSITIONS _ = {}"

fun SYSTEM_TRANSITIONS :: "ActionStatus \<Rightarrow> ActionStatus set" where
  "SYSTEM_TRANSITIONS AS_PENDING = {AS_EXECUTING, AS_SUCCESS}"
| "SYSTEM_TRANSITIONS AS_EXECUTING = {AS_SUCCESS, AS_FAILED}"
| "SYSTEM_TRANSITIONS _ = {}"

primrec ACTION_STATUS_TRANSITIONS_BY_CATEGORY ::
  "ActionCategory \<Rightarrow> ActionStatus \<Rightarrow> ActionStatus set" where
  "ACTION_STATUS_TRANSITIONS_BY_CATEGORY AC_SYSTEM = SYSTEM_TRANSITIONS"
| "ACTION_STATUS_TRANSITIONS_BY_CATEGORY AC_RESPONSE = RESPONSE_TRANSITIONS"
| "ACTION_STATUS_TRANSITIONS_BY_CATEGORY AC_VERIFICATION = VERIFICATION_TRANSITIONS"
| "ACTION_STATUS_TRANSITIONS_BY_CATEGORY AC_ROLLBACK = ROLLBACK_TRANSITIONS"

section \<open>Execution substates\<close>

text \<open>\<open>EXECUTION_SUBSTATE_HOSTS.get(status)\<close>.\<close>

definition EXECUTION_SUBSTATE_HOSTS :: "EventStatus \<Rightarrow> ExecutionSubstate set option" where
  "EXECUTION_SUBSTATE_HOSTS s =
     (case s of
        ES_WAITING_APPROVAL \<Rightarrow> Some {XS_NONE, XS_WAITING_APPROVAL, XS_MANUAL_RESOLUTION}
      | ES_EXECUTING_RESPONSE \<Rightarrow> Some {XS_NONE, XS_WAITING_EXECUTION, XS_MANUAL_RESOLUTION}
      | ES_VERIFYING \<Rightarrow> Some {XS_NONE, XS_WAITING_WRITEBACK, XS_MANUAL_RESOLUTION}
      | _ \<Rightarrow> None)"

definition EXECUTION_SUBSTATE_FORBIDDEN_STATUSES :: "EventStatus set" where
  "EXECUTION_SUBSTATE_FORBIDDEN_STATUSES =
     {ES_NEW, ES_TRIAGING, ES_COLLECTING_EVIDENCE, ES_ANALYZING, ES_SCORING,
      ES_PLANNING_RESPONSE, ES_REPLANNING, ES_CONTAINED, ES_FAILED, ES_REPORTING, ES_CLOSED}"

primrec EXECUTION_SUBSTATE_TRANSITIONS :: "ExecutionSubstate \<Rightarrow> ExecutionSubstate set" where
  "EXECUTION_SUBSTATE_TRANSITIONS XS_NONE =
     {XS_WAITING_APPROVAL, XS_WAITING_EXECUTION, XS_WAITING_WRITEBACK, XS_MANUAL_RESOLUTION}"
| "EXECUTION_SUBSTATE_TRANSITIONS XS_WAITING_APPROVAL = {XS_NONE, XS_MANUAL_RESOLUTION}"
| "EXECUTION_SUBSTATE_TRANSITIONS XS_WAITING_EXECUTION = {XS_NONE, XS_MANUAL_RESOLUTION}"
| "EXECUTION_SUBSTATE_TRANSITIONS XS_WAITING_WRITEBACK = {XS_NONE, XS_MANUAL_RESOLUTION}"
| "EXECUTION_SUBSTATE_TRANSITIONS XS_MANUAL_RESOLUTION = {XS_NONE}"

section \<open>Jobs, outbox deliveries, writebacks\<close>

primrec JOB_STATUS_TRANSITIONS :: "ExecutionJobStatus \<Rightarrow> ExecutionJobStatus set" where
  "JOB_STATUS_TRANSITIONS JS_QUEUED = {JS_RUNNING, JS_CANCELLED, JS_FAILED, JS_TIMED_OUT}"
| "JOB_STATUS_TRANSITIONS JS_RUNNING =
     {JS_PARTIAL_SUCCESS, JS_SUCCESS, JS_FAILED, JS_TIMED_OUT, JS_CANCELLED, JS_UNKNOWN,
      JS_QUEUED}"
| "JOB_STATUS_TRANSITIONS JS_UNKNOWN =
     {JS_PARTIAL_SUCCESS, JS_SUCCESS, JS_FAILED, JS_TIMED_OUT, JS_CANCELLED}"
| "JOB_STATUS_TRANSITIONS JS_PARTIAL_SUCCESS = {}"
| "JOB_STATUS_TRANSITIONS JS_SUCCESS = {}"
| "JOB_STATUS_TRANSITIONS JS_FAILED = {}"
| "JOB_STATUS_TRANSITIONS JS_TIMED_OUT = {}"
| "JOB_STATUS_TRANSITIONS JS_CANCELLED = {}"

primrec OUTBOX_DELIVERY_TRANSITIONS ::
  "OutboxDeliveryStatus \<Rightarrow> OutboxDeliveryStatus set" where
  "OUTBOX_DELIVERY_TRANSITIONS OD_READY = {OD_LEASED, OD_DEAD_LETTER, OD_DELIVERED}"
| "OUTBOX_DELIVERY_TRANSITIONS OD_LEASED =
     {OD_DELIVERED, OD_WAITING_RETRY, OD_PAUSED, OD_DEAD_LETTER}"
| "OUTBOX_DELIVERY_TRANSITIONS OD_WAITING_RETRY = {OD_LEASED, OD_DEAD_LETTER, OD_DELIVERED}"
| "OUTBOX_DELIVERY_TRANSITIONS OD_PAUSED = {OD_READY, OD_DELIVERED, OD_DEAD_LETTER}"
| "OUTBOX_DELIVERY_TRANSITIONS OD_DELIVERED = {OD_PAUSED}"
| "OUTBOX_DELIVERY_TRANSITIONS OD_DEAD_LETTER = {OD_PAUSED}"

definition OPERATOR_RETRY_FAILURE_WRITEBACK_STATUSES :: "WritebackStatus set" where
  "OPERATOR_RETRY_FAILURE_WRITEBACK_STATUSES = {WB_FAILED, WB_PARTIAL, WB_UNKNOWN}"

definition OPERATOR_RETRY_TERMINAL_SUCCESS_WRITEBACK_STATUSES :: "WritebackStatus set" where
  "OPERATOR_RETRY_TERMINAL_SUCCESS_WRITEBACK_STATUSES = {WB_CONFIRMED, WB_ACCEPTED}"

primrec WRITEBACK_STATUS_TRANSITIONS :: "WritebackStatus \<Rightarrow> WritebackStatus set" where
  "WRITEBACK_STATUS_TRANSITIONS WB_PENDING = {WB_SENDING, WB_FAILED, WB_CONFLICT}"
| "WRITEBACK_STATUS_TRANSITIONS WB_SENDING =
     {WB_ACCEPTED, WB_CONFIRMED, WB_PARTIAL, WB_FAILED, WB_CONFLICT, WB_UNKNOWN}"
| "WRITEBACK_STATUS_TRANSITIONS WB_ACCEPTED =
     {WB_CONFIRMED, WB_PARTIAL, WB_FAILED, WB_CONFLICT, WB_UNKNOWN}"
| "WRITEBACK_STATUS_TRANSITIONS WB_UNKNOWN =
     {WB_ACCEPTED, WB_CONFIRMED, WB_PARTIAL, WB_FAILED, WB_CONFLICT, WB_PENDING}"
| "WRITEBACK_STATUS_TRANSITIONS WB_PARTIAL = {WB_CONFIRMED, WB_FAILED, WB_PENDING}"
| "WRITEBACK_STATUS_TRANSITIONS WB_FAILED = {WB_CONFIRMED, WB_FAILED, WB_PENDING}"
| "WRITEBACK_STATUS_TRANSITIONS WB_CONFLICT = {WB_CONFIRMED, WB_FAILED}"
| "WRITEBACK_STATUS_TRANSITIONS WB_CONFIRMED = {}"

section \<open>Validators of the sub-machines\<close>

text \<open>Keyword arguments of \<open>validate_action_status_transition\<close> and their defaults.\<close>

record action_evidence =
  ev_execution_phase :: ActionExecutionPhase
  ev_after_effect_resolution :: bool
  ev_template_unchanged :: bool
  ev_has_job_or_outbox :: bool
  ev_action_level :: ActionLevel
  ev_auto_execute :: bool
  ev_has_approval_evidence :: bool
  ev_lease_expired_reclaim :: bool

definition default_action_evidence :: action_evidence where
  "default_action_evidence =
     \<lparr> ev_execution_phase = AP_IMMEDIATE, ev_after_effect_resolution = False,
       ev_template_unchanged = True, ev_has_job_or_outbox = False, ev_action_level = L0,
       ev_auto_execute = False, ev_has_approval_evidence = False,
       ev_lease_expired_reclaim = False \<rparr>"

definition validate_action_status_transition ::
  "ActionCategory \<Rightarrow> action_evidence \<Rightarrow> ActionStatus \<Rightarrow> ActionStatus \<Rightarrow> unit res" where
  "validate_action_status_transition category ev current target =
     (if \<not> edge_allowed (ACTION_STATUS_TRANSITIONS_BY_CATEGORY category) current target
      then action_err (Illegal_action_status category current target)
      else if target = AS_APPROVED \<and> category \<in> {AC_RESPONSE, AC_ROLLBACK}
              \<and> ev_action_level ev \<notin> AUTO_APPROVABLE_ACTION_LEVELS
              \<and> \<not> ev_has_approval_evidence ev
      then action_err (Approval_record_required (ev_action_level ev))
      else if target = AS_SUPERSEDED \<and> ev_has_job_or_outbox ev
      then action_err Superseded_has_job_or_outbox
      else if target = AS_SUPERSEDED
              \<and> current \<notin> {AS_PENDING, AS_WAITING_APPROVAL, AS_APPROVED}
      then action_err Superseded_from_dispatched
      else if current = AS_APPROVED \<and> target = AS_EXECUTING
              \<and> ev_execution_phase ev = AP_POST_VERIFY
              \<and> (\<not> ev_after_effect_resolution ev \<or> \<not> ev_template_unchanged ev)
      then action_err Post_verify_not_resolved
      else if current = AS_EXECUTING \<and> target = AS_APPROVED
              \<and> \<not> ev_lease_expired_reclaim ev
      then action_err Reclaim_requires_expired_lease
      else if target = AS_ROLLED_BACK \<and> category \<noteq> AC_RESPONSE
      then action_err Rolled_back_not_response
      else Inr ())"

definition validate_execution_substate ::
  "EventStatus \<Rightarrow> ExecutionSubstate \<Rightarrow> ExecutionSubstate \<Rightarrow> unit res" where
  "validate_execution_substate event_status current target =
     (if event_status \<in> EXECUTION_SUBSTATE_FORBIDDEN_STATUSES
      then (if target \<noteq> XS_NONE
            then delivery_err (Substate_forbidden event_status target)
            else Inr ())
      else (case EXECUTION_SUBSTATE_HOSTS event_status of
              None \<Rightarrow> delivery_err (Substate_not_hosted event_status target)
            | Some allowed \<Rightarrow>
                (if target \<notin> allowed
                 then delivery_err (Substate_not_hosted event_status target)
                 else if current \<noteq> target
                         \<and> \<not> edge_allowed EXECUTION_SUBSTATE_TRANSITIONS current target
                 then delivery_err (Illegal_substate current target)
                 else Inr ())))"

record job_evidence =
  ev_provider_confirmed_terminal :: bool
  ev_job_lease_expired_reclaim :: bool

definition validate_job_status_transition ::
  "job_evidence \<Rightarrow> ExecutionJobStatus \<Rightarrow> ExecutionJobStatus \<Rightarrow> unit res" where
  "validate_job_status_transition ev current target =
     (if current = JS_RUNNING \<and> target = JS_QUEUED \<and> \<not> ev_job_lease_expired_reclaim ev
      then delivery_err Job_requeue_requires_reclaim
      else if current = JS_QUEUED \<and> target \<in> {JS_FAILED, JS_TIMED_OUT}
              \<and> \<not> ev_job_lease_expired_reclaim ev
      then delivery_err Job_fail_requires_reclaim
      else if \<not> edge_allowed JOB_STATUS_TRANSITIONS current target
      then delivery_err (Illegal_job_status current target)
      else if current = JS_UNKNOWN \<and> target \<in> {JS_TIMED_OUT, JS_CANCELLED}
              \<and> \<not> ev_provider_confirmed_terminal ev
      then delivery_err Job_unknown_needs_provider
      else Inr ())"

definition operator_retry_writeback_status_blocked :: "WritebackStatus option \<Rightarrow> bool" where
  "operator_retry_writeback_status_blocked writeback_status
     \<longleftrightarrow> writeback_status = Some WB_CONFIRMED"

definition delivery_status_eligible_for_operator_retry_pause ::
  "OutboxDeliveryStatus \<Rightarrow> WritebackStatus option \<Rightarrow> bool" where
  "delivery_status_eligible_for_operator_retry_pause delivery_status writeback_status =
     (if operator_retry_writeback_status_blocked writeback_status then False
      else if delivery_status = OD_DEAD_LETTER then True
      else if delivery_status = OD_DELIVERED
      then (case writeback_status of
              None \<Rightarrow> False
            | Some w \<Rightarrow> w \<in> OPERATOR_RETRY_FAILURE_WRITEBACK_STATUSES)
      else delivery_status \<in> {OD_PAUSED, OD_READY})"

definition adapter_capabilities_allow_safe_retry :: "bool \<Rightarrow> bool \<Rightarrow> bool" where
  "adapter_capabilities_allow_safe_retry supports_idempotency supports_lookup_by_idempotency
     \<longleftrightarrow> supports_idempotency \<and> supports_lookup_by_idempotency"

definition is_operator_retry_terminal_success :: "WritebackStatus \<Rightarrow> bool" where
  "is_operator_retry_terminal_success writeback_status
     \<longleftrightarrow> writeback_status \<in> OPERATOR_RETRY_TERMINAL_SUCCESS_WRITEBACK_STATUSES"

record outbox_evidence =
  ev_lease_expired_resend :: bool
  ev_known_pre_egress_failure :: bool
  ev_lookup_confirmed_submission :: bool
  ev_operator_retry_pause :: bool

definition default_outbox_evidence :: outbox_evidence where
  "default_outbox_evidence =
     \<lparr> ev_lease_expired_resend = False, ev_known_pre_egress_failure = False,
       ev_lookup_confirmed_submission = False, ev_operator_retry_pause = False \<rparr>"

definition validate_outbox_delivery_transition ::
  "outbox_evidence \<Rightarrow> OutboxDeliveryStatus \<Rightarrow> OutboxDeliveryStatus \<Rightarrow> unit res" where
  "validate_outbox_delivery_transition ev current target =
     (if ev_operator_retry_pause ev \<and> target \<noteq> OD_PAUSED
      then delivery_err Operator_pause_target
      else if ev_operator_retry_pause ev \<and> current \<notin> {OD_DEAD_LETTER, OD_DELIVERED}
      then delivery_err Operator_pause_source
      else if ev_lease_expired_resend ev \<and> current = OD_LEASED
              \<and> target \<in> {OD_LEASED, OD_WAITING_RETRY}
      then delivery_err Expired_lease_resend
      else if current = OD_LEASED \<and> target = OD_WAITING_RETRY
              \<and> \<not> ev_known_pre_egress_failure ev
      then delivery_err Retry_needs_pre_egress_failure
      else if current \<in> {OD_PAUSED, OD_READY, OD_WAITING_RETRY} \<and> target = OD_DELIVERED
              \<and> \<not> ev_lookup_confirmed_submission ev
      then delivery_err Delivered_needs_lookup
      else if \<not> edge_allowed OUTBOX_DELIVERY_TRANSITIONS current target
      then delivery_err (Illegal_outbox_delivery current target)
      else Inr ())"

record writeback_evidence =
  ev_lookup_never_accepted :: bool
  ev_adapter_allows_safe_retry :: bool
  ev_evidence_adjudication :: bool

definition default_writeback_evidence :: writeback_evidence where
  "default_writeback_evidence =
     \<lparr> ev_lookup_never_accepted = False, ev_adapter_allows_safe_retry = False,
       ev_evidence_adjudication = False \<rparr>"

definition validate_writeback_status_transition ::
  "writeback_evidence \<Rightarrow> WritebackStatus \<Rightarrow> WritebackStatus \<Rightarrow> unit res" where
  "validate_writeback_status_transition ev current target =
     (if \<not> edge_allowed WRITEBACK_STATUS_TRANSITIONS current target
      then delivery_err (Illegal_writeback_status current target)
      else if current = WB_UNKNOWN \<and> target = WB_PENDING \<and> \<not> ev_lookup_never_accepted ev
      then delivery_err Unknown_pending_needs_lookup
      else if current = WB_UNKNOWN \<and> target \<in> {WB_ACCEPTED, WB_PARTIAL, WB_CONFLICT}
              \<and> \<not> ev_evidence_adjudication ev
      then delivery_err Unknown_needs_adjudication
      else if current \<in> {WB_FAILED, WB_PARTIAL} \<and> target = WB_PENDING
              \<and> \<not> ev_adapter_allows_safe_retry ev
      then delivery_err Retry_needs_safe_adapter
      else if current \<in> {WB_UNKNOWN, WB_PARTIAL, WB_FAILED, WB_CONFLICT}
              \<and> target \<in> {WB_CONFIRMED, WB_FAILED}
              \<and> \<not> ev_evidence_adjudication ev
              \<and> \<not> (current = WB_FAILED \<and> target = WB_FAILED)
              \<and> (target = WB_CONFIRMED \<or> current \<noteq> WB_FAILED)
      then delivery_err Settle_needs_adjudication
      else Inr ())"

section \<open>Small classifiers\<close>

datatype LateFalsePositiveTier = LFP_NO_SIDE_EFFECT | LFP_IN_FLIGHT | LFP_VERIFIED_EFFECTS

definition classify_late_false_positive ::
  "bool \<Rightarrow> bool \<Rightarrow> bool \<Rightarrow> LateFalsePositiveTier" where
  "classify_late_false_positive has_immediate_job_or_outbox
       immediate_in_flight_or_unverified has_verified_successful_entity_action =
     (if has_verified_successful_entity_action then LFP_VERIFIED_EFFECTS
      else if has_immediate_job_or_outbox \<or> immediate_in_flight_or_unverified
      then LFP_IN_FLIGHT else LFP_NO_SIDE_EFFECT)"

definition late_fp_allowed_substate :: "EventStatus \<Rightarrow> ExecutionSubstate option" where
  "late_fp_allowed_substate event_status =
     (if event_status \<in> {ES_WAITING_APPROVAL, ES_EXECUTING_RESPONSE, ES_VERIFYING}
      then Some XS_MANUAL_RESOLUTION else None)"

definition derive_case_label :: "FinalVerdict \<Rightarrow> CaseLabel" where
  "derive_case_label verdict =
     (if verdict = FV_CONFIRMED_THREAT then CL_TRUE_POSITIVE
      else if verdict = FV_FALSE_POSITIVE then CL_FALSE_POSITIVE else CL_UNCERTAIN)"

definition maybe_upgrade_confirmation_evidence ::
  "bool \<Rightarrow> bool \<Rightarrow> ConfirmationEvidence option \<Rightarrow> ConfirmationEvidence option" where
  "maybe_upgrade_confirmation_evidence correlated_by_writeback_id
       readback_matches_command current =
     (if \<not> (correlated_by_writeback_id \<and> readback_matches_command) then current
      else Some CE_READBACK_VERIFIED)"

text \<open>
  \<open>parse_action_level_label\<close>: \<open>ActionLevel(token.lower())\<close>, then
  \<open>ActionLevel[token.upper()]\<close> by member name (the names are \<open>L0\<close> to \<open>L5\<close>).
  Python's \<open>strip\<close>, \<open>lower\<close> and \<open>upper\<close> are modelled on ASCII: blanks are the
  six ASCII white-space characters, and only the 26 letters change case.
\<close>

definition is_blank :: "char \<Rightarrow> bool" where
  "is_blank c \<longleftrightarrow> c \<in> {CHR '' '', CHR 0x09, CHR 0x0A, CHR 0x0B, CHR 0x0C, CHR 0x0D,
     CHR 0x1C, CHR 0x1D, CHR 0x1E, CHR 0x1F, CHR 0x85, CHR 0xA0}"

definition strip :: "string \<Rightarrow> string" where
  "strip s = rev (dropWhile is_blank (rev (dropWhile is_blank s)))"

definition lower_char :: "char \<Rightarrow> char" where
  "lower_char c =
     (let n = (of_char c :: nat) in if 65 \<le> n \<and> n \<le> 90 then char_of (n + 32) else c)"

definition upper_char :: "char \<Rightarrow> char" where
  "upper_char c =
     (let n = (of_char c :: nat) in if 97 \<le> n \<and> n \<le> 122 then char_of (n - 32) else c)"

definition ActionLevel_name :: "ActionLevel \<Rightarrow> string" where
  "ActionLevel_name l =
     (case l of L0 \<Rightarrow> ''L0'' | L1 \<Rightarrow> ''L1'' | L2 \<Rightarrow> ''L2'' | L3 \<Rightarrow> ''L3''
              | L4 \<Rightarrow> ''L4'' | L5 \<Rightarrow> ''L5'')"

definition parse_action_level_label :: "string \<Rightarrow> ActionLevel option" where
  "parse_action_level_label raw =
     (let token = strip raw in
      if token = [] then None
      else (case ActionLevel_parse (map lower_char token) of
              Some l \<Rightarrow> Some l
            | None \<Rightarrow> enum_parse ActionLevel_members ActionLevel_name (map upper_char token)))"

section \<open>Isolation of the source object from the event\<close>

text \<open>
  \<open>apply_external_source_observation\<close>: the source object and the frozen snapshot
  are string dictionaries; a \<open>None\<close> argument leaves its key untouched.
\<close>

type_synonym sdict = "string \<rightharpoonup> string"

definition set_opt :: "string \<Rightarrow> string option \<Rightarrow> sdict \<Rightarrow> sdict" where
  "set_opt key v d = (case v of None \<Rightarrow> d | Some x \<Rightarrow> d(key \<mapsto> x))"

definition apply_external_source_observation ::
  "sdict \<Rightarrow> sdict \<Rightarrow> EventStatus \<Rightarrow> string option \<Rightarrow> string option \<Rightarrow> string option
     \<Rightarrow> sdict \<times> sdict \<times> EventStatus" where
  "apply_external_source_observation source_object frozen_snapshot event_status
       new_current_disposition new_current_status_raw new_concurrency_token =
     (let updated = set_opt ''current_source_disposition'' new_current_disposition source_object;
          updated = set_opt ''current_source_status_raw'' new_current_status_raw updated;
          updated = set_opt ''current_concurrency_token'' new_concurrency_token updated;
          updated = updated(''source_sync_state'' \<mapsto> ''observed_external_change'')
      in (updated, frozen_snapshot, event_status))"

section \<open>Connectivity of the event matrix\<close>

instance EventStatus :: finite
proof
  have "(UNIV :: EventStatus set) \<subseteq> set EventStatus_members"
    using EventStatus_enum.complete by auto
  then show "finite (UNIV :: EventStatus set)" by (rule finite_subset) simp
qed

text \<open>
  \<open>main_path_reaches_closed\<close>: the work-list search from \<open>NEW\<close>. Python iterates a
  set in an unspecified order, so the successor list of each status is a
  parameter; the stack is written with its top first (\<open>pop\<close> takes the last
  element, \<open>extend\<close> appends).
\<close>

function search_closed ::
  "(EventStatus \<Rightarrow> EventStatus list) \<Rightarrow> EventStatus set \<Rightarrow> EventStatus list \<Rightarrow> bool" where
  "search_closed succs seen [] = False"
| "search_closed succs seen (cur # stack) =
     (if cur \<in> seen then search_closed succs seen stack
      else if cur = ES_CLOSED then True
      else search_closed succs (insert cur seen) (rev (succs cur) @ stack))"
  by pat_completeness auto
termination
proof (relation "measures [\<lambda>(succs, seen, stack). card (UNIV - seen),
                           \<lambda>(succs, seen, stack). length stack]", goal_cases)
  case (3 succs seen cur stack)
  then have "card (UNIV - insert cur seen) < card (UNIV - seen)"
    by (intro psubset_card_mono) auto
  then show ?case by simp
qed auto

definition main_path_reaches_closed :: "(EventStatus \<Rightarrow> EventStatus list) \<Rightarrow> bool" where
  "main_path_reaches_closed succs = search_closed succs {} [ES_NEW]"

section \<open>Unfolding rules\<close>

lemmas with_failed_simps [table_simps] = with_failed_def edge_allowed_def

lemmas validator_defs [gate_simps] =
  validate_action_status_transition_def validate_execution_substate_def
  validate_job_status_transition_def validate_outbox_delivery_transition_def
  validate_writeback_status_transition_def edge_allowed_def

section \<open>The validators accept only edges of their tables\<close>

abbreviation action_accepts ::
  "ActionCategory \<Rightarrow> action_evidence \<Rightarrow> ActionStatus \<Rightarrow> ActionStatus \<Rightarrow> bool" where
  "action_accepts c ev s t \<equiv> validate_action_status_transition c ev s t = Inr ()"

abbreviation job_accepts ::
  "job_evidence \<Rightarrow> ExecutionJobStatus \<Rightarrow> ExecutionJobStatus \<Rightarrow> bool" where
  "job_accepts ev s t \<equiv> validate_job_status_transition ev s t = Inr ()"

abbreviation outbox_accepts ::
  "outbox_evidence \<Rightarrow> OutboxDeliveryStatus \<Rightarrow> OutboxDeliveryStatus \<Rightarrow> bool" where
  "outbox_accepts ev s t \<equiv> validate_outbox_delivery_transition ev s t = Inr ()"

abbreviation writeback_accepts ::
  "writeback_evidence \<Rightarrow> WritebackStatus \<Rightarrow> WritebackStatus \<Rightarrow> bool" where
  "writeback_accepts ev s t \<equiv> validate_writeback_status_transition ev s t = Inr ()"

interpretation action_machine:
  guarded_table "ACTION_STATUS_TRANSITIONS_BY_CATEGORY c" "action_accepts c" for c
  by unfold_locales (simp add: gate_simps split: if_splits)

interpretation job_machine: guarded_table JOB_STATUS_TRANSITIONS job_accepts
  by unfold_locales (simp add: gate_simps split: if_splits)

interpretation outbox_machine: guarded_table OUTBOX_DELIVERY_TRANSITIONS outbox_accepts
  by unfold_locales (simp add: gate_simps split: if_splits)

interpretation writeback_machine:
  guarded_table WRITEBACK_STATUS_TRANSITIONS writeback_accepts
  by unfold_locales (simp add: gate_simps split: if_splits)

end
