(* ===== verification/Workflow_Facts.thy ===== *)
theory Workflow_Facts
  imports Workflow
begin

text \<open>
  What the status machines of \<open>models/workflow.py\<close> guarantee: exact acceptance
  conditions of the validators, runs of guarded steps (the interpretations of
  \<open>guarded_table\<close>), and the connectivity of the event matrix.
\<close>

section \<open>The event matrix\<close>

text \<open>C13: Every event status can reach \<open>CLOSED\<close> along the edges of the
  transition matrix: no status is a dead end of the workflow.\<close>

theorem every_status_reaches_closed:
  "(s, ES_CLOSED) \<in> {(a, b). edge_allowed STATE_TRANSITIONS a b}\<^sup>*"
proof -
  let ?E = "{(a, b). edge_allowed STATE_TRANSITIONS a b}"
  have edge: "b \<in> STATE_TRANSITIONS a \<Longrightarrow> (b, c) \<in> ?E\<^sup>* \<Longrightarrow> (a, c) \<in> ?E\<^sup>*" for a b c
    by (rule converse_rtrancl_into_rtrancl) (auto simp: edge_allowed_def)
  have reporting: "(ES_REPORTING, ES_CLOSED) \<in> ?E\<^sup>*"
    by (rule edge [of ES_CLOSED]) (simp_all add: table_simps)
  have failed: "(ES_FAILED, ES_CLOSED) \<in> ?E\<^sup>*"
    by (rule edge [OF _ reporting]) simp
  show ?thesis
    by (cases s) (auto intro: edge [OF _ failed] reporting failed simp: with_failed_def)
qed

lemma closed_predecessors:
  "edge_allowed STATE_TRANSITIONS s ES_CLOSED \<longleftrightarrow> s \<in> {ES_TRIAGING, ES_REPORTING}"
  by (cases s) (simp_all add: table_simps)

lemma search_closed_False_closure:
  assumes "\<not> search_closed succs seen stack"
    and "ES_CLOSED \<notin> seen"
    and "\<forall>s\<in>seen. set (succs s) \<subseteq> seen \<union> set stack"
  shows "\<exists>S. seen \<union> set stack \<subseteq> S \<and> ES_CLOSED \<notin> S \<and> (\<forall>s\<in>S. set (succs s) \<subseteq> S)"
  using assms
proof (induction succs seen stack rule: search_closed.induct)
  case (1 succs seen)
  then show ?case by auto
next
  case (2 succs seen cur stack)
  show ?case
  proof (cases "cur \<in> seen")
    case True
    have "\<exists>S. seen \<union> set stack \<subseteq> S \<and> ES_CLOSED \<notin> S \<and> (\<forall>s\<in>S. set (succs s) \<subseteq> S)"
    proof (rule "2.IH"(1) [OF True])
      show "\<not> search_closed succs seen stack" using "2.prems"(1) True by simp
      show "ES_CLOSED \<notin> seen" by (rule "2.prems"(2))
      show "\<forall>s\<in>seen. set (succs s) \<subseteq> seen \<union> set stack"
        using "2.prems"(3) True by (simp add: insert_absorb)
    qed
    with True show ?thesis by (simp add: insert_absorb)
  next
    case False
    have ne: "cur \<noteq> ES_CLOSED" using "2.prems"(1) False by (simp split: if_splits)
    have "\<exists>S. insert cur seen \<union> set (rev (succs cur) @ stack) \<subseteq> S
        \<and> ES_CLOSED \<notin> S \<and> (\<forall>s\<in>S. set (succs s) \<subseteq> S)"
    proof (rule "2.IH"(2) [OF False ne])
      show "\<not> search_closed succs (insert cur seen) (rev (succs cur) @ stack)"
        using "2.prems"(1) False ne by simp
      show "ES_CLOSED \<notin> insert cur seen" using "2.prems"(2) ne by simp
      show "\<forall>s\<in>insert cur seen. set (succs s) \<subseteq> insert cur seen \<union> set (rev (succs cur) @ stack)"
        using "2.prems"(3) by auto
    qed
    then show ?thesis by auto
  qed
qed

text \<open>The connectivity check of the matrix answers \<open>True\<close> whatever order Python
  iterates the successor sets in (it terminates for every order, since the
  function is total).\<close>

theorem main_path_reaches_closed_any_order:
  assumes "\<And>s. set (succs s) = STATE_TRANSITIONS s"
  shows "main_path_reaches_closed succs"
proof (rule ccontr)
  assume "\<not> main_path_reaches_closed succs"
  then obtain S where S: "ES_NEW \<in> S" "ES_CLOSED \<notin> S" "\<forall>s\<in>S. STATE_TRANSITIONS s \<subseteq> S"
    using search_closed_False_closure [of succs "{}" "[ES_NEW]"] assms
    by (auto simp: main_path_reaches_closed_def)
  from S(1,3) have "STATE_TRANSITIONS ES_NEW \<subseteq> S" by blast
  then have "ES_TRIAGING \<in> S" by (simp add: with_failed_def)
  with S(3) have "STATE_TRANSITIONS ES_TRIAGING \<subseteq> S" by blast
  then have "ES_CLOSED \<in> S" by (simp add: with_failed_def)
  with S(2) show False by simp
qed

definition example_succs :: "EventStatus \<Rightarrow> EventStatus list" where
  "example_succs s = filter (\<lambda>t. edge_allowed STATE_TRANSITIONS s t) EventStatus_members"

theorem main_path_reaches_closed_any_order_witness:
  "main_path_reaches_closed example_succs"
proof (rule main_path_reaches_closed_any_order)
  fix s show "set (example_succs s) = STATE_TRANSITIONS s"
    using EventStatus_enum.complete by (auto simp: example_succs_def edge_allowed_def)
qed

section \<open>Actions\<close>

text \<open>
  Steps of one action of level \<open>l\<close> that present no approval evidence: the
  validator's acceptance restricted to such evidence.
\<close>

definition unapproved_step ::
  "ActionCategory \<Rightarrow> ActionLevel \<Rightarrow> action_evidence \<Rightarrow> ActionStatus \<Rightarrow> ActionStatus \<Rightarrow> bool"
where
  "unapproved_step c l ev s t \<longleftrightarrow>
     action_accepts c ev s t \<and> ev_action_level ev = l \<and> \<not> ev_has_approval_evidence ev"

interpretation unapproved_machine:
  guarded_table "ACTION_STATUS_TRANSITIONS_BY_CATEGORY c" "unapproved_step c l" for c l
  by unfold_locales (auto simp: unapproved_step_def dest: action_machine.accepts_edge)

lemma unapproved_step_stays:
  assumes "unapproved_step c l ev s t" and "l \<notin> AUTO_APPROVABLE_ACTION_LEVELS"
    and "c \<in> {AC_RESPONSE, AC_ROLLBACK}"
    and "s \<in> {AS_PENDING, AS_WAITING_APPROVAL, AS_REJECTED, AS_SUPERSEDED}"
  shows "t \<in> {AS_PENDING, AS_WAITING_APPROVAL, AS_REJECTED, AS_SUPERSEDED}"
  using assms
  by (cases s; cases t) (auto simp: unapproved_step_def gate_simps split: if_splits)

text \<open>C14: Human in the loop. An action of level \<open>L2\<close> or above, of the response or
  rollback category, that starts \<open>PENDING\<close> and whose steps never present approval
  evidence is never approved and never executes: it stays pending, waiting,
  rejected or superseded, whatever the other evidence (\<open>auto_execute\<close> included).\<close>

theorem no_execution_without_approval:
  assumes "unapproved_machine.run c l AS_PENDING t"
    and "l \<notin> AUTO_APPROVABLE_ACTION_LEVELS" and "c \<in> {AC_RESPONSE, AC_ROLLBACK}"
  shows "t \<in> {AS_PENDING, AS_WAITING_APPROVAL, AS_REJECTED, AS_SUPERSEDED}"
  using assms(1)
  by (rule unapproved_machine.run_invariant) (use assms unapproved_step_stays in blast)+

theorem no_execution_without_approval_witness:
  "unapproved_machine.run AC_RESPONSE L3 AS_PENDING AS_WAITING_APPROVAL
   \<and> AS_WAITING_APPROVAL \<in> {AS_PENDING, AS_WAITING_APPROVAL, AS_REJECTED, AS_SUPERSEDED}"
proof -
  let ?ev = "default_action_evidence\<lparr>ev_action_level := L3, ev_auto_execute := True\<rparr>"
  have step: "unapproved_step AC_RESPONSE L3 ?ev AS_PENDING AS_WAITING_APPROVAL"
    by (simp add: unapproved_step_def gate_simps default_action_evidence_def)
  have run: "unapproved_machine.run AC_RESPONSE L3 AS_PENDING AS_WAITING_APPROVAL"
    by (rule unapproved_machine.run_step [OF unapproved_machine.run_refl step])
  moreover have "AS_WAITING_APPROVAL \<in> {AS_PENDING, AS_WAITING_APPROVAL, AS_REJECTED, AS_SUPERSEDED}"
    by (rule no_execution_without_approval [OF run])
       (simp_all add: AUTO_APPROVABLE_ACTION_LEVELS_def)
  ultimately show ?thesis by blast
qed

section \<open>Execution substates\<close>

text \<open>A substate other than \<open>NONE\<close> is accepted only on the three event statuses
  that host it, and only the one that belongs to that status or
  \<open>MANUAL_RESOLUTION\<close>; \<open>NONE\<close> is accepted on every status whatever the current
  substate is.\<close>

theorem execution_substate_binding:
  "validate_execution_substate st current target = Inr () \<longleftrightarrow>
     target = XS_NONE
     \<or> (target, st) \<in> {(XS_WAITING_APPROVAL, ES_WAITING_APPROVAL),
                        (XS_WAITING_EXECUTION, ES_EXECUTING_RESPONSE),
                        (XS_WAITING_WRITEBACK, ES_VERIFYING)}
        \<and> current \<in> {XS_NONE, target}
     \<or> target = XS_MANUAL_RESOLUTION
        \<and> st \<in> {ES_WAITING_APPROVAL, ES_EXECUTING_RESPONSE, ES_VERIFYING}"
  by (cases st; cases target; cases current)
     (simp_all add: gate_simps EXECUTION_SUBSTATE_FORBIDDEN_STATUSES_def
        EXECUTION_SUBSTATE_HOSTS_def)

section \<open>Outbox deliveries\<close>

text \<open>A chain of deliveries: each step accepted under some evidence.\<close>

fun outbox_chain :: "OutboxDeliveryStatus \<Rightarrow> OutboxDeliveryStatus list \<Rightarrow> bool" where
  "outbox_chain s [] = True"
| "outbox_chain s (t # ts) = ((\<exists>ev. outbox_accepts ev s t) \<and> outbox_chain t ts)"

lemma outbox_accepts_edge: "outbox_accepts ev s t \<Longrightarrow> t \<in> OUTBOX_DELIVERY_TRANSITIONS s"
  by (rule outbox_machine.accepts_edge)

lemma chain_to_leased_needs_ready:
  assumes "outbox_chain s ts" and "OD_LEASED \<in> set ts"
    and "s \<in> {OD_PAUSED, OD_DELIVERED, OD_DEAD_LETTER}"
  shows "OD_READY \<in> set ts \<and> OD_PAUSED \<in> set (s # ts)"
  using assms
proof (induction ts arbitrary: s)
  case Nil
  then show ?case by simp
next
  case (Cons t ts)
  then obtain ev where "outbox_accepts ev s t" by auto
  then have "t \<in> OUTBOX_DELIVERY_TRANSITIONS s" by (rule outbox_accepts_edge)
  with Cons.prems(3) have t: "t = OD_READY \<and> s = OD_PAUSED
      \<or> t \<in> {OD_PAUSED, OD_DELIVERED, OD_DEAD_LETTER}" by auto
  show ?case
  proof (cases "t = OD_READY")
    case True
    with t show ?thesis by auto
  next
    case False
    with t have "t \<in> {OD_PAUSED, OD_DELIVERED, OD_DEAD_LETTER}" by auto
    with Cons.IH [of t] Cons.prems show ?thesis by auto
  qed
qed

text \<open>No blind re-send after a lease expires. Once a leased delivery is moved with
  the expired-lease evidence, any later chain of accepted steps that leases it
  again passes through \<open>PAUSED\<close> (where the provider lookup happens) and then
  \<open>READY\<close>.\<close>

theorem expired_lease_requires_pause_before_resend:
  assumes "outbox_accepts ev OD_LEASED s" and "ev_lease_expired_resend ev"
    and "outbox_chain s ts" and "OD_LEASED \<in> set (s # ts)"
  shows "OD_PAUSED \<in> set (s # ts) \<and> OD_READY \<in> set ts"
proof -
  from assms(1,2) have s: "s \<in> {OD_PAUSED, OD_DELIVERED, OD_DEAD_LETTER}"
    by (cases s) (auto simp: gate_simps split: if_splits)
  with assms(4) have "OD_LEASED \<in> set ts" by auto
  with chain_to_leased_needs_ready [OF assms(3) _ s] show ?thesis by auto
qed

theorem expired_lease_requires_pause_before_resend_witness:
  "OD_PAUSED \<in> set [OD_PAUSED, OD_READY, OD_LEASED] \<and> OD_READY \<in> set [OD_READY, OD_LEASED]"
proof -
  let ?ev = "default_outbox_evidence\<lparr>ev_lease_expired_resend := True\<rparr>"
  have acc: "outbox_accepts ?ev OD_LEASED OD_PAUSED"
    by (simp add: gate_simps default_outbox_evidence_def)
  have "outbox_accepts default_outbox_evidence OD_PAUSED OD_READY"
    and "outbox_accepts default_outbox_evidence OD_READY OD_LEASED"
    by (simp_all add: gate_simps default_outbox_evidence_def)
  then have chain: "outbox_chain OD_PAUSED [OD_READY, OD_LEASED]" by auto
  show ?thesis
    using expired_lease_requires_pause_before_resend [OF acc _ chain]
    by (simp add: default_outbox_evidence_def)
qed

section \<open>Writebacks\<close>

text \<open>A writeback becomes \<open>CONFIRMED\<close> exactly on the happy path (from \<open>SENDING\<close> or
  \<open>ACCEPTED\<close>), or from an unknown, partial, failed or conflicting writeback when a
  status query or an administrator adjudicated it; never from \<open>PENDING\<close> and never
  twice.\<close>

theorem writeback_confirmed_iff:
  "writeback_accepts ev s WB_CONFIRMED \<longleftrightarrow>
     s \<in> {WB_SENDING, WB_ACCEPTED}
     \<or> s \<in> {WB_UNKNOWN, WB_PARTIAL, WB_FAILED, WB_CONFLICT} \<and> ev_evidence_adjudication ev"
  by (cases s) (simp_all add: gate_simps)



section \<open>Jobs\<close>

text \<open>A chain of job steps, none of which claims the expired-lease reclaim.\<close>

fun job_chain :: "ExecutionJobStatus \<Rightarrow> ExecutionJobStatus list \<Rightarrow> bool" where
  "job_chain s [] = True"
| "job_chain s (t # ts) =
     ((\<exists>ev. job_accepts ev s t \<and> \<not> ev_job_lease_expired_reclaim ev) \<and> job_chain t ts)"

text \<open>How far a job has come: queued, running, unknown, settled.\<close>

primrec job_rank :: "ExecutionJobStatus \<Rightarrow> nat" where
  "job_rank JS_QUEUED = 0"
| "job_rank JS_RUNNING = 1"
| "job_rank JS_UNKNOWN = 2"
| "job_rank JS_PARTIAL_SUCCESS = 3"
| "job_rank JS_SUCCESS = 3"
| "job_rank JS_FAILED = 3"
| "job_rank JS_TIMED_OUT = 3"
| "job_rank JS_CANCELLED = 3"

lemma job_rank_le: "job_rank s \<le> 3"
  by (cases s) simp_all

lemma job_step_rank:
  "job_accepts ev s t \<Longrightarrow> \<not> ev_job_lease_expired_reclaim ev \<Longrightarrow> job_rank s < job_rank t"
  by (cases s; cases t) (simp_all add: gate_simps split: if_splits)

text \<open>C25: A job settles. Without the expired-lease reclaim every accepted step moves a
  job strictly forward (queued, running, unknown, settled), so from its current
  status at most three steps remain and a settled job takes none.\<close>

theorem job_settles_without_reclaim:
  assumes "job_chain s ts"
  shows "length ts + job_rank s \<le> 3"
  using assms
proof (induction ts arbitrary: s)
  case Nil
  then show ?case using job_rank_le by simp
next
  case (Cons t ts)
  then have "job_rank s < job_rank t" using job_step_rank by auto
  moreover from Cons have "length ts + job_rank t \<le> 3" by simp
  ultimately show ?case by simp
qed

theorem job_settles_without_reclaim_witness:
  "length [JS_RUNNING, JS_UNKNOWN, JS_SUCCESS] + job_rank JS_QUEUED \<le> 3"
proof (rule job_settles_without_reclaim)
  let ?ev = "\<lparr> ev_provider_confirmed_terminal = False, ev_job_lease_expired_reclaim = False \<rparr>"
  have "job_accepts ?ev JS_QUEUED JS_RUNNING" "job_accepts ?ev JS_RUNNING JS_UNKNOWN"
    "job_accepts ?ev JS_UNKNOWN JS_SUCCESS"
    by (simp_all add: gate_simps)
  moreover have "\<not> ev_job_lease_expired_reclaim ?ev" by simp
  ultimately show "job_chain JS_QUEUED [JS_RUNNING, JS_UNKNOWN, JS_SUCCESS]"
    by (metis job_chain.simps)
qed

section \<open>Isolation and labels\<close>



end
