(* ===== verification/Store.thy ===== *)
theory Store
  imports Errors
begin

text \<open>
  The PostgreSQL tables of \<open>backend/app/db\<close> that the modelled services read and
  write, as records of the columns they use. A table is the list of its rows in
  the order the database returns them; status columns hold the raw strings. A
  time stamp is an integer number of microseconds. A JSON column is a value of
  \<open>json\<close>.
\<close>

section \<open>JSON values\<close>

datatype json =
    JNull
  | JBool bool
  | JNum int
  | JStr string
  | JList "json list"
  | JObj "(string \<times> json) list"

text \<open>\<open>isinstance(v, dict)\<close> and \<open>v.get(key)\<close> (a JSON \<open>null\<close> is Python's \<open>None\<close>).\<close>

fun is_dict :: "json \<Rightarrow> bool" where
  "is_dict (JObj _) = True"
| "is_dict _ = False"

fun json_get :: "json \<Rightarrow> string \<Rightarrow> json option" where
  "json_get (JObj kvs) key =
     (case map_of kvs key of
        None \<Rightarrow> None
      | Some JNull \<Rightarrow> None
      | Some v \<Rightarrow> Some v)"
| "json_get _ key = None"

fun json_keys :: "json \<Rightarrow> string list" where
  "json_keys (JObj kvs) = map fst kvs"
| "json_keys _ = []"

section \<open>Typed JSON columns\<close>

text \<open>
  Three JSON columns of an action are written from pydantic models only and read
  back into them; they are modelled by the model values (the fields the services
  use).
\<close>

record PlaybookRef =
  pb_release_id :: string
  pb_bundle_content_hash :: string
  pb_content_hash :: string
  pb_revision :: int

record PlaybookActionTemplateSnapshot =
  ts_template_hash :: string
  ts_required_capabilities :: "string list"

record SourceObjectLocator =
  sl_source_product :: string
  sl_source_tenant_id :: string
  sl_connector_id :: string
  sl_source_kind :: string
  sl_source_object_id :: string

section \<open>Rows\<close>

record security_event_row =
  se_event_id :: string
  se_status :: string
  se_severity :: string
  se_final_verdict :: string
  se_disposition_policy :: string
  se_updated_at :: int
  se_closed_at :: "int option"
  se_replan_count :: int
  se_escalated :: bool
  se_external_unsynced :: bool
  se_event_context_snapshot :: "json option"
  se_row_version :: int

record action_row =
  act_action_id :: string
  act_event_id :: string
  act_plan_revision :: int
  act_action_fingerprint :: string
  act_action_category :: string
  act_tool_name :: string
  act_action_level :: string
  act_execution_phase :: string
  act_activation_condition :: "string option"
  act_approved_terminal_dispositions :: "string list"
  act_status :: string
  act_auto_execute :: bool
  act_playbook_ref :: "PlaybookRef option"
  act_action_template_snapshot :: "PlaybookActionTemplateSnapshot option"
  act_execution_owner :: "string option"
  act_execution_job_id :: "string option"
  act_writeback_required :: bool
  act_writeback_applicable :: bool
  act_writeback_readiness :: string
  act_writeback_status :: "string option"
  act_disposition_source_ref :: "SourceObjectLocator option"
  act_superseded_by_revision :: "int option"
  act_executed_at :: "int option"
  act_updated_at :: int
  act_approved_operation_template_hash :: "string option"
  act_target_type :: "string option"
  act_target :: "string option"
  act_idempotency_key :: "string option"

record job_row =
  job_job_id :: string
  job_event_id :: string
  job_action_id :: string
  job_status :: string
  job_claimed_by :: "string option"
  job_lease_expires_at :: "int option"
  job_attempt :: int
  job_provider_message :: "string option"
  job_updated_at :: int
  job_finished_at :: "int option"
  job_provider_name :: string
  job_idempotency_key :: string
  job_started_at :: "int option"

record outbox_row =
  ob_outbox_id :: string
  ob_writeback_id :: string
  ob_disposition_id :: string
  ob_action_id :: string
  ob_event_id :: string
  ob_closure_cycle :: int
  ob_source_record_id :: string
  ob_source_locator_hash :: string
  ob_source_sequence :: int
  ob_intent_kind :: string
  ob_logical_slot :: string
  ob_supersedes_disposition_id :: "string option"
  ob_superseded_by_disposition_id :: "string option"
  ob_idempotency_key :: string
  ob_command_payload :: json
  ob_command_payload_sha256 :: string
  ob_delivery_status :: string
  ob_latest_writeback_status :: "string option"
  ob_attempt :: int
  ob_next_retry_at :: "int option"
  ob_locked_by :: "string option"
  ob_locked_at :: "int option"
  ob_lease_expires_at :: "int option"
  ob_last_error_code :: "string option"
  ob_last_error_detail :: "string option"
  ob_created_at :: int
  ob_updated_at :: int
  ob_delivered_at :: "int option"

record receipt_row =
  rc_writeback_id :: string
  rc_sequence :: int
  rc_disposition_id :: string
  rc_action_id :: string
  rc_source_record_id :: string
  rc_status :: string
  rc_confirmation_evidence :: "string option"
  rc_provider_record_id :: "string option"
  rc_provider_job_id :: "string option"
  rc_provider_message :: "string option"
  rc_observed_at :: "int option"
  rc_submitted_at :: "int option"
  rc_confirmed_at :: "int option"
  rc_raw_result :: json
  rc_simulated :: bool

record journal_row =
  jr_event_id :: string
  jr_field_name :: string
  jr_value :: json
  jr_version :: int

record report_row =
  rp_report_id :: string
  rp_event_id :: string

record audit_row =
  au_id :: int
  au_event_id :: string
  au_from_status :: "string option"
  au_to_status :: "string option"
  au_operator :: "string option"
  au_reason :: "string option"
  au_created_at :: int

record approval_row =
  ap_approval_id :: string
  ap_action_id :: string
  ap_event_id :: string
  ap_plan_revision :: int
  ap_approval_cycle :: int
  ap_decision_id :: "string option"
  ap_required_level :: string
  ap_decision :: string
  ap_operator :: "string option"
  ap_comment :: "string option"
  ap_detail :: "json option"
  ap_requested_at :: int
  ap_decided_at :: "int option"
  ap_timeout_at :: "int option"

record source_object_row =
  so_source_record_id :: string
  so_source_product :: string
  so_source_tenant_id :: string
  so_connector_id :: string
  so_source_kind :: string
  so_source_object_id :: string
  so_next_outbox_sequence :: int
  so_current_concurrency_token :: "string option"

text \<open>
  The database. \<open>db_audit_seq\<close> is the last value of the audit table's
  auto-increment sequence.
\<close>

record database =
  db_events :: "security_event_row list"
  db_actions :: "action_row list"
  db_jobs :: "job_row list"
  db_outboxes :: "outbox_row list"
  db_receipts :: "receipt_row list"
  db_journal :: "journal_row list"
  db_reports :: "report_row list"
  db_audits :: "audit_row list"
  db_audit_seq :: int
  db_approvals :: "approval_row list"
  db_sources :: "source_object_row list"
  db_field_versions :: "(string \<times> string) \<rightharpoonup> int"

definition empty_database :: database where
  "empty_database =
     \<lparr> db_events = [], db_actions = [], db_jobs = [], db_outboxes = [], db_receipts = [],
       db_journal = [], db_reports = [], db_audits = [], db_audit_seq = 0, db_approvals = [],
       db_sources = [], db_field_versions = Map.empty \<rparr>"

definition example_event :: security_event_row where
  "example_event =
     \<lparr> se_event_id = ''evt-1'', se_status = EventStatus_value ES_REPORTING,
       se_severity = Severity_value SEV_HIGH,
       se_final_verdict = FinalVerdict_value FV_CONFIRMED_THREAT,
       se_disposition_policy = DispositionPolicy_value DP_REQUIRED, se_updated_at = 0,
       se_closed_at = None, se_replan_count = 0, se_escalated = False,
       se_external_unsynced = False, se_event_context_snapshot = None, se_row_version = 7 \<rparr>"

section \<open>Lookups by primary key and shared queries\<close>

definition get_event :: "database \<Rightarrow> string \<Rightarrow> security_event_row option" where
  "get_event db event_id = find (\<lambda>r. se_event_id r = event_id) (db_events db)"

definition get_action :: "database \<Rightarrow> string \<Rightarrow> action_row option" where
  "get_action db action_id = find (\<lambda>r. act_action_id r = action_id) (db_actions db)"

definition get_job :: "database \<Rightarrow> string \<Rightarrow> job_row option" where
  "get_job db job_id = find (\<lambda>r. job_job_id r = job_id) (db_jobs db)"

text \<open>\<open>SELECT max(plan_revision) ... WHERE event_id = ...\<close>.\<close>

definition current_plan_revision :: "database \<Rightarrow> string \<Rightarrow> int option" where
  "current_plan_revision db event_id =
     max_of act_plan_revision (filter (\<lambda>a. act_event_id a = event_id) (db_actions db))"

text \<open>The newest journal value of a field; a stored \<open>null\<close> reads as \<open>None\<close>.\<close>

definition latest_journal_value :: "database \<Rightarrow> string \<Rightarrow> string \<Rightarrow> json option" where
  "latest_journal_value db event_id field =
     (case max_by jr_version
             (filter (\<lambda>j. jr_event_id j = event_id \<and> jr_field_name j = field) (db_journal db)) of
        None \<Rightarrow> None
      | Some j \<Rightarrow> (case jr_value j of JNull \<Rightarrow> None | v \<Rightarrow> Some v))"

text \<open>Writes through a row object: the row with the same primary key is replaced.\<close>

definition put_event :: "security_event_row \<Rightarrow> database \<Rightarrow> database" where
  "put_event row db =
     db\<lparr>db_events := update_where (\<lambda>r. se_event_id r = se_event_id row) (\<lambda>_. row) (db_events db)\<rparr>"

definition put_action :: "action_row \<Rightarrow> database \<Rightarrow> database" where
  "put_action row db =
     db\<lparr>db_actions := update_where (\<lambda>r. act_action_id r = act_action_id row) (\<lambda>_. row)
                       (db_actions db)\<rparr>"

definition put_job :: "job_row \<Rightarrow> database \<Rightarrow> database" where
  "put_job row db =
     db\<lparr>db_jobs := update_where (\<lambda>r. job_job_id r = job_job_id row) (\<lambda>_. row) (db_jobs db)\<rparr>"

definition put_approval :: "approval_row \<Rightarrow> database \<Rightarrow> database" where
  "put_approval row db =
     db\<lparr>db_approvals := update_where (\<lambda>r. ap_approval_id r = ap_approval_id row) (\<lambda>_. row)
                         (db_approvals db)\<rparr>"

text \<open>\<open>session.add(EventAuditLog(...))\<close>: the sequence assigns the next id.\<close>

definition add_audit ::
  "string \<Rightarrow> string option \<Rightarrow> string option \<Rightarrow> string option \<Rightarrow> string option \<Rightarrow> int
     \<Rightarrow> database \<Rightarrow> database" where
  "add_audit event_id from_status to_status operator reason now db =
     db\<lparr>db_audits := db_audits db @
          [\<lparr> au_id = db_audit_seq db + 1, au_event_id = event_id, au_from_status = from_status,
             au_to_status = to_status, au_operator = operator, au_reason = reason,
             au_created_at = now \<rparr>],
        db_audit_seq := db_audit_seq db + 1\<rparr>"

section \<open>The keyed-table contract\<close>

text \<open>
  What a client of a table relies on: reading by key returns a row with that key,
  writing a row makes it the one read back, leaves every other key alone and
  creates no key.
\<close>

locale keyed_table =
  fixes rows :: "'s \<Rightarrow> 'r list" and key :: "'r \<Rightarrow> 'k"
    and get :: "'s \<Rightarrow> 'k \<Rightarrow> 'r option" and put :: "'r \<Rightarrow> 's \<Rightarrow> 's"
  assumes get_rows: "get s k = find (\<lambda>r. key r = k) (rows s)"
    and rows_put: "rows (put r s) = update_where (\<lambda>x. key x = key r) (\<lambda>_. r) (rows s)"
begin

lemma get_key: "get s k = Some r \<Longrightarrow> key r = k"
  by (auto simp: get_rows find_Some_iff)

lemma get_mem: "get s k = Some r \<Longrightarrow> r \<in> set (rows s)"
  by (auto simp: get_rows find_Some_iff)

lemma get_None_iff: "get s k = None \<longleftrightarrow> k \<notin> key ` set (rows s)"
  by (auto simp: get_rows find_None_iff)

lemma find_update_same:
  "find (\<lambda>x. key x = key r) (update_where (\<lambda>x. key x = key r) (\<lambda>_. r) xs) =
     (if key r \<in> key ` set xs then Some r else None)"
  by (induction xs) (auto simp: update_where_def)

lemma find_update_other:
  "k \<noteq> key r \<Longrightarrow>
   find (\<lambda>x. key x = k) (update_where (\<lambda>x. key x = key r) (\<lambda>_. r) xs) =
     find (\<lambda>x. key x = k) xs"
  by (induction xs) (auto simp: update_where_def)

lemma get_put_same: "get s (key r) \<noteq> None \<Longrightarrow> get (put r s) (key r) = Some r"
  using get_None_iff [of s "key r"]
  by (cases "key r \<in> key ` set (rows s)") (auto simp: get_rows rows_put find_update_same)

lemma get_put_other: "k \<noteq> key r \<Longrightarrow> get (put r s) k = get s k"
  by (simp add: get_rows rows_put find_update_other)

lemma keys_put: "map key (rows (put r s)) = map key (rows s)"
  by (auto simp: rows_put update_where_def)

lemma rows_put_cases: "x \<in> set (rows (put r s)) \<Longrightarrow> x = r \<or> x \<in> set (rows s) \<and> key x \<noteq> key r"
  by (auto simp: rows_put set_update_where)

end

interpretation events_table: keyed_table db_events se_event_id get_event put_event
  by unfold_locales (simp_all add: get_event_def put_event_def)

interpretation actions_table: keyed_table db_actions act_action_id get_action put_action
  by unfold_locales (simp_all add: get_action_def put_action_def)

interpretation jobs_table: keyed_table db_jobs job_job_id get_job put_job
  by unfold_locales (simp_all add: get_job_def put_job_def)

lemma put_frames [simp]:
  "db_actions (put_event e db) = db_actions db" "db_jobs (put_event e db) = db_jobs db"
  "db_outboxes (put_event e db) = db_outboxes db" "db_receipts (put_event e db) = db_receipts db"
  "db_journal (put_event e db) = db_journal db" "db_reports (put_event e db) = db_reports db"
  "db_audits (put_event e db) = db_audits db" "db_audit_seq (put_event e db) = db_audit_seq db"
  "db_approvals (put_event e db) = db_approvals db" "db_sources (put_event e db) = db_sources db"
  "db_field_versions (put_event e db) = db_field_versions db"
  "db_events (put_action a db) = db_events db"
  "db_jobs (put_action a db) = db_jobs db" "db_outboxes (put_action a db) = db_outboxes db"
  "db_receipts (put_action a db) = db_receipts db" "db_journal (put_action a db) = db_journal db"
  "db_reports (put_action a db) = db_reports db" "db_audits (put_action a db) = db_audits db"
  "db_audit_seq (put_action a db) = db_audit_seq db"
  "db_approvals (put_action a db) = db_approvals db"
  "db_sources (put_action a db) = db_sources db"
  "db_field_versions (put_action a db) = db_field_versions db"
  "db_events (put_job j db) = db_events db" "db_actions (put_job j db) = db_actions db"
  "db_outboxes (put_job j db) = db_outboxes db" "db_receipts (put_job j db) = db_receipts db"
  "db_journal (put_job j db) = db_journal db" "db_reports (put_job j db) = db_reports db"
  "db_audits (put_job j db) = db_audits db" "db_audit_seq (put_job j db) = db_audit_seq db"
  "db_approvals (put_job j db) = db_approvals db" "db_sources (put_job j db) = db_sources db"
  "db_field_versions (put_job j db) = db_field_versions db"
  "db_events (put_approval q db) = db_events db"
  "db_actions (put_approval q db) = db_actions db" "db_jobs (put_approval q db) = db_jobs db"
  "db_outboxes (put_approval q db) = db_outboxes db"
  "db_receipts (put_approval q db) = db_receipts db"
  "db_journal (put_approval q db) = db_journal db"
  "db_reports (put_approval q db) = db_reports db"
  "db_audits (put_approval q db) = db_audits db"
  "db_audit_seq (put_approval q db) = db_audit_seq db"
  "db_sources (put_approval q db) = db_sources db"
  "db_field_versions (put_approval q db) = db_field_versions db"
  by (simp_all add: put_event_def put_action_def put_job_def put_approval_def)

lemma add_audit_frames [simp]:
  "db_events (add_audit e f t p r n db) = db_events db"
  "db_actions (add_audit e f t p r n db) = db_actions db"
  "db_jobs (add_audit e f t p r n db) = db_jobs db"
  "db_outboxes (add_audit e f t p r n db) = db_outboxes db"
  "db_receipts (add_audit e f t p r n db) = db_receipts db"
  "db_journal (add_audit e f t p r n db) = db_journal db"
  "db_reports (add_audit e f t p r n db) = db_reports db"
  "db_approvals (add_audit e f t p r n db) = db_approvals db"
  "db_sources (add_audit e f t p r n db) = db_sources db"
  "db_field_versions (add_audit e f t p r n db) = db_field_versions db"
  "get_event (add_audit e f t p r n db) = get_event db"
  "get_action (add_audit e f t p r n db) = get_action db"
  "get_job (add_audit e f t p r n db) = get_job db"
  by (simp_all add: add_audit_def get_event_def get_action_def get_job_def fun_eq_iff)

lemma get_frames [simp]:
  "get_event (put_action a db) e = get_event db e" "get_event (put_job j db) e = get_event db e"
  "get_action (put_event ev db) a' = get_action db a'" "get_action (put_job j db) a' = get_action db a'"
  "get_job (put_event ev db) j' = get_job db j'" "get_job (put_action a db) j' = get_job db j'"
  "get_event (put_approval q db) e = get_event db e"
  "get_action (put_approval q db) a' = get_action db a'"
  "get_job (put_approval q db) j' = get_job db j'"
  by (simp_all add: get_event_def get_action_def get_job_def)

end
