(* ===== verification/Tool_Model.thy ===== *)
theory Tool_Model
  imports Errors
begin

text \<open>
  The tool contracts of \<open>models/tool_meta.py\<close>: tool metadata with its validator, provider
  bindings, and the capability manifest with the resolution of a capability. Descriptions,
  schemas and target types are payload of the metadata and are left out.
\<close>

section \<open>Enumerations\<close>

datatype ToolCategory = TC_QUERY | TC_RESPONSE | TC_VERIFICATION | TC_ROLLBACK

datatype SourceObjectKind = SK_INCIDENT | SK_ALERT | SK_ASSET | SK_LOG | SK_CONNECTOR

datatype RoutingKind = TOOL_PROVIDER_ONLY | OWNER_ROUTED | DISPOSITION_ONLY

datatype ExecutionChannel = TOOL_PROVIDER | DISPOSITION_ADAPTER

datatype SideEffectLevel = SE_NONE | SE_LOW | SE_MEDIUM | SE_HIGH

datatype ToolResultStatus =
  TR_ACCEPTED | TR_SUCCESS | TR_PARTIAL_SUCCESS | TR_FAILED | TR_UNKNOWN | TR_VALIDATION_ERROR
  | TR_AUTH_ERROR | TR_RATE_LIMITED | TR_TIMEOUT | TR_REMOTE_ERROR | TR_CIRCUIT_OPEN
  | TR_UNSUPPORTED

section \<open>Tool metadata\<close>

definition TERMINAL_DISPOSITION_TOOL :: string where
  "TERMINAL_DISPOSITION_TOOL = ''update_source_event_disposition''"

record ToolMeta =
  tm_tool_name :: string
  tm_tool_category :: ToolCategory
  tm_action_category :: "ActionCategory option"
  tm_routing_kind :: RoutingKind
  tm_supported_execution_owners :: "ExecutionOwner list"
  tm_required_disposition_intent_by_owner :: "ExecutionOwner \<rightharpoonup> DispositionIntentKind"
  tm_required_capabilities :: "string list"
  tm_side_effect_level :: SideEffectLevel
  tm_action_level :: ActionLevel
  tm_idempotency :: bool
  tm_async_mode :: bool
  tm_execution_phase :: ActionExecutionPhase
  tm_activation_condition :: "string option"
  tm_executable :: bool

text \<open>The per-owner part of the validator, in the order of the owners.\<close>

definition owner_intent_ok :: "ToolMeta \<Rightarrow> ExecutionOwner \<Rightarrow> bool" where
  "owner_intent_ok meta owner \<longleftrightarrow>
     (case tm_required_disposition_intent_by_owner meta owner of
        None \<Rightarrow> False
      | Some intent \<Rightarrow>
          (owner = EO_XDR_MANAGED \<longrightarrow>
             (tm_tool_category meta = TC_RESPONSE \<longrightarrow> intent = IK_ENTITY_ACTION_SUBMIT)
             \<and> (tm_tool_category meta = TC_ROLLBACK \<longrightarrow> intent = IK_COMPENSATION_RECORD))
          \<and> (owner = EO_DIRECT_TOOL \<longrightarrow> intent = IK_EXECUTION_RESULT_RECORD))"

text \<open>\<open>_routing_and_owners_are_consistent\<close>: whether the model validator accepts the metadata.\<close>

definition routing_and_owners_are_consistent :: "ToolMeta \<Rightarrow> bool" where
  "routing_and_owners_are_consistent meta \<longleftrightarrow>
     (let owners = tm_supported_execution_owners meta in
      (tm_tool_category meta = TC_QUERY \<longrightarrow>
         tm_action_category meta = None \<and> owners = []
         \<and> tm_routing_kind meta = TOOL_PROVIDER_ONLY \<and> tm_side_effect_level meta = SE_NONE)
      \<and> (tm_tool_category meta = TC_VERIFICATION \<longrightarrow>
           tm_action_category meta = Some AC_VERIFICATION \<and> owners = []
           \<and> tm_routing_kind meta = TOOL_PROVIDER_ONLY)
      \<and> (if tm_tool_name meta = TERMINAL_DISPOSITION_TOOL
         then tm_routing_kind meta = DISPOSITION_ONLY \<and> tm_action_category meta = Some AC_RESPONSE
              \<and> tm_execution_phase meta = AP_POST_VERIFY
              \<and> tm_activation_condition meta = Some ''after_effect_resolution''
              \<and> \<not> tm_executable meta \<and> \<not> tm_async_mode meta
              \<and> owners = [EO_XDR_MANAGED]
              \<and> tm_required_disposition_intent_by_owner meta EO_XDR_MANAGED
                  = Some IK_EVENT_STATUS_UPDATE
         else (tm_tool_category meta \<in> {TC_RESPONSE, TC_ROLLBACK} \<longrightarrow>
                 tm_routing_kind meta = OWNER_ROUTED \<and> tm_action_category meta \<noteq> None
                 \<and> owners \<noteq> [] \<and> distinct owners \<and> list_all (owner_intent_ok meta) owners)
              \<and> \<not> (tm_routing_kind meta = DISPOSITION_ONLY \<and> tm_executable meta)))"

definition freeze_execution_owner :: "ToolMeta \<Rightarrow> ExecutionOwner \<Rightarrow> ExecutionOwner res" where
  "freeze_execution_owner meta owner =
     (if owner \<notin> set (tm_supported_execution_owners meta)
      then Inl (ValueError (''execution_owner '' @ ExecutionOwner_value owner
                             @ '' is not supported by '' @ tm_tool_name meta))
      else Inr owner)"

text \<open>\<open>ensure_tool_provider_executable\<close>: whether it returns instead of raising.\<close>

definition tool_provider_executable :: "ToolMeta \<Rightarrow> bool" where
  "tool_provider_executable meta \<longleftrightarrow>
     \<not> (tm_routing_kind meta = DISPOSITION_ONLY \<or> \<not> tm_executable meta)"

section \<open>Bindings\<close>

record ProviderToolBinding =
  pt_tool_name :: string
  pt_provider_name :: string
  pt_execution_owner :: ExecutionOwner
  pt_execution_channel :: ExecutionChannel
  pt_capabilities :: "string list"

definition channel_matches_owner :: "ProviderToolBinding \<Rightarrow> bool" where
  "channel_matches_owner b \<longleftrightarrow>
     (pt_execution_owner b = EO_DIRECT_TOOL \<longrightarrow> pt_execution_channel b = TOOL_PROVIDER)
     \<and> (pt_execution_owner b = EO_XDR_MANAGED \<longrightarrow> pt_execution_channel b = DISPOSITION_ADAPTER)"

section \<open>Capabilities\<close>

record CapabilityBindingEntry =
  cbe_intent_kind :: DispositionIntentKind
  cbe_operation_code :: string
  cbe_source_kind :: "SourceObjectKind option"
  cbe_native_source_object_type :: "string option"
  cbe_state :: CapabilityState

record CapabilityManifest =
  mf_provider_name :: string
  mf_online :: bool
  mf_source_read :: CapabilityState
  mf_event_disposition :: CapabilityState
  mf_entity_response :: CapabilityState
  mf_allowed_intents :: "DispositionIntentKind list"
  mf_allowed_operations :: "string list"
  mf_allowed_target_types :: "string list"
  mf_allowed_source_kinds :: "SourceObjectKind list"
  mf_allowed_native_source_object_types :: "string list option"
  mf_supports_status_query :: bool
  mf_supports_lookup_by_idempotency :: bool
  mf_supports_idempotency :: bool
  mf_supports_concurrency_control :: bool
  mf_supports_fencing :: bool
  mf_allowed_execution_channels :: "ExecutionChannel list"
  mf_bindings :: "CapabilityBindingEntry list"

text \<open>The field defaults.\<close>

definition default_CapabilityManifest :: "string \<Rightarrow> CapabilityManifest" where
  "default_CapabilityManifest provider_name =
     \<lparr> mf_provider_name = provider_name, mf_online = False, mf_source_read = CS_UNKNOWN,
       mf_event_disposition = CS_UNKNOWN, mf_entity_response = CS_UNKNOWN,
       mf_allowed_intents = [], mf_allowed_operations = [], mf_allowed_target_types = [],
       mf_allowed_source_kinds = [], mf_allowed_native_source_object_types = None,
       mf_supports_status_query = False, mf_supports_lookup_by_idempotency = False,
       mf_supports_idempotency = False, mf_supports_concurrency_control = False,
       mf_supports_fencing = False, mf_allowed_execution_channels = [], mf_bindings = [] \<rparr>"

definition execution_guarantees_are_consistent :: "CapabilityManifest \<Rightarrow> bool" where
  "execution_guarantees_are_consistent manifest \<longleftrightarrow>
     \<not> (mf_supports_fencing manifest \<and> \<not> mf_supports_concurrency_control manifest)
     \<and> distinct (mf_allowed_execution_channels manifest)"

text \<open>The score of one binding in \<open>allows\<close>: \<open>None\<close> when a declared dimension does not match.\<close>

definition specificity ::
  "SourceObjectKind option \<Rightarrow> string option \<Rightarrow> CapabilityBindingEntry \<Rightarrow> nat option" where
  "specificity source_kind native_type b =
     (if cbe_source_kind b \<noteq> None \<and> (source_kind = None \<or> cbe_source_kind b \<noteq> source_kind)
      then None
      else if cbe_native_source_object_type b \<noteq> None
              \<and> (native_type = None \<or> cbe_native_source_object_type b \<noteq> native_type)
      then None
      else Some ((if cbe_source_kind b \<noteq> None then 1 else 0)
                 + (if cbe_native_source_object_type b \<noteq> None then 1 else 0)))"

definition allows ::
  "CapabilityManifest \<Rightarrow> DispositionIntentKind \<Rightarrow> string \<Rightarrow> SourceObjectKind option \<Rightarrow> string option
     \<Rightarrow> CapabilityState" where
  "allows manifest intent_kind operation_code source_kind native_type =
     (if intent_kind \<notin> set (mf_allowed_intents manifest) then CS_UNSUPPORTED
      else if operation_code \<notin> set (mf_allowed_operations manifest) then CS_UNSUPPORTED
      else if (case source_kind of
                 None \<Rightarrow> False
               | Some k \<Rightarrow> mf_allowed_source_kinds manifest \<noteq> []
                           \<and> k \<notin> set (mf_allowed_source_kinds manifest))
      then CS_UNSUPPORTED
      else if (case (native_type, mf_allowed_native_source_object_types manifest) of
                 (Some t, Some allowed) \<Rightarrow> t \<notin> set allowed
               | _ \<Rightarrow> False)
      then CS_UNSUPPORTED
      else
        let candidates = filter (\<lambda>b. cbe_intent_kind b = intent_kind
                                     \<and> cbe_operation_code b = operation_code)
                           (mf_bindings manifest);
            scored = List.map_filter
                       (\<lambda>b. case specificity source_kind native_type b of
                              None \<Rightarrow> None | Some n \<Rightarrow> Some (n, cbe_state b)) candidates
        in
        if scored = [] then CS_UNKNOWN
        else
          let best = Max (fst ` set scored);
              winning = snd ` set (filter (\<lambda>(n, _). n = best) scored)
          in if card winning = 1 then the_elem winning else CS_UNSUPPORTED)"

definition writeback_readiness_for_required :: "CapabilityManifest \<Rightarrow> string" where
  "writeback_readiness_for_required manifest =
     (if \<not> mf_online manifest then ''connector_unavailable''
      else if mf_event_disposition manifest = CS_SUPPORTED then ''ready''
      else if mf_event_disposition manifest = CS_UNSUPPORTED then ''capability_unsupported''
      else ''capability_unknown'')"

section \<open>Resolution fails closed\<close>

text \<open>The bindings that apply to a query.\<close>

definition applicable ::
  "CapabilityManifest \<Rightarrow> DispositionIntentKind \<Rightarrow> string \<Rightarrow> SourceObjectKind option \<Rightarrow> string option
     \<Rightarrow> (nat \<times> CapabilityState) set" where
  "applicable manifest intent_kind operation_code source_kind native_type =
     {(n, s). \<exists>b\<in>set (mf_bindings manifest). cbe_intent_kind b = intent_kind
        \<and> cbe_operation_code b = operation_code
        \<and> specificity source_kind native_type b = Some n \<and> cbe_state b = s}"

lemma scored_set:
  "set (List.map_filter
          (\<lambda>b. case specificity sk nt b of None \<Rightarrow> None | Some n \<Rightarrow> Some (n, cbe_state b))
          (filter (\<lambda>b. cbe_intent_kind b = i \<and> cbe_operation_code b = oc) (mf_bindings m)))
     = applicable m i oc sk nt"
  by (auto simp: map_filter_set applicable_def split: option.splits)

lemma finite_applicable [simp]: "finite (applicable m i oc sk nt)"
  by (simp add: scored_set [symmetric])

text \<open>Capability resolution fails closed. A query is answered \<open>SUPPORTED\<close> exactly when the
  intent, operation, source kind and native type are allowed, some binding applies, and
  every applicable binding of the highest specificity says \<open>SUPPORTED\<close>; so a more generic
  binding never overrides a more specific one, and a conflict between equally specific
  bindings is never resolved optimistically.\<close>

theorem allows_supported_iff:
  "allows m i oc sk nt = CS_SUPPORTED \<longleftrightarrow>
     i \<in> set (mf_allowed_intents m) \<and> oc \<in> set (mf_allowed_operations m)
     \<and> (sk = None \<or> mf_allowed_source_kinds m = [] \<or> the sk \<in> set (mf_allowed_source_kinds m))
     \<and> (nt = None \<or> mf_allowed_native_source_object_types m = None
         \<or> the nt \<in> set (the (mf_allowed_native_source_object_types m)))
     \<and> applicable m i oc sk nt \<noteq> {}
     \<and> {s. (Max (fst ` applicable m i oc sk nt), s) \<in> applicable m i oc sk nt} = {CS_SUPPORTED}"
proof -
  define A where "A = applicable m i oc sk nt"
  define W where "W = {s. (Max (fst ` A), s) \<in> A}"
  define sc where "sc = List.map_filter
          (\<lambda>b. case specificity sk nt b of None \<Rightarrow> None | Some n \<Rightarrow> Some (n, cbe_state b))
          (filter (\<lambda>b. cbe_intent_kind b = i \<and> cbe_operation_code b = oc) (mf_bindings m))"
  have s: "set sc = A" unfolding sc_def A_def by (rule scored_set)
  have e: "sc = [] \<longleftrightarrow> A = {}" unfolding s [symmetric] by simp
  have w: "snd ` set (filter (\<lambda>(n, _). n = Max (fst ` set sc)) sc) = W"
    unfolding W_def set_filter s by force
  have one: "(if card W = 1 then the_elem W else CS_UNSUPPORTED) = CS_SUPPORTED \<longleftrightarrow> W = {CS_SUPPORTED}"
    by (auto simp: card_1_singleton_iff)
  have sk_ok: "(case sk of None \<Rightarrow> False | Some k \<Rightarrow> mf_allowed_source_kinds m \<noteq> []
      \<and> k \<notin> set (mf_allowed_source_kinds m)) \<longleftrightarrow>
      \<not> (sk = None \<or> mf_allowed_source_kinds m = [] \<or> the sk \<in> set (mf_allowed_source_kinds m))"
    by (cases sk) auto
  have nt_ok: "(case (nt, mf_allowed_native_source_object_types m) of
        (Some t, Some allowed) \<Rightarrow> t \<notin> set allowed | _ \<Rightarrow> False) \<longleftrightarrow>
      \<not> (nt = None \<or> mf_allowed_native_source_object_types m = None
         \<or> the nt \<in> set (the (mf_allowed_native_source_object_types m)))"
    by (cases nt; cases "mf_allowed_native_source_object_types m") auto
  show ?thesis
    unfolding allows_def Let_def sc_def [symmetric] A_def [symmetric] W_def [symmetric] w e sk_ok nt_ok
    using one by auto
qed

end
