(* ===== verification/Action_Model.thy ===== *)
theory Action_Model
  imports Store Workflow Tool_Model
begin

text \<open>
  The validated action of \<open>backend/app/models/action.py\<close> (the fields the services
  use) with its two consistency validators, and its construction from a database row:
  \<open>action_from_orm\<close> of \<open>services/action_mapper.py\<close>, whose explicit enumeration lookups
  raise \<open>ValueError\<close>, and \<open>_action_from_row\<close> of \<open>services/action_execution_service.py\<close>,
  which leaves every lookup to pydantic.
\<close>

record Action =
  a_action_id :: string
  a_event_id :: string
  a_plan_revision :: int
  a_action_fingerprint :: string
  a_action_category :: ActionCategory
  a_tool_name :: string
  a_action_level :: ActionLevel
  a_execution_phase :: ActionExecutionPhase
  a_activation_condition :: "string option"
  a_approved_terminal_dispositions :: "SourceDisposition list"
  a_status :: ActionStatus
  a_auto_execute :: bool
  a_playbook_ref :: "PlaybookRef option"
  a_action_template_snapshot :: "PlaybookActionTemplateSnapshot option"
  a_execution_owner :: "ExecutionOwner option"
  a_execution_job_id :: "string option"
  a_writeback_required :: bool
  a_writeback_applicable :: bool
  a_writeback_readiness :: WritebackReadiness
  a_writeback_status :: "WritebackStatus option"
  a_disposition_source_ref :: "SourceObjectLocator option"
  a_superseded_by_revision :: "int option"
  a_approved_operation_template_hash :: "string option"
  a_target_type :: "string option"
  a_target :: "string option"
  a_idempotency_key :: "string option"

definition enforce_owner_and_phase :: "Action \<Rightarrow> unit res" where
  "enforce_owner_and_phase a =
     (if a_action_category a \<in> {AC_SYSTEM, AC_VERIFICATION} \<and> a_execution_owner a \<noteq> None
      then Inl (PydanticValidationError ''must not set execution_owner'')
      else if a_action_category a \<in> {AC_SYSTEM, AC_VERIFICATION}
              \<and> (a_writeback_required a \<or> a_writeback_applicable a)
      then Inl (PydanticValidationError ''cannot require/apply writeback'')
      else if a_action_category a \<in> {AC_RESPONSE, AC_ROLLBACK} \<and> a_execution_owner a = None
              \<and> \<not> (a_writeback_required a \<and> \<not> a_writeback_applicable a
                   \<and> a_writeback_readiness a = WR_NOT_REQUIRED
                   \<and> a_tool_name a \<noteq> TERMINAL_DISPOSITION_TOOL)
      then Inl (PydanticValidationError ''must select exactly one execution_owner'')
      else if a_tool_name a = TERMINAL_DISPOSITION_TOOL
              \<and> a_execution_phase a \<noteq> AP_POST_VERIFY
      then Inl (PydanticValidationError ''must be POST_VERIFY'')
      else if a_tool_name a = TERMINAL_DISPOSITION_TOOL
              \<and> a_activation_condition a \<noteq> Some ''after_effect_resolution''
      then Inl (PydanticValidationError ''requires activation_condition=after_effect_resolution'')
      else if a_tool_name a \<noteq> TERMINAL_DISPOSITION_TOOL \<and> a_execution_phase a \<noteq> AP_IMMEDIATE
      then Inl (PydanticValidationError ''only update_source_event_disposition may be POST_VERIFY'')
      else Inr ())"

definition enforce_writeback_consistency :: "Action \<Rightarrow> unit res" where
  "enforce_writeback_consistency a =
     (if \<not> a_writeback_required a
      then (if a_writeback_applicable a
            then Inl (PydanticValidationError ''writeback_required=false forbids applicable'')
            else if a_writeback_readiness a \<noteq> WR_NOT_REQUIRED
            then Inl (PydanticValidationError ''writeback_required=false requires NOT_REQUIRED'')
            else if a_writeback_status a \<noteq> None
            then Inl (PydanticValidationError ''writeback_required=false requires null status'')
            else Inr ())
      else if \<not> a_writeback_applicable a
      then (if a_writeback_readiness a \<noteq> WR_NOT_REQUIRED
            then Inl (PydanticValidationError ''writeback_applicable=false requires NOT_REQUIRED'')
            else if a_writeback_status a \<noteq> None
            then Inl (PydanticValidationError ''writeback_applicable=false requires null status'')
            else Inr ())
      else if a_writeback_readiness a = WR_NOT_REQUIRED
      then Inl (PydanticValidationError ''required and applicable forbid NOT_REQUIRED'')
      else if a_writeback_readiness a \<noteq> WR_READY \<and> a_writeback_status a \<noteq> None
      then Inl (PydanticValidationError ''readiness blocks any writeback attempt'')
      else Inr ())"

text \<open>\<open>Action.model_validate\<close>: the enumeration fields are read, then the two validators run.\<close>

definition pydantic_enum :: "(string \<Rightarrow> 'e option) \<Rightarrow> string \<Rightarrow> 'e res" where
  "pydantic_enum parse raw = of_opt (PydanticValidationError raw) (parse raw)"

definition pydantic_opt_enum :: "(string \<Rightarrow> 'e option) \<Rightarrow> string option \<Rightarrow> 'e option res" where
  "pydantic_opt_enum parse raw =
     (case raw of
        None \<Rightarrow> Inr None
      | Some r \<Rightarrow> bind_res (pydantic_enum parse r) (\<lambda>e. Inr (Some e)))"

fun pydantic_enum_list :: "(string \<Rightarrow> 'e option) \<Rightarrow> string list \<Rightarrow> 'e list res" where
  "pydantic_enum_list parse [] = Inr []"
| "pydantic_enum_list parse (r # rs) =
     bind_res (pydantic_enum parse r) (\<lambda>e.
     bind_res (pydantic_enum_list parse rs) (\<lambda>es. Inr (e # es)))"

definition validate_action_model :: "Action \<Rightarrow> Action res" where
  "validate_action_model a =
     bind_res (enforce_owner_and_phase a) (\<lambda>_.
     bind_res (enforce_writeback_consistency a) (\<lambda>_. Inr a))"

definition build_action ::
  "action_row \<Rightarrow> ActionCategory \<Rightarrow> ActionLevel \<Rightarrow> ActionExecutionPhase \<Rightarrow> ActionStatus
     \<Rightarrow> WritebackReadiness \<Rightarrow> Action res" where
  "build_action row category level phase status readiness =
     bind_res (pydantic_enum_list SourceDisposition_parse
                 (act_approved_terminal_dispositions row)) (\<lambda>terminal.
     bind_res (pydantic_opt_enum ExecutionOwner_parse (act_execution_owner row)) (\<lambda>owner.
     bind_res (pydantic_opt_enum WritebackStatus_parse (act_writeback_status row)) (\<lambda>wb.
     validate_action_model
       \<lparr> a_action_id = act_action_id row,
         a_event_id = act_event_id row,
         a_plan_revision = act_plan_revision row,
         a_action_fingerprint = act_action_fingerprint row,
         a_action_category = category,
         a_tool_name = act_tool_name row,
         a_action_level = level,
         a_execution_phase = phase,
         a_activation_condition = act_activation_condition row,
         a_approved_terminal_dispositions = terminal,
         a_status = status,
         a_auto_execute = act_auto_execute row,
         a_playbook_ref = act_playbook_ref row,
         a_action_template_snapshot = act_action_template_snapshot row,
         a_execution_owner = owner,
         a_execution_job_id = act_execution_job_id row,
         a_writeback_required = act_writeback_required row,
         a_writeback_applicable = act_writeback_applicable row,
         a_writeback_readiness = readiness,
         a_writeback_status = wb,
         a_disposition_source_ref = act_disposition_source_ref row,
         a_superseded_by_revision = act_superseded_by_revision row,
         a_approved_operation_template_hash = act_approved_operation_template_hash row,
         a_target_type = act_target_type row,
         a_target = act_target row,
         a_idempotency_key = act_idempotency_key row \<rparr>)))"

definition action_from_row :: "action_row \<Rightarrow> Action res" where
  "action_from_row row =
     bind_res (pydantic_enum ActionCategory_parse (act_action_category row)) (\<lambda>category.
     bind_res (pydantic_enum ActionLevel_parse (act_action_level row)) (\<lambda>level.
     bind_res (pydantic_enum ActionExecutionPhase_parse (act_execution_phase row)) (\<lambda>phase.
     bind_res (pydantic_enum ActionStatus_parse (act_status row)) (\<lambda>status.
     bind_res (pydantic_enum WritebackReadiness_parse (act_writeback_readiness row)) (\<lambda>readiness.
     build_action row category level phase status readiness)))))"

definition action_from_orm :: "action_row \<Rightarrow> Action res" where
  "action_from_orm row =
     bind_res (parse_or_raise ActionCategory_parse (act_action_category row)) (\<lambda>category.
     bind_res (parse_or_raise ActionLevel_parse (act_action_level row)) (\<lambda>level.
     bind_res (parse_or_raise ActionExecutionPhase_parse (act_execution_phase row)) (\<lambda>phase.
     bind_res (parse_or_raise ActionStatus_parse (act_status row)) (\<lambda>status.
     bind_res (parse_or_raise WritebackReadiness_parse (act_writeback_readiness row)) (\<lambda>readiness.
     build_action row category level phase status readiness)))))"

section \<open>The well-formedness of an action\<close>

text \<open>The two validators as one predicate.\<close>

definition action_wf :: "Action \<Rightarrow> bool" where
  "action_wf a \<longleftrightarrow>
     (a_action_category a \<in> {AC_SYSTEM, AC_VERIFICATION} \<longrightarrow>
        a_execution_owner a = None \<and> \<not> a_writeback_required a \<and> \<not> a_writeback_applicable a)
     \<and> (a_action_category a \<in> {AC_RESPONSE, AC_ROLLBACK} \<and> a_execution_owner a = None \<longrightarrow>
        a_writeback_required a \<and> \<not> a_writeback_applicable a
        \<and> a_tool_name a \<noteq> TERMINAL_DISPOSITION_TOOL)
     \<and> (if a_tool_name a = TERMINAL_DISPOSITION_TOOL
        then a_execution_phase a = AP_POST_VERIFY
             \<and> a_activation_condition a = Some ''after_effect_resolution''
        else a_execution_phase a = AP_IMMEDIATE)
     \<and> (a_writeback_applicable a \<longrightarrow> a_writeback_required a)
     \<and> (a_writeback_readiness a = WR_NOT_REQUIRED \<longleftrightarrow> \<not> a_writeback_applicable a)
     \<and> (a_writeback_status a \<noteq> None \<longrightarrow> a_writeback_readiness a = WR_READY)"

lemma validate_action_model_iff:
  "validate_action_model a = Inr b \<longleftrightarrow> b = a \<and> action_wf a"
proof -
  have "enforce_owner_and_phase a = Inr () \<and> enforce_writeback_consistency a = Inr () \<longleftrightarrow>
      action_wf a"
    by (cases "a_action_category a"; cases "a_writeback_required a";
        cases "a_writeback_applicable a"; cases "a_tool_name a = TERMINAL_DISPOSITION_TOOL")
       (auto simp: enforce_owner_and_phase_def enforce_writeback_consistency_def action_wf_def)
  then show ?thesis by (auto simp: validate_action_model_def)
qed

lemma pydantic_enum_Inr_iff [simp]: "pydantic_enum p raw = Inr e \<longleftrightarrow> p raw = Some e"
  by (simp add: pydantic_enum_def)

lemma build_action_fields:
  assumes "build_action row c l p s r = Inr a"
  shows "a_action_id a = act_action_id row" "a_event_id a = act_event_id row"
    "a_plan_revision a = act_plan_revision row" "a_action_category a = c"
    "a_tool_name a = act_tool_name row" "a_action_level a = l" "a_execution_phase a = p"
    "a_status a = s" "a_writeback_readiness a = r"
    "a_writeback_applicable a = act_writeback_applicable row"
    "a_writeback_required a = act_writeback_required row"
    "a_superseded_by_revision a = act_superseded_by_revision row" "action_wf a"
    "a_playbook_ref a = act_playbook_ref row"
    "a_action_fingerprint a = act_action_fingerprint row"
    "a_disposition_source_ref a = act_disposition_source_ref row"
    "a_action_template_snapshot a = act_action_template_snapshot row"
    "pydantic_opt_enum ExecutionOwner_parse (act_execution_owner row) = Inr (a_execution_owner a)"
  using assms by (auto simp: build_action_def validate_action_model_iff)

text \<open>
  The two readers of an action row accept the same rows and build the same action;
  they differ only in the exception a malformed enumeration column raises.
\<close>

lemma action_readers_agree: "action_from_orm row = Inr a \<longleftrightarrow> action_from_row row = Inr a"
  by (simp add: action_from_row_def action_from_orm_def)

lemma action_from_row_parts:
  assumes "action_from_row row = Inr a"
  obtains "build_action row (a_action_category a) (a_action_level a) (a_execution_phase a)
             (a_status a) (a_writeback_readiness a) = Inr a"
    and "ActionCategory_parse (act_action_category row) = Some (a_action_category a)"
    and "ActionLevel_parse (act_action_level row) = Some (a_action_level a)"
    and "ActionExecutionPhase_parse (act_execution_phase row) = Some (a_execution_phase a)"
    and "ActionStatus_parse (act_status row) = Some (a_status a)"
    and "WritebackReadiness_parse (act_writeback_readiness row) = Some (a_writeback_readiness a)"
proof -
  from assms obtain c l p s r where
    p: "ActionCategory_parse (act_action_category row) = Some c"
      "ActionLevel_parse (act_action_level row) = Some l"
      "ActionExecutionPhase_parse (act_execution_phase row) = Some p"
      "ActionStatus_parse (act_status row) = Some s"
      "WritebackReadiness_parse (act_writeback_readiness row) = Some r"
    and b: "build_action row c l p s r = Inr a"
    by (auto simp: action_from_row_def)
  note f = build_action_fields(4,6,7,8,9) [OF b]
  from b p show thesis by (intro that) (simp_all add: f)
qed

text \<open>C32: Every action read from the database is well formed: only response and rollback
  actions own an external submission or a writeback, an ownerless one is exactly the
  overlay gap, only the terminal disposition tool runs after verification, and a
  writeback status exists only on a ready, required and applicable writeback.\<close>

theorem action_from_row_wf:
  assumes "action_from_row row = Inr a"
  shows "action_wf a \<and> ActionStatus_value (a_status a) = act_status row
    \<and> ActionCategory_value (a_action_category a) = act_action_category row
    \<and> ActionLevel_value (a_action_level a) = act_action_level row"
  using assms
proof (rule action_from_row_parts, goal_cases)
  case 1
  then show ?case
    using build_action_fields(13) [OF 1(1)]
    by (auto dest!: ActionCategory_enum.parse_SomeD ActionLevel_enum.parse_SomeD
        ActionStatus_enum.parse_SomeD)
qed

definition example_action_row :: action_row where
  "example_action_row =
     \<lparr> act_action_id = ''act-1'', act_event_id = ''evt-1'', act_plan_revision = 1,
       act_action_fingerprint = ''fp'', act_action_category = ActionCategory_value AC_RESPONSE,
       act_tool_name = ''isolate_host'', act_action_level = ActionLevel_value L3,
       act_execution_phase = ActionExecutionPhase_value AP_IMMEDIATE, act_activation_condition = None,
       act_approved_terminal_dispositions = [], act_status = ActionStatus_value AS_APPROVED,
       act_auto_execute = False, act_playbook_ref = None, act_action_template_snapshot = None,
       act_execution_owner = Some (ExecutionOwner_value EO_DIRECT_TOOL), act_execution_job_id = None,
       act_writeback_required = False, act_writeback_applicable = False,
       act_writeback_readiness = WritebackReadiness_value WR_NOT_REQUIRED, act_writeback_status = None,
       act_disposition_source_ref = None, act_superseded_by_revision = None,
       act_executed_at = None, act_updated_at = 0, act_approved_operation_template_hash = None,
       act_target_type = Some ''host'', act_target = Some ''web-1'', act_idempotency_key = None \<rparr>"

theorem action_from_row_wf_witness:
  "\<exists>a. action_from_row example_action_row = Inr a \<and> action_wf a
     \<and> a_status a = AS_APPROVED"
proof -
  have "\<exists>a. action_from_row example_action_row = Inr a"
    by (simp add: action_from_row_def example_action_row_def build_action_def
        pydantic_opt_enum_def validate_action_model_iff action_wf_def TERMINAL_DISPOSITION_TOOL_def)
  then obtain a where "action_from_row example_action_row = Inr a" by blast
  with action_from_row_wf [OF this] show ?thesis by (auto simp: example_action_row_def)
qed

end
