(* ===== verification/Approval_Binding.thy ===== *)
theory Approval_Binding
  imports Action_Model
begin

text \<open>
  \<open>backend/app/services/playbook_approval_binding.py\<close>: the evidence an approval
  record stores about the action it approved, and the check that the action has not
  drifted since. SHA-256 is the parameter \<open>sha256\<close> from a string to its hexadecimal
  digest. The dumps of the playbook reference and of the template snapshot list the
  modelled fields.
\<close>

definition APPROVAL_POLICY_VERSION :: string where
  "APPROVAL_POLICY_VERSION = ''issue109_v1''"

definition APPROVAL_POLICY_SOURCE :: string where
  "APPROVAL_POLICY_SOURCE = ''AUTO_APPROVABLE_ACTION_LEVELS''"

text \<open>\<open>_MANIFEST_CAPABILITY_FIELDS.get(capability)\<close> and the \<open>getattr\<close> on its result.\<close>

definition MANIFEST_CAPABILITY_FIELDS ::
  "string \<rightharpoonup> (CapabilityManifest \<Rightarrow> CapabilityState)" where
  "MANIFEST_CAPABILITY_FIELDS =
     [''entity_response'' \<mapsto> mf_entity_response,
      ''event_disposition'' \<mapsto> mf_event_disposition,
      ''source_read'' \<mapsto> mf_source_read]"

text \<open>The reason is \<open>None\<close> on success and the offending capability otherwise.\<close>

fun manifest_supports_template_capabilities ::
  "CapabilityManifest \<Rightarrow> string list \<Rightarrow> bool \<times> string option" where
  "manifest_supports_template_capabilities manifest [] = (True, None)"
| "manifest_supports_template_capabilities manifest (capability # required) =
     (case MANIFEST_CAPABILITY_FIELDS capability of
        None \<Rightarrow> (False, Some (''unknown playbook capability '' @ capability))
      | Some field \<Rightarrow>
          (if field manifest \<noteq> CS_SUPPORTED
           then (False, Some (''playbook capability '' @ capability @ '' is ''
                              @ CapabilityState_value (field manifest)))
           else manifest_supports_template_capabilities manifest required))"

definition compute_playbook_binding_hash ::
  "(string \<Rightarrow> string) \<Rightarrow> PlaybookRef option \<Rightarrow> PlaybookActionTemplateSnapshot option \<Rightarrow> string" where
  "compute_playbook_binding_hash sha256 playbook_ref template_snapshot =
     (case playbook_ref of
        None \<Rightarrow> []
      | Some r \<Rightarrow>
          (let parts = [pb_release_id r, pb_bundle_content_hash r, pb_content_hash r,
                        string_of_int (pb_revision r)];
               parts = (case template_snapshot of
                          None \<Rightarrow> parts
                        | Some t \<Rightarrow> parts @ [ts_template_hash t])
           in sha256 (join ''|'' parts)))"

definition build_approval_binding_detail ::
  "(string \<Rightarrow> string) \<Rightarrow> Action \<Rightarrow> (string \<times> json) list" where
  "build_approval_binding_detail sha256 a =
     [(''plan_revision'', JNum (a_plan_revision a)),
      (''action_fingerprint'', JStr (a_action_fingerprint a)),
      (''policy_version'', JStr APPROVAL_POLICY_VERSION),
      (''policy_source'', JStr APPROVAL_POLICY_SOURCE),
      (''playbook_binding_hash'',
         JStr (compute_playbook_binding_hash sha256 (a_playbook_ref a)
                 (a_action_template_snapshot a))),
      (''playbook_ref'',
         (case a_playbook_ref a of
            None \<Rightarrow> JNull
          | Some r \<Rightarrow> JObj [(''release_id'', JStr (pb_release_id r)),
                            (''content_hash'', JStr (pb_content_hash r)),
                            (''bundle_content_hash'', JStr (pb_bundle_content_hash r)),
                            (''revision'', JNum (pb_revision r))])),
      (''action_template_snapshot'',
         (case a_action_template_snapshot a of
            None \<Rightarrow> JNull
          | Some t \<Rightarrow> JObj [(''required_capabilities'',
                               JList (map JStr (ts_required_capabilities t))),
                            (''template_hash'', JStr (ts_template_hash t))]))]"

text \<open>\<open>isinstance(v, int)\<close> holds of booleans too, which compare as 0 and 1.\<close>

fun json_int :: "json option \<Rightarrow> int option" where
  "json_int (Some (JNum n)) = Some n"
| "json_int (Some (JBool b)) = Some (if b then 1 else 0)"
| "json_int _ = None"

text \<open>\<open>isinstance(v, str)\<close> and not empty.\<close>

fun json_nonempty_str :: "json option \<Rightarrow> string option" where
  "json_nonempty_str (Some (JStr s)) = (if s = [] then None else Some s)"
| "json_nonempty_str _ = None"

definition validate_approval_binding ::
  "(string \<Rightarrow> string) \<Rightarrow> Action \<Rightarrow> json option \<Rightarrow> unit res" where
  "validate_approval_binding sha256 a detail =
     (if a_playbook_ref a = None then Inr ()
      else (case detail of
        None \<Rightarrow> Inl (ValidationError ''binding_detail_missing'')
      | Some d \<Rightarrow>
      (case json_int (json_get d ''plan_revision'') of
        None \<Rightarrow> Inl (ValidationError ''plan_revision_missing'')
      | Some bound_revision \<Rightarrow>
      if bound_revision \<noteq> a_plan_revision a
      then Inl (ValidationError ''plan_revision_mismatch'')
      else (case json_nonempty_str (json_get d ''action_fingerprint'') of
        None \<Rightarrow> Inl (ValidationError ''action_fingerprint_missing'')
      | Some bound_fingerprint \<Rightarrow>
      if bound_fingerprint \<noteq> a_action_fingerprint a
      then Inl (ValidationError ''action_fingerprint_mismatch'')
      else (case json_nonempty_str (json_get d ''policy_version'') of
        None \<Rightarrow> Inl (ValidationError ''policy_version_missing'')
      | Some bound_policy_version \<Rightarrow>
      if bound_policy_version \<noteq> APPROVAL_POLICY_VERSION
      then Inl (ValidationError ''policy_version_mismatch'')
      else (case json_nonempty_str (json_get d ''playbook_binding_hash'') of
        None \<Rightarrow> Inl (ValidationError ''playbook_binding_hash_missing'')
      | Some bound_hash \<Rightarrow>
      if compute_playbook_binding_hash sha256 (a_playbook_ref a) (a_action_template_snapshot a)
           \<noteq> bound_hash
      then Inl (ValidationError ''playbook_binding_mismatch'')
      else Inr ()))))))"

section \<open>What the binding guarantees\<close>

text \<open>The content an approval of an action is bound to.\<close>

definition binding_content :: "Action \<Rightarrow> string list option" where
  "binding_content a =
     (case a_playbook_ref a of
        None \<Rightarrow> None
      | Some r \<Rightarrow> Some ([pb_release_id r, pb_bundle_content_hash r, pb_content_hash r,
                         string_of_int (pb_revision r)]
                        @ (case a_action_template_snapshot a of
                             None \<Rightarrow> [] | Some t \<Rightarrow> [ts_template_hash t])))"

lemma binding_hash_content:
  "compute_playbook_binding_hash sha256 (a_playbook_ref a) (a_action_template_snapshot a) =
     (case binding_content a of None \<Rightarrow> [] | Some parts \<Rightarrow> sha256 (join ''|'' parts))"
  by (simp add: compute_playbook_binding_hash_def binding_content_def Let_def
      split: option.splits)

lemma binding_detail_get:
  "json_get (JObj (build_approval_binding_detail sha256 a)) ''plan_revision''
     = Some (JNum (a_plan_revision a))"
  "json_get (JObj (build_approval_binding_detail sha256 a)) ''action_fingerprint''
     = Some (JStr (a_action_fingerprint a))"
  "json_get (JObj (build_approval_binding_detail sha256 a)) ''policy_version''
     = Some (JStr APPROVAL_POLICY_VERSION)"
  "json_get (JObj (build_approval_binding_detail sha256 a)) ''playbook_binding_hash''
     = Some (JStr (compute_playbook_binding_hash sha256 (a_playbook_ref a)
                     (a_action_template_snapshot a)))"
  by (simp_all add: build_approval_binding_detail_def)

lemma binding_check_iff:
  "validate_approval_binding sha256 b (Some (JObj (build_approval_binding_detail sha256 a)))
     = Inr () \<longleftrightarrow>
   a_playbook_ref b = None
   \<or> a_plan_revision a = a_plan_revision b \<and> a_action_fingerprint a = a_action_fingerprint b
     \<and> a_action_fingerprint a \<noteq> []
     \<and> compute_playbook_binding_hash sha256 (a_playbook_ref a) (a_action_template_snapshot a) \<noteq> []
     \<and> compute_playbook_binding_hash sha256 (a_playbook_ref b) (a_action_template_snapshot b)
        = compute_playbook_binding_hash sha256 (a_playbook_ref a) (a_action_template_snapshot a)"
  by (auto simp: validate_approval_binding_def binding_detail_get APPROVAL_POLICY_VERSION_def
      simp del: json_get.simps)

text \<open>C33: An approval binds what was approved. If SHA-256 has no collisions and no empty
  digest, a playbook-pinned action passes the check against the evidence recorded for
  an action exactly when plan revision, fingerprint and bound playbook text (release,
  bundle hash, content hash, revision and template hash, joined) are the approved
  ones; the evidence of the action itself always passes when its fingerprint is not
  empty.\<close>

theorem approval_binding_detects_drift:
  assumes "inj sha256" and "\<And>s. sha256 s \<noteq> []" and "a_playbook_ref b \<noteq> None"
  shows "validate_approval_binding sha256 b
           (Some (JObj (build_approval_binding_detail sha256 a))) = Inr () \<longleftrightarrow>
         a_plan_revision a = a_plan_revision b
         \<and> a_action_fingerprint a = a_action_fingerprint b \<and> a_action_fingerprint b \<noteq> []
         \<and> map_option (join ''|'') (binding_content a) = map_option (join ''|'') (binding_content b)"
proof -
  from assms(3) obtain parts where "binding_content b = Some parts"
    by (auto simp: binding_content_def)
  with assms show ?thesis
    by (auto simp: binding_check_iff binding_hash_content inj_eq split: option.splits)
qed

definition example_pinned :: Action where
  "example_pinned =
     \<lparr> a_action_id = ''act-1'', a_event_id = ''evt-1'', a_plan_revision = 2,
       a_action_fingerprint = ''fp'', a_action_category = AC_RESPONSE,
       a_tool_name = ''isolate_host'', a_action_level = L2, a_execution_phase = AP_IMMEDIATE,
       a_activation_condition = None, a_approved_terminal_dispositions = [],
       a_status = AS_APPROVED, a_auto_execute = False,
       a_playbook_ref = Some \<lparr> pb_release_id = ''r1'', pb_bundle_content_hash = ''bh'',
         pb_content_hash = ''ch'', pb_revision = 1 \<rparr>,
       a_action_template_snapshot = None, a_execution_owner = Some EO_DIRECT_TOOL,
       a_execution_job_id = None, a_writeback_required = False,
       a_writeback_applicable = False, a_writeback_readiness = WR_NOT_REQUIRED,
       a_writeback_status = None, a_disposition_source_ref = None,
       a_superseded_by_revision = None, a_approved_operation_template_hash = None,
       a_target_type = Some ''host'', a_target = Some ''web-1'', a_idempotency_key = None \<rparr>"

theorem approval_binding_detects_drift_witness:
  "validate_approval_binding (\<lambda>s. CHR ''h'' # s) example_pinned
     (Some (JObj (build_approval_binding_detail (\<lambda>s. CHR ''h'' # s) example_pinned))) = Inr ()
   \<and> validate_approval_binding (\<lambda>s. CHR ''h'' # s) (example_pinned\<lparr>a_plan_revision := 3\<rparr>)
     (Some (JObj (build_approval_binding_detail (\<lambda>s. CHR ''h'' # s) example_pinned))) \<noteq> Inr ()"
proof -
  have inj: "inj (\<lambda>s. CHR ''h'' # s)" by (simp add: inj_def)
  show ?thesis
    by (simp add: approval_binding_detects_drift [OF inj] example_pinned_def)
qed

end
