(* ===== verification/Config_Auth.thy ===== *)
theory Config_Auth
  imports Workflow
begin

text \<open>
  The settings and the caller identity the services consult: mock-mode detection of
  \<open>core/config.py\<close>, the side-effect fence of
  \<open>services/writeback_side_effect_fence.py\<close>, the roles of \<open>core/auth.py\<close> and the
  approval policy of \<open>services/action_approval_policy.py\<close>. Durations are integers in
  microseconds.
\<close>

record Settings =
  cfg_disposition_mode :: string
  cfg_allow_xdr_writeback :: bool
  cfg_block_live_action_execution :: bool
  cfg_action_execution_lease_us :: int
  cfg_action_execution_max_attempts :: int
  cfg_action_execution_reconcile_enabled :: bool
  cfg_approval_timeout_minutes :: int
  cfg_auto_response_enabled :: bool
  cfg_auto_response_max_auto_level :: string

definition normalize_mode_value :: "string \<Rightarrow> string" where
  "normalize_mode_value value = map lower_char (strip value)"

definition is_mock_disposition_mode :: "string \<Rightarrow> bool" where
  "is_mock_disposition_mode value \<longleftrightarrow> normalize_mode_value value \<in> {''mock_xdr''}"

section \<open>The side-effect fence\<close>

definition assert_action_execution_not_frozen :: "Settings \<Rightarrow> unit res" where
  "assert_action_execution_not_frozen settings =
     (if cfg_block_live_action_execution settings
      then Inl (ValidationError ''live action execution is frozen'') else Inr ())"

definition assert_xdr_writeback_allowed :: "Settings \<Rightarrow> ExecutionOwner \<Rightarrow> unit res" where
  "assert_xdr_writeback_allowed settings execution_owner =
     (if execution_owner \<noteq> EO_XDR_MANAGED then Inr ()
      else if \<not> is_mock_disposition_mode (cfg_disposition_mode settings)
              \<and> \<not> cfg_allow_xdr_writeback settings
      then Inl (ValidationError ''xdr writeback is not enabled for live disposition mode'')
      else Inr ())"

definition assert_writeback_side_effects_allowed ::
  "Settings \<Rightarrow> ExecutionOwner option \<Rightarrow> unit res" where
  "assert_writeback_side_effects_allowed settings execution_owner =
     bind_res (assert_action_execution_not_frozen settings) (\<lambda>_.
     (case execution_owner of
        None \<Rightarrow> Inr ()
      | Some owner \<Rightarrow> assert_xdr_writeback_allowed settings owner))"

lemma fence_iff:
  "assert_writeback_side_effects_allowed settings owner = Inr () \<longleftrightarrow>
     \<not> cfg_block_live_action_execution settings
     \<and> (owner = Some EO_XDR_MANAGED \<longrightarrow>
          is_mock_disposition_mode (cfg_disposition_mode settings)
          \<or> cfg_allow_xdr_writeback settings)"
  by (auto simp: assert_writeback_side_effects_allowed_def assert_xdr_writeback_allowed_def
      assert_action_execution_not_frozen_def split: option.splits if_splits)

section \<open>Principals\<close>

definition ROLE_ADMIN :: string where "ROLE_ADMIN = ''admin''"

record Principal =
  pr_subject :: string
  pr_roles :: "string list"

definition has_any_role :: "Principal \<Rightarrow> string list \<Rightarrow> bool" where
  "has_any_role p roles \<longleftrightarrow>
     list_ex (\<lambda>r. r \<in> set (pr_roles p)) roles \<or> ROLE_ADMIN \<in> set (pr_roles p)"

section \<open>Approval policy\<close>

primrec action_level_rank :: "ActionLevel \<Rightarrow> nat" where
  "action_level_rank L0 = 0"
| "action_level_rank L1 = 1"
| "action_level_rank L2 = 2"
| "action_level_rank L3 = 3"
| "action_level_rank L4 = 4"
| "action_level_rank L5 = 5"

lemma action_level_rank_inject: "action_level_rank a = action_level_rank b \<Longrightarrow> a = b"
  by (cases a; cases b) simp_all

instantiation ActionLevel :: linorder
begin

definition less_eq_ActionLevel :: "ActionLevel \<Rightarrow> ActionLevel \<Rightarrow> bool" where
  "less_eq_ActionLevel a b \<longleftrightarrow> action_level_rank a \<le> action_level_rank b"

definition less_ActionLevel :: "ActionLevel \<Rightarrow> ActionLevel \<Rightarrow> bool" where
  "less_ActionLevel a b \<longleftrightarrow> action_level_rank a < action_level_rank b"

instance
  by standard
     (auto simp: less_eq_ActionLevel_def less_ActionLevel_def intro: action_level_rank_inject)

end

text \<open>
  \<open>(raw or "L1").strip()\<close>, then the parsed label, or \<open>L1\<close> when it is unknown.
\<close>

definition resolve_runtime_max_auto_level :: "Settings \<Rightarrow> ActionLevel option" where
  "resolve_runtime_max_auto_level settings =
     (if \<not> cfg_auto_response_enabled settings then None
      else
        let raw = strip (if cfg_auto_response_max_auto_level settings = [] then ''L1''
                         else cfg_auto_response_max_auto_level settings)
        in (case parse_action_level_label raw of Some l \<Rightarrow> Some l | None \<Rightarrow> Some L1))"

end
