(* ===== verification/Close_Gate.thy ===== *)
theory Close_Gate
  imports Workflow
begin

text \<open>
  The guards of an event transition in \<open>backend/app/models/workflow.py\<close>: the
  context a transition is judged in, the required-writeback predicate, the
  \<open>CLOSED\<close> gate, the triage special cases, the verdict rules and their
  composition \<open>validate_transition\<close>.
\<close>

section \<open>Gate views\<close>

record ClosedGateActionView =
  cg_action_id :: string
  cg_action_category :: ActionCategory
  cg_writeback_required :: bool
  cg_writeback_applicable :: bool
  cg_writeback_readiness :: WritebackReadiness
  cg_writeback_status :: "WritebackStatus option"
  cg_has_command :: bool
  cg_all_required_intents_confirmed :: bool
  cg_worst_unconfirmed_outbox_status :: "WritebackStatus option"
  cg_execution_phase :: ActionExecutionPhase
  cg_tool_name :: "string option"
  cg_approved_terminal_dispositions :: "SourceDisposition list"
  cg_superseded :: bool
  cg_rejected :: bool
  cg_has_job_or_outbox :: bool

definition CLOSED_TERMINAL_STRONG_CONFIRMATION_EVIDENCE :: "ConfirmationEvidence set" where
  "CLOSED_TERMINAL_STRONG_CONFIRMATION_EVIDENCE = {CE_READBACK_VERIFIED, CE_MANUAL_CONFIRMED}"

record TerminalEventWritebackView =
  tw_action_id :: string
  tw_disposition_id :: string
  tw_writeback_id :: string
  tw_closure_cycle :: int
  tw_intent_kind :: DispositionIntentKind
  tw_approved_disposition :: SourceDisposition
  tw_actual_disposition :: SourceDisposition
  tw_receipt_status :: WritebackStatus
  tw_plan_revision :: int
  tw_simulated :: "bool option"
  tw_confirmation_evidence :: "ConfirmationEvidence option"

record TransitionContext =
  cx_final_verdict :: "FinalVerdict option"
  cx_need_investigation :: "bool option"
  cx_disposition_only_intent :: bool
  cx_disposition_policy :: "DispositionPolicy option"
  cx_severity :: "Severity option"
  cx_recommendation :: "string option"
  cx_response_actions_are_disposition_only :: "bool option"
  cx_has_entity_side_effect_actions :: bool
  cx_report_exists :: bool
  cx_force_close :: bool
  cx_applicable_required_actions :: "ClosedGateActionView list"
  cx_terminal_event_writeback :: "TerminalEventWritebackView option"
  cx_current_plan_revision :: "int option"
  cx_current_closure_cycle :: "int option"
  cx_escalated :: bool
  cx_disposition_is_mock :: bool
  cx_side_effect_convergence :: "SideEffectConvergenceSummary option"

text \<open>\<open>TransitionContext()\<close>: every field at its default.\<close>

definition default_TransitionContext :: TransitionContext where
  "default_TransitionContext =
     \<lparr> cx_final_verdict = None, cx_need_investigation = None,
       cx_disposition_only_intent = False, cx_disposition_policy = None,
       cx_severity = None, cx_recommendation = None,
       cx_response_actions_are_disposition_only = None,
       cx_has_entity_side_effect_actions = False, cx_report_exists = False,
       cx_force_close = False, cx_applicable_required_actions = [],
       cx_terminal_event_writeback = None, cx_current_plan_revision = None,
       cx_current_closure_cycle = None, cx_escalated = False,
       cx_disposition_is_mock = False, cx_side_effect_convergence = None \<rparr>"

section \<open>The required-writeback predicate\<close>

datatype WritebackCloseGateReason =
    NO_APPLICABLE
  | READINESS_NOT_READY
  | NO_COMMAND
  | INTENTS_NOT_CONFIRMED
  | STATUS_NOT_CONFIRMED

record WritebackCloseGateViolation =
  wv_reason :: WritebackCloseGateReason
  wv_action_id :: "string option"
  wv_writeback_readiness :: "WritebackReadiness option"
  wv_writeback_status :: "WritebackStatus option"

definition filter_applicable_required_writeback_actions ::
  "ClosedGateActionView list \<Rightarrow> ClosedGateActionView list" where
  "filter_applicable_required_writeback_actions actions =
     filter (\<lambda>a. cg_writeback_required a \<and> cg_writeback_applicable a
                 \<and> cg_action_category a \<in> {AC_RESPONSE, AC_ROLLBACK}
                 \<and> \<not> cg_superseded a \<and> \<not> cg_rejected a) actions"

text \<open>One iteration of the loop over the applicable actions; \<open>None\<close> continues.\<close>

definition writeback_violation :: "ClosedGateActionView \<Rightarrow> WritebackCloseGateViolation option" where
  "writeback_violation a =
     (if cg_writeback_readiness a \<noteq> WR_READY
      then Some \<lparr> wv_reason = READINESS_NOT_READY, wv_action_id = Some (cg_action_id a),
                  wv_writeback_readiness = Some (cg_writeback_readiness a),
                  wv_writeback_status = None \<rparr>
      else if \<not> cg_has_command a
      then Some \<lparr> wv_reason = NO_COMMAND, wv_action_id = Some (cg_action_id a),
                  wv_writeback_readiness = None, wv_writeback_status = None \<rparr>
      else if \<not> cg_all_required_intents_confirmed a
      then Some \<lparr> wv_reason = INTENTS_NOT_CONFIRMED, wv_action_id = Some (cg_action_id a),
                  wv_writeback_readiness = None,
                  wv_writeback_status =
                    (case cg_worst_unconfirmed_outbox_status a of
                       Some w \<Rightarrow> Some w | None \<Rightarrow> cg_writeback_status a) \<rparr>
      else if cg_writeback_status a \<noteq> Some WB_CONFIRMED
      then Some \<lparr> wv_reason = STATUS_NOT_CONFIRMED, wv_action_id = Some (cg_action_id a),
                  wv_writeback_readiness = None,
                  wv_writeback_status = cg_writeback_status a \<rparr>
      else None)"

definition check_required_writeback_close_gate ::
  "ClosedGateActionView list \<Rightarrow> WritebackCloseGateViolation option" where
  "check_required_writeback_close_gate actions =
     (let applicable = filter_applicable_required_writeback_actions actions in
      if applicable = []
      then Some \<lparr> wv_reason = NO_APPLICABLE, wv_action_id = None,
                  wv_writeback_readiness = None, wv_writeback_status = None \<rparr>
      else first_some writeback_violation applicable)"

definition raise_closed_gate_writeback_error :: "WritebackCloseGateViolation \<Rightarrow> unit res" where
  "raise_closed_gate_writeback_error v =
     (case wv_reason v of
        NO_APPLICABLE \<Rightarrow> closed_err Closed_no_applicable
      | READINESS_NOT_READY \<Rightarrow>
          closed_err (Closed_readiness_not_ready (wv_action_id v) (wv_writeback_readiness v))
      | NO_COMMAND \<Rightarrow> closed_err (Closed_no_command (wv_action_id v))
      | INTENTS_NOT_CONFIRMED \<Rightarrow>
          closed_err (Closed_intents_not_confirmed (wv_action_id v) (wv_writeback_status v))
      | STATUS_NOT_CONFIRMED \<Rightarrow>
          closed_err (Closed_status_not_confirmed (wv_action_id v) (wv_writeback_status v)))"

section \<open>Side-effect convergence at the gate\<close>

text \<open>
  \<open>check_gate_applicable_side_effect_convergence\<close> and
  \<open>raise_side_effect_convergence_error\<close> of \<open>services/side_effect_convergence.py\<close>,
  which the gate imports.
\<close>

definition gate_violation ::
  "OutstandingSideEffectView \<Rightarrow> SideEffectConvergenceViolation option" where
  "gate_violation view =
     (if ov_scope view \<noteq> GATE_APPLICABLE then None
      else (case ov_blocking_reason view of
              None \<Rightarrow> None
            | Some r \<Rightarrow>
                Some \<lparr> vi_reason = r, vi_action_id = ov_action_id view,
                       vi_scope = ov_scope view,
                       vi_convergence_policy = ov_convergence_policy view \<rparr>))"

definition check_gate_applicable_side_effect_convergence ::
  "SideEffectConvergenceSummary \<Rightarrow> SideEffectConvergenceViolation option" where
  "check_gate_applicable_side_effect_convergence summary =
     first_some gate_violation (sm_outstanding_actions summary)"

definition raise_side_effect_convergence_error ::
  "SideEffectConvergenceViolation \<Rightarrow> unit res" where
  "raise_side_effect_convergence_error v = closed_err (Closed_side_effects_pending v)"

section \<open>The CLOSED gate\<close>

text \<open>The checks of \<open>validate_closed_gate\<close> on the terminal writeback, in order.\<close>

definition validate_terminal_writeback ::
  "TransitionContext \<Rightarrow> TerminalEventWritebackView \<Rightarrow> unit res" where
  "validate_terminal_writeback ctx t =
     (if tw_intent_kind t \<noteq> IK_EVENT_STATUS_UPDATE
      then closed_err (Closed_terminal_kind (tw_intent_kind t))
      else if cx_current_plan_revision ctx \<noteq> None
              \<and> cx_current_plan_revision ctx \<noteq> Some (tw_plan_revision t)
      then closed_err (Closed_plan_revision_mismatch
             (tw_plan_revision t) (the (cx_current_plan_revision ctx)))
      else if cx_current_closure_cycle ctx \<noteq> None
              \<and> cx_current_closure_cycle ctx \<noteq> Some (tw_closure_cycle t)
      then closed_err (Closed_closure_cycle_mismatch
             (tw_closure_cycle t) (the (cx_current_closure_cycle ctx)))
      else if tw_approved_disposition t \<notin> TERMINAL_SOURCE_DISPOSITIONS
      then closed_err (Closed_approved_not_terminal (tw_approved_disposition t))
      else if tw_actual_disposition t \<notin> TERMINAL_SOURCE_DISPOSITIONS
      then closed_err (Closed_actual_not_terminal (tw_actual_disposition t))
      else if tw_actual_disposition t \<noteq> tw_approved_disposition t
      then closed_err (Closed_disposition_mismatch
             (tw_approved_disposition t) (tw_actual_disposition t))
      else if tw_receipt_status t \<noteq> WB_CONFIRMED
      then closed_err (Closed_receipt_not_confirmed (tw_receipt_status t))
      else if \<not> cx_disposition_is_mock ctx \<and> tw_simulated t \<noteq> Some False
      then closed_err (Closed_simulated_receipt_rejected (tw_simulated t))
      else if \<not> cx_disposition_is_mock ctx
              \<and> (case tw_confirmation_evidence t of
                    None \<Rightarrow> True
                  | Some e \<Rightarrow> e \<notin> CLOSED_TERMINAL_STRONG_CONFIRMATION_EVIDENCE)
      then closed_err (Closed_weak_confirmation_evidence (tw_confirmation_evidence t))
      else Inr ())"

definition validate_closed_gate :: "TransitionContext \<Rightarrow> unit res" where
  "validate_closed_gate ctx =
     (if \<not> cx_report_exists ctx then closed_err Closed_requires_report
      else (case cx_disposition_policy ctx of
        Some DP_NOT_REQUIRED \<Rightarrow> Inr ()
      | None \<Rightarrow> closed_err Closed_requires_policy
      | Some DP_REQUIRED \<Rightarrow>
          (case cx_side_effect_convergence ctx of
             None \<Rightarrow> closed_err Closed_convergence_missing
           | Some summary \<Rightarrow>
          (case check_gate_applicable_side_effect_convergence summary of
             Some v \<Rightarrow> raise_side_effect_convergence_error v
           | None \<Rightarrow>
          (case check_required_writeback_close_gate (cx_applicable_required_actions ctx) of
             Some v \<Rightarrow> raise_closed_gate_writeback_error v
           | None \<Rightarrow>
          (case cx_terminal_event_writeback ctx of
             None \<Rightarrow> closed_err Closed_terminal_missing
           | Some t \<Rightarrow> validate_terminal_writeback ctx t))))))"

section \<open>Triage and verdict rules\<close>

definition is_fp_signal :: "TransitionContext \<Rightarrow> bool" where
  "is_fp_signal ctx \<longleftrightarrow>
     cx_final_verdict ctx = Some FV_FALSE_POSITIVE \<or> cx_recommendation ctx = Some ''close_as_fp''"

definition validate_triaging_to_closed :: "TransitionContext \<Rightarrow> unit res" where
  "validate_triaging_to_closed ctx =
     (if cx_disposition_policy ctx \<noteq> Some DP_NOT_REQUIRED
      then event_err (Triaging_closed_needs_not_required (cx_disposition_policy ctx))
      else if \<not> (cx_severity ctx = Some SEV_LOW \<or> is_fp_signal ctx)
      then event_err Triaging_closed_needs_low_or_fp
      else Inr ())"

definition validate_triaging_to_disposition_only :: "TransitionContext \<Rightarrow> unit res" where
  "validate_triaging_to_disposition_only ctx =
     (if \<not> is_fp_signal ctx then event_err Disposition_only_needs_fp_signal
      else if \<not> cx_disposition_only_intent ctx then event_err Disposition_only_needs_intent
      else Inr ())"

definition validate_verdict_status ::
  "FinalVerdict \<Rightarrow> EventStatus \<Rightarrow> TransitionContext \<Rightarrow> unit res" where
  "validate_verdict_status verdict status ctx =
     (if status \<notin> VERDICT_STATUS_RULES verdict then Inr ()
      else if verdict = FV_FALSE_POSITIVE \<and> cx_disposition_only_intent ctx
              \<and> status = ES_PLANNING_RESPONSE
      then Inr ()
      else if verdict = FV_FALSE_POSITIVE \<and> cx_disposition_only_intent ctx
              \<and> status \<in> {ES_WAITING_APPROVAL, ES_EXECUTING_RESPONSE, ES_VERIFYING,
                            ES_PLANNING_RESPONSE}
              \<and> cx_has_entity_side_effect_actions ctx
      then Inl (InvalidVerdictStatusCombinationError Entity_side_effects_in_fp_plan)
      else if verdict = FV_FALSE_POSITIVE \<and> cx_disposition_only_intent ctx
              \<and> status \<in> {ES_WAITING_APPROVAL, ES_EXECUTING_RESPONSE, ES_VERIFYING,
                            ES_PLANNING_RESPONSE}
              \<and> cx_response_actions_are_disposition_only ctx = Some False
      then Inl (InvalidVerdictStatusCombinationError Fp_plan_not_disposition_only)
      else if verdict = FV_FALSE_POSITIVE \<and> cx_disposition_only_intent ctx
              \<and> status \<in> {ES_WAITING_APPROVAL, ES_EXECUTING_RESPONSE, ES_VERIFYING,
                            ES_PLANNING_RESPONSE}
              \<and> cx_response_actions_are_disposition_only ctx = Some True
      then Inr ()
      else Inl (InvalidVerdictStatusCombinationError (Verdict_illegal_with_status verdict status)))"

definition validate_transition ::
  "TransitionContext \<Rightarrow> EventStatus \<Rightarrow> EventStatus \<Rightarrow> unit res" where
  "validate_transition ctx current target =
     (if current = ES_CLOSED then event_err (Closed_is_terminal target)
      else if \<not> edge_allowed STATE_TRANSITIONS current target
      then event_err (Illegal_transition current target)
      else if cx_force_close ctx then event_err Force_close_not_allowed
      else
        bind_res (if current = ES_TRIAGING \<and> target = ES_CLOSED
                  then validate_triaging_to_closed ctx else Inr ()) (\<lambda>_.
        bind_res (if current = ES_TRIAGING \<and> target = ES_PLANNING_RESPONSE
                  then validate_triaging_to_disposition_only ctx else Inr ()) (\<lambda>_.
        bind_res (if target = ES_CLOSED then validate_closed_gate ctx else Inr ()) (\<lambda>_.
        (case cx_final_verdict ctx of
           None \<Rightarrow> Inr ()
         | Some v \<Rightarrow> validate_verdict_status v target ctx)))))"

section \<open>Lemmas\<close>

text \<open>What the predicate asks of one applicable action.\<close>

definition writeback_settled :: "ClosedGateActionView \<Rightarrow> bool" where
  "writeback_settled a \<longleftrightarrow>
     cg_writeback_readiness a = WR_READY \<and> cg_has_command a
     \<and> cg_all_required_intents_confirmed a \<and> cg_writeback_status a = Some WB_CONFIRMED"

lemma writeback_violation_None_iff: "writeback_violation a = None \<longleftrightarrow> writeback_settled a"
  by (simp add: writeback_violation_def writeback_settled_def)

lemma check_required_writeback_None_iff:
  "check_required_writeback_close_gate as = None \<longleftrightarrow>
     filter_applicable_required_writeback_actions as \<noteq> []
     \<and> (\<forall>a\<in>set (filter_applicable_required_writeback_actions as). writeback_settled a)"
  by (simp add: check_required_writeback_close_gate_def Let_def first_some_None_iff
      writeback_violation_None_iff)

lemma raise_closed_gate_writeback_error_Inl [simp]:
  "raise_closed_gate_writeback_error v \<noteq> Inr u"
  by (simp add: raise_closed_gate_writeback_error_def split: WritebackCloseGateReason.splits)

lemma gate_violation_None_iff:
  "gate_violation v = None \<longleftrightarrow> ov_scope v \<noteq> GATE_APPLICABLE \<or> ov_blocking_reason v = None"
  by (auto simp: gate_violation_def split: option.splits)

lemma check_gate_applicable_None_iff:
  "check_gate_applicable_side_effect_convergence s = None \<longleftrightarrow>
     (\<forall>v\<in>set (sm_outstanding_actions s).
        ov_scope v \<noteq> GATE_APPLICABLE \<or> ov_blocking_reason v = None)"
  by (simp add: check_gate_applicable_side_effect_convergence_def first_some_None_iff
      gate_violation_None_iff)

text \<open>The conditions of an acceptable terminal writeback, as one predicate.\<close>

definition terminal_writeback_sound :: "TransitionContext \<Rightarrow> TerminalEventWritebackView \<Rightarrow> bool"
where
  "terminal_writeback_sound ctx t \<longleftrightarrow>
     tw_intent_kind t = IK_EVENT_STATUS_UPDATE
     \<and> cx_current_plan_revision ctx \<in> {None, Some (tw_plan_revision t)}
     \<and> cx_current_closure_cycle ctx \<in> {None, Some (tw_closure_cycle t)}
     \<and> tw_approved_disposition t \<in> TERMINAL_SOURCE_DISPOSITIONS
     \<and> tw_actual_disposition t = tw_approved_disposition t
     \<and> tw_receipt_status t = WB_CONFIRMED
     \<and> (cx_disposition_is_mock ctx
         \<or> tw_simulated t = Some False
           \<and> tw_confirmation_evidence t \<in> Some ` CLOSED_TERMINAL_STRONG_CONFIRMATION_EVIDENCE)"

lemma validate_terminal_writeback_iff:
  "validate_terminal_writeback ctx t = Inr () \<longleftrightarrow> terminal_writeback_sound ctx t"
  by (auto simp: validate_terminal_writeback_def terminal_writeback_sound_def
      split: option.splits)

lemma validate_closed_gate_iff:
  "validate_closed_gate ctx = Inr () \<longleftrightarrow>
     cx_report_exists ctx
     \<and> (cx_disposition_policy ctx = Some DP_NOT_REQUIRED
        \<or> cx_disposition_policy ctx = Some DP_REQUIRED
          \<and> (\<exists>s. cx_side_effect_convergence ctx = Some s
                 \<and> check_gate_applicable_side_effect_convergence s = None)
          \<and> check_required_writeback_close_gate (cx_applicable_required_actions ctx) = None
          \<and> (\<exists>t. cx_terminal_event_writeback ctx = Some t \<and> terminal_writeback_sound ctx t))"
  by (auto simp: validate_closed_gate_def validate_terminal_writeback_iff
      raise_side_effect_convergence_error_def
      split: option.splits DispositionPolicy.splits if_splits)

abbreviation event_accepts :: "TransitionContext \<Rightarrow> EventStatus \<Rightarrow> EventStatus \<Rightarrow> bool" where
  "event_accepts ctx s t \<equiv> validate_transition ctx s t = Inr ()"

lemma event_accepts_iff:
  "event_accepts ctx s t \<longleftrightarrow>
     edge_allowed STATE_TRANSITIONS s t \<and> \<not> cx_force_close ctx
     \<and> (s = ES_TRIAGING \<and> t = ES_CLOSED \<longrightarrow> validate_triaging_to_closed ctx = Inr ())
     \<and> (s = ES_TRIAGING \<and> t = ES_PLANNING_RESPONSE
          \<longrightarrow> validate_triaging_to_disposition_only ctx = Inr ())
     \<and> (t = ES_CLOSED \<longrightarrow> validate_closed_gate ctx = Inr ())
     \<and> (\<forall>v. cx_final_verdict ctx = Some v \<longrightarrow> validate_verdict_status v t ctx = Inr ())"
  by (cases "s = ES_CLOSED")
     (auto simp: validate_transition_def edge_allowed_def split: option.splits)

interpretation event_machine: guarded_table STATE_TRANSITIONS event_accepts
  by unfold_locales (simp add: event_accepts_iff edge_allowed_def)

end
