(* ===== verification/Convergence.thy ===== *)
theory Convergence
  imports Close_Gate Store
begin

text \<open>
  The projections of the \<open>CLOSED\<close> gate from the database:
  \<open>services/writeback_close_gate.py\<close> (the required-writeback view of each action),
  \<open>services/side_effect_convergence.py\<close> (which side effects are outstanding) and
  \<open>models/verification_readiness.py\<close> (what the verification recorded).
  \<open>VerificationResult.model_validate\<close>, the JSON decoder generated by pydantic, is
  the parameter \<open>decode\<close>; it returns \<open>None\<close> where the decoder raises.
\<close>

section \<open>Verification results\<close>

datatype EffectStatus = EF_VERIFIED | EF_FAILED | EF_SKIPPED | EF_UNVERIFIABLE

datatype VerificationPhase = VP_EFFECT | VP_DISPOSITION

record VerificationActionResult =
  vr_action_id :: string
  vr_effect_status :: EffectStatus
  vr_detail :: "string option"
  vr_verification_phase :: "VerificationPhase option"

datatype VerificationOverallStatus = VO_SUCCESS | VO_PARTIAL | VO_FAILED | VO_WAITING | VO_MANUAL_RESOLUTION

record VerificationResult =
  vs_results :: "VerificationActionResult list"
  vs_overall_status :: VerificationOverallStatus
  vs_need_action_replan :: bool
  vs_need_manual_resolution :: bool
  vs_verification_phase :: VerificationPhase

type_synonym verification_decoder = "json \<Rightarrow> VerificationResult option"

definition IMMEDIATE_PENDING_SKIP_DETAILS :: "string set" where
  "IMMEDIATE_PENDING_SKIP_DETAILS =
     {''pending_execution'', ''approved_pending_execution'', ''action_not_executed''}"

definition has_immediate_effect_pending ::
  "VerificationResult option \<Rightarrow> VerificationActionResult list option \<Rightarrow> bool" where
  "has_immediate_effect_pending verification results =
     (let rows = (case results of
                    Some rs \<Rightarrow> rs
                  | None \<Rightarrow> (case verification of Some v \<Rightarrow> vs_results v | None \<Rightarrow> []))
      in list_ex (\<lambda>item. vr_effect_status item = EF_SKIPPED
                    \<and> (case vr_detail item of
                          None \<Rightarrow> False
                        | Some d \<Rightarrow> d \<in> IMMEDIATE_PENDING_SKIP_DETAILS)) rows)"

definition applicable_effect_results ::
  "VerificationResult option \<Rightarrow> VerificationActionResult list" where
  "applicable_effect_results verification =
     (case verification of
        None \<Rightarrow> []
      | Some v \<Rightarrow> filter (\<lambda>item. \<not> (vr_effect_status item = EF_SKIPPED
                        \<and> vr_detail item = Some ''deferred_pending_activation'')) (vs_results v))"

definition has_unverified_applicable_effects :: "VerificationResult option \<Rightarrow> bool" where
  "has_unverified_applicable_effects verification =
     (let applicable = applicable_effect_results verification in
      if applicable = [] then False
      else \<not> list_all (\<lambda>item. vr_effect_status item = EF_VERIFIED) applicable)"

text \<open>The loop returns \<open>True\<close> at the first verified effect-phase row of the action.\<close>

fun effect_row_verified :: "VerificationActionResult list \<Rightarrow> string \<Rightarrow> bool" where
  "effect_row_verified [] action_id = False"
| "effect_row_verified (item # items) action_id =
     (if vr_action_id item \<noteq> action_id then effect_row_verified items action_id
      else if vr_verification_phase item \<noteq> Some VP_EFFECT
      then effect_row_verified items action_id
      else if vr_effect_status item = EF_VERIFIED then True
      else effect_row_verified items action_id)"

definition entity_effect_verified_for_action ::
  "VerificationResult option \<Rightarrow> string \<Rightarrow> bool" where
  "entity_effect_verified_for_action verification action_id =
     (case verification of
        None \<Rightarrow> False
      | Some v \<Rightarrow> effect_row_verified (vs_results v) action_id)"

section \<open>The writeback view of an action\<close>

definition all_intents_confirmed_for_action :: "database \<Rightarrow> string \<Rightarrow> bool" where
  "all_intents_confirmed_for_action db action_id =
     (let outboxes = filter (\<lambda>ob. ob_action_id ob = action_id
                        \<and> ob_superseded_by_disposition_id ob = None) (db_outboxes db) in
      if outboxes = [] then False
      else list_all (\<lambda>ob. ob_latest_writeback_status ob = Some (WritebackStatus_value WB_CONFIRMED))
             outboxes)"

definition worst_unconfirmed_outbox_status :: "outbox_row list \<Rightarrow> WritebackStatus option" where
  "worst_unconfirmed_outbox_status outboxes =
     (let parsed = List.map_filter (\<lambda>ob.
            (case ob_latest_writeback_status ob of
               None \<Rightarrow> None
             | Some raw \<Rightarrow>
                 if raw = WritebackStatus_value WB_CONFIRMED then None
                 else WritebackStatus_parse raw)) outboxes in
      if parsed = [] then None
      else if WB_CONFLICT \<in> set parsed then Some WB_CONFLICT
      else if WB_FAILED \<in> set parsed then Some WB_FAILED
      else Some (hd parsed))"

text \<open>
  \<open>ORDER BY created_at, outbox_id\<close>: the outbox table is listed in the order of its
  primary key and \<open>sort_key\<close> is stable.
\<close>

definition load_active_outboxes :: "database \<Rightarrow> string \<Rightarrow> outbox_row list" where
  "load_active_outboxes db action_id =
     sort_key ob_created_at
       (filter (\<lambda>ob. ob_action_id ob = action_id \<and> ob_superseded_by_disposition_id ob = None)
          (db_outboxes db))"

definition action_has_job_or_outbox :: "database \<Rightarrow> string \<Rightarrow> bool" where
  "action_has_job_or_outbox db action_id =
     (case scalar (\<lambda>j. job_action_id j = action_id) (db_jobs db) of
        Some _ \<Rightarrow> True
      | None \<Rightarrow> scalar (\<lambda>ob. ob_action_id ob = action_id) (db_outboxes db) \<noteq> None)"

definition closed_gate_view :: "database \<Rightarrow> action_row \<Rightarrow> ClosedGateActionView res" where
  "closed_gate_view db a =
     bind_res (parse_or_raise ActionCategory_parse (act_action_category a)) (\<lambda>cat.
       let readiness =
             (if act_writeback_readiness a = [] then WR_NOT_CONFIGURED
              else (case WritebackReadiness_parse (act_writeback_readiness a) of
                      None \<Rightarrow> WR_NOT_CONFIGURED | Some r \<Rightarrow> r));
           wb_status =
             (case act_writeback_status a of
                None \<Rightarrow> None
              | Some raw \<Rightarrow> if raw = [] then None else WritebackStatus_parse raw);
           active_outboxes = load_active_outboxes db (act_action_id a);
           has_command = (active_outboxes \<noteq> []);
           all_confirmed =
             has_command
             \<and> list_all (\<lambda>ob. ob_latest_writeback_status ob
                               = Some (WritebackStatus_value WB_CONFIRMED)) active_outboxes;
           worst_outbox =
             (if has_command then worst_unconfirmed_outbox_status active_outboxes else None);
           approved_terminal =
             List.map_filter SourceDisposition_parse (act_approved_terminal_dispositions a);
           exec_phase_raw =
             (if act_execution_phase a = [] then ''immediate'' else act_execution_phase a);
           exec_phase =
             (case ActionExecutionPhase_parse exec_phase_raw of
                None \<Rightarrow> AP_IMMEDIATE | Some p \<Rightarrow> p)
       in Inr \<lparr> cg_action_id = act_action_id a,
                cg_action_category = cat,
                cg_writeback_required = act_writeback_required a,
                cg_writeback_applicable = act_writeback_applicable a,
                cg_writeback_readiness = readiness,
                cg_writeback_status = wb_status,
                cg_has_command = has_command,
                cg_all_required_intents_confirmed = all_confirmed,
                cg_worst_unconfirmed_outbox_status = worst_outbox,
                cg_execution_phase = exec_phase,
                cg_tool_name = Some (act_tool_name a),
                cg_approved_terminal_dispositions = approved_terminal,
                cg_superseded = (case act_superseded_by_revision a of
                                   None \<Rightarrow> False | Some n \<Rightarrow> n \<noteq> 0),
                cg_rejected = (act_status a = ActionStatus_value AS_REJECTED),
                cg_has_job_or_outbox = action_has_job_or_outbox db (act_action_id a) \<rparr>)"

definition RESPONSE_OR_ROLLBACK :: "string set" where
  "RESPONSE_OR_ROLLBACK =
     {ActionCategory_value AC_RESPONSE, ActionCategory_value AC_ROLLBACK}"

definition build_closed_gate_actions ::
  "database \<Rightarrow> string \<Rightarrow> int option \<Rightarrow> ClosedGateActionView list res" where
  "build_closed_gate_actions db event_id current_revision =
     (case current_revision of
        None \<Rightarrow> Inr []
      | Some rvn \<Rightarrow>
          map_res (closed_gate_view db)
            (filter (\<lambda>a. act_event_id a = event_id \<and> act_plan_revision a = rvn
                        \<and> act_action_category a \<in> RESPONSE_OR_ROLLBACK
                        \<and> act_superseded_by_revision a = None) (db_actions db)))"

section \<open>Side-effect convergence\<close>

definition ACTIVE_JOB_STATUSES :: "ExecutionJobStatus set" where
  "ACTIVE_JOB_STATUSES = {JS_QUEUED, JS_RUNNING}"

definition TERMINAL_JOB_STATUSES :: "ExecutionJobStatus set" where
  "TERMINAL_JOB_STATUSES = {JS_SUCCESS, JS_PARTIAL_SUCCESS}"

definition UNDELIVERED_OUTBOX_STATUSES :: "OutboxDeliveryStatus set" where
  "UNDELIVERED_OUTBOX_STATUSES =
     {OD_READY, OD_LEASED, OD_WAITING_RETRY, OD_PAUSED, OD_DEAD_LETTER}"

definition UNCONFIRMED_WRITEBACK_PRIORITIES :: "WritebackStatus list" where
  "UNCONFIRMED_WRITEBACK_PRIORITIES = [WB_CONFLICT, WB_FAILED, WB_SENDING, WB_PENDING]"

definition ENTITY_OUTBOX_FAILURE_STATUSES :: "WritebackStatus set" where
  "ENTITY_OUTBOX_FAILURE_STATUSES = {WB_FAILED, WB_CONFLICT}"

text \<open>\<open>models/disposition.py\<close>: entity operation codes, their target type and applied status.\<close>

definition ENTITY_ACTION_EFFECT_SPECS :: "string \<rightharpoonup> string \<times> string" where
  "ENTITY_ACTION_EFFECT_SPECS = map_of
     [(''block_ip'', (''ip'', ''blocked'')),
      (''block_domain'', (''domain'', ''blocked'')),
      (''block_process'', (''process'', ''blocked'')),
      (''isolate_host'', (''host'', ''isolated'')),
      (''quarantine_file'', (''file'', ''quarantined'')),
      (''scan_host_for_virus'', (''host'', ''completed'')),
      (''disable_account'', (''account'', ''disabled'')),
      (''force_logout'', (''account'', ''terminated'')),
      (''reset_password'', (''account'', ''password_reset'')),
      (''revoke_token'', (''account'', ''revoked''))]"

definition parse_action_status :: "string \<Rightarrow> ActionStatus" where
  "parse_action_status raw =
     (case ActionStatus_parse raw of None \<Rightarrow> AS_PENDING | Some s \<Rightarrow> s)"

definition parse_exec_phase :: "string \<Rightarrow> ActionExecutionPhase" where
  "parse_exec_phase raw =
     (if raw = [] then AP_IMMEDIATE
      else (case ActionExecutionPhase_parse raw of None \<Rightarrow> AP_IMMEDIATE | Some p \<Rightarrow> p))"

definition action_has_active_job ::
  "string \<Rightarrow> (string \<rightharpoonup> job_row) \<Rightarrow> ExecutionJobStatus option" where
  "action_has_active_job action_id jobs_by_action =
     (case jobs_by_action action_id of
        None \<Rightarrow> None
      | Some job \<Rightarrow>
          (case ExecutionJobStatus_parse (job_status job) of
             None \<Rightarrow> None
           | Some status \<Rightarrow> if status \<in> ACTIVE_JOB_STATUSES then Some status else None))"

definition resolve_convergence_policy ::
  "action_row \<Rightarrow> outbox_row list \<Rightarrow> SideEffectConvergencePolicy" where
  "resolve_convergence_policy a active_outboxes =
     (if act_writeback_applicable a then TERMINAL_WRITEBACK
      else if list_ex (\<lambda>ob. ob_intent_kind ob
                 = DispositionIntentKind_value IK_ENTITY_ACTION_SUBMIT) active_outboxes
      then INDEPENDENT_ENTITY_EFFECT
      else if act_execution_owner a = Some (ExecutionOwner_value EO_XDR_MANAGED)
              \<and> act_writeback_required a
              \<and> ENTITY_ACTION_EFFECT_SPECS (act_tool_name a) \<noteq> None
      then INDEPENDENT_ENTITY_EFFECT
      else EXECUTION_JOB_ONLY)"

definition job_terminal_success :: "job_row option \<Rightarrow> bool" where
  "job_terminal_success job =
     (case job of
        None \<Rightarrow> False
      | Some j \<Rightarrow>
          (case ExecutionJobStatus_parse (job_status j) of
             None \<Rightarrow> False
           | Some status \<Rightarrow> status \<in> TERMINAL_JOB_STATUSES))"

definition action_terminal_success :: "action_row \<Rightarrow> bool" where
  "action_terminal_success a \<longleftrightarrow>
     parse_action_status (act_status a) \<in> {AS_SUCCESS, AS_PARTIAL_SUCCESS}"

text \<open>
  The pair \<open>(blocks, reason)\<close> of the source has a reason exactly when it blocks, so
  it is the optional reason.
\<close>

definition outbox_delivery_blocks :: "outbox_row \<Rightarrow> SideEffectConvergenceReason option" where
  "outbox_delivery_blocks ob =
     (case OutboxDeliveryStatus_parse (ob_delivery_status ob) of
        None \<Rightarrow> Some OUTBOX_UNDELIVERED
      | Some delivery \<Rightarrow>
          if delivery \<in> UNDELIVERED_OUTBOX_STATUSES then Some OUTBOX_UNDELIVERED else None)"

definition outbox_blocks_terminal_writeback ::
  "outbox_row \<Rightarrow> SideEffectConvergenceReason option" where
  "outbox_blocks_terminal_writeback ob =
     (case ob_latest_writeback_status ob of
        Some wb_raw \<Rightarrow>
          (if wb_raw \<noteq> [] \<and> wb_raw \<noteq> WritebackStatus_value WB_CONFIRMED
           then Some TERMINAL_WRITEBACK_UNCONFIRMED
           else outbox_delivery_blocks ob)
      | None \<Rightarrow> outbox_delivery_blocks ob)"

definition outbox_blocks_entity_effect ::
  "outbox_row \<Rightarrow> SideEffectConvergenceReason option" where
  "outbox_blocks_entity_effect ob =
     (case outbox_delivery_blocks ob of
        Some r \<Rightarrow> Some r
      | None \<Rightarrow>
          (case ob_latest_writeback_status ob of
             None \<Rightarrow> None
           | Some wb_raw \<Rightarrow>
               (if wb_raw = [] then None
                else (case WritebackStatus_parse wb_raw of
                        None \<Rightarrow> Some OUTBOX_NOT_CONFIRMED
                      | Some w \<Rightarrow> if w \<in> ENTITY_OUTBOX_FAILURE_STATUSES
                                  then Some OUTBOX_NOT_CONFIRMED else None))))"

definition scan_outboxes_for_block ::
  "outbox_row list \<Rightarrow> SideEffectConvergencePolicy \<Rightarrow> SideEffectConvergenceReason option" where
  "scan_outboxes_for_block active_outboxes policy =
     (let checker = (if policy = TERMINAL_WRITEBACK then outbox_blocks_terminal_writeback
                     else outbox_blocks_entity_effect)
      in first_some checker active_outboxes)"

definition summarize_outbox_fields ::
  "outbox_row list \<Rightarrow> OutboxDeliveryStatus option \<times> WritebackStatus option" where
  "summarize_outbox_fields active_outboxes =
     (if active_outboxes = [] then (None, None)
      else
        let deliveries = List.map_filter (\<lambda>ob. OutboxDeliveryStatus_parse (ob_delivery_status ob))
                           active_outboxes;
            writebacks = List.map_filter (\<lambda>ob.
                (case ob_latest_writeback_status ob of
                   None \<Rightarrow> None
                 | Some raw \<Rightarrow>
                     if raw = [] then None
                     else (case WritebackStatus_parse raw of
                             Some w \<Rightarrow> Some w | None \<Rightarrow> Some WB_PENDING))) active_outboxes;
            outbox_delivery =
              (case find (\<lambda>d. d \<in> set deliveries)
                      [OD_DEAD_LETTER, OD_READY, OD_LEASED, OD_WAITING_RETRY, OD_PAUSED] of
                 Some d \<Rightarrow> Some d
               | None \<Rightarrow> if deliveries = [] then None else Some (hd deliveries));
            outbox_wb =
              (case find (\<lambda>w. w \<in> set writebacks) UNCONFIRMED_WRITEBACK_PRIORITIES of
                 Some w \<Rightarrow> Some w
               | None \<Rightarrow> if writebacks = [] then None else Some (hd writebacks))
        in (outbox_delivery, outbox_wb))"

text \<open>One iteration of the loop that prefers an active job over the row kept so far.\<close>

definition keep_job :: "(string \<rightharpoonup> job_row) \<Rightarrow> job_row \<Rightarrow> (string \<rightharpoonup> job_row)" where
  "keep_job result job =
     (case result (job_action_id job) of
        None \<Rightarrow> result(job_action_id job \<mapsto> job)
      | Some existing \<Rightarrow>
          (case (ExecutionJobStatus_parse (job_status job),
                 ExecutionJobStatus_parse (job_status existing)) of
             (Some new_status, Some old_status) \<Rightarrow>
               (if new_status \<in> ACTIVE_JOB_STATUSES \<and> old_status \<notin> ACTIVE_JOB_STATUSES
                then result(job_action_id job \<mapsto> job) else result)
           | _ \<Rightarrow> result))"

definition build_jobs_by_action :: "job_row list \<Rightarrow> (string \<rightharpoonup> job_row)" where
  "build_jobs_by_action jobs = foldl keep_job Map.empty jobs"

definition load_verification_result ::
  "verification_decoder \<Rightarrow> database \<Rightarrow> string \<Rightarrow> VerificationResult option" where
  "load_verification_result decode db event_id =
     (case latest_journal_value db event_id ''verification_result'' of
        Some row \<Rightarrow> decode row
      | None \<Rightarrow>
          (case get_event db event_id of
             None \<Rightarrow> None
           | Some event_row \<Rightarrow>
               (case se_event_context_snapshot event_row of
                  None \<Rightarrow> None
                | Some snapshot \<Rightarrow>
                    (if \<not> is_dict snapshot then None
                     else (case json_get snapshot ''verification_result'' of
                             None \<Rightarrow> None
                           | Some raw \<Rightarrow> decode raw)))))"

definition action_side_effect_blocks_convergence ::
  "action_row \<Rightarrow> (string \<rightharpoonup> job_row) \<Rightarrow> outbox_row list \<Rightarrow> VerificationResult option
     \<Rightarrow> SideEffectConvergenceReason option \<times> SideEffectConvergencePolicy" where
  "action_side_effect_blocks_convergence a jobs_by_action active_outboxes verification =
     (let policy = resolve_convergence_policy a active_outboxes;
          status = parse_action_status (act_status a)
      in
      if status = AS_EXECUTING then (Some EXECUTING_ACTION, policy)
      else if action_has_active_job (act_action_id a) jobs_by_action \<noteq> None
      then (Some IN_FLIGHT_JOB, policy)
      else
        let job = jobs_by_action (act_action_id a) in
        if strip (case act_execution_owner a of None \<Rightarrow> [] | Some x \<Rightarrow> x) = []
        then (None, policy)
        else (case policy of
          EXECUTION_JOB_ONLY \<Rightarrow>
            (if job_terminal_success job then (None, policy) else (Some IN_FLIGHT_JOB, policy))
        | INDEPENDENT_ENTITY_EFFECT \<Rightarrow>
            (let entity_outboxes =
                   filter (\<lambda>ob. ob_intent_kind ob
                             = DispositionIntentKind_value IK_ENTITY_ACTION_SUBMIT) active_outboxes
             in
             if entity_outboxes = [] then (Some OUTBOX_UNDELIVERED, policy)
             else (case scan_outboxes_for_block entity_outboxes policy of
                     Some r \<Rightarrow> (Some r, policy)
                   | None \<Rightarrow>
                       (if \<not> job_terminal_success job then (Some IN_FLIGHT_JOB, policy)
                        else if \<not> entity_effect_verified_for_action verification
                                    (act_action_id a)
                        then (Some EFFECT_UNVERIFIED, policy)
                        else (None, policy))))
        | TERMINAL_WRITEBACK \<Rightarrow>
            (scan_outboxes_for_block active_outboxes policy, policy)))"

definition classify_scope ::
  "action_row \<Rightarrow> int option \<Rightarrow> DispositionPolicy \<Rightarrow> SideEffectScope" where
  "classify_scope a current_revision disposition_policy =
     (case current_revision of
        None \<Rightarrow> BACKGROUND_DETACHED
      | Some rvn \<Rightarrow>
          (if act_superseded_by_revision a \<noteq> None then BACKGROUND_DETACHED
           else if act_plan_revision a \<noteq> rvn then BACKGROUND_DETACHED
           else if disposition_policy = DP_NOT_REQUIRED then BACKGROUND_DETACHED
           else GATE_APPLICABLE))"

text \<open>The body of the loop over the actions; \<open>None\<close> is \<open>continue\<close>.\<close>

definition outstanding_view ::
  "database \<Rightarrow> (string \<rightharpoonup> job_row) \<Rightarrow> VerificationResult option \<Rightarrow> int option
     \<Rightarrow> DispositionPolicy \<Rightarrow> action_row \<Rightarrow> OutstandingSideEffectView option" where
  "outstanding_view db jobs_by_action verification current_revision disposition_policy a =
     (if act_status a = ActionStatus_value AS_REJECTED then None
      else
        let scope = classify_scope a current_revision disposition_policy;
            active_outboxes = load_active_outboxes db (act_action_id a)
        in (case action_side_effect_blocks_convergence a jobs_by_action active_outboxes
                   verification of
              (None, _) \<Rightarrow> None
            | (Some blocking_reason, policy) \<Rightarrow>
                (let job_st = (case jobs_by_action (act_action_id a) of
                                 None \<Rightarrow> None
                               | Some job \<Rightarrow> ExecutionJobStatus_parse (job_status job));
                     fields = summarize_outbox_fields active_outboxes
                 in Some \<lparr> ov_action_id = act_action_id a,
                           ov_scope = scope,
                           ov_action_status = parse_action_status (act_status a),
                           ov_execution_phase = parse_exec_phase (act_execution_phase a),
                           ov_writeback_applicable = act_writeback_applicable a,
                           ov_convergence_policy = Some policy,
                           ov_job_status = job_st,
                           ov_outbox_delivery_status = fst fields,
                           ov_outbox_writeback_status = snd fields,
                           ov_plan_revision = act_plan_revision a,
                           ov_superseded = (act_superseded_by_revision a \<noteq> None),
                           ov_blocking_reason = Some blocking_reason \<rparr>)))"

definition build_side_effect_convergence_summary ::
  "verification_decoder \<Rightarrow> database \<Rightarrow> string \<Rightarrow> int option \<Rightarrow> DispositionPolicy
     \<Rightarrow> SideEffectConvergenceSummary" where
  "build_side_effect_convergence_summary decode db event_id current_revision disposition_policy =
     (case current_revision of
        None \<Rightarrow>
          \<lparr> sm_event_id = event_id, sm_current_plan_revision = None,
            sm_gate_applicable_outstanding_count = 0, sm_background_outstanding_count = 0,
            sm_outstanding_actions = [], sm_background_side_effects_pending = False \<rparr>
      | Some _ \<Rightarrow>
          let action_rows = filter (\<lambda>a. act_event_id a = event_id
                              \<and> act_action_category a \<in> RESPONSE_OR_ROLLBACK) (db_actions db);
              jobs = filter (\<lambda>j. job_event_id j = event_id) (db_jobs db);
              jobs_by_action = build_jobs_by_action jobs;
              verification = load_verification_result decode db event_id;
              outstanding = List.map_filter (outstanding_view db jobs_by_action verification
                              current_revision disposition_policy) action_rows;
              gate_count = length (filter (\<lambda>v. ov_scope v = GATE_APPLICABLE) outstanding);
              background_count = length (filter (\<lambda>v. ov_scope v \<noteq> GATE_APPLICABLE) outstanding)
          in
          \<lparr> sm_event_id = event_id, sm_current_plan_revision = current_revision,
            sm_gate_applicable_outstanding_count = gate_count,
            sm_background_outstanding_count = background_count,
            sm_outstanding_actions = outstanding,
            sm_background_side_effects_pending = (background_count > 0) \<rparr>)"

end
