(* ===== verification/Execution.thy ===== *)
theory Execution
  imports Approval_Binding Config_Auth Convergence
begin

text \<open>
  The database steps of \<open>backend/app/services/action_execution_service.py\<close>: the claim
  of an approved action, the repair moves of an executing one, the adjudication of an
  unknown one, the attachment of an existing job, and the reconciliation of executions
  whose lease expired (also the first step of closing an event). Each operation is one
  transaction: an exception (\<open>Inl\<close>) leaves the database unchanged. \<open>now\<close> is the
  clock; \<open>locked\<close> tells which rows another transaction has locked
  (\<open>FOR UPDATE SKIP LOCKED\<close>).
\<close>

section \<open>Queries\<close>

definition ACTIVE_OUTBOX_DELIVERY :: "string set" where
  "ACTIVE_OUTBOX_DELIVERY =
     OutboxDeliveryStatus_value ` {OD_READY, OD_LEASED, OD_WAITING_RETRY, OD_PAUSED}"

definition has_active_outbox :: "database \<Rightarrow> string \<Rightarrow> bool" where
  "has_active_outbox db action_id \<longleftrightarrow>
     length (filter (\<lambda>ob. ob_action_id ob = action_id
               \<and> ob_delivery_status ob \<in> ACTIVE_OUTBOX_DELIVERY) (db_outboxes db)) \<noteq> 0"

definition latest_approval_detail :: "database \<Rightarrow> string \<Rightarrow> json option" where
  "latest_approval_detail db action_id =
     (case max_by (\<lambda>r. case ap_decided_at r of None \<Rightarrow> 0 | Some t \<Rightarrow> t)
             (filter (\<lambda>r. ap_action_id r = action_id \<and> ap_decided_at r \<noteq> None)
                (db_approvals db)) of
        None \<Rightarrow> None
      | Some r \<Rightarrow>
          (case ap_detail r of
             None \<Rightarrow> None
           | Some d \<Rightarrow> if is_dict d then Some d else None))"

definition load_claimable_actions :: "database \<Rightarrow> string \<Rightarrow> int \<Rightarrow> Action list res" where
  "load_claimable_actions db event_id revision =
     map_res action_from_row
       (filter (\<lambda>a. act_event_id a = event_id \<and> act_plan_revision a = revision
                   \<and> act_status a = ActionStatus_value AS_APPROVED
                   \<and> act_execution_phase a = ActionExecutionPhase_value AP_IMMEDIATE
                   \<and> act_superseded_by_revision a = None
                   \<and> act_action_category a \<in> RESPONSE_OR_ROLLBACK
                   \<and> act_execution_owner a \<noteq> None) (db_actions db))"

section \<open>Claiming\<close>

definition validate_claim_preconditions ::
  "Settings \<Rightarrow> database \<Rightarrow> Action \<Rightarrow> unit res" where
  "validate_claim_preconditions settings db a =
     bind_res (assert_writeback_side_effects_allowed settings (a_execution_owner a)) (\<lambda>_.
     (case a_disposition_source_ref a of
        None \<Rightarrow>
          (if a_writeback_applicable a \<or> a_execution_owner a = Some EO_XDR_MANAGED
           then Inl (ValidationError ''action missing disposition_source_ref at claim time'')
           else Inr ())
      | Some loc \<Rightarrow>
          (case scalar (\<lambda>s. so_source_product s = sl_source_product loc
                     \<and> so_source_tenant_id s = sl_source_tenant_id loc
                     \<and> so_connector_id s = sl_connector_id loc
                     \<and> so_source_kind s = sl_source_kind loc
                     \<and> so_source_object_id s = sl_source_object_id loc) (db_sources db) of
             None \<Rightarrow> Inl (ValidationError ''source object not found at claim time'')
           | Some _ \<Rightarrow> Inr ())))"

definition claim_action ::
  "Settings \<Rightarrow> (string \<Rightarrow> string) \<Rightarrow> int \<Rightarrow> string \<Rightarrow> database \<Rightarrow> (Action \<times> database) res" where
  "claim_action settings sha256 now action_id db =
     bind_res (of_opt (EventNotFoundError action_id) (get_action db action_id)) (\<lambda>row.
     bind_res (action_from_row row) (\<lambda>a.
     bind_res (validate_approval_binding sha256 a
                 (latest_approval_detail db (a_action_id a))) (\<lambda>_.
     bind_res (ensure (a_status a = AS_APPROVED)
                 (InvalidStateTransitionError (Action_fault (Action_not_claimable (a_status a))))) (\<lambda>_.
     bind_res (ensure (a_execution_phase a \<noteq> AP_POST_VERIFY)
                 (ValidationError ''POST_VERIFY actions must remain APPROVED'')) (\<lambda>_.
     bind_res (ensure (a_tool_name a \<noteq> TERMINAL_DISPOSITION_TOOL)
                 (ValidationError ''POST_VERIFY deferred actions are not executed by execute_plan'')) (\<lambda>_.
     bind_res (ensure (a_execution_phase a = AP_IMMEDIATE)
                 (ValidationError ''only IMMEDIATE actions are claimable in execute_plan'')) (\<lambda>_.
     bind_res (ensure (a_superseded_by_revision a = None)
                 (ValidationError ''superseded action cannot be claimed'')) (\<lambda>_.
     bind_res (ensure (a_action_category a \<in> {AC_RESPONSE, AC_ROLLBACK})
                 (ValidationError ''only response/rollback actions are executable'')) (\<lambda>_.
     bind_res (ensure (\<not> (a_writeback_applicable a
                          \<and> (a_writeback_readiness a \<noteq> WR_READY
                             \<or> a_disposition_source_ref a = None)))
                 (ValidationError ''action writeback readiness blocks execution'')) (\<lambda>_.
     bind_res (validate_claim_preconditions settings db a) (\<lambda>_.
     bind_res (validate_action_status_transition (a_action_category a)
                 default_action_evidence AS_APPROVED AS_EXECUTING) (\<lambda>_.
     let row' = row\<lparr>act_status := ActionStatus_value AS_EXECUTING, act_updated_at := now\<rparr> in
     bind_res (action_from_row row') (\<lambda>a'.
     Inr (a', put_action row' db))))))))))))))"

definition restore_approved_ownerless :: "int \<Rightarrow> string \<Rightarrow> database \<Rightarrow> database res" where
  "restore_approved_ownerless now action_id db =
     (case get_action db action_id of
        None \<Rightarrow> Inr db
      | Some row \<Rightarrow>
          bind_res (parse_or_raise ActionStatus_parse (act_status row)) (\<lambda>current.
          if current \<noteq> AS_EXECUTING then Inr db
          else
            bind_res (parse_or_raise ActionCategory_parse (act_action_category row)) (\<lambda>cat.
            bind_res (parse_or_raise ActionLevel_parse (act_action_level row)) (\<lambda>level.
            bind_res (validate_action_status_transition cat
                        (default_action_evidence\<lparr>ev_action_level := level,
                           ev_has_approval_evidence := True, ev_lease_expired_reclaim := True\<rparr>)
                        current AS_APPROVED) (\<lambda>_.
            Inr (put_action (row\<lparr>act_status := ActionStatus_value AS_APPROVED,
                                 act_updated_at := now\<rparr>) db))))))"

definition fail_executing_action :: "int \<Rightarrow> string \<Rightarrow> database \<Rightarrow> database res" where
  "fail_executing_action now action_id db =
     (case get_action db action_id of
        None \<Rightarrow> Inr db
      | Some row \<Rightarrow>
          bind_res (parse_or_raise ActionStatus_parse (act_status row)) (\<lambda>current.
          if current \<noteq> AS_EXECUTING then Inr db
          else
            bind_res (parse_or_raise ActionCategory_parse (act_action_category row)) (\<lambda>cat.
            bind_res (validate_action_status_transition cat default_action_evidence
                        current AS_FAILED) (\<lambda>_.
            Inr (put_action (row\<lparr>act_status := ActionStatus_value AS_FAILED,
                                 act_executed_at := Some now, act_updated_at := now\<rparr>) db)))))"

section \<open>Adjudication of an unknown action\<close>

definition RESOLUTION_MAPPING :: "string \<rightharpoonup> ActionStatus" where
  "RESOLUTION_MAPPING = map_of
     [(''mark_success'', AS_SUCCESS), (''manual_confirmed'', AS_SUCCESS),
      (''mark_failed'', AS_FAILED), (''success'', AS_SUCCESS),
      (''partial_success'', AS_PARTIAL_SUCCESS), (''failed'', AS_FAILED)]"

text \<open>
  The transaction of \<open>resolve_unknown\<close> without a manual-resolution service (whose
  resume intents live in tables of their own); the flag is \<open>already_resolved\<close>.
\<close>

definition resolve_unknown ::
  "int \<Rightarrow> string \<Rightarrow> string \<Rightarrow> string \<Rightarrow> string \<Rightarrow> database \<Rightarrow> (bool \<times> database) res" where
  "resolve_unknown now action_id resolution subject comment db =
     bind_res (of_opt (ValidationError ''unsupported action resolution'')
                 (RESOLUTION_MAPPING resolution)) (\<lambda>target.
     bind_res (of_opt (EventNotFoundError action_id) (get_action db action_id)) (\<lambda>row.
     bind_res (parse_or_raise ActionStatus_parse (act_status row)) (\<lambda>current.
     if current \<noteq> AS_UNKNOWN
     then (if current = target then Inr (True, db)
           else action_err (Resolve_needs_unknown current target))
     else
       bind_res (parse_or_raise ActionCategory_parse (act_action_category row)) (\<lambda>cat.
       bind_res (validate_action_status_transition cat default_action_evidence
                   current target) (\<lambda>_.
       Inr (False,
            add_audit (act_event_id row) (Some (ActionStatus_value current))
              (Some (ActionStatus_value target)) (Some subject)
              (Some (''resolve_unknown:'' @ resolution @ '':'' @ comment)) now
              (put_action (row\<lparr>act_status := ActionStatus_value target,
                               act_executed_at := Some now, act_updated_at := now\<rparr>) db)))))))"

section \<open>Attaching an existing job\<close>

definition map_job_to_action_status :: "ExecutionJobStatus \<Rightarrow> ActionStatus" where
  "map_job_to_action_status status =
     (if status = JS_SUCCESS then AS_SUCCESS
      else if status = JS_PARTIAL_SUCCESS then AS_PARTIAL_SUCCESS
      else if status \<in> {JS_FAILED, JS_TIMED_OUT, JS_CANCELLED} then AS_FAILED
      else if status = JS_UNKNOWN then AS_UNKNOWN
      else AS_EXECUTING)"

text \<open>The source asserts that the action exists; \<open>ValueError\<close> stands for the failed assertion.\<close>

definition attach_existing_job ::
  "int \<Rightarrow> string \<Rightarrow> string \<Rightarrow> job_row \<Rightarrow> database \<Rightarrow> database res" where
  "attach_existing_job now operator action_id job db =
     bind_res (of_opt (ValueError action_id) (get_action db action_id)) (\<lambda>row.
     let row = row\<lparr>act_execution_job_id := Some (job_job_id job)\<rparr> in
     bind_res (parse_or_raise ActionStatus_parse (act_status row)) (\<lambda>current.
     bind_res (parse_or_raise ExecutionJobStatus_parse (job_status job)) (\<lambda>job_st.
     if job_st = JS_UNKNOWN \<or> job_st \<notin> {JS_QUEUED, JS_RUNNING}
     then
       (let target = map_job_to_action_status job_st in
        if target = current then Inr (put_action row db)
        else
          bind_res (parse_or_raise ActionCategory_parse (act_action_category row)) (\<lambda>cat.
          bind_res (validate_action_status_transition cat default_action_evidence
                      current target) (\<lambda>_.
          Inr (add_audit (act_event_id row) (Some (ActionStatus_value current))
                 (Some (ActionStatus_value target)) (Some operator)
                 (Some ''duplicate_idempotency_key_reclaim:attached_terminal_job'') now
                 (put_action (row\<lparr>act_status := ActionStatus_value target,
                                  act_executed_at := Some now, act_updated_at := now\<rparr>) db)))))
     else
       bind_res (parse_or_raise ActionCategory_parse (act_action_category row)) (\<lambda>cat.
       bind_res (validate_action_status_transition cat default_action_evidence
                   current AS_UNKNOWN) (\<lambda>_.
       Inr (add_audit (act_event_id row) (Some (ActionStatus_value current))
              (Some (ActionStatus_value AS_UNKNOWN)) (Some operator)
              (Some ''duplicate_idempotency_key_reclaim:attached_existing_job'') now
              (put_action (row\<lparr>act_status := ActionStatus_value AS_UNKNOWN,
                               act_updated_at := now\<rparr>) db)))))))"

section \<open>Reconciliation of stale executions\<close>

definition reclaim_stale_job_row ::
  "int \<Rightarrow> int \<Rightarrow> job_row \<Rightarrow> database \<Rightarrow> (bool \<times> database) res" where
  "reclaim_stale_job_row now max_attempts job db =
     (case job_lease_expires_at job of
        None \<Rightarrow> Inr (False, db)
      | Some lease \<Rightarrow>
     if lease \<ge> now then Inr (False, db)
     else
     bind_res (parse_or_raise ExecutionJobStatus_parse (job_status job)) (\<lambda>current.
     if current \<notin> {JS_QUEUED, JS_RUNNING} then Inr (False, db)
     else if has_active_outbox db (job_action_id job) then Inr (False, db)
     else if job_attempt job \<ge> max_attempts
     then
       bind_res (validate_job_status_transition
                   \<lparr> ev_provider_confirmed_terminal = False,
                     ev_job_lease_expired_reclaim = (current = JS_QUEUED) \<rparr>
                   current JS_TIMED_OUT) (\<lambda>_.
       let db = put_job (job\<lparr>job_status := ExecutionJobStatus_value JS_TIMED_OUT,
                             job_claimed_by := None, job_lease_expires_at := None,
                             job_provider_message := Some ''lease_expired_max_attempts'',
                             job_finished_at := Some now, job_updated_at := now\<rparr>) db
       in (case get_action db (job_action_id job) of
             None \<Rightarrow> Inr (True, db)
           | Some row \<Rightarrow>
               bind_res (parse_or_raise ActionStatus_parse (act_status row)) (\<lambda>st.
               if st \<noteq> AS_EXECUTING then Inr (True, db)
               else
                 bind_res (parse_or_raise ActionCategory_parse (act_action_category row)) (\<lambda>cat.
                 bind_res (validate_action_status_transition cat default_action_evidence
                             AS_EXECUTING AS_FAILED) (\<lambda>_.
                 Inr (True, put_action (row\<lparr>act_status := ActionStatus_value AS_FAILED,
                                             act_execution_job_id := None,
                                             act_executed_at := Some now,
                                             act_updated_at := now\<rparr>) db))))))
     else
       bind_res (if current = JS_RUNNING
                 then validate_job_status_transition
                        \<lparr> ev_provider_confirmed_terminal = False,
                          ev_job_lease_expired_reclaim = True \<rparr> current JS_QUEUED
                 else Inr ()) (\<lambda>_.
       Inr (True, put_job (job\<lparr>job_status := (if current = JS_RUNNING
                                               then ExecutionJobStatus_value JS_QUEUED
                                               else job_status job),
                               job_claimed_by := None, job_lease_expires_at := None,
                               job_attempt := job_attempt job + 1,
                               job_updated_at := now\<rparr>) db))))"

definition RECLAIM_SETTLED_JOBS :: "ExecutionJobStatus set" where
  "RECLAIM_SETTLED_JOBS = {JS_SUCCESS, JS_PARTIAL_SUCCESS, JS_FAILED, JS_TIMED_OUT, JS_CANCELLED}"

text \<open>
  The second half of \<open>_reclaim_stale_executing_action\<close>: the action has no settled
  job and no live lease.
\<close>

definition reclaim_unsettled_action ::
  "int \<Rightarrow> int \<Rightarrow> int \<Rightarrow> action_row \<Rightarrow> job_row option \<Rightarrow> database \<Rightarrow> (bool \<times> database) res" where
  "reclaim_unsettled_action now lease_us max_attempts row job db =
     (if has_active_outbox db (act_action_id row) then Inr (False, db)
      else if job = None \<and> act_updated_at row + lease_us > now then Inr (False, db)
      else if (case job of None \<Rightarrow> False | Some j \<Rightarrow> job_attempt j \<ge> max_attempts)
      then
        bind_res (parse_or_raise ActionCategory_parse (act_action_category row)) (\<lambda>cat.
        bind_res (validate_action_status_transition cat default_action_evidence
                    AS_EXECUTING AS_FAILED) (\<lambda>_.
        Inr (True, put_action (row\<lparr>act_status := ActionStatus_value AS_FAILED,
                                   act_execution_job_id := None,
                                   act_executed_at := Some now, act_updated_at := now\<rparr>) db)))
      else
        bind_res (parse_or_raise ActionCategory_parse (act_action_category row)) (\<lambda>cat.
        bind_res (validate_action_status_transition cat
                    (default_action_evidence\<lparr>ev_lease_expired_reclaim := True\<rparr>)
                    AS_EXECUTING AS_APPROVED) (\<lambda>_.
        Inr (True, put_action (row\<lparr>act_status := ActionStatus_value AS_APPROVED,
                                   act_execution_job_id := None, act_updated_at := now\<rparr>) db))))"

definition reclaim_stale_executing_action ::
  "int \<Rightarrow> int \<Rightarrow> int \<Rightarrow> action_row \<Rightarrow> database \<Rightarrow> (bool \<times> database) res" where
  "reclaim_stale_executing_action now lease_us max_attempts row db =
     bind_res (parse_or_raise ActionStatus_parse (act_status row)) (\<lambda>st.
     if st \<noteq> AS_EXECUTING then Inr (False, db)
     else if act_action_category row \<notin> RESPONSE_OR_ROLLBACK then Inr (False, db)
     else if act_execution_phase row \<noteq> ActionExecutionPhase_value AP_IMMEDIATE
     then Inr (False, db)
     else (case (case act_execution_job_id row of
                   None \<Rightarrow> None
                 | Some jid \<Rightarrow> if jid = [] then None else get_job db jid) of
             None \<Rightarrow> reclaim_unsettled_action now lease_us max_attempts row None db
           | Some job \<Rightarrow>
               bind_res (parse_or_raise ExecutionJobStatus_parse (job_status job)) (\<lambda>job_st.
               if job_st \<in> RECLAIM_SETTLED_JOBS
               then
                 (let target = map_job_to_action_status job_st in
                  bind_res (parse_or_raise ActionCategory_parse (act_action_category row)) (\<lambda>cat.
                  bind_res (validate_action_status_transition cat default_action_evidence
                              AS_EXECUTING target) (\<lambda>_.
                  Inr (True, put_action (row\<lparr>act_status := ActionStatus_value target,
                                             act_executed_at := Some now,
                                             act_updated_at := now\<rparr>) db))))
               else if (case job_lease_expires_at job of None \<Rightarrow> False | Some l \<Rightarrow> l \<ge> now)
                       \<and> job_st \<in> {JS_QUEUED, JS_RUNNING}
               then Inr (False, db)
               else reclaim_unsettled_action now lease_us max_attempts row (Some job) db)))"

text \<open>
  The loops run over the selected row objects. A row object is the session's live
  row, so each iteration reads the row by its key; \<open>step\<close> reports whether it was
  reclaimed.
\<close>

fun reclaim_loop ::
  "(string \<Rightarrow> database \<Rightarrow> (bool \<times> database) res) \<Rightarrow> string list \<Rightarrow> nat \<times> database
     \<Rightarrow> (nat \<times> database) res" where
  "reclaim_loop step [] st = Inr st"
| "reclaim_loop step (k # ks) st =
     bind_res (step k (snd st)) (\<lambda>(reclaimed, db).
     reclaim_loop step ks ((if reclaimed then fst st + 1 else fst st), db))"

definition job_step :: "int \<Rightarrow> int \<Rightarrow> string \<Rightarrow> database \<Rightarrow> (bool \<times> database) res" where
  "job_step now max_attempts job_id db =
     (case get_job db job_id of
        None \<Rightarrow> Inr (False, db)
      | Some job \<Rightarrow> reclaim_stale_job_row now max_attempts job db)"

definition action_step :: "int \<Rightarrow> int \<Rightarrow> int \<Rightarrow> string \<Rightarrow> database \<Rightarrow> (bool \<times> database) res" where
  "action_step now lease_us max_attempts action_id db =
     (case get_action db action_id of
        None \<Rightarrow> Inr (False, db)
      | Some row \<Rightarrow> reclaim_stale_executing_action now lease_us max_attempts row db)"

definition stale_jobs ::
  "int \<Rightarrow> nat \<Rightarrow> string option \<Rightarrow> (string \<Rightarrow> bool) \<Rightarrow> database \<Rightarrow> job_row list" where
  "stale_jobs now limit event_id locked db =
     take limit (sort_key job_updated_at
       (filter (\<lambda>j. job_status j \<in> ExecutionJobStatus_value ` {JS_QUEUED, JS_RUNNING}
                   \<and> (case job_lease_expires_at j of None \<Rightarrow> False | Some l \<Rightarrow> l < now)
                   \<and> (case event_id of None \<Rightarrow> True | Some e \<Rightarrow> job_event_id j = e)
                   \<and> \<not> locked (job_job_id j)) (db_jobs db)))"

definition executing_actions ::
  "nat \<Rightarrow> string option \<Rightarrow> (string \<Rightarrow> bool) \<Rightarrow> database \<Rightarrow> action_row list" where
  "executing_actions limit event_id locked db =
     take limit (sort_key act_updated_at
       (filter (\<lambda>a. act_status a = ActionStatus_value AS_EXECUTING
                   \<and> act_execution_phase a = ActionExecutionPhase_value AP_IMMEDIATE
                   \<and> act_action_category a \<in> RESPONSE_OR_ROLLBACK
                   \<and> (case event_id of None \<Rightarrow> True | Some e \<Rightarrow> act_event_id a = e)
                   \<and> \<not> locked (act_action_id a)) (db_actions db)))"

definition reconcile_stale_executions_for_event ::
  "Settings \<Rightarrow> int \<Rightarrow> string option \<Rightarrow> nat \<Rightarrow> bool \<Rightarrow> (string \<Rightarrow> bool) \<Rightarrow> database
     \<Rightarrow> (nat \<times> database) res" where
  "reconcile_stale_executions_for_event settings now event_id limit force locked db =
     (if \<not> force \<and> \<not> cfg_action_execution_reconcile_enabled settings then Inr (0, db)
      else
        bind_res (reclaim_loop
                    (job_step now (cfg_action_execution_max_attempts settings))
                    (map job_job_id (stale_jobs now limit event_id locked db)) (0, db)) (\<lambda>st.
        reclaim_loop
          (action_step now (cfg_action_execution_lease_us settings)
             (cfg_action_execution_max_attempts settings))
          (map act_action_id (executing_actions limit event_id locked (snd st))) st))"

text \<open>\<open>services/side_effect_convergence.py\<close>: the same before closing, any failure refuses the close.\<close>

definition reconcile_stale_executions_before_close ::
  "Settings \<Rightarrow> int \<Rightarrow> (string \<Rightarrow> bool) \<Rightarrow> string \<Rightarrow> database \<Rightarrow> (nat \<times> database) res" where
  "reconcile_stale_executions_before_close settings now locked event_id db =
     (case reconcile_stale_executions_for_event settings now (Some event_id) 20 True locked db of
        Inr r \<Rightarrow> Inr r
      | Inl _ \<Rightarrow> closed_err Closed_stale_reconcile_failed)"

end
