(* ===== verification/Disposition_Model.thy ===== *)
theory Disposition_Model
  imports Store Workflow
begin

text \<open>
  The disposition envelopes of \<open>backend/app/models/disposition.py\<close>, the adapter contract of
  \<open>adapters/disposition/base.py\<close>, its registry, the classification of delivery errors
  (\<open>adapters/disposition/error_classification.py\<close>) and the outbound guard of
  \<open>core/guardrails.py\<close>. A provider's answers to \<open>submit\<close> and to the lookups are arguments of
  the operations that call them.
\<close>

section \<open>Commands\<close>

datatype OperationParams =
    SetEventDispositionParams SourceDisposition "string option"
  | SubmitEntityActionParams string string
  | RecordExecutionResultParams "string option"
  | RecordCompensationParams "string option"

primrec params_operation_code :: "OperationParams \<Rightarrow> string" where
  "params_operation_code (SetEventDispositionParams _ _) = ''set_event_disposition''"
| "params_operation_code (SubmitEntityActionParams _ _) = ''submit_entity_action''"
| "params_operation_code (RecordExecutionResultParams _) = ''record_execution_result''"
| "params_operation_code (RecordCompensationParams _) = ''record_compensation''"

text \<open>\<open>_INTENT_PARAMS\<close>: the intent each variant of the parameters belongs to.\<close>

primrec params_intent :: "OperationParams \<Rightarrow> DispositionIntentKind" where
  "params_intent (SetEventDispositionParams _ _) = IK_EVENT_STATUS_UPDATE"
| "params_intent (SubmitEntityActionParams _ _) = IK_ENTITY_ACTION_SUBMIT"
| "params_intent (RecordExecutionResultParams _) = IK_EXECUTION_RESULT_RECORD"
| "params_intent (RecordCompensationParams _) = IK_COMPENSATION_RECORD"

text \<open>The outbound result of one target: no free message and no raw result.\<close>

record TargetDispositionResult =
  td_canonical_target :: string
  td_status :: TargetExecutionStatus
  td_provider_code :: "string option"
  td_message_code :: "string option"
  td_artifact_ref :: "string option"

record DispositionCommand =
  dc_disposition_id :: string
  dc_action_id :: string
  dc_closure_cycle :: int
  dc_intent_kind :: DispositionIntentKind
  dc_source_locator :: SourceObjectLocator
  dc_operation_code :: string
  dc_operation_params :: OperationParams
  dc_target_results :: "TargetDispositionResult list"
  dc_operator_id :: string
  dc_idempotency_key :: string
  dc_source_concurrency_token :: "string option"
  dc_execution_owner :: ExecutionOwner
  dc_parent_disposition_id :: "string option"
  dc_supersedes_disposition_id :: "string option"

text \<open>The two validators of the model.\<close>

definition direct_tool_cannot_submit_entity_action :: "DispositionCommand \<Rightarrow> bool" where
  "direct_tool_cannot_submit_entity_action c \<longleftrightarrow>
     \<not> (dc_execution_owner c = EO_DIRECT_TOOL \<and> dc_intent_kind c = IK_ENTITY_ACTION_SUBMIT)
     \<and> \<not> (dc_intent_kind c = IK_EVENT_STATUS_UPDATE \<and> dc_execution_owner c \<noteq> EO_XDR_MANAGED)"

definition operation_code_and_intent_are_consistent :: "DispositionCommand \<Rightarrow> bool" where
  "operation_code_and_intent_are_consistent c \<longleftrightarrow>
     dc_operation_code c = params_operation_code (dc_operation_params c)
     \<and> dc_intent_kind c = params_intent (dc_operation_params c)"

section \<open>Receipts\<close>

record DispositionReceipt =
  dr_writeback_id :: string
  dr_sequence :: int
  dr_disposition_id :: string
  dr_action_id :: string
  dr_source_record_id :: string
  dr_status :: WritebackStatus
  dr_confirmation_evidence :: "ConfirmationEvidence option"
  dr_provider_record_id :: "string option"
  dr_provider_job_id :: "string option"
  dr_provider_message :: "string option"
  dr_observed_at :: "int option"
  dr_submitted_at :: "int option"
  dr_confirmed_at :: "int option"
  dr_raw_result :: "(string \<times> json) list"
  dr_simulated :: bool

definition confirmed_requires_evidence :: "DispositionReceipt \<Rightarrow> bool" where
  "confirmed_requires_evidence r \<longleftrightarrow>
     \<not> (dr_status r = WB_CONFIRMED \<and> dr_confirmation_evidence r = None)"

section \<open>Adapters\<close>

record DispositionAdapterCapabilities =
  cap_supports_idempotency :: bool
  cap_supports_status_query :: bool
  cap_supports_lookup_by_idempotency :: bool
  cap_supports_readback_confirmation :: bool
  cap_supports_entity_effect_readback :: bool

record BaseDispositionAdapter =
  da_name :: string
  da_capabilities :: DispositionAdapterCapabilities
  da_validate_command :: "DispositionCommand \<Rightarrow> unit res"

definition allows_safe_retry :: "BaseDispositionAdapter \<Rightarrow> bool" where
  "allows_safe_retry adapter \<longleftrightarrow>
     cap_supports_idempotency (da_capabilities adapter)
     \<and> cap_supports_lookup_by_idempotency (da_capabilities adapter)"

type_synonym adapter_registry = "(string \<times> BaseDispositionAdapter) list"

definition get_adapter :: "adapter_registry \<Rightarrow> string \<Rightarrow> BaseDispositionAdapter res" where
  "get_adapter adapters name = of_opt (AdapterNotFoundError name) (map_of adapters name)"

text \<open>\<open>str(locator.get("source_product") or "mock_xdr")\<close>; only a JSON string names an adapter.\<close>

definition payload_product :: "json \<Rightarrow> string" where
  "payload_product payload =
     (case json_get payload ''source_locator'' of
        None \<Rightarrow> ''mock_xdr''
      | Some locator \<Rightarrow>
          (case json_get locator ''source_product'' of
             Some (JStr p) \<Rightarrow> (if p = [] then ''mock_xdr'' else p)
           | _ \<Rightarrow> ''mock_xdr''))"

definition resolve_adapter :: "adapter_registry \<Rightarrow> outbox_row \<Rightarrow> BaseDispositionAdapter res" where
  "resolve_adapter adapters outbox =
     (let product = payload_product (ob_command_payload outbox)
      in case get_adapter adapters product of
           Inr adapter \<Rightarrow> Inr adapter
         | Inl e \<Rightarrow>
             (case remdups (map fst adapters) of
                [name] \<Rightarrow> get_adapter adapters name
              | _ \<Rightarrow> Inl e))"

section \<open>Delivery errors\<close>

definition DETERMINISTIC_ADAPTER_REJECTION_CODES :: "string set" where
  "DETERMINISTIC_ADAPTER_REJECTION_CODES =
     {''not_found'', ''unauthorized_field'', ''invalid_operation'', ''permission_denied'',
      ''auth_error'', ''adapter_validation_error'', ''idempotency_key_reuse'',
      ''disposition_id_reuse'', ''writeback_unsupported'', ''mock_validation_error'',
      ''invalid_cursor'', ''adapter_not_found''}"

datatype DispositionDeliveryErrorKind =
  DETERMINISTIC_REJECTION | CONFLICT | AMBIGUOUS_OUTCOME | GUARDRAIL

definition is_deterministic_adapter_rejection_code :: "string option \<Rightarrow> bool" where
  "is_deterministic_adapter_rejection_code given =
     (case given of
        None \<Rightarrow> False
      | Some code \<Rightarrow> code \<noteq> []
          \<and> (code \<in> DETERMINISTIC_ADAPTER_REJECTION_CODES
             \<or> take (length ''unsupported_'') code = ''unsupported_''))"

definition classify_disposition_delivery_error ::
  "st_error \<Rightarrow> DispositionDeliveryErrorKind \<times> string option" where
  "classify_disposition_delivery_error exc =
     (case exc of
        GuardrailViolationError code \<Rightarrow> (GUARDRAIL, Some code)
      | WritebackConflictError code \<Rightarrow> (CONFLICT, Some code)
      | WritebackUnsupportedError code \<Rightarrow> (DETERMINISTIC_REJECTION, Some code)
      | ValidationError _ \<Rightarrow>
          (if is_deterministic_adapter_rejection_code (error_code exc)
           then DETERMINISTIC_REJECTION else AMBIGUOUS_OUTCOME, error_code exc)
      | CodedValidationError code \<Rightarrow>
          (if is_deterministic_adapter_rejection_code (Some code)
           then DETERMINISTIC_REJECTION else AMBIGUOUS_OUTCOME, Some code)
      | _ \<Rightarrow> (AMBIGUOUS_OUTCOME, None))"

section \<open>The outbound guard\<close>

text \<open>
  The blocking rules of \<open>OutboundDispositionGuard._evaluate\<close> for a command: the trusted
  locator, the approved action set when the context has one, and the content rules (message
  codes and the scan for analysis text), which are a parameter. A blocked command raises.
\<close>

definition locator_matches :: "SourceObjectLocator \<Rightarrow> SourceObjectLocator \<Rightarrow> bool" where
  "locator_matches actual trusted \<longleftrightarrow>
     sl_source_product actual = sl_source_product trusted
     \<and> sl_source_tenant_id actual = sl_source_tenant_id trusted
     \<and> sl_connector_id actual = sl_connector_id trusted
     \<and> sl_source_object_id actual = sl_source_object_id trusted"

definition guard_validate ::
  "(DispositionCommand \<Rightarrow> bool) \<Rightarrow> SourceObjectLocator \<Rightarrow> string list option \<Rightarrow> DispositionCommand
     \<Rightarrow> unit res" where
  "guard_validate content_ok trusted approved_action_ids c =
     ensure (locator_matches (dc_source_locator c) trusted
             \<and> (case approved_action_ids of None \<Rightarrow> True | Some ids \<Rightarrow> dc_action_id c \<in> set ids)
             \<and> content_ok c)
       (GuardrailViolationError ''guardrail_violation'')"

definition ACTIVE_APPROVAL_STATUSES :: "string set" where
  "ACTIVE_APPROVAL_STATUSES = {ActionStatus_value AS_APPROVED, ActionStatus_value AS_EXECUTING}"

text \<open>The order of the result (sorted, without repetitions) is not read.\<close>

definition resolve_approved_action_ids :: "database \<Rightarrow> string \<Rightarrow> int \<Rightarrow> string list" where
  "resolve_approved_action_ids db event_id plan_revision =
     map act_action_id
       (filter (\<lambda>a. act_event_id a = event_id \<and> act_plan_revision a = plan_revision
                  \<and> act_status a \<in> ACTIVE_APPROVAL_STATUSES
                  \<and> act_superseded_by_revision a = None) (db_actions db))"

end
