(* ===== verification/State_Machine.thy ===== *)
theory State_Machine
  imports Execution Disposition_Model
begin

text \<open>
  \<open>StateMachineService\<close> of \<open>backend/app/services/state_machine_service.py\<close>: the
  authoritative context rebuilt from the database, \<open>transition\<close>, \<open>force_close\<close> and
  the reads. An operation returns the database and its result; an exception rolls the
  row-locked transaction back, but not the reconciliation that ran before it in a
  transaction of its own. The parameters of a run (settings, clock, row locks held by
  others, the JSON decoders generated by pydantic, whether its event model accepts a
  row, the text redaction of the audit log and whether an audit log is configured) form the record \<open>sm_env\<close>.
\<close>

section \<open>Commands\<close>

record sm_env =
  env_settings :: Settings
  env_now :: int
  env_locked :: "string \<Rightarrow> bool"
  env_decode_verification :: verification_decoder
  env_decode_command :: "json \<Rightarrow> DispositionCommand option"
  env_redact :: "string \<Rightarrow> string"
  env_audit_log :: bool
  env_event_valid :: "security_event_row \<Rightarrow> bool"

definition STATE_MACHINE_OPERATOR :: string where
  "STATE_MACHINE_OPERATOR = ''StateMachineService''"

text \<open>\<open>SourceDisposition(str(raw))\<close>: only a JSON string can spell a member.\<close>

fun disposition_of_json :: "json \<Rightarrow> SourceDisposition option" where
  "disposition_of_json (JStr s) = SourceDisposition_parse s"
| "disposition_of_json _ = None"

definition actual_disposition_from_command_payload ::
  "(json \<Rightarrow> DispositionCommand option) \<Rightarrow> json \<Rightarrow> SourceDisposition option" where
  "actual_disposition_from_command_payload decode payload =
     (if json_keys payload = [] then None
      else (case decode payload of
        None \<Rightarrow>
          (case json_get payload ''operation_params'' of
             None \<Rightarrow> None
           | Some op_params \<Rightarrow>
               (if is_dict op_params
                then (case json_get op_params ''target_disposition'' of
                        None \<Rightarrow> None
                      | Some raw \<Rightarrow> disposition_of_json raw)
                else None))
      | Some command \<Rightarrow>
          (if dc_intent_kind command \<noteq> IK_EVENT_STATUS_UPDATE then None
           else (case dc_operation_params command of
                   SetEventDispositionParams d _ \<Rightarrow> Some d
                 | _ \<Rightarrow> None))))"

section \<open>The authoritative context\<close>

definition check_report_exists :: "database \<Rightarrow> string \<Rightarrow> bool" where
  "check_report_exists db event_id \<longleftrightarrow>
     scalar (\<lambda>r. rp_event_id r = event_id) (db_reports db) \<noteq> None"

definition read_closure_cycle :: "database \<Rightarrow> string \<Rightarrow> int option" where
  "read_closure_cycle db event_id =
     max_of ob_closure_cycle (filter (\<lambda>ob. ob_event_id ob = event_id) (db_outboxes db))"

definition deferred_action :: "database \<Rightarrow> string \<Rightarrow> int \<Rightarrow> action_row option" where
  "deferred_action db event_id revision =
     scalar (\<lambda>a. act_event_id a = event_id \<and> act_plan_revision a = revision
                \<and> act_tool_name a = TERMINAL_DISPOSITION_TOOL
                \<and> act_execution_phase a = ActionExecutionPhase_value AP_POST_VERIFY
                \<and> act_superseded_by_revision a = None) (db_actions db)"

definition status_update_outbox :: "database \<Rightarrow> string \<Rightarrow> outbox_row option" where
  "status_update_outbox db action_id =
     scalar (\<lambda>ob. ob_action_id ob = action_id
                 \<and> ob_intent_kind ob = DispositionIntentKind_value IK_EVENT_STATUS_UPDATE
                 \<and> ob_superseded_by_disposition_id ob = None) (db_outboxes db)"

definition latest_receipt :: "database \<Rightarrow> string \<Rightarrow> receipt_row option" where
  "latest_receipt db writeback_id =
     max_by rc_sequence (filter (\<lambda>r. rc_writeback_id r = writeback_id) (db_receipts db))"

definition build_terminal_writeback_view ::
  "sm_env \<Rightarrow> database \<Rightarrow> string \<Rightarrow> int option \<Rightarrow> TerminalEventWritebackView option" where
  "build_terminal_writeback_view env db event_id current_revision =
     (case current_revision of
        None \<Rightarrow> None
      | Some revision \<Rightarrow>
     (case deferred_action db event_id revision of
        None \<Rightarrow> None
      | Some action \<Rightarrow>
     (case status_update_outbox db (act_action_id action) of
        None \<Rightarrow> None
      | Some outbox \<Rightarrow>
          (let wb_status =
                 (case ob_latest_writeback_status outbox of
                    None \<Rightarrow> WB_PENDING
                  | Some raw \<Rightarrow>
                      if raw = [] then WB_PENDING
                      else (case WritebackStatus_parse raw of None \<Rightarrow> WB_PENDING | Some w \<Rightarrow> w));
               approved =
                 (case act_approved_terminal_dispositions action of
                    [] \<Rightarrow> SD_PENDING
                  | raw # _ \<Rightarrow>
                      (case SourceDisposition_parse raw of None \<Rightarrow> SD_PENDING | Some d \<Rightarrow> d));
               actual =
                 (case actual_disposition_from_command_payload (env_decode_command env)
                         (ob_command_payload outbox) of
                    None \<Rightarrow> SD_PENDING | Some d \<Rightarrow> d);
               receipt = latest_receipt db (ob_writeback_id outbox);
               evidence =
                 (case receipt of
                    None \<Rightarrow> None
                  | Some r \<Rightarrow>
                      (case rc_confirmation_evidence r of
                         None \<Rightarrow> None
                       | Some raw \<Rightarrow> if raw = [] then None else ConfirmationEvidence_parse raw))
           in Some \<lparr> tw_action_id = act_action_id action,
                     tw_disposition_id = ob_disposition_id outbox,
                     tw_writeback_id = ob_writeback_id outbox,
                     tw_closure_cycle = ob_closure_cycle outbox,
                     tw_intent_kind = IK_EVENT_STATUS_UPDATE,
                     tw_approved_disposition = approved,
                     tw_actual_disposition = actual,
                     tw_receipt_status = wb_status,
                     tw_plan_revision = revision,
                     tw_simulated = map_option rc_simulated receipt,
                     tw_confirmation_evidence = evidence \<rparr>))))"

text \<open>\<open>journal_value is True\<close> after unwrapping \<open>{"_scalar": v}\<close>.\<close>

definition disposition_only_intent_of :: "json option \<Rightarrow> bool" where
  "disposition_only_intent_of journal_value =
     (case journal_value of
        None \<Rightarrow> False
      | Some v \<Rightarrow>
          (let unwrapped = (if is_dict v \<and> set (json_keys v) = {''_scalar''}
                            then json_get v ''_scalar'' else Some v)
           in unwrapped = Some (JBool True)))"

definition build_authoritative_context ::
  "sm_env \<Rightarrow> database \<Rightarrow> string \<Rightarrow> security_event_row \<Rightarrow> TransitionContext
     \<Rightarrow> TransitionContext res" where
  "build_authoritative_context env db event_id row caller =
     (let intent = disposition_only_intent_of
            (latest_journal_value db event_id ''disposition_only_intent'');
          current_revision = current_plan_revision db event_id;
          response_actions =
            (case current_revision of
               None \<Rightarrow> []
             | Some rvn \<Rightarrow> filter (\<lambda>a. act_event_id a = event_id \<and> act_plan_revision a = rvn
                               \<and> act_action_category a = ActionCategory_value AC_RESPONSE
                               \<and> act_superseded_by_revision a = None) (db_actions db));
          only = (if response_actions = [] then None
                  else Some (list_all (\<lambda>a. act_tool_name a = TERMINAL_DISPOSITION_TOOL)
                               response_actions));
          entity = (response_actions \<noteq> []
                    \<and> list_ex (\<lambda>a. act_tool_name a \<noteq> TERMINAL_DISPOSITION_TOOL)
                         response_actions)
      in
      bind_res (build_closed_gate_actions db event_id current_revision) (\<lambda>applicable.
      let terminal = build_terminal_writeback_view env db event_id current_revision;
          cycle = read_closure_cycle db event_id
      in
      bind_res (parse_or_raise DispositionPolicy_parse (se_disposition_policy row)) (\<lambda>policy.
      let convergence = build_side_effect_convergence_summary (env_decode_verification env)
                          db event_id current_revision policy
      in
      bind_res (parse_or_raise FinalVerdict_parse (se_final_verdict row)) (\<lambda>verdict.
      bind_res (pydantic_enum Severity_parse (se_severity row)) (\<lambda>severity.
      Inr \<lparr> cx_final_verdict = Some verdict,
            cx_need_investigation = cx_need_investigation caller,
            cx_disposition_only_intent = intent,
            cx_disposition_policy = Some policy,
            cx_severity = Some severity,
            cx_recommendation = cx_recommendation caller,
            cx_response_actions_are_disposition_only = only,
            cx_has_entity_side_effect_actions = entity,
            cx_report_exists = check_report_exists db event_id,
            cx_force_close = False,
            cx_applicable_required_actions = applicable,
            cx_terminal_event_writeback = terminal,
            cx_current_plan_revision = current_revision,
            cx_current_closure_cycle = cycle,
            cx_escalated = cx_escalated caller,
            cx_disposition_is_mock =
              is_mock_disposition_mode (cfg_disposition_mode (env_settings env)),
            cx_side_effect_convergence = Some convergence \<rparr>)))))"

section \<open>Side effects and audit\<close>

definition apply_pre_transition_side_effects ::
  "security_event_row \<Rightarrow> EventStatus \<Rightarrow> TransitionContext \<Rightarrow> security_event_row res" where
  "apply_pre_transition_side_effects row target ctx =
     bind_res (if target = ES_REPLANNING
               then (if se_replan_count row + 1 > MAX_REPLAN_COUNT
                     then event_err (Replan_count_exceeded (se_replan_count row))
                     else Inr (row\<lparr>se_replan_count := se_replan_count row + 1\<rparr>))
               else Inr row) (\<lambda>row.
     Inr (if cx_escalated ctx \<and> target \<in> {ES_CONTAINED, ES_FAILED}
          then row\<lparr>se_escalated := True\<rparr> else row))"

definition apply_post_transition_side_effects ::
  "int \<Rightarrow> security_event_row \<Rightarrow> EventStatus \<Rightarrow> security_event_row" where
  "apply_post_transition_side_effects now row target =
     (if target = ES_CLOSED then row\<lparr>se_closed_at := Some now\<rparr> else row)"

text \<open>\<open>int(row.row_version or 1) + 1\<close>.\<close>

definition bump_version :: "int \<Rightarrow> int" where
  "bump_version v = (if v = 0 then 1 else v) + 1"

text \<open>
  \<open>EventAuditLogService.log_transition_in_session\<close>: empty texts are stored as
  \<open>NULL\<close>, the reason is redacted and cut to 4096 characters.
\<close>

definition log_transition_in_session ::
  "sm_env \<Rightarrow> string \<Rightarrow> string \<Rightarrow> string \<Rightarrow> string option \<Rightarrow> string option \<Rightarrow> database \<Rightarrow> database" where
  "log_transition_in_session env event_id from_status to_status operator reason db =
     add_audit event_id (Some from_status) (Some to_status)
       (case operator of None \<Rightarrow> None
        | Some x \<Rightarrow> if x = [] then None else Some (env_redact env x))
       (case reason of None \<Rightarrow> None
        | Some x \<Rightarrow> if x = [] then None else Some (take 4096 (env_redact env x)))
       (env_now env) db"

section \<open>Operations\<close>

text \<open>
  \<open>_security_event_from_row\<close> at the end of the transaction: the result model is built
  from every column of the row, and a row it refuses rolls the transaction back.
\<close>

definition security_event_from_row :: "sm_env \<Rightarrow> security_event_row \<Rightarrow> security_event_row res" where
  "security_event_from_row env row =
     bind_res (ensure (env_event_valid env row) (PydanticValidationError (se_event_id row))) (\<lambda>_.
     Inr row)"

definition transition_in_tx ::
  "sm_env \<Rightarrow> TransitionContext \<Rightarrow> string \<Rightarrow> EventStatus \<Rightarrow> string option \<Rightarrow> string option
     \<Rightarrow> database \<Rightarrow> (security_event_row \<times> database) res" where
  "transition_in_tx env caller event_id target operator reason db =
     (let op = (case operator of None \<Rightarrow> STATE_MACHINE_OPERATOR
                | Some x \<Rightarrow> if x = [] then STATE_MACHINE_OPERATOR else x)
      in
      bind_res (of_opt (EventNotFoundError event_id) (get_event db event_id)) (\<lambda>row.
      bind_res (parse_or_raise EventStatus_parse (se_status row)) (\<lambda>current.
      bind_res (build_authoritative_context env db event_id row caller) (\<lambda>ctx.
      bind_res (validate_transition ctx current target) (\<lambda>_.
      bind_res (apply_pre_transition_side_effects row target ctx) (\<lambda>row1.
      let row2 = row1\<lparr>se_status := EventStatus_value target,
                      se_row_version := bump_version (se_row_version row1),
                      se_updated_at := env_now env\<rparr>;
          row3 = apply_post_transition_side_effects (env_now env) row2 target;
          db1 = put_event row3 db;
          db2 = (if env_audit_log env
                 then log_transition_in_session env event_id (se_status row)
                        (EventStatus_value target) (Some op) reason db1
                 else db1)
      in bind_res (security_event_from_row env row3) (\<lambda>_. Inr (row3, db2))))))))"

definition transition ::
  "sm_env \<Rightarrow> TransitionContext \<Rightarrow> string \<Rightarrow> EventStatus \<Rightarrow> string option \<Rightarrow> string option
     \<Rightarrow> database \<Rightarrow> database \<times> security_event_row res" where
  "transition env caller event_id target operator reason db =
     (case (if target = ES_CLOSED
            then reconcile_stale_executions_before_close (env_settings env) (env_now env)
                   (env_locked env) event_id db
            else Inr (0, db)) of
        Inl e \<Rightarrow> (db, Inl e)
      | Inr (_, db0) \<Rightarrow>
          (case transition_in_tx env caller event_id target operator reason db0 of
             Inl e \<Rightarrow> (db0, Inl e)
           | Inr (row, db') \<Rightarrow> (db', Inr row)))"

definition principal_prefix :: string where
  "principal_prefix = ''principal:''"

definition force_close_operator :: "Principal \<Rightarrow> string" where
  "force_close_operator p =
     (if take (length principal_prefix) (pr_subject p) = principal_prefix then pr_subject p
      else principal_prefix @ pr_subject p)"

definition force_close_in_tx ::
  "sm_env \<Rightarrow> string \<Rightarrow> Principal \<Rightarrow> string \<Rightarrow> database \<Rightarrow> (security_event_row \<times> database) res" where
  "force_close_in_tx env event_id p reason db =
     bind_res (ensure (has_any_role p [ROLE_ADMIN]) AuthorizationError) (\<lambda>_.
     bind_res (of_opt (EventNotFoundError event_id) (get_event db event_id)) (\<lambda>row.
     bind_res (parse_or_raise EventStatus_parse (se_status row)) (\<lambda>current.
     bind_res (ensure (current \<noteq> ES_CLOSED)
                 (InvalidStateTransitionError (Event_fault Force_close_already_closed))) (\<lambda>_.
     bind_res (ensure (ES_CLOSED \<in> STATE_TRANSITIONS current)
                 (InvalidStateTransitionError (Event_fault (Force_close_illegal current)))) (\<lambda>_.
     let row' = row\<lparr>se_status := EventStatus_value ES_CLOSED,
                    se_closed_at := Some (env_now env), se_external_unsynced := True,
                    se_row_version := bump_version (se_row_version row),
                    se_updated_at := env_now env\<rparr>;
         reason_text = (if reason \<noteq> []
                        then ''force_close subject='' @ pr_subject p @ '': '' @ reason
                        else ''force_close subject='' @ pr_subject p);
         db1 = put_event row' db;
         db2 = (if env_audit_log env
                then log_transition_in_session env event_id (se_status row)
                       (EventStatus_value ES_CLOSED) (Some (force_close_operator p))
                       (Some reason_text) db1
                else db1)
     in bind_res (security_event_from_row env row') (\<lambda>_. Inr (row', db2)))))))"

definition force_close ::
  "sm_env \<Rightarrow> string \<Rightarrow> Principal \<Rightarrow> string \<Rightarrow> database \<Rightarrow> database \<times> security_event_row res" where
  "force_close env event_id p reason db =
     (case force_close_in_tx env event_id p reason db of
        Inl e \<Rightarrow> (db, Inl e)
      | Inr (row, db') \<Rightarrow> (db', Inr row))"

definition get_current_status :: "database \<Rightarrow> string \<Rightarrow> EventStatus res" where
  "get_current_status db event_id =
     bind_res (of_opt (EventNotFoundError event_id) (get_event db event_id)) (\<lambda>row.
     parse_or_raise EventStatus_parse (se_status row))"

text \<open>\<open>get_logs_by_event\<close>: \<open>ORDER BY created_at, id\<close>; the table is listed by id.\<close>

definition get_logs_by_event :: "database \<Rightarrow> string \<Rightarrow> audit_row list" where
  "get_logs_by_event db event_id =
     sort_key au_created_at (filter (\<lambda>r. au_event_id r = event_id) (db_audits db))"

end
