(* ===== verification/Execution_Facts.thy ===== *)
theory Execution_Facts
  imports Execution
begin

text \<open>
  What the execution steps guarantee: a claim is exclusive and takes exactly one
  approved action to executing, and a reconciliation pass never raises on a database
  with known statuses, moves only executions that were in flight, and leaves other
  events alone.
\<close>

section \<open>Claiming\<close>

lemma claim_actionD:
  assumes "claim_action settings sha256 now aid db = Inr (a', db')"
  obtains row a where "get_action db aid = Some row" and "action_from_row row = Inr a"
    and "a_status a = AS_APPROVED" and "a_execution_phase a = AP_IMMEDIATE"
    and "a_superseded_by_revision a = None" and "a_action_category a \<in> {AC_RESPONSE, AC_ROLLBACK}"
    and "a_tool_name a \<noteq> TERMINAL_DISPOSITION_TOOL"
    and "assert_writeback_side_effects_allowed settings (a_execution_owner a) = Inr ()"
    and "validate_approval_binding sha256 a (latest_approval_detail db (a_action_id a)) = Inr ()"
    and "db' = put_action (row\<lparr>act_status := ActionStatus_value AS_EXECUTING,
                               act_updated_at := now\<rparr>) db"
    and "action_from_row (row\<lparr>act_status := ActionStatus_value AS_EXECUTING,
                             act_updated_at := now\<rparr>) = Inr a'"
proof -
  from assms obtain row a where
    r: "get_action db aid = Some row" "action_from_row row = Inr a"
      "a_status a = AS_APPROVED" "a_execution_phase a = AP_IMMEDIATE"
      "a_superseded_by_revision a = None" "a_action_category a \<in> {AC_RESPONSE, AC_ROLLBACK}"
      "a_tool_name a \<noteq> TERMINAL_DISPOSITION_TOOL"
      "validate_claim_preconditions settings db a = Inr ()"
      "validate_approval_binding sha256 a (latest_approval_detail db (a_action_id a)) = Inr ()"
      "db' = put_action (row\<lparr>act_status := ActionStatus_value AS_EXECUTING,
                             act_updated_at := now\<rparr>) db"
      "action_from_row (row\<lparr>act_status := ActionStatus_value AS_EXECUTING,
                           act_updated_at := now\<rparr>) = Inr a'"
    by (auto simp: claim_action_def Let_def)
  from r(8) have "assert_writeback_side_effects_allowed settings (a_execution_owner a) = Inr ()"
    by (auto simp: validate_claim_preconditions_def)
  with r show thesis by (intro that) auto
qed

lemma action_from_row_status:
  "action_from_row row = Inr a \<Longrightarrow> act_status row = ActionStatus_value (a_status a)"
  by (erule action_from_row_parts) (auto dest!: ActionStatus_enum.parse_SomeD)


definition example_settings :: Settings where
  "example_settings =
     \<lparr> cfg_disposition_mode = ''mock_xdr'', cfg_allow_xdr_writeback = False,
       cfg_block_live_action_execution = False, cfg_action_execution_lease_us = 300000000,
       cfg_action_execution_max_attempts = 3, cfg_action_execution_reconcile_enabled = True,
       cfg_approval_timeout_minutes = 30, cfg_auto_response_enabled = False,
       cfg_auto_response_max_auto_level = ''L1'' \<rparr>"


section \<open>Reconciliation\<close>

text \<open>
  The contract of a reconciliation step: it relates the databases before and after by
  a preorder. The loop then does, whatever rows it is given.
\<close>

locale reclaim_pass =
  fixes step :: "string \<Rightarrow> database \<Rightarrow> (bool \<times> database) res"
    and rel :: "database \<Rightarrow> database \<Rightarrow> bool"
  assumes step_rel: "step k db = Inr (b, db') \<Longrightarrow> rel db db'"
    and rel_refl: "rel db db"
    and rel_trans: "rel db db' \<Longrightarrow> rel db' db'' \<Longrightarrow> rel db db''"
begin

lemma loop_rel:
  "reclaim_loop step ks st = Inr (n, db') \<Longrightarrow> rel (snd st) db'"
proof (induction ks arbitrary: st)
  case Nil
  then show ?case using rel_refl by simp
next
  case (Cons k ks)
  then obtain b db where s: "step k (snd st) = Inr (b, db)"
    and l: "reclaim_loop step ks ((if b then fst st + 1 else fst st), db) = Inr (n, db')"
    by auto
  from Cons.IH [OF l] step_rel [OF s] show ?case using rel_trans by simp
qed

end

text \<open>An action row is untouched, or left the executing status for a settled or approved one.\<close>

definition RECLAIM_TARGETS :: "string set" where
  "RECLAIM_TARGETS =
     ActionStatus_value ` {AS_APPROVED, AS_FAILED, AS_SUCCESS, AS_PARTIAL_SUCCESS}"

definition action_reclaimed :: "action_row \<Rightarrow> action_row \<Rightarrow> bool" where
  "action_reclaimed a a' \<longleftrightarrow>
     a' = a
     \<or> act_status a = ActionStatus_value AS_EXECUTING \<and> act_status a' \<in> RECLAIM_TARGETS
       \<and> a' = a\<lparr>act_status := act_status a', act_execution_job_id := act_execution_job_id a',
               act_executed_at := act_executed_at a', act_updated_at := act_updated_at a'\<rparr>"

text \<open>A job row is untouched, or it was active and is now queued or timed out without a lease.\<close>

definition job_reclaimed :: "job_row \<Rightarrow> job_row \<Rightarrow> bool" where
  "job_reclaimed j j' \<longleftrightarrow>
     j' = j
     \<or> job_status j \<in> ExecutionJobStatus_value ` {JS_QUEUED, JS_RUNNING}
       \<and> job_status j' \<in> ExecutionJobStatus_value ` {JS_QUEUED, JS_TIMED_OUT}
       \<and> job_lease_expires_at j \<noteq> None \<and> job_lease_expires_at j' = None
       \<and> job_claimed_by j' = None
       \<and> job_attempt j' \<in> {job_attempt j, job_attempt j + 1}
       \<and> job_job_id j' = job_job_id j \<and> job_action_id j' = job_action_id j
       \<and> job_event_id j' = job_event_id j"

text \<open>The primary keys of the two tables are unique.\<close>

definition keys_unique :: "database \<Rightarrow> bool" where
  "keys_unique db \<longleftrightarrow>
     distinct (map act_action_id (db_actions db)) \<and> distinct (map job_job_id (db_jobs db))"

definition reclaim_rel :: "database \<Rightarrow> database \<Rightarrow> bool" where
  "reclaim_rel db db' \<longleftrightarrow>
     (keys_unique db \<longrightarrow>
        keys_unique db'
        \<and> list_all2 action_reclaimed (db_actions db) (db_actions db')
        \<and> list_all2 job_reclaimed (db_jobs db) (db_jobs db'))
     \<and> db' = db\<lparr>db_actions := db_actions db', db_jobs := db_jobs db'\<rparr>"

lemma action_reclaimed_trans:
  "action_reclaimed a b \<Longrightarrow> action_reclaimed b c \<Longrightarrow> action_reclaimed a c"
  by (auto simp: action_reclaimed_def RECLAIM_TARGETS_def)

lemma job_reclaimed_trans:
  "job_reclaimed a b \<Longrightarrow> job_reclaimed b c \<Longrightarrow> job_reclaimed a c"
  by (auto simp: job_reclaimed_def)

lemma reclaim_rel_refl: "reclaim_rel db db"
  by (auto simp: reclaim_rel_def action_reclaimed_def job_reclaimed_def list_all2_same)

lemma reclaim_rel_trans:
  assumes "reclaim_rel db db'" and "reclaim_rel db' db''"
  shows "reclaim_rel db db''"
proof -
  have "keys_unique db \<Longrightarrow> keys_unique db''
      \<and> list_all2 action_reclaimed (db_actions db) (db_actions db'')
      \<and> list_all2 job_reclaimed (db_jobs db) (db_jobs db'')"
    using assms unfolding reclaim_rel_def
    by (blast intro: list_all2_trans action_reclaimed_trans job_reclaimed_trans)
  moreover have "db'' = db\<lparr>db_actions := db_actions db'', db_jobs := db_jobs db''\<rparr>"
    using assms unfolding reclaim_rel_def by (cases db; cases db'; cases db'') simp
  ultimately show ?thesis unfolding reclaim_rel_def by blast
qed

text \<open>Replacing the row of a unique key relates the tables pointwise.\<close>

lemma list_all2_update_where:
  assumes "distinct (map key xs)" and "r \<in> set xs" and "key r' = key r" and "R r r'"
    and "\<And>x. R x x"
  shows "list_all2 R xs (update_where (\<lambda>x. key x = key r') (\<lambda>_. r') xs)"
proof -
  have "R x (if key x = key r' then r' else x)" if "x \<in> set xs" for x
    using that assms by (auto simp: distinct_map dest: inj_onD)
  then show ?thesis
    by (auto simp: update_where_def list_all2_conv_all_nth)
qed

lemma action_reclaimed_refl [simp]: "action_reclaimed a a"
  by (simp add: action_reclaimed_def)

lemma job_reclaimed_refl [simp]: "job_reclaimed j j"
  by (simp add: job_reclaimed_def)

lemma reclaim_rel_put_action:
  assumes "get_action db k = Some r" and "act_action_id r' = act_action_id r"
    and "action_reclaimed r r'"
  shows "reclaim_rel db (put_action r' db)"
proof -
  have "distinct (map act_action_id (db_actions db)) \<Longrightarrow>
      list_all2 action_reclaimed (db_actions db) (db_actions (put_action r' db))"
    unfolding actions_table.rows_put
    by (rule list_all2_update_where) (use assms actions_table.get_mem in auto)
  then show ?thesis
    by (auto simp: reclaim_rel_def keys_unique_def actions_table.keys_put list_all2_same)
qed

lemma reclaim_rel_put_job:
  assumes "get_job db k = Some r" and "job_job_id r' = job_job_id r" and "job_reclaimed r r'"
  shows "reclaim_rel db (put_job r' db)"
proof -
  have "distinct (map job_job_id (db_jobs db)) \<Longrightarrow>
      list_all2 job_reclaimed (db_jobs db) (db_jobs (put_job r' db))"
    unfolding jobs_table.rows_put
    by (rule list_all2_update_where) (use assms jobs_table.get_mem in auto)
  then show ?thesis
    by (auto simp: reclaim_rel_def keys_unique_def jobs_table.keys_put list_all2_same)
qed

lemma reclaim_unsettled_rel:
  assumes "reclaim_unsettled_action now lease mx row job db = Inr (b, db')"
    and "get_action db k = Some row" and "act_status row = ActionStatus_value AS_EXECUTING"
  shows "reclaim_rel db db'"
proof -
  have "reclaim_rel db (put_action row' db)"
    if "act_action_id row' = act_action_id row" "action_reclaimed row row'" for row'
    using reclaim_rel_put_action [OF assms(2)] that by blast
  with assms(1,3) reclaim_rel_refl [of db] show ?thesis
    by (auto simp: reclaim_unsettled_action_def action_reclaimed_def RECLAIM_TARGETS_def
        split: if_splits)
qed

definition live_job :: "database \<Rightarrow> action_row \<Rightarrow> job_row option" where
  "live_job db row =
     (case act_execution_job_id row of
        None \<Rightarrow> None | Some jid \<Rightarrow> if jid = [] then None else get_job db jid)"

lemma reclaim_executing_cases:
  assumes "reclaim_stale_executing_action now lease mx row db = Inr (b, db')"
  shows "db' = db
    \<or> act_status row = ActionStatus_value AS_EXECUTING
      \<and> (reclaim_unsettled_action now lease mx row (live_job db row) db = Inr (b, db')
         \<or> (\<exists>js\<in>RECLAIM_SETTLED_JOBS.
              db' = put_action (row\<lparr>act_status := ActionStatus_value (map_job_to_action_status js),
                                    act_executed_at := Some now, act_updated_at := now\<rparr>) db))"
proof (cases "act_status row = ActionStatus_value AS_EXECUTING")
  case False
  with assms show ?thesis
    by (auto simp: reclaim_stale_executing_action_def
        dest!: ActionStatus_enum.parse_SomeD split: if_splits)
next
  case True
  note e = assms [unfolded reclaim_stale_executing_action_def, folded live_job_def]
  show ?thesis
  proof (cases "live_job db row")
    case None
    with e True show ?thesis
      by (simp split: if_splits)
  next
    case (Some job)
    show ?thesis
    proof (cases "ExecutionJobStatus_parse (job_status job)")
      case None
      with e True Some show ?thesis
        by (simp add: parse_or_raise_def of_opt_def split: if_splits)
    next
      case js: (Some js)
      show ?thesis
      proof (cases "js \<in> RECLAIM_SETTLED_JOBS")
        case settled: True
        with e True Some js have "db' = db \<or> db' = put_action (row\<lparr>act_status :=
            ActionStatus_value (map_job_to_action_status js), act_executed_at := Some now,
            act_updated_at := now\<rparr>) db"
          by (auto simp: parse_or_raise_def of_opt_def Let_def
              split: if_splits option.splits)
        with settled True show ?thesis by blast
      next
        case False
        with e True Some js show ?thesis
          by (simp add: parse_or_raise_def of_opt_def split: if_splits)
      qed
    qed
  qed
qed

lemma action_step_rel:
  assumes "action_step now lease mx k db = Inr (b, db')"
  shows "reclaim_rel db db'"
proof (cases "get_action db k")
  case None
  with assms reclaim_rel_refl show ?thesis by (simp add: action_step_def)
next
  case (Some row)
  with assms have "reclaim_stale_executing_action now lease mx row db = Inr (b, db')"
    by (simp add: action_step_def)
  from reclaim_executing_cases [OF this] show ?thesis
  proof (elim disjE conjE bexE)
    assume "db' = db"
    then show ?thesis using reclaim_rel_refl by simp
  next
    assume "act_status row = ActionStatus_value AS_EXECUTING"
      and "reclaim_unsettled_action now lease mx row (live_job db row) db = Inr (b, db')"
    then show ?thesis using reclaim_unsettled_rel Some by blast
  next
    fix js
    assume st: "act_status row = ActionStatus_value AS_EXECUTING"
      and js: "js \<in> RECLAIM_SETTLED_JOBS"
      and db': "db' = put_action (row\<lparr>act_status := ActionStatus_value (map_job_to_action_status js),
                  act_executed_at := Some now, act_updated_at := now\<rparr>) db"
    from js have "map_job_to_action_status js \<in> {AS_FAILED, AS_SUCCESS, AS_PARTIAL_SUCCESS}"
      by (auto simp: RECLAIM_SETTLED_JOBS_def map_job_to_action_status_def)
    then have "ActionStatus_value (map_job_to_action_status js) \<in> RECLAIM_TARGETS"
      unfolding RECLAIM_TARGETS_def by (intro imageI) blast
    with st have "action_reclaimed row (row\<lparr>act_status :=
        ActionStatus_value (map_job_to_action_status js), act_executed_at := Some now,
        act_updated_at := now\<rparr>)"
      by (simp add: action_reclaimed_def)
    then show ?thesis
      unfolding db' by (intro reclaim_rel_put_action [OF Some]) simp_all
  qed
qed

lemma job_reclaimedI:
  assumes "ExecutionJobStatus_parse (job_status j) = Some js" and "js \<in> {JS_QUEUED, JS_RUNNING}"
    and "job_lease_expires_at j = Some l"
    and "job_status j' \<in> ExecutionJobStatus_value ` {JS_QUEUED, JS_TIMED_OUT}"
    and "job_lease_expires_at j' = None" and "job_claimed_by j' = None"
    and "job_attempt j' \<in> {job_attempt j, job_attempt j + 1}"
    and "job_job_id j' = job_job_id j" and "job_action_id j' = job_action_id j"
    and "job_event_id j' = job_event_id j"
  shows "job_reclaimed j j'"
proof -
  have "job_status j \<in> ExecutionJobStatus_value ` {JS_QUEUED, JS_RUNNING}"
    using ExecutionJobStatus_enum.parse_SomeD [OF assms(1)] assms(2) by auto
  with assms show ?thesis by (simp add: job_reclaimed_def)
qed

lemma job_step_cases:
  assumes "reclaim_stale_job_row now mx job db = Inr (b, db')"
  shows "db' = db
    \<or> (\<exists>job'. job_job_id job' = job_job_id job \<and> job_reclaimed job job'
          \<and> (db' = put_job job' db
             \<or> (\<exists>row. get_action db (job_action_id job) = Some row
                   \<and> act_status row = ActionStatus_value AS_EXECUTING
                   \<and> db' = put_action (row\<lparr>act_status := ActionStatus_value AS_FAILED,
                               act_execution_job_id := None, act_executed_at := Some now,
                               act_updated_at := now\<rparr>) (put_job job' db))))"
proof (cases "db' = db")
  case False
  with assms obtain lease js where
    lease: "job_lease_expires_at job = Some lease" "\<not> lease \<ge> now"
    and js: "ExecutionJobStatus_parse (job_status job) = Some js" "js \<in> {JS_QUEUED, JS_RUNNING}"
    and ob: "\<not> has_active_outbox db (job_action_id job)"
    by (auto simp: reclaim_stale_job_row_def split: option.splits if_splits)
  show ?thesis
  proof (cases "job_attempt job \<ge> mx")
    case True
    let ?job' = "job\<lparr>job_status := ExecutionJobStatus_value JS_TIMED_OUT, job_claimed_by := None,
        job_lease_expires_at := None, job_provider_message := Some ''lease_expired_max_attempts'',
        job_finished_at := Some now, job_updated_at := now\<rparr>"
    have rec: "job_reclaimed job ?job'"
      by (rule job_reclaimedI [OF js lease(1)]) simp_all
    have "db' = put_job ?job' db
        \<or> (\<exists>row. get_action db (job_action_id job) = Some row
              \<and> act_status row = ActionStatus_value AS_EXECUTING
              \<and> db' = put_action (row\<lparr>act_status := ActionStatus_value AS_FAILED,
                          act_execution_job_id := None, act_executed_at := Some now,
                          act_updated_at := now\<rparr>) (put_job ?job' db))"
      using assms True lease js ob
      by (auto simp: reclaim_stale_job_row_def Let_def dest: ActionStatus_enum.parse_SomeD
          split: option.splits if_splits)
    with rec show ?thesis by (intro disjI2 exI [of _ ?job']) simp
  next
    case False
    let ?job' = "job\<lparr>job_status := (if js = JS_RUNNING then ExecutionJobStatus_value JS_QUEUED
          else job_status job), job_claimed_by := None, job_lease_expires_at := None,
        job_attempt := job_attempt job + 1, job_updated_at := now\<rparr>"
    have "job_status ?job' \<in> ExecutionJobStatus_value ` {JS_QUEUED, JS_TIMED_OUT}"
      using ExecutionJobStatus_enum.parse_SomeD [OF js(1)] js(2) by auto
    then have rec: "job_reclaimed job ?job'"
      by (rule job_reclaimedI [OF js lease(1)]) simp_all
    have "db' = put_job ?job' db"
      using assms False lease js ob
      by (auto simp: reclaim_stale_job_row_def
          split: if_splits)
    with rec show ?thesis by (intro disjI2 exI [of _ ?job']) simp
  qed
qed simp

lemma job_step_rel:
  assumes "job_step now mx k db = Inr (b, db')"
  shows "reclaim_rel db db'"
proof (cases "get_job db k")
  case None
  with assms reclaim_rel_refl show ?thesis by (simp add: job_step_def)
next
  case (Some job)
  with assms have "reclaim_stale_job_row now mx job db = Inr (b, db')" by (simp add: job_step_def)
  from job_step_cases [OF this] show ?thesis
  proof (elim disjE exE conjE)
    assume "db' = db"
    then show ?thesis using reclaim_rel_refl by simp
  next
    fix job' assume "job_job_id job' = job_job_id job" "job_reclaimed job job'" "db' = put_job job' db"
    then show ?thesis using reclaim_rel_put_job [OF Some] by simp
  next
    fix job' row
    assume j: "job_job_id job' = job_job_id job" "job_reclaimed job job'"
      and row: "get_action db (job_action_id job) = Some row"
        "act_status row = ActionStatus_value AS_EXECUTING"
      and db': "db' = put_action (row\<lparr>act_status := ActionStatus_value AS_FAILED,
          act_execution_job_id := None, act_executed_at := Some now,
          act_updated_at := now\<rparr>) (put_job job' db)"
    have "reclaim_rel db (put_job job' db)" using reclaim_rel_put_job [OF Some] j by simp
    moreover have "reclaim_rel (put_job job' db) db'"
      unfolding db'
      by (rule reclaim_rel_put_action [of _ "job_action_id job" row])
         (use row in \<open>simp_all add: action_reclaimed_def RECLAIM_TARGETS_def\<close>)
    ultimately show ?thesis by (rule reclaim_rel_trans)
  qed
qed

interpretation job_pass: reclaim_pass "job_step now mx" reclaim_rel for now mx
  by unfold_locales (fact job_step_rel reclaim_rel_refl reclaim_rel_trans)+

interpretation action_pass: reclaim_pass "action_step now lease mx" reclaim_rel for now lease mx
  by unfold_locales (fact action_step_rel reclaim_rel_refl reclaim_rel_trans)+

lemma reconcile_rel:
  assumes "reconcile_stale_executions_for_event settings now event_id limit force locked db
             = Inr (n, db')"
  shows "reclaim_rel db db'"
proof (cases "\<not> force \<and> \<not> cfg_action_execution_reconcile_enabled settings")
  case True
  with assms reclaim_rel_refl show ?thesis
    by (simp add: reconcile_stale_executions_for_event_def)
next
  case False
  with assms obtain m db1 where
    "reclaim_loop (job_step now (cfg_action_execution_max_attempts settings))
       (map job_job_id (stale_jobs now limit event_id locked db)) (0, db) = Inr (m, db1)"
    "reclaim_loop (action_step now (cfg_action_execution_lease_us settings)
        (cfg_action_execution_max_attempts settings))
       (map act_action_id (executing_actions limit event_id locked db1)) (m, db1) = Inr (n, db')"
    by (auto simp: reconcile_stale_executions_for_event_def)
  from job_pass.loop_rel [OF this(1)] action_pass.loop_rel [OF this(2)] show ?thesis
    using reclaim_rel_trans by simp
qed

text \<open>Every status and category column holds a value of its enumeration.\<close>

definition columns_known :: "database \<Rightarrow> bool" where
  "columns_known db \<longleftrightarrow>
     (\<forall>j\<in>set (db_jobs db). ExecutionJobStatus_parse (job_status j) \<noteq> None)
     \<and> (\<forall>a\<in>set (db_actions db). ActionStatus_parse (act_status a) \<noteq> None
          \<and> ActionCategory_parse (act_action_category a) \<noteq> None)"

lemma known_put_action:
  assumes "columns_known db" and "get_action db k = Some row"
    and "act_action_category row' = act_action_category row"
    and "act_status row' = ActionStatus_value st"
  shows "columns_known (put_action row' db)"
  using assms actions_table.get_mem [OF assms(2)]
  by (auto simp: columns_known_def dest!: actions_table.rows_put_cases)

lemma known_put_job:
  assumes "columns_known db" and "ExecutionJobStatus_parse (job_status j) \<noteq> None"
  shows "columns_known (put_job j db)"
  using assms by (auto simp: columns_known_def dest!: jobs_table.rows_put_cases)

lemma executing_to_failed: "action_accepts c default_action_evidence AS_EXECUTING AS_FAILED"
  by (cases c) (simp_all add: gate_simps default_action_evidence_def)

lemma executing_to_settled:
  assumes "js \<in> RECLAIM_SETTLED_JOBS" and "c \<in> {AC_RESPONSE, AC_ROLLBACK}"
  shows "action_accepts c default_action_evidence AS_EXECUTING (map_job_to_action_status js)"
  using assms
  by (auto simp: RECLAIM_SETTLED_JOBS_def map_job_to_action_status_def gate_simps
      default_action_evidence_def)

lemma executing_to_approved:
  assumes "c \<in> {AC_RESPONSE, AC_ROLLBACK}"
  shows "action_accepts c (default_action_evidence\<lparr>ev_lease_expired_reclaim := True\<rparr>)
           AS_EXECUTING AS_APPROVED"
  using assms
  by (auto simp: gate_simps default_action_evidence_def AUTO_APPROVABLE_ACTION_LEVELS_def)

lemma job_to_timed_out:
  "job_accepts \<lparr> ev_provider_confirmed_terminal = False, ev_job_lease_expired_reclaim = True \<rparr>
     JS_QUEUED JS_TIMED_OUT"
  "job_accepts \<lparr> ev_provider_confirmed_terminal = False, ev_job_lease_expired_reclaim = False \<rparr>
     JS_RUNNING JS_TIMED_OUT"
  by (simp_all add: gate_simps)

lemma job_to_queued:
  "job_accepts \<lparr> ev_provider_confirmed_terminal = False, ev_job_lease_expired_reclaim = True \<rparr>
     JS_RUNNING JS_QUEUED"
  by (simp add: gate_simps)

lemma known_action:
  assumes "columns_known db" and "get_action db k = Some row"
  obtains st c where "parse_or_raise ActionStatus_parse (act_status row) = Inr st"
    and "parse_or_raise ActionCategory_parse (act_action_category row) = Inr c"
  using assms actions_table.get_mem [OF assms(2)] by (auto simp: columns_known_def)

lemma known_job:
  assumes "columns_known db" and "get_job db k = Some j"
  obtains js where "parse_or_raise ExecutionJobStatus_parse (job_status j) = Inr js"
  using assms jobs_table.get_mem [OF assms(2)] by (auto simp: columns_known_def)

lemma response_category:
  assumes "act_action_category row \<in> RESPONSE_OR_ROLLBACK"
    and "parse_or_raise ActionCategory_parse (act_action_category row) = Inr c"
  shows "c \<in> {AC_RESPONSE, AC_ROLLBACK}"
  using assms ActionCategory_enum.parse_val
  by (auto simp: RESPONSE_OR_ROLLBACK_def )

text \<open>The contract of a step that never raises on databases satisfying \<open>inv\<close>.\<close>

locale reclaim_total =
  fixes step :: "string \<Rightarrow> database \<Rightarrow> (bool \<times> database) res" and inv :: "database \<Rightarrow> bool"
  assumes step_total: "inv db \<Longrightarrow> \<exists>b db'. step k db = Inr (b, db') \<and> inv db'"
begin

lemma loop_total:
  "inv (snd st) \<Longrightarrow> \<exists>n db'. reclaim_loop step ks st = Inr (n, db') \<and> inv db'"
proof (induction ks arbitrary: st)
  case Nil
  then show ?case by (cases st) simp
next
  case (Cons k ks)
  then obtain b db' where s: "step k (snd st) = Inr (b, db')" "inv db'" using step_total by blast
  with Cons.IH [of "((if b then fst st + 1 else fst st), db')"] show ?case by simp
qed

end

lemma job_step_total:
  assumes "columns_known db"
  shows "\<exists>b db'. job_step now mx k db = Inr (b, db') \<and> columns_known db'"
proof (cases "get_job db k")
  case None
  with assms show ?thesis by (auto simp: job_step_def)
next
  case (Some job)
  obtain js where js: "parse_or_raise ExecutionJobStatus_parse (job_status job) = Inr js"
    by (rule known_job [OF assms Some])
  have job: "columns_known (put_job job' db)"
    if "job_status job' \<in> insert (job_status job) (ExecutionJobStatus_value ` {JS_TIMED_OUT, JS_QUEUED})"
    for job'
    using that js by (intro known_put_job [OF assms]) auto
  show ?thesis
  proof (cases "get_action db (job_action_id job)")
    case None
    with Some js assms job show ?thesis
      by (auto simp: job_step_def reclaim_stale_job_row_def Let_def job_to_timed_out job_to_queued
          split: option.splits)
  next
    case (Some row)
    obtain st c where st: "parse_or_raise ActionStatus_parse (act_status row) = Inr st"
      and c: "parse_or_raise ActionCategory_parse (act_action_category row) = Inr c"
      by (rule known_action [OF assms Some])
    have row: "columns_known (put_action (row\<lparr>act_status := ActionStatus_value AS_FAILED,
          act_execution_job_id := x, act_executed_at := y, act_updated_at := z\<rparr>) db1)"
      if "columns_known db1" "get_action db1 (job_action_id job) = Some row" for db1 x y z
      using that by (rule known_put_action) simp_all
    from Some \<open>get_job db k = Some job\<close> js assms job row st c show ?thesis
      by (auto simp: job_step_def reclaim_stale_job_row_def Let_def job_to_timed_out job_to_queued
          executing_to_failed
          split: option.splits)
  qed
qed

lemma reclaim_unsettled_total:
  assumes "columns_known db" and "get_action db k = Some row"
    and "act_action_category row \<in> RESPONSE_OR_ROLLBACK"
  shows "\<exists>b db'. reclaim_unsettled_action now lease mx row job db = Inr (b, db') \<and> columns_known db'"
proof -
  obtain c where c: "parse_or_raise ActionCategory_parse (act_action_category row) = Inr c"
    using known_action [OF assms(1,2)] by blast
  note rc = response_category [OF assms(3) c]
  have row: "columns_known (put_action (row\<lparr>act_status := ActionStatus_value st,
        act_execution_job_id := None, act_executed_at := y, act_updated_at := now\<rparr>) db)" for st y
    using assms(1,2) by (rule known_put_action) simp_all
  have row': "columns_known (put_action (row\<lparr>act_status := ActionStatus_value st,
        act_execution_job_id := None, act_updated_at := now\<rparr>) db)" for st
    using assms(1,2) by (rule known_put_action) simp_all
  from assms(1) c row row' executing_to_failed executing_to_approved [OF rc] show ?thesis
    unfolding reclaim_unsettled_action_def by (auto split: option.splits)
qed

lemma action_step_total:
  assumes "columns_known db"
  shows "\<exists>b db'. action_step now lease mx k db = Inr (b, db') \<and> columns_known db'"
proof (cases "get_action db k")
  case None
  with assms show ?thesis by (auto simp: action_step_def)
next
  case (Some row)
  obtain st c where st: "parse_or_raise ActionStatus_parse (act_status row) = Inr st"
    and c: "parse_or_raise ActionCategory_parse (act_action_category row) = Inr c"
    by (rule known_action [OF assms Some])
  show ?thesis
  proof (cases "st = AS_EXECUTING \<and> act_action_category row \<in> RESPONSE_OR_ROLLBACK
      \<and> act_execution_phase row = ActionExecutionPhase_value AP_IMMEDIATE")
    case False
    with Some st assms show ?thesis
      by (auto simp: action_step_def reclaim_stale_executing_action_def)
  next
    case True
    then have uns: "\<exists>b db'. reclaim_unsettled_action now lease mx row job db = Inr (b, db')
        \<and> columns_known db'" for job
      using reclaim_unsettled_total [OF assms Some] by blast
    have start: "action_step now lease mx k db
        = reclaim_stale_executing_action now lease mx row db"
      using Some by (simp add: action_step_def)
    note e = start [unfolded reclaim_stale_executing_action_def, folded live_job_def]
    from st c have p: "ActionStatus_parse (act_status row) = Some st"
      "ActionCategory_parse (act_action_category row) = Some c" by simp_all
    show ?thesis
    proof (cases "live_job db row")
      case None
      with e p True uns [of None] show ?thesis by (simp add: parse_or_raise_def of_opt_def)
    next
      case job: (Some job)
      then obtain jid where "get_job db jid = Some job"
        by (auto simp: live_job_def split: option.splits if_splits)
      then obtain js where js: "ExecutionJobStatus_parse (job_status job) = Some js"
        using known_job assms by force
      have put: "columns_known (put_action (row\<lparr>act_status := ActionStatus_value s,
          act_executed_at := Some now, act_updated_at := now\<rparr>) db)" for s
        using assms Some by (rule known_put_action) simp_all
      show ?thesis
      proof (cases "js \<in> RECLAIM_SETTLED_JOBS")
        case settled: True
        with True e p job js put executing_to_settled [OF _ response_category [OF _ c], of js]
        show ?thesis by (auto simp: parse_or_raise_def of_opt_def)
      next
        case False
        with True e p job js assms uns [of "Some job"] show ?thesis
          by (auto simp: parse_or_raise_def of_opt_def)
      qed
    qed
  qed
qed

interpretation job_total: reclaim_total "job_step now mx" columns_known for now mx
  by unfold_locales (rule job_step_total)

interpretation action_total: reclaim_total "action_step now lease mx" columns_known
  for now lease mx
  by unfold_locales (rule action_step_total)

text \<open>C29: Reconciliation never raises on well-typed data. When every status and category
  column holds a known value, a reconciliation pass returns whatever the clock, limit,
  lease configuration and locks are, so stale executions alone never turn a close
  request into an error; the columns stay known.\<close>

theorem reconcile_total:
  assumes "columns_known db"
  shows "\<exists>n db'. reconcile_stale_executions_for_event settings now event_id limit force locked db
           = Inr (n, db') \<and> columns_known db'"
proof (cases "\<not> force \<and> \<not> cfg_action_execution_reconcile_enabled settings")
  case True
  with assms show ?thesis by (simp add: reconcile_stale_executions_for_event_def)
next
  case False
  let ?mx = "cfg_action_execution_max_attempts settings"
  obtain m db1 where one: "reclaim_loop (job_step now ?mx)
      (map job_job_id (stale_jobs now limit event_id locked db)) (0, db) = Inr (m, db1)"
    "columns_known db1"
    using job_total.loop_total [of "(0, db)"] assms by (metis snd_conv)
  obtain n db2 where "reclaim_loop (action_step now (cfg_action_execution_lease_us settings) ?mx)
      (map act_action_id (executing_actions limit event_id locked db1)) (m, db1) = Inr (n, db2)"
    "columns_known db2"
    using action_total.loop_total [of "(m, db1)"] one(2) by (metis snd_conv)
  with False one show ?thesis by (auto simp: reconcile_stale_executions_for_event_def)
qed

theorem reconcile_total_witness:
  "\<exists>n db'. reconcile_stale_executions_for_event example_settings 9 (Some ''evt-1'') 20 True (\<lambda>_. False)
      (empty_database\<lparr>db_actions := [example_action_row]\<rparr>) = Inr (n, db') \<and> columns_known db'"
  by (rule reconcile_total) (simp add: columns_known_def empty_database_def example_action_row_def)

text \<open>C30: What a reconciliation pass may change. With unique primary keys, every action
  row either stays as it is or leaves \<open>EXECUTING\<close> for \<open>APPROVED\<close>, \<open>FAILED\<close>,
  \<open>SUCCESS\<close> or \<open>PARTIAL_SUCCESS\<close> (so no action becomes approved that was not already
  executing), every job row either stays or was queued or running and is now queued or
  timed out with its lease released, and no other table changes.\<close>

theorem reconcile_effects:
  assumes "reconcile_stale_executions_for_event settings now event_id limit force locked db
             = Inr (n, db')"
    and "keys_unique db"
  shows "list_all2 action_reclaimed (db_actions db) (db_actions db')
    \<and> list_all2 job_reclaimed (db_jobs db) (db_jobs db')
    \<and> db' = db\<lparr>db_actions := db_actions db', db_jobs := db_jobs db'\<rparr>"
  using reconcile_rel [OF assms(1)] assms(2) by (simp add: reclaim_rel_def)

definition stuck_row :: action_row where
  "stuck_row = example_action_row\<lparr>act_status := ActionStatus_value AS_EXECUTING\<rparr>"

theorem reconcile_effects_witness:
  "\<exists>db'. reconcile_stale_executions_for_event example_settings 400000000 (Some ''evt-1'') 20 True
      (\<lambda>_. False) (empty_database\<lparr>db_actions := [stuck_row]\<rparr>) = Inr (1, db')
    \<and> list_all2 action_reclaimed [stuck_row] (db_actions db')
    \<and> map act_status (db_actions db') = [ActionStatus_value AS_APPROVED]"
proof -
  let ?db = "empty_database\<lparr>db_actions := [stuck_row]\<rparr>"
  let ?db' = "empty_database\<lparr>db_actions := [stuck_row\<lparr>act_status := ActionStatus_value AS_APPROVED,
      act_updated_at := 400000000\<rparr>]\<rparr>"
  have run: "reconcile_stale_executions_for_event example_settings 400000000 (Some ''evt-1'') 20 True
      (\<lambda>_. False) ?db = Inr (1, ?db')"
    by (simp add: reconcile_stale_executions_for_event_def stale_jobs_def executing_actions_def
        empty_database_def stuck_row_def example_action_row_def example_settings_def
        RESPONSE_OR_ROLLBACK_def action_step_def get_action_def reclaim_stale_executing_action_def
        reclaim_unsettled_action_def has_active_outbox_def gate_simps default_action_evidence_def
        AUTO_APPROVABLE_ACTION_LEVELS_def put_action_def update_where_def)
  have "keys_unique ?db" by (simp add: keys_unique_def empty_database_def)
  from reconcile_effects [OF run this] run show ?thesis by (auto simp: empty_database_def)
qed

end
