(* ===== verification/Convergence_Facts.thy ===== *)
theory Convergence_Facts
  imports Convergence
begin

text \<open>
  What the projections of the \<open>CLOSED\<close> gate say about the database: an action blocks
  the gate exactly when one of its side effects is not settled, the job index never
  hides an active job, and the summary's counters agree with its list.
\<close>

section \<open>List loops\<close>

lemma map_res_set:
  "map_res f xs = Inr ys \<Longrightarrow> set ys = {y. \<exists>x\<in>set xs. f x = Inr y}"
  by (induction xs arbitrary: ys) auto

lemma map_res_all:
  "map_res f xs = Inr ys \<Longrightarrow> x \<in> set xs \<Longrightarrow> \<exists>y\<in>set ys. f x = Inr y"
  by (induction xs arbitrary: ys) auto

section \<open>Outboxes\<close>

lemma delivery_blocks_None_iff:
  "outbox_delivery_blocks ob = None \<longleftrightarrow>
     ob_delivery_status ob = OutboxDeliveryStatus_value OD_DELIVERED"
proof (cases "OutboxDeliveryStatus_parse (ob_delivery_status ob)")
  case None
  then show ?thesis
    using OutboxDeliveryStatus_enum.parse_val [of OD_DELIVERED]
    by (auto simp: outbox_delivery_blocks_def)
next
  case (Some d)
  then have "ob_delivery_status ob = OutboxDeliveryStatus_value d"
    using OutboxDeliveryStatus_enum.parse_SomeD by metis
  with Some show ?thesis
    by (cases d) (auto simp: outbox_delivery_blocks_def UNDELIVERED_OUTBOX_STATUSES_def
        OutboxDeliveryStatus_enum.value_inject)
qed

lemma terminal_writeback_blocks_None_iff:
  "outbox_blocks_terminal_writeback ob = None \<longleftrightarrow>
     ob_delivery_status ob = OutboxDeliveryStatus_value OD_DELIVERED
     \<and> ob_latest_writeback_status ob
         \<in> {None, Some [], Some (WritebackStatus_value WB_CONFIRMED)}"
  by (auto simp: outbox_blocks_terminal_writeback_def delivery_blocks_None_iff
      split: option.splits)

text \<open>An entity submit that did not fail: no recorded writeback, or a known one that is neither failed nor in conflict.\<close>

definition entity_submit_not_failed :: "outbox_row \<Rightarrow> bool" where
  "entity_submit_not_failed ob \<longleftrightarrow>
     (case ob_latest_writeback_status ob of
        None \<Rightarrow> True
      | Some raw \<Rightarrow> raw = [] \<or> (\<exists>w. WritebackStatus_parse raw = Some w \<and> w \<notin> {WB_FAILED, WB_CONFLICT}))"

lemma entity_effect_blocks_None_iff:
  "outbox_blocks_entity_effect ob = None \<longleftrightarrow>
     ob_delivery_status ob = OutboxDeliveryStatus_value OD_DELIVERED
     \<and> entity_submit_not_failed ob"
  using delivery_blocks_None_iff [of ob]
  by (auto simp: outbox_blocks_entity_effect_def entity_submit_not_failed_def
      ENTITY_OUTBOX_FAILURE_STATUSES_def split: option.splits)

lemma set_load_active_outboxes:
  "set (load_active_outboxes db aid) =
     {ob \<in> set (db_outboxes db). ob_action_id ob = aid
        \<and> ob_superseded_by_disposition_id ob = None}"
  by (auto simp: load_active_outboxes_def)

section \<open>The job index\<close>

text \<open>Every job of the list has a status the enumeration knows.\<close>

definition job_statuses_known :: "job_row list \<Rightarrow> bool" where
  "job_statuses_known jobs \<longleftrightarrow> (\<forall>j\<in>set jobs. ExecutionJobStatus_parse (job_status j) \<noteq> None)"

definition job_active :: "job_row \<Rightarrow> bool" where
  "job_active j \<longleftrightarrow> (\<exists>s\<in>ACTIVE_JOB_STATUSES. ExecutionJobStatus_parse (job_status j) = Some s)"

lemma keep_job_dom: "keep_job m j a = None \<longleftrightarrow> m a = None \<and> a \<noteq> job_action_id j"
  by (auto simp: keep_job_def split: option.splits)

lemma keep_job_value:
  "keep_job m j a = Some x \<Longrightarrow> m a = Some x \<or> x = j \<and> a = job_action_id j"
  by (auto simp: keep_job_def split: option.splits if_splits prod.splits)

lemma foldl_keep_job_value:
  "foldl keep_job m jobs a = Some x \<Longrightarrow>
     m a = Some x \<or> x \<in> set jobs \<and> job_action_id x = a"
  by (induction jobs arbitrary: m) (auto dest!: keep_job_value)

lemma keep_job_active:
  assumes "m (job_action_id j) = None
      \<or> (\<exists>x. m (job_action_id j) = Some x \<and> ExecutionJobStatus_parse (job_status x) \<noteq> None)"
    and "job_active j"
  shows "\<exists>x. keep_job m j (job_action_id j) = Some x \<and> job_active x"
  using assms by (auto simp: keep_job_def job_active_def split: option.splits)

lemma keep_job_keeps_active:
  assumes "m a = Some x" and "job_active x"
  shows "keep_job m j a = Some x"
  using assms by (auto simp: keep_job_def job_active_def split: option.splits)

lemma foldl_keep_job_keeps_active:
  "m a = Some x \<Longrightarrow> job_active x \<Longrightarrow> foldl keep_job m jobs a = Some x"
  by (induction jobs arbitrary: m) (auto simp: keep_job_keeps_active)

lemma foldl_keep_job_active:
  assumes "job_statuses_known jobs" and "j \<in> set jobs" and "job_active j"
    and "\<forall>a x. m a = Some x \<longrightarrow> ExecutionJobStatus_parse (job_status x) \<noteq> None"
  shows "\<exists>x. foldl keep_job m jobs (job_action_id j) = Some x \<and> job_active x"
  using assms
proof (induction jobs arbitrary: m)
  case Nil
  then show ?case by simp
next
  case (Cons k jobs)
  show ?case
  proof (cases "j = k")
    case True
    have "m (job_action_id j) = None
        \<or> (\<exists>x. m (job_action_id j) = Some x \<and> ExecutionJobStatus_parse (job_status x) \<noteq> None)"
      using Cons.prems(4) by (cases "m (job_action_id j)") auto
    then obtain x where "keep_job m k (job_action_id j) = Some x" "job_active x"
      using keep_job_active Cons.prems(3) True by blast
    then show ?thesis using foldl_keep_job_keeps_active by fastforce
  next
    case False
    show ?thesis
    proof -
      have known: "\<forall>a x. keep_job m k a = Some x \<longrightarrow> ExecutionJobStatus_parse (job_status x) \<noteq> None"
        using Cons.prems(1,4) keep_job_value unfolding job_statuses_known_def
        by (metis list.set_intros(1))
      have "job_statuses_known jobs" "j \<in> set jobs"
        using Cons.prems(1,2) False by (auto simp: job_statuses_known_def)
      from Cons.IH [OF this Cons.prems(3) known] show ?thesis by simp
    qed
  qed
qed


definition example_job :: "string \<Rightarrow> string \<Rightarrow> job_row" where
  "example_job jid st =
     \<lparr> job_job_id = jid, job_event_id = ''evt-1'', job_action_id = ''act-1'', job_status = st,
       job_claimed_by = None, job_lease_expires_at = None, job_attempt = 0,
       job_provider_message = None, job_updated_at = 0, job_finished_at = None,
       job_provider_name = ''mock_xdr'', job_idempotency_key = jid, job_started_at = None \<rparr>"


section \<open>When an action blocks the gate\<close>

definition owner_blank :: "action_row \<Rightarrow> bool" where
  "owner_blank a \<longleftrightarrow> strip (case act_execution_owner a of None \<Rightarrow> [] | Some x \<Rightarrow> x) = []"

abbreviation entity_submit :: "outbox_row \<Rightarrow> bool" where
  "entity_submit ob \<equiv> ob_intent_kind ob = DispositionIntentKind_value IK_ENTITY_ACTION_SUBMIT"

abbreviation delivered :: "outbox_row \<Rightarrow> bool" where
  "delivered ob \<equiv> ob_delivery_status ob = OutboxDeliveryStatus_value OD_DELIVERED"

text \<open>
  The evidence each convergence policy asks for, over the set of an action's active
  outboxes: a terminal writeback is delivered and not known to be unconfirmed; an
  entity effect has a delivered submit, a successful job and a verified effect; a
  direct execution has a successful job.
\<close>

definition policy_evidence ::
  "action_row \<Rightarrow> job_row option \<Rightarrow> outbox_row set \<Rightarrow> VerificationResult option
     \<Rightarrow> SideEffectConvergencePolicy \<Rightarrow> bool" where
  "policy_evidence a job obs verification policy =
     (case policy of
        TERMINAL_WRITEBACK \<Rightarrow>
          (\<forall>ob\<in>obs. delivered ob \<and> ob_latest_writeback_status ob
              \<in> {None, Some [], Some (WritebackStatus_value WB_CONFIRMED)})
      | INDEPENDENT_ENTITY_EFFECT \<Rightarrow>
          (\<exists>ob\<in>obs. entity_submit ob)
          \<and> (\<forall>ob\<in>obs. entity_submit ob \<longrightarrow> delivered ob \<and> entity_submit_not_failed ob)
          \<and> job_terminal_success job
          \<and> entity_effect_verified_for_action verification (act_action_id a)
      | EXECUTION_JOB_ONLY \<Rightarrow> job_terminal_success job)"

definition side_effects_settled ::
  "action_row \<Rightarrow> (string \<rightharpoonup> job_row) \<Rightarrow> outbox_row list \<Rightarrow> VerificationResult option \<Rightarrow> bool"
where
  "side_effects_settled a jobs obs verification \<longleftrightarrow>
     parse_action_status (act_status a) \<noteq> AS_EXECUTING
     \<and> action_has_active_job (act_action_id a) jobs = None
     \<and> (owner_blank a
         \<or> policy_evidence a (jobs (act_action_id a)) (set obs) verification
              (resolve_convergence_policy a obs))"

lemma blocks_policy [simp]:
  "snd (action_side_effect_blocks_convergence a jobs obs v) = resolve_convergence_policy a obs"
  by (simp add: action_side_effect_blocks_convergence_def Let_def
      split: SideEffectConvergencePolicy.splits option.splits)

lemma scan_terminal_None_iff:
  "scan_outboxes_for_block obs TERMINAL_WRITEBACK = None \<longleftrightarrow>
     (\<forall>ob\<in>set obs. outbox_blocks_terminal_writeback ob = None)"
  by (simp add: scan_outboxes_for_block_def first_some_None_iff)

lemma scan_entity_None_iff:
  "scan_outboxes_for_block obs INDEPENDENT_ENTITY_EFFECT = None \<longleftrightarrow>
     (\<forall>ob\<in>set obs. outbox_blocks_entity_effect ob = None)"
  by (simp add: scan_outboxes_for_block_def first_some_None_iff)

lemma filter_empty_iff: "filter P xs = [] \<longleftrightarrow> \<not> (\<exists>x\<in>set xs. P x)"
  by (auto simp: filter_empty_conv)

lemma blocks_None_iff:
  "fst (action_side_effect_blocks_convergence a jobs obs v) = None \<longleftrightarrow>
     side_effects_settled a jobs obs v"
  using scan_entity_None_iff [of "filter entity_submit obs"]
  by (cases "resolve_convergence_policy a obs")
     (auto simp: action_side_effect_blocks_convergence_def side_effects_settled_def Let_def
        owner_blank_def policy_evidence_def scan_terminal_None_iff
        terminal_writeback_blocks_None_iff entity_effect_blocks_None_iff filter_empty_iff
       split: option.splits)

lemma outstanding_view_None_iff:
  "outstanding_view db jobs v rv dp a = None \<longleftrightarrow>
     act_status a = ActionStatus_value AS_REJECTED
     \<or> side_effects_settled a jobs (load_active_outboxes db (act_action_id a)) v"
  by (cases "action_side_effect_blocks_convergence a jobs
               (load_active_outboxes db (act_action_id a)) v")
     (use blocks_None_iff [of a jobs "load_active_outboxes db (act_action_id a)" v] in
       \<open>auto simp: outstanding_view_def Let_def split: option.splits\<close>)

lemma outstanding_view_fields:
  assumes "outstanding_view db jobs v rv dp a = Some w"
  shows "ov_scope w = classify_scope a rv dp" and "ov_action_id w = act_action_id a"
    and "ov_blocking_reason w \<noteq> None"
  using assms
  by (auto simp: outstanding_view_def Let_def split: if_splits option.splits prod.splits)

abbreviation event_jobs :: "database \<Rightarrow> string \<Rightarrow> job_row list" where
  "event_jobs db event_id \<equiv> filter (\<lambda>j. job_event_id j = event_id) (db_jobs db)"

text \<open>
  The actions that take part in the gate of an event: response and rollback rows of
  the current revision that are neither superseded nor rejected.
\<close>

definition gate_action :: "database \<Rightarrow> string \<Rightarrow> int \<Rightarrow> action_row \<Rightarrow> bool" where
  "gate_action db event_id rv a \<longleftrightarrow>
     a \<in> set (db_actions db) \<and> act_event_id a = event_id
     \<and> act_action_category a \<in> RESPONSE_OR_ROLLBACK
     \<and> act_plan_revision a = rv \<and> act_superseded_by_revision a = None
     \<and> act_status a \<noteq> ActionStatus_value AS_REJECTED"

text \<open>The convergence check of a required event passes exactly when every action that
  takes part in the gate has settled side effects in the database: it is not
  executing, has no active job, and its policy's evidence (delivered and confirmed
  outboxes, successful job, verified effect) is on record. Superseded actions,
  actions of older revisions and rejected ones never block.\<close>

lemma convergence_check_iff:
  "check_gate_applicable_side_effect_convergence
     (build_side_effect_convergence_summary decode db event_id (Some rv) DP_REQUIRED) = None \<longleftrightarrow>
   {a. gate_action db event_id rv a} \<subseteq>
     {a. side_effects_settled a (build_jobs_by_action (event_jobs db event_id))
        (load_active_outboxes db (act_action_id a)) (load_verification_result decode db event_id)}"
  (is "?check \<longleftrightarrow> _ \<subseteq> ?settled")
proof -
  let ?view = "outstanding_view db (build_jobs_by_action (event_jobs db event_id))
                 (load_verification_result decode db event_id) (Some rv) DP_REQUIRED"
  let ?rows = "{a \<in> set (db_actions db). act_event_id a = event_id
                  \<and> act_action_category a \<in> RESPONSE_OR_ROLLBACK}"
  have scope: "classify_scope a (Some rv) DP_REQUIRED = GATE_APPLICABLE \<longleftrightarrow>
      act_superseded_by_revision a = None \<and> act_plan_revision a = rv" for a
    by (simp add: classify_scope_def)
  have "?check \<longleftrightarrow> (\<forall>a\<in>?rows. \<forall>w. ?view a = Some w \<longrightarrow> ov_scope w \<noteq> GATE_APPLICABLE)"
    using outstanding_view_fields(3)
    by (fastforce simp: check_gate_applicable_None_iff build_side_effect_convergence_summary_def
        Let_def map_filter_set)
  also have "\<dots> \<longleftrightarrow> (\<forall>a\<in>?rows. ?view a = None \<or> \<not> (act_superseded_by_revision a = None
      \<and> act_plan_revision a = rv))"
    using outstanding_view_fields(1) scope by (metis (no_types, lifting) not_None_eq)
  also have "\<dots> \<longleftrightarrow> {a. gate_action db event_id rv a} \<subseteq> ?settled"
    by (auto simp: outstanding_view_None_iff gate_action_def)
  finally show ?thesis .
qed

lemma summary_gate_count:
  "sm_gate_applicable_outstanding_count
     (build_side_effect_convergence_summary decode db event_id rv dp) =
   length (filter (\<lambda>v. ov_scope v = GATE_APPLICABLE)
     (sm_outstanding_actions (build_side_effect_convergence_summary decode db event_id rv dp)))"
  by (simp add: build_side_effect_convergence_summary_def Let_def split: option.splits)

lemma summary_background_count:
  "sm_background_outstanding_count
     (build_side_effect_convergence_summary decode db event_id rv dp) =
   length (filter (\<lambda>v. ov_scope v \<noteq> GATE_APPLICABLE)
     (sm_outstanding_actions (build_side_effect_convergence_summary decode db event_id rv dp)))"
  by (simp add: build_side_effect_convergence_summary_def Let_def split: option.splits)

lemma summary_pending_flag:
  "sm_background_side_effects_pending
     (build_side_effect_convergence_summary decode db event_id rv dp) \<longleftrightarrow>
   0 < sm_background_outstanding_count
         (build_side_effect_convergence_summary decode db event_id rv dp)"
  by (simp add: build_side_effect_convergence_summary_def Let_def split: option.splits)

lemma classify_scope_not_required [simp]:
  "classify_scope a rv DP_NOT_REQUIRED = BACKGROUND_DETACHED"
  by (simp add: classify_scope_def split: option.splits)

text \<open>Outstanding side effects of an event that needs no disposition never block its
  closing: the summary reports all of them as background work, and the pending
  flag is set exactly when there are some.\<close>

theorem not_required_only_background:
  "(let s = build_side_effect_convergence_summary decode db event_id rv DP_NOT_REQUIRED
    in check_gate_applicable_side_effect_convergence s = None
       \<and> sm_gate_applicable_outstanding_count s = 0
       \<and> sm_background_outstanding_count s = length (sm_outstanding_actions s)
       \<and> (sm_background_side_effects_pending s \<longleftrightarrow> sm_outstanding_actions s \<noteq> []))"
proof -
  let ?s = "build_side_effect_convergence_summary decode db event_id rv DP_NOT_REQUIRED"
  have bg: "ov_scope w \<noteq> GATE_APPLICABLE" if "w \<in> set (sm_outstanding_actions ?s)" for w
    using that
    by (cases rv) (auto simp: build_side_effect_convergence_summary_def Let_def map_filter_set
        dest!: outstanding_view_fields(1))
  then have "check_gate_applicable_side_effect_convergence ?s = None"
    by (auto simp: check_gate_applicable_None_iff)
  moreover have "filter (\<lambda>v. ov_scope v = GATE_APPLICABLE) (sm_outstanding_actions ?s) = []"
    using bg by (simp add: filter_empty_conv)
  moreover have "filter (\<lambda>v. ov_scope v \<noteq> GATE_APPLICABLE) (sm_outstanding_actions ?s)
      = sm_outstanding_actions ?s"
    using bg by (simp add: filter_id_conv)
  ultimately show ?thesis
    by (simp add: Let_def summary_gate_count summary_background_count summary_pending_flag)
qed

end
