(* ===== verification/State_Machine_Facts.thy ===== *)
theory State_Machine_Facts
  imports State_Machine Execution_Facts Convergence_Facts
begin

text \<open>
  What the state machine guarantees: the meaning of a successful close in terms of the
  committed database, and the invariants of every interleaving of the modelled
  services' transactions (\<open>system_step\<close>).
\<close>

section \<open>One committed transition\<close>

text \<open>
  How an event row may change in one transaction: along an edge of the matrix, with
  the version bumped and the replan counter bumped exactly on replanning.
\<close>

definition event_moved :: "EventStatus \<Rightarrow> EventStatus \<Rightarrow> security_event_row \<Rightarrow> security_event_row \<Rightarrow> bool"
where
  "event_moved s t e e' \<longleftrightarrow>
     se_event_id e' = se_event_id e
     \<and> se_status e = EventStatus_value s \<and> se_status e' = EventStatus_value t
     \<and> edge_allowed STATE_TRANSITIONS s t
     \<and> se_row_version e' = bump_version (se_row_version e)
     \<and> se_replan_count e' = se_replan_count e + (if t = ES_REPLANNING then 1 else 0)
     \<and> (t = ES_REPLANNING \<longrightarrow> se_replan_count e' \<le> MAX_REPLAN_COUNT)
     \<and> se_disposition_policy e' = se_disposition_policy e
     \<and> se_event_context_snapshot e' = se_event_context_snapshot e"

definition audited :: "sm_env \<Rightarrow> string \<Rightarrow> EventStatus \<Rightarrow> EventStatus \<Rightarrow> database \<Rightarrow> database \<Rightarrow> bool" where
  "audited env k s t db1 db' \<longleftrightarrow>
     (if env_audit_log env
      then \<exists>p r. db' = add_audit k (Some (EventStatus_value s)) (Some (EventStatus_value t)) p r
                         (env_now env) db1
      else db' = db1)"

lemma audited_log:
  "audited env k s t db1
     (if env_audit_log env
      then log_transition_in_session env k (EventStatus_value s) (EventStatus_value t) p r db1
      else db1)"
proof (cases "env_audit_log env")
  case True
  then show ?thesis
    unfolding audited_def log_transition_in_session_def if_P [OF True] by (intro exI) (rule refl)
next
  case False
  then show ?thesis by (simp add: audited_def)
qed

lemma transition_in_txD:
  assumes "transition_in_tx env caller k t p r db = Inr (e', db')"
  obtains e s ctx where "get_event db k = Some e"
    and "build_authoritative_context env db k e caller = Inr ctx" and "event_accepts ctx s t"
    and "event_moved s t e e'" and "audited env k s t (put_event e' db) db'"
    and "se_external_unsynced e' = se_external_unsynced e"
    and "t = ES_CLOSED \<Longrightarrow> se_closed_at e' = Some (env_now env)"
proof -
  from assms obtain e s ctx e1 where
    e: "get_event db k = Some e" "EventStatus_parse (se_status e) = Some s"
      "build_authoritative_context env db k e caller = Inr ctx" "event_accepts ctx s t"
      "apply_pre_transition_side_effects e t ctx = Inr e1"
    and e': "e' = apply_post_transition_side_effects (env_now env)
        (e1\<lparr>se_status := EventStatus_value t, se_row_version := bump_version (se_row_version e1),
            se_updated_at := env_now env\<rparr>) t"
    and db': "db' = (if env_audit_log env
        then log_transition_in_session env k (se_status e) (EventStatus_value t)
               (Some (case p of None \<Rightarrow> STATE_MACHINE_OPERATOR
                      | Some x \<Rightarrow> if x = [] then STATE_MACHINE_OPERATOR else x)) r (put_event e' db)
        else put_event e' db)"
    by (auto simp: transition_in_tx_def Let_def)
  note st = EventStatus_enum.parse_SomeD [OF e(2), symmetric]
  have moved: "event_moved s t e e'"
    using e(4,5) st
    by (auto simp: e' event_moved_def apply_post_transition_side_effects_def
        apply_pre_transition_side_effects_def event_accepts_iff split: if_splits)
  have aud: "audited env k s t (put_event e' db) db'"
    unfolding db' st by (rule audited_log)
  have ext: "se_external_unsynced e' = se_external_unsynced e"
    using e(5) by (auto simp: e' apply_post_transition_side_effects_def
        apply_pre_transition_side_effects_def split: if_splits)
  show thesis
    by (rule that [OF e(1,3,4) moved aud ext])
       (simp add: e' apply_post_transition_side_effects_def)
qed

lemma force_close_in_txD:
  assumes "force_close_in_tx env k p r db = Inr (e', db')"
  obtains e s where "get_event db k = Some e" and "event_moved s ES_CLOSED e e'"
    and "audited env k s ES_CLOSED (put_event e' db) db'"
    and "se_external_unsynced e'" and "ROLE_ADMIN \<in> set (pr_roles p)"
proof -
  from assms obtain e s where
    e: "get_event db k = Some e" "EventStatus_parse (se_status e) = Some s"
      "ES_CLOSED \<in> STATE_TRANSITIONS s" "has_any_role p [ROLE_ADMIN]"
    and e': "e' = e\<lparr>se_status := EventStatus_value ES_CLOSED, se_closed_at := Some (env_now env),
          se_external_unsynced := True, se_row_version := bump_version (se_row_version e),
          se_updated_at := env_now env\<rparr>"
    and db': "\<exists>o' r'. db' = (if env_audit_log env
        then log_transition_in_session env k (se_status e) (EventStatus_value ES_CLOSED) o' r'
               (put_event e' db)
        else put_event e' db)"
    by (auto simp: force_close_in_tx_def Let_def)
  note st = EventStatus_enum.parse_SomeD [OF e(2), symmetric]
  show thesis
  proof (rule that [OF e(1)])
    show "event_moved s ES_CLOSED e e'"
      using e(3) st by (simp add: e' event_moved_def edge_allowed_def)
    show "audited env k s ES_CLOSED (put_event e' db) db'"
      using db' unfolding st by (auto simp del: if_split intro: audited_log)
    show "ROLE_ADMIN \<in> set (pr_roles p)" using e(4) by (simp add: has_any_role_def)
    show "se_external_unsynced e'" by (simp add: e')
  qed
qed

lemma audited_frames:
  assumes "audited env k s t db1 db'"
  shows "db_events db' = db_events db1" "db_actions db' = db_actions db1"
    "db_jobs db' = db_jobs db1" "db_outboxes db' = db_outboxes db1"
    "db_receipts db' = db_receipts db1" "db_journal db' = db_journal db1"
    "db_reports db' = db_reports db1" "db_approvals db' = db_approvals db1"
    "get_event db' = get_event db1"
  using assms by (auto simp: audited_def split: if_splits)

lemma transition_cases:
  assumes "transition env caller k t p r db = (db', res)"
  shows "(\<exists>x. res = Inl x \<and> (db' = db \<or> reclaim_rel db db'))
    \<or> (\<exists>e' db0. res = Inr e' \<and> transition_in_tx env caller k t p r db0 = Inr (e', db')
         \<and> (if t = ES_CLOSED then reclaim_rel db db0 else db0 = db))"
proof (cases "t = ES_CLOSED")
  case True
  show ?thesis
  proof (cases "reconcile_stale_executions_for_event (env_settings env) (env_now env) (Some k) 20
      True (env_locked env) db")
    case (Inl x)
    with assms True show ?thesis
      by (auto simp: transition_def reconcile_stale_executions_before_close_def)
  next
    case (Inr nd)
    obtain n db0 where nd: "nd = (n, db0)" by force
    have "reclaim_rel db db0" using reconcile_rel Inr nd by blast
    with assms True Inr nd show ?thesis
      by (auto simp: transition_def reconcile_stale_executions_before_close_def
          split: sum.splits prod.splits)
  qed
next
  case False
  with assms show ?thesis by (auto simp: transition_def split: sum.splits prod.splits)
qed

section \<open>What a close means\<close>

lemma closed_gate_view_fields:
  assumes "closed_gate_view db a = Inr v"
  shows "cg_writeback_required v = act_writeback_required a"
    and "cg_writeback_applicable v = act_writeback_applicable a"
    and "cg_rejected v \<longleftrightarrow> act_status a = ActionStatus_value AS_REJECTED"
    and "cg_has_command v \<longleftrightarrow> load_active_outboxes db (act_action_id a) \<noteq> []"
    and "cg_all_required_intents_confirmed v \<longleftrightarrow> load_active_outboxes db (act_action_id a) \<noteq> []
           \<and> (\<forall>ob\<in>set (load_active_outboxes db (act_action_id a)).
                ob_latest_writeback_status ob = Some (WritebackStatus_value WB_CONFIRMED))"
    and "act_superseded_by_revision a = None \<Longrightarrow> \<not> cg_superseded v"
    and "ActionCategory_parse (act_action_category a) = Some (cg_action_category v)"
  using assms by (auto simp: closed_gate_view_def Let_def list_all_iff)

text \<open>
  The evidence on record for an event whose plan revision is \<open>rv\<close>: a report, settled
  side effects of every gate action, at least one writeback obligation, every
  obligation with active outboxes that are all confirmed, and an acceptable terminal
  writeback.
\<close>

definition obligation :: "database \<Rightarrow> string \<Rightarrow> int \<Rightarrow> action_row \<Rightarrow> bool" where
  "obligation db k rv a \<longleftrightarrow>
     gate_action db k rv a \<and> act_writeback_required a \<and> act_writeback_applicable a"

definition active_outboxes :: "database \<Rightarrow> action_row \<Rightarrow> outbox_row set" where
  "active_outboxes db a =
     {ob \<in> set (db_outboxes db). ob_action_id ob = act_action_id a
        \<and> ob_superseded_by_disposition_id ob = None}"

definition terminal_confirmed :: "sm_env \<Rightarrow> database \<Rightarrow> string \<Rightarrow> int \<Rightarrow> bool" where
  "terminal_confirmed env db k rv \<longleftrightarrow>
     (\<exists>t. build_terminal_writeback_view env db k (Some rv) = Some t
        \<and> tw_receipt_status t = WB_CONFIRMED
        \<and> tw_actual_disposition t = tw_approved_disposition t
        \<and> tw_approved_disposition t \<in> TERMINAL_SOURCE_DISPOSITIONS
        \<and> read_closure_cycle db k \<in> {None, Some (tw_closure_cycle t)}
        \<and> (is_mock_disposition_mode (cfg_disposition_mode (env_settings env))
           \<or> tw_simulated t = Some False
             \<and> tw_confirmation_evidence t \<in> Some ` {CE_READBACK_VERIFIED, CE_MANUAL_CONFIRMED}))"

definition close_evidence :: "sm_env \<Rightarrow> database \<Rightarrow> string \<Rightarrow> int \<Rightarrow> bool" where
  "close_evidence env db k rv \<longleftrightarrow>
     (\<exists>r\<in>set (db_reports db). rp_event_id r = k)
     \<and> {a. gate_action db k rv a} \<subseteq>
         {a. side_effects_settled a (build_jobs_by_action (event_jobs db k))
               (load_active_outboxes db (act_action_id a))
               (load_verification_result (env_decode_verification env) db k)}
     \<and> {a. obligation db k rv a} \<noteq> {}
     \<and> {a. obligation db k rv a} \<subseteq>
         {a. active_outboxes db a \<noteq> {}
             \<and> active_outboxes db a \<subseteq>
                 {ob. ob_latest_writeback_status ob = Some (WritebackStatus_value WB_CONFIRMED)}}
     \<and> terminal_confirmed env db k rv"

lemma authoritative_context_fields:
  assumes "build_authoritative_context env db k e caller = Inr ctx"
  shows "cx_report_exists ctx \<longleftrightarrow> check_report_exists db k"
    and "\<exists>dp. cx_disposition_policy ctx = Some dp \<and> DispositionPolicy_parse (se_disposition_policy e) = Some dp
          \<and> cx_side_effect_convergence ctx = Some (build_side_effect_convergence_summary
               (env_decode_verification env) db k (current_plan_revision db k) dp)"
    and "build_closed_gate_actions db k (current_plan_revision db k)
           = Inr (cx_applicable_required_actions ctx)"
    and "cx_terminal_event_writeback ctx
           = build_terminal_writeback_view env db k (current_plan_revision db k)"
    and "cx_current_closure_cycle ctx = read_closure_cycle db k"
    and "cx_disposition_is_mock ctx
           \<longleftrightarrow> is_mock_disposition_mode (cfg_disposition_mode (env_settings env))"
    and "\<exists>v. cx_final_verdict ctx = Some v \<and> FinalVerdict_parse (se_final_verdict e) = Some v"
    and "\<not> cx_force_close ctx"
  using assms by (auto simp: build_authoritative_context_def Let_def)

lemma gate_rows_obligation:
  assumes "build_closed_gate_actions db k (Some rv) = Inr views"
  shows "filter_applicable_required_writeback_actions views \<noteq> [] \<longleftrightarrow> {a. obligation db k rv a} \<noteq> {}"
    and "obligation db k rv a \<Longrightarrow>
      \<exists>v\<in>set (filter_applicable_required_writeback_actions views). closed_gate_view db a = Inr v"
proof -
  let ?rows = "filter (\<lambda>a. act_event_id a = k \<and> act_plan_revision a = rv
      \<and> act_action_category a \<in> RESPONSE_OR_ROLLBACK \<and> act_superseded_by_revision a = None)
      (db_actions db)"
  from assms have m: "map_res (closed_gate_view db) ?rows = Inr views"
    by (simp add: build_closed_gate_actions_def)
  have cat: "cg_action_category v \<in> {AC_RESPONSE, AC_ROLLBACK}"
    if "closed_gate_view db a = Inr v" "act_action_category a \<in> RESPONSE_OR_ROLLBACK" for a v
    using closed_gate_view_fields(7) [OF that(1)] that(2)
    by (auto simp: RESPONSE_OR_ROLLBACK_def)
  have ex: "\<exists>v\<in>set (filter_applicable_required_writeback_actions views). closed_gate_view db a = Inr v"
    if "obligation db k rv a" for a
  proof -
    from that have "a \<in> set ?rows" by (auto simp: obligation_def gate_action_def)
    from map_res_all [OF m this] obtain v where v: "v \<in> set views" "closed_gate_view db a = Inr v"
      by blast
    have "v \<in> set (filter_applicable_required_writeback_actions views)"
      using v(1) that closed_gate_view_fields [OF v(2)] cat [OF v(2)]
      by (auto simp: filter_applicable_required_writeback_actions_def obligation_def gate_action_def)
    with v(2) show ?thesis by blast
  qed
  then show "obligation db k rv a \<Longrightarrow>
      \<exists>v\<in>set (filter_applicable_required_writeback_actions views). closed_gate_view db a = Inr v" .
  show "filter_applicable_required_writeback_actions views \<noteq> [] \<longleftrightarrow> {a. obligation db k rv a} \<noteq> {}"
  proof
    assume "filter_applicable_required_writeback_actions views \<noteq> []"
    then obtain v where "v \<in> set (filter_applicable_required_writeback_actions views)"
      by (meson last_in_set)
    then have v: "v \<in> set views" "cg_writeback_required v" "cg_writeback_applicable v" "\<not> cg_rejected v"
      by (auto simp: filter_applicable_required_writeback_actions_def)
    from v(1) map_res_set [OF m] obtain a where a: "a \<in> set ?rows" "closed_gate_view db a = Inr v"
      by auto
    with v closed_gate_view_fields [OF a(2)] have "obligation db k rv a"
      by (auto simp: obligation_def gate_action_def)
    then show "{a. obligation db k rv a} \<noteq> {}" by blast
  next
    assume "{a. obligation db k rv a} \<noteq> {}"
    then obtain a where "obligation db k rv a" by blast
    from ex [OF this] show "filter_applicable_required_writeback_actions views \<noteq> []" by force
  qed
qed

lemma gate_evidence:
  assumes ctx: "build_authoritative_context env db k e caller = Inr ctx"
    and gate: "validate_closed_gate ctx = Inr ()"
    and policy: "se_disposition_policy e = DispositionPolicy_value DP_REQUIRED"
  shows "\<exists>rv. current_plan_revision db k = Some rv \<and> close_evidence env db k rv"
proof -
  note f = authoritative_context_fields [OF ctx]
  from f(2) policy have dp: "cx_disposition_policy ctx = Some DP_REQUIRED" by auto
  from gate dp have g: "cx_report_exists ctx"
    "check_required_writeback_close_gate (cx_applicable_required_actions ctx) = None"
    "\<exists>s. cx_side_effect_convergence ctx = Some s
        \<and> check_gate_applicable_side_effect_convergence s = None"
    "\<exists>t. cx_terminal_event_writeback ctx = Some t \<and> terminal_writeback_sound ctx t"
    unfolding validate_closed_gate_iff by auto
  obtain rv where rv: "current_plan_revision db k = Some rv"
    using f(3) g(2) by (cases "current_plan_revision db k")
      (auto simp: build_closed_gate_actions_def check_required_writeback_None_iff
        filter_applicable_required_writeback_actions_def)
  note rows = gate_rows_obligation [OF f(3) [unfolded rv]]
  have report: "\<exists>r\<in>set (db_reports db). rp_event_id r = k"
    using f(1) g(1) scalar_None_iff [of "\<lambda>r. rp_event_id r = k" "db_reports db"]
    by (auto simp: check_report_exists_def)
  have settled: "{a. gate_action db k rv a} \<subseteq>
         {a. side_effects_settled a (build_jobs_by_action (event_jobs db k))
               (load_active_outboxes db (act_action_id a))
               (load_verification_result (env_decode_verification env) db k)}"
    using f(2) g(3) dp rv unfolding convergence_check_iff [symmetric] by auto
  have some: "{a. obligation db k rv a} \<noteq> {}"
    using g(2) rows(1) unfolding check_required_writeback_None_iff by blast
  have conf: "active_outboxes db a \<noteq> {} \<and> active_outboxes db a \<subseteq>
      {ob. ob_latest_writeback_status ob = Some (WritebackStatus_value WB_CONFIRMED)}"
    if "obligation db k rv a" for a
  proof -
    from rows(2) [OF that] obtain v where
      v: "v \<in> set (filter_applicable_required_writeback_actions (cx_applicable_required_actions ctx))"
        "closed_gate_view db a = Inr v" by blast
    with g(2) have "writeback_settled v" unfolding check_required_writeback_None_iff by blast
    with closed_gate_view_fields(4,5) [OF v(2)] show ?thesis
      by (auto simp: writeback_settled_def active_outboxes_def set_load_active_outboxes [symmetric]
          simp flip: set_empty)
  qed
  have trm: "terminal_confirmed env db k rv"
    using g(4) f(4-6) rv
    by (auto simp: terminal_confirmed_def terminal_writeback_sound_def
        CLOSED_TERMINAL_STRONG_CONFIRMATION_EVIDENCE_def)
  from report settled some conf trm rv show ?thesis
    unfolding close_evidence_def by blast
qed

lemma close_evidence_commit:
  assumes "audited env k s t (put_event e' db) db'" and "get_event db k = Some e"
    and "event_moved s t e e'"
  shows "close_evidence env db' k rv \<longleftrightarrow> close_evidence env db k rv"
    and "current_plan_revision db' k = current_plan_revision db k"
proof -
  note fr = audited_frames [OF assms(1)]
  have key: "se_event_id e' = k"
    using assms(3) events_table.get_key [OF assms(2)] by (simp add: event_moved_def)
  have ev: "get_event db' k = Some e'"
    using events_table.get_put_same [of db e'] assms(2) fr(9) key by simp
  have journal: "latest_journal_value db' k f = latest_journal_value db k f" for f
    using fr(6) by (simp add: latest_journal_value_def)
  have "se_event_context_snapshot e' = se_event_context_snapshot e"
    using assms(3) by (simp add: event_moved_def)
  then have ver: "load_verification_result d db' k = load_verification_result d db k" for d
    by (simp add: load_verification_result_def journal ev assms(2) split: option.splits)
  have outboxes: "load_active_outboxes db' = load_active_outboxes db"
    using fr by (simp add: load_active_outboxes_def fun_eq_iff)
  have gate: "gate_action db' = gate_action db"
    using fr by (simp add: gate_action_def fun_eq_iff)
  have obl: "obligation db' = obligation db"
    using gate by (simp add: obligation_def fun_eq_iff)
  have act: "active_outboxes db' = active_outboxes db"
    using fr by (simp add: active_outboxes_def fun_eq_iff)
  have view: "build_terminal_writeback_view env db' k r = build_terminal_writeback_view env db k r" for r
  proof -
    have "deferred_action db' = deferred_action db" "status_update_outbox db' = status_update_outbox db"
      "latest_receipt db' = latest_receipt db"
      using fr by (simp_all add: deferred_action_def status_update_outbox_def latest_receipt_def
          fun_eq_iff)
    then show ?thesis unfolding build_terminal_writeback_view_def by (simp only:)
  qed
  have cycle: "read_closure_cycle db' k = read_closure_cycle db k"
    using fr by (simp add: read_closure_cycle_def)
  show "close_evidence env db' k rv \<longleftrightarrow> close_evidence env db k rv"
    using fr by (simp add: close_evidence_def ver outboxes gate obl act terminal_confirmed_def
        view cycle)
  show "current_plan_revision db' k = current_plan_revision db k"
    using fr by (simp add: current_plan_revision_def)
qed

lemma closed_event_row:
  assumes "audited env k s t (put_event e' db) db'" and "get_event db k = Some e"
    and "event_moved s t e e'"
  shows "get_event db' k = Some e'" and "other \<noteq> k \<Longrightarrow> get_event db' other = get_event db other"
proof -
  have key: "se_event_id e' = k"
    using assms(3) events_table.get_key [OF assms(2)] by (simp add: event_moved_def)
  show "get_event db' k = Some e'"
    using events_table.get_put_same [of db e'] assms(2) audited_frames(9) [OF assms(1)] key by simp
  show "other \<noteq> k \<Longrightarrow> get_event db' other = get_event db other"
    using events_table.get_put_other [of other e' db] audited_frames(9) [OF assms(1)] key by simp
qed

text \<open>C27: A close is backed by evidence. When \<open>transition\<close> closes an event whose
  disposition is required, the committed database shows, for the current plan
  revision: a report; every response or rollback action that is neither superseded nor
  rejected settled (not executing, no active job, and the outboxes, job and verified
  effect its convergence policy asks for); at least one writeback obligation, and for
  every obligation active outboxes that are all \<open>CONFIRMED\<close>; and a confirmed terminal
  status update whose actual disposition is the approved terminal one and which, unless
  the disposition mode is mock, is not simulated and has read-back or manual
  evidence.\<close>

theorem close_backed_by_evidence:
  assumes "transition env caller k ES_CLOSED p r db = (db', Inr e')"
    and "se_disposition_policy e' = DispositionPolicy_value DP_REQUIRED"
  shows "get_event db' k = Some e' \<and> se_status e' = EventStatus_value ES_CLOSED
    \<and> (\<exists>rv. current_plan_revision db' k = Some rv \<and> close_evidence env db' k rv)"
proof -
  from transition_cases [OF assms(1)] obtain db0 where
    "transition_in_tx env caller k ES_CLOSED p r db0 = Inr (e', db')" by auto
  then show ?thesis
  proof (rule transition_in_txD)
    fix e s ctx
    assume e: "get_event db0 k = Some e"
      and ctx: "build_authoritative_context env db0 k e caller = Inr ctx"
      and acc: "event_accepts ctx s ES_CLOSED" and mv: "event_moved s ES_CLOSED e e'"
      and aud: "audited env k s ES_CLOSED (put_event e' db0) db'"
    from mv assms(2) have "se_disposition_policy e = DispositionPolicy_value DP_REQUIRED"
      by (simp add: event_moved_def)
    with ctx acc obtain rv where "current_plan_revision db0 k = Some rv" "close_evidence env db0 k rv"
      using gate_evidence unfolding event_accepts_iff by blast
    with close_evidence_commit [OF aud e mv] closed_event_row(1) [OF aud e mv] mv
    show ?thesis by (auto simp: event_moved_def)
  qed
qed

subsection \<open>A closing event\<close>

text \<open>
  A reporting event whose only response is the deferred terminal disposition, delivered
  and confirmed, in mock mode: the close goes through.
\<close>

definition example_deferred :: action_row where
  "example_deferred =
     example_action_row\<lparr>act_action_id := ''act-9'', act_tool_name := TERMINAL_DISPOSITION_TOOL,
       act_execution_phase := ActionExecutionPhase_value AP_POST_VERIFY,
       act_activation_condition := Some ''after_effect_resolution'',
       act_approved_terminal_dispositions := [SourceDisposition_value SD_COMPLETED],
       act_status := ActionStatus_value AS_SUCCESS,
       act_execution_owner := Some (ExecutionOwner_value EO_XDR_MANAGED),
       act_writeback_required := True, act_writeback_applicable := True,
       act_writeback_readiness := WritebackReadiness_value WR_READY,
       act_writeback_status := Some (WritebackStatus_value WB_CONFIRMED)\<rparr>"

definition example_outbox :: outbox_row where
  "example_outbox =
     \<lparr> ob_outbox_id = ''obx-1'', ob_writeback_id = ''wbk-1'', ob_disposition_id = ''dsp-1'',
       ob_action_id = ''act-9'', ob_event_id = ''evt-1'', ob_closure_cycle = 1,
       ob_source_record_id = ''src-1'', ob_source_locator_hash = ''h1'', ob_source_sequence = 1,
       ob_intent_kind = DispositionIntentKind_value IK_EVENT_STATUS_UPDATE,
       ob_logical_slot = ''default'', ob_supersedes_disposition_id = None,
       ob_superseded_by_disposition_id = None, ob_idempotency_key = ''idem-1'',
       ob_command_payload = JObj [(''operation_params'', JObj [(''target_disposition'',
           JStr (SourceDisposition_value SD_COMPLETED))])],
       ob_command_payload_sha256 = ''p1'',
       ob_delivery_status = OutboxDeliveryStatus_value OD_DELIVERED,
       ob_latest_writeback_status = Some (WritebackStatus_value WB_CONFIRMED), ob_attempt = 0,
       ob_next_retry_at = None, ob_locked_by = None, ob_locked_at = None, ob_lease_expires_at = None,
       ob_last_error_code = None, ob_last_error_detail = None, ob_created_at = 0, ob_updated_at = 0,
       ob_delivered_at = Some 0 \<rparr>"

definition example_database :: database where
  "example_database =
     empty_database\<lparr>db_events := [example_event], db_actions := [example_deferred],
       db_outboxes := [example_outbox],
       db_reports := [\<lparr> rp_report_id = ''rpt-1'', rp_event_id = ''evt-1'' \<rparr>]\<rparr>"

definition example_env :: sm_env where
  "example_env =
     \<lparr> env_settings = example_settings, env_now = 50, env_locked = (\<lambda>_. False),
       env_decode_verification = (\<lambda>_. None), env_decode_command = (\<lambda>_. None),
       env_redact = id, env_audit_log = True, env_event_valid = (\<lambda>_. True) \<rparr>"

lemmas example_defs = example_event_def example_deferred_def example_outbox_def
  example_database_def example_env_def example_settings_def empty_database_def
  example_action_row_def

lemma example_mock_mode: "is_mock_disposition_mode ''mock_xdr''"
  by (simp add: is_mock_disposition_mode_def normalize_mode_value_def strip_def is_blank_def
      lower_char_def Let_def)

lemma WritebackStatus_nonempty [simp]: "WritebackStatus_value w \<noteq> []"
  by (cases w) (simp_all add: enum_literals)

lemma WritebackReadiness_nonempty [simp]: "WritebackReadiness_value r \<noteq> []"
  by (cases r) (simp_all add: enum_literals)

lemma ActionExecutionPhase_nonempty [simp]: "ActionExecutionPhase_value p \<noteq> []"
  by (cases p) (simp_all add: enum_literals)

lemma owner_example: "strip (ExecutionOwner_value EO_XDR_MANAGED) \<noteq> []"
  by (simp add: enum_literals strip_def is_blank_def)

definition example_gate_view :: ClosedGateActionView where
  "example_gate_view =
     \<lparr> cg_action_id = ''act-9'', cg_action_category = AC_RESPONSE, cg_writeback_required = True,
    cg_writeback_applicable = True, cg_writeback_readiness = WR_READY,
    cg_writeback_status = Some WB_CONFIRMED, cg_has_command = True,
    cg_all_required_intents_confirmed = True, cg_worst_unconfirmed_outbox_status = None,
    cg_execution_phase = AP_POST_VERIFY, cg_tool_name = Some TERMINAL_DISPOSITION_TOOL,
    cg_approved_terminal_dispositions = [SD_COMPLETED], cg_superseded = False,
    cg_rejected = False, cg_has_job_or_outbox = True \<rparr>"

definition example_terminal :: TerminalEventWritebackView where
  "example_terminal =
     \<lparr> tw_action_id = ''act-9'', tw_disposition_id = ''dsp-1'', tw_writeback_id = ''wbk-1'',
    tw_closure_cycle = 1, tw_intent_kind = IK_EVENT_STATUS_UPDATE,
    tw_approved_disposition = SD_COMPLETED, tw_actual_disposition = SD_COMPLETED,
    tw_receipt_status = WB_CONFIRMED, tw_plan_revision = 1, tw_simulated = None,
    tw_confirmation_evidence = None \<rparr>"

lemma example_view: "closed_gate_view example_database example_deferred = Inr example_gate_view"
  by (simp add: closed_gate_view_def example_defs load_active_outboxes_def example_gate_view_def
      worst_unconfirmed_outbox_status_def List.map_filter_def action_has_job_or_outbox_def scalar_def
      Let_def)

lemma example_revision: "current_plan_revision example_database ''evt-1'' = Some 1"
  by (simp add: current_plan_revision_def example_defs max_of_def)

lemma example_terminal_view:
  "build_terminal_writeback_view example_env example_database ''evt-1'' (Some 1)
     = Some example_terminal"
  by (simp add: build_terminal_writeback_view_def example_defs deferred_action_def scalar_def
     status_update_outbox_def latest_receipt_def actual_disposition_from_command_payload_def
     example_terminal_def Let_def)

lemma example_actions: "db_actions example_database = [example_deferred]"
  by (simp add: example_database_def)

lemma example_gate_actions:
  "build_closed_gate_actions example_database ''evt-1'' (Some 1) = Inr [example_gate_view]"
proof -
  have "act_event_id example_deferred = ''evt-1''" "act_plan_revision example_deferred = 1"
    "act_action_category example_deferred \<in> RESPONSE_OR_ROLLBACK"
    "act_superseded_by_revision example_deferred = None"
    by (simp_all add: example_deferred_def example_action_row_def RESPONSE_OR_ROLLBACK_def)
  with example_view show ?thesis
    by (simp add: build_closed_gate_actions_def example_actions)
qed


lemma example_outboxes: "load_active_outboxes example_database ''act-9'' = [example_outbox]"
  by (simp add: load_active_outboxes_def example_defs)

lemma example_policy: "resolve_convergence_policy example_deferred obs = TERMINAL_WRITEBACK"
  by (simp add: resolve_convergence_policy_def example_deferred_def)

lemma example_not_blocking:
  "action_side_effect_blocks_convergence example_deferred Map.empty [example_outbox] None
     = (None, TERMINAL_WRITEBACK)"
  unfolding action_side_effect_blocks_convergence_def example_policy
  by (simp add: example_deferred_def example_action_row_def parse_action_status_def
      action_has_active_job_def scan_outboxes_for_block_def outbox_blocks_terminal_writeback_def
      outbox_delivery_blocks_def example_outbox_def UNDELIVERED_OUTBOX_STATUSES_def owner_example Let_def)

lemma example_convergence:
  "sm_outstanding_actions
     (build_side_effect_convergence_summary (\<lambda>_. None) example_database ''evt-1'' (Some 1) DP_REQUIRED) = []"
proof -
  have "act_action_id example_deferred = ''act-9''"
    by (simp add: example_deferred_def)
  then have "outstanding_view example_database Map.empty None (Some 1) DP_REQUIRED example_deferred = None"
    using example_not_blocking example_outboxes by (simp add: outstanding_view_def Let_def)
  moreover have "load_verification_result (\<lambda>_. None) example_database ''evt-1'' = None"
    by (simp add: load_verification_result_def example_defs latest_journal_value_def get_event_def)
  moreover have "build_jobs_by_action (filter (\<lambda>j. job_event_id j = ''evt-1'') (db_jobs example_database))
    = Map.empty"
    by (simp add: build_jobs_by_action_def example_defs)
  ultimately show ?thesis
    by (simp add: build_side_effect_convergence_summary_def example_actions Let_def List.map_filter_def)
qed

lemma example_reconcile:
  "reconcile_stale_executions_before_close example_settings 50 (\<lambda>_. False) ''evt-1'' example_database
     = Inr (0, example_database)"
  by (simp add: reconcile_stale_executions_before_close_def reconcile_stale_executions_for_event_def
      stale_jobs_def executing_actions_def example_database_def empty_database_def example_deferred_def)


definition example_context :: "SideEffectConvergenceSummary \<Rightarrow> TransitionContext" where
  "example_context summary = default_TransitionContext\<lparr>
     cx_final_verdict := Some FV_CONFIRMED_THREAT, cx_disposition_policy := Some DP_REQUIRED,
     cx_severity := Some SEV_HIGH, cx_response_actions_are_disposition_only := Some True,
     cx_report_exists := True, cx_applicable_required_actions := [example_gate_view],
     cx_terminal_event_writeback := Some example_terminal, cx_current_plan_revision := Some 1, cx_current_closure_cycle := Some 1,
     cx_disposition_is_mock := True, cx_side_effect_convergence := Some summary\<rparr>"

lemma example_authoritative:
  "build_authoritative_context example_env example_database ''evt-1'' example_event
     default_TransitionContext = Inr (example_context
       (build_side_effect_convergence_summary (\<lambda>_. None) example_database ''evt-1'' (Some 1) DP_REQUIRED))"
proof -
  have "latest_journal_value example_database ''evt-1'' x = None"
    "read_closure_cycle example_database ''evt-1'' = Some 1"
    "check_report_exists example_database ''evt-1''" for x
    by (simp_all add: example_defs latest_journal_value_def read_closure_cycle_def check_report_exists_def get_event_def scalar_def max_of_def)
  moreover have "filter (\<lambda>a. act_event_id a = ''evt-1'' \<and> act_plan_revision a = 1
      \<and> act_action_category a = ActionCategory_value AC_RESPONSE
      \<and> act_superseded_by_revision a = None) (db_actions example_database) = [example_deferred]"
    "act_tool_name example_deferred = TERMINAL_DISPOSITION_TOOL"
    by (simp_all add: example_defs)
  moreover have "se_disposition_policy example_event = DispositionPolicy_value DP_REQUIRED"
    "se_final_verdict example_event = FinalVerdict_value FV_CONFIRMED_THREAT"
    "se_severity example_event = Severity_value SEV_HIGH"
    "env_decode_verification example_env = (\<lambda>_. None)"
    "is_mock_disposition_mode (cfg_disposition_mode (env_settings example_env))"
    using example_mock_mode by (simp_all add: example_event_def example_env_def example_settings_def)
  ultimately show ?thesis
    by (simp add: build_authoritative_context_def example_revision example_gate_actions
        example_terminal_view example_context_def default_TransitionContext_def Let_def
        parse_or_raise_def of_opt_def pydantic_enum_def disposition_only_intent_of_def)
qed

lemma example_accepts:
  assumes "sm_outstanding_actions summary = []"
  shows "validate_transition (example_context summary) ES_REPORTING ES_CLOSED = Inr ()"
  using assms
  by (auto simp: event_accepts_iff example_context_def default_TransitionContext_def edge_allowed_def
    validate_closed_gate_iff check_gate_applicable_None_iff check_required_writeback_None_iff
    terminal_writeback_sound_def example_terminal_def example_gate_view_def validate_verdict_status_def
    writeback_settled_def TERMINAL_SOURCE_DISPOSITIONS_def VERDICT_STATUS_RULES_def with_failed_def
    filter_applicable_required_writeback_actions_def)


lemma example_valid: "env_event_valid example_env row"
  by (simp add: example_env_def)

lemma example_close:
  "\<exists>db' e'. transition example_env default_TransitionContext ''evt-1'' ES_CLOSED None None example_database
     = (db', Inr e') \<and> se_disposition_policy e' = DispositionPolicy_value DP_REQUIRED"
proof -
  have "get_event example_database ''evt-1'' = Some example_event"
    by (simp add: get_event_def example_defs)
  moreover have "se_status example_event = EventStatus_value ES_REPORTING"
    "se_disposition_policy example_event = DispositionPolicy_value DP_REQUIRED"
    by (simp_all add: example_event_def)
  moreover have "reconcile_stale_executions_before_close (env_settings example_env)
      (env_now example_env) (env_locked example_env) ''evt-1'' example_database
     = Inr (0, example_database)"
    using example_reconcile by (simp add: example_env_def)
  moreover note example_authoritative example_accepts [OF example_convergence]
  ultimately show ?thesis
    by (simp add: transition_def transition_in_tx_def parse_or_raise_def of_opt_def Let_def
        security_event_from_row_def example_valid ensure_def apply_pre_transition_side_effects_def apply_post_transition_side_effects_def)
qed

theorem close_backed_by_evidence_witness:
  "\<exists>db' e' rv. transition example_env default_TransitionContext ''evt-1'' ES_CLOSED None None
       example_database = (db', Inr e')
     \<and> current_plan_revision db' ''evt-1'' = Some rv \<and> close_evidence example_env db' ''evt-1'' rv"
  using example_close close_backed_by_evidence by blast

end
