(* ===== verification/Context_Store.thy ===== *)
theory Context_Store
  imports Store "HOL-Library.AList"
begin

text \<open>
  The PostgreSQL side of \<open>backend/app/services/context_service.py\<close>: the append-only
  journal of context fields and the counter that allocates its versions. Every
  operation is one transaction on the database; values are the JSON the journal
  stores (\<open>_journal_value\<close> of the caller's value). The Redis mirror of the
  fields is left out.
\<close>

section \<open>Fields\<close>

text \<open>\<open>CONTEXT_FIELD_NAMES\<close>: the fields of \<open>EventContext\<close>.\<close>

definition CONTEXT_FIELD_NAMES :: "string set" where
  "CONTEXT_FIELD_NAMES =
     {''event'', ''source_snapshot'', ''source_sync_state'', ''detection_context_snapshot'',
      ''triage_result'', ''false_positive_match'', ''fp_adjudication'', ''evidence_output'',
      ''storyline'', ''graph_output'', ''rag_output'', ''risk_assessment'', ''execution_plan'',
      ''response_plan'', ''approval_records'', ''disposition_only_intent'',
      ''execution_substate'', ''manual_hold'', ''execution_summary'', ''execution_jobs'',
      ''verification_result'', ''rollback_results'', ''impact_assessments'', ''report'',
      ''report_generated'', ''memory_output'', ''memory_output_early'',
      ''disposition_commands'', ''disposition_receipts'', ''writeback_summary'',
      ''analysis_only_complete'', ''state_history'', ''replan_count'', ''budget_usage'',
      ''guard_violations'', ''convergence_state'', ''quality_scores'', ''scratchpad'',
      ''degraded_flags'', ''triage_degraded'', ''graph_degraded'', ''storyline_degraded'',
      ''classification_override''}"

section \<open>The journal\<close>

text \<open>\<open>INSERT ... ON CONFLICT DO UPDATE SET current_version = current_version + 1\<close>.\<close>

definition upsert_version :: "string \<Rightarrow> string \<Rightarrow> database \<Rightarrow> int \<times> database" where
  "upsert_version event_id field db =
     (let v = (case db_field_versions db (event_id, field) of None \<Rightarrow> 1 | Some n \<Rightarrow> n + 1)
      in (v, db\<lparr>db_field_versions := (db_field_versions db)((event_id, field) \<mapsto> v)\<rparr>))"

definition wrap_journal_value :: "json \<Rightarrow> json" where
  "wrap_journal_value value = (if is_dict value then value else JObj [(''_scalar'', value)])"

definition insert_journal :: "string \<Rightarrow> string \<Rightarrow> json \<Rightarrow> int \<Rightarrow> database \<Rightarrow> database" where
  "insert_journal event_id field value version db =
     db\<lparr>db_journal := db_journal db @
          [\<lparr> jr_event_id = event_id, jr_field_name = field, jr_value = wrap_journal_value value,
             jr_version = version \<rparr>]\<rparr>"

definition append_context_journal_in_session ::
  "string \<Rightarrow> string \<Rightarrow> json \<Rightarrow> database \<Rightarrow> (int \<times> database) res" where
  "append_context_journal_in_session event_id field value db =
     bind_res (ensure (field \<in> CONTEXT_FIELD_NAMES) (KeyError field)) (\<lambda>_.
     let (new_version, db) = upsert_version event_id field db
     in Inr (new_version, insert_journal event_id field value new_version db))"

definition unwrap_journal_value :: "json \<Rightarrow> json" where
  "unwrap_journal_value value =
     (case value of
        JObj kvs \<Rightarrow> (if fst ` set kvs = {''_scalar''} then the (map_of kvs ''_scalar'') else value)
      | _ \<Rightarrow> value)"

fun json_items :: "json \<Rightarrow> json list" where
  "json_items (JList xs) = xs"
| "json_items JNull = []"
| "json_items v = [v]"

definition append_list_context_journal_in_session ::
  "string \<Rightarrow> string \<Rightarrow> json \<Rightarrow> database \<Rightarrow> (int \<times> database) res" where
  "append_list_context_journal_in_session event_id field item db =
     (let items = (case max_by jr_version (filter (\<lambda>j. jr_event_id j = event_id
                            \<and> jr_field_name j = field) (db_journal db)) of
                     None \<Rightarrow> []
                   | Some j \<Rightarrow> json_items (unwrap_journal_value (jr_value j)))
      in append_context_journal_in_session event_id field (JList (items @ [item])) db)"

section \<open>The store's operations\<close>

text \<open>The version of the \<open>event\<close> field, and whether this call initialized it.\<close>

definition init_context :: "string \<Rightarrow> json \<Rightarrow> database \<Rightarrow> (int \<times> bool) \<times> database" where
  "init_context event_id event_value db =
     (case db_field_versions db (event_id, ''event'') of
        None \<Rightarrow>
          ((1, True), insert_journal event_id ''event'' event_value 1
             (db\<lparr>db_field_versions := (db_field_versions db)((event_id, ''event'') \<mapsto> 1)\<rparr>))
      | Some version \<Rightarrow> ((version, False), db))"

fun is_true :: "json \<Rightarrow> bool" where
  "is_true (JBool b) = b"
| "is_true _ = False"

text \<open>Python's \<open>value == b\<close> for a boolean \<open>b\<close>: integers compare as numbers.\<close>

fun json_eq_bool :: "json \<Rightarrow> bool \<Rightarrow> bool" where
  "json_eq_bool (JBool c) b = (c = b)"
| "json_eq_bool (JNum n) b = (n = (if b then 1 else 0))"
| "json_eq_bool _ _ = False"

fun json_truthy :: "json \<Rightarrow> bool" where
  "json_truthy JNull = False"
| "json_truthy (JBool b) = b"
| "json_truthy (JNum n) = (n \<noteq> 0)"
| "json_truthy (JStr s) = (s \<noteq> [])"
| "json_truthy (JList xs) = (xs \<noteq> [])"
| "json_truthy (JObj kvs) = (kvs \<noteq> [])"

text \<open>\<open>services/event_context_snapshot_projection.py\<close>.\<close>

definition merge_analysis_only_complete_into_snapshot ::
  "json option \<Rightarrow> bool \<Rightarrow> (string \<times> json) list" where
  "merge_analysis_only_complete_into_snapshot snapshot complete =
     (let merged = (case snapshot of Some (JObj kvs) \<Rightarrow> kvs | _ \<Rightarrow> []) in
      if complete \<or> \<not> (case map_of merged ''analysis_only_complete'' of
                           None \<Rightarrow> False | Some v \<Rightarrow> json_truthy v)
      then AList.update ''analysis_only_complete'' (JBool complete) merged
      else merged)"

text \<open>The value journalled under a version.\<close>

definition journal_value_at :: "database \<Rightarrow> string \<Rightarrow> string \<Rightarrow> int \<Rightarrow> json option" where
  "journal_value_at db event_id field version =
     map_option jr_value (scalar (\<lambda>j. jr_event_id j = event_id \<and> jr_field_name j = field
                                    \<and> jr_version j = version) (db_journal db))"

text \<open>
  \<open>_set_analysis_only_complete\<close>: the version and the effective value, or \<open>None\<close> when the
  version precondition fails.
\<close>

definition set_analysis_only_complete_in_tx ::
  "string \<Rightarrow> bool \<Rightarrow> int option \<Rightarrow> database \<Rightarrow> ((int \<times> bool) option \<times> database) res" where
  "set_analysis_only_complete_in_tx event_id complete expected_version db =
     bind_res (of_opt (KeyError event_id) (get_event db event_id)) (\<lambda>event_row.
     let field = ''analysis_only_complete'';
         current_version = (case db_field_versions db (event_id, field) of
                              None \<Rightarrow> 0 | Some v \<Rightarrow> v)
     in
     if expected_version \<noteq> None \<and> expected_version \<noteq> Some current_version then Inr (None, db)
     else
       let current_value =
             (if current_version > 0
              then (case journal_value_at db event_id field current_version of
                      None \<Rightarrow> JNull | Some raw \<Rightarrow> unwrap_journal_value raw)
              else JNull);
           snapshot = (case se_event_context_snapshot event_row of
                         Some (JObj kvs) \<Rightarrow> kvs | _ \<Rightarrow> []);
           effective = (is_true current_value
                        \<or> (case map_of snapshot field of None \<Rightarrow> False | Some v \<Rightarrow> is_true v)
                        \<or> complete);
           (version, db1) =
             (if \<not> json_eq_bool current_value effective
              then let (v, db') = upsert_version event_id field db
                   in (v, insert_journal event_id field (JBool effective) v db')
              else (current_version, db));
           row' = event_row\<lparr>se_event_context_snapshot :=
                    Some (JObj (merge_analysis_only_complete_into_snapshot
                                  (Some (JObj snapshot)) effective))\<rparr>
       in Inr (Some (version, effective), put_event row' db1))"

definition set_analysis_only_complete ::
  "string \<Rightarrow> bool \<Rightarrow> database \<Rightarrow> (int \<times> database) res" where
  "set_analysis_only_complete event_id complete db =
     bind_res (set_analysis_only_complete_in_tx event_id complete None db) (\<lambda>(r, db').
     case r of None \<Rightarrow> Inl (ValueError event_id) | Some (version, _) \<Rightarrow> Inr (version, db'))"

definition context_set :: "string \<Rightarrow> string \<Rightarrow> json \<Rightarrow> database \<Rightarrow> (int \<times> database) res" where
  "context_set event_id key value db =
     bind_res (ensure (key \<in> CONTEXT_FIELD_NAMES) (KeyError key)) (\<lambda>_.
     if key = ''analysis_only_complete''
     then (case value of
             JBool b \<Rightarrow> set_analysis_only_complete event_id b db
           | _ \<Rightarrow> Inl (TypeError key))
     else
       let (new_version, db) = upsert_version event_id key db
       in Inr (new_version, insert_journal event_id key value new_version db))"

definition compare_and_set ::
  "string \<Rightarrow> string \<Rightarrow> int \<Rightarrow> json \<Rightarrow> database \<Rightarrow> (bool \<times> database) res" where
  "compare_and_set event_id key expected_version value db =
     bind_res (ensure (key \<in> CONTEXT_FIELD_NAMES) (KeyError key)) (\<lambda>_.
     if key = ''analysis_only_complete''
     then (if \<not> is_true value then Inr (False, db)
           else bind_res (set_analysis_only_complete_in_tx event_id True (Some expected_version) db)
                  (\<lambda>(r, db'). Inr (r \<noteq> None, db')))
     else
       let row = (if expected_version = 0
                  then (if db_field_versions db (event_id, key) = None then Some 1 else None)
                  else (if db_field_versions db (event_id, key) = Some expected_version
                        then Some (expected_version + 1) else None))
       in (case row of
             None \<Rightarrow> Inr (False, db)
           | Some new_version \<Rightarrow>
               Inr (True, insert_journal event_id key value new_version
                     (db\<lparr>db_field_versions :=
                          (db_field_versions db)((event_id, key) \<mapsto> new_version)\<rparr>))))"

definition get_field_version :: "database \<Rightarrow> string \<Rightarrow> string \<Rightarrow> int option" where
  "get_field_version db event_id key = db_field_versions db (event_id, key)"

definition get_versioned_field :: "database \<Rightarrow> string \<Rightarrow> string \<Rightarrow> (json \<times> int) res" where
  "get_versioned_field db event_id key =
     bind_res (ensure (key \<in> CONTEXT_FIELD_NAMES) (KeyError key)) (\<lambda>_.
     Inr (case db_field_versions db (event_id, key) of
            None \<Rightarrow> (JNull, 0)
          | Some v \<Rightarrow>
              (case journal_value_at db event_id key v of
                 None \<Rightarrow> (JNull, 0)
               | Some raw \<Rightarrow> (unwrap_journal_value raw, v))))"

end
