(* ===== verification/Context_Store_Facts.thy ===== *)
theory Context_Store_Facts
  imports Context_Store
begin

text \<open>
  The context store as a versioned map: the counter and the journal agree, every write
  refines an update of the map at the next version, compare-and-set never loses an
  update, and the completion marker is monotonic.
\<close>

section \<open>The versioned map and its invariant\<close>

text \<open>What a reader sees: the current value and version of a field.\<close>

definition context_view :: "database \<Rightarrow> string \<Rightarrow> string \<Rightarrow> json \<times> int" where
  "context_view db e f =
     (case db_field_versions db (e, f) of
        None \<Rightarrow> (JNull, 0)
      | Some v \<Rightarrow>
          (case journal_value_at db e f v of
             None \<Rightarrow> (JNull, 0)
           | Some raw \<Rightarrow> (unwrap_journal_value raw, v)))"

definition journal_wf :: "database \<Rightarrow> bool" where
  "journal_wf db \<longleftrightarrow>
     (\<forall>j\<in>set (db_journal db).
        \<exists>n. db_field_versions db (jr_event_id j, jr_field_name j) = Some n
            \<and> 1 \<le> jr_version j \<and> jr_version j \<le> n)
     \<and> (\<forall>e f n. db_field_versions db (e, f) = Some n \<longrightarrow> journal_value_at db e f n \<noteq> None)"

definition next_version :: "database \<Rightarrow> string \<Rightarrow> string \<Rightarrow> int" where
  "next_version db e f = (case db_field_versions db (e, f) of None \<Rightarrow> 1 | Some n \<Rightarrow> n + 1)"

text \<open>One allocated version and its journal entry.\<close>

definition wrote :: "string \<Rightarrow> string \<Rightarrow> json \<Rightarrow> database \<Rightarrow> database \<Rightarrow> bool" where
  "wrote e f v db db' \<longleftrightarrow>
     db_field_versions db' = (db_field_versions db)((e, f) \<mapsto> next_version db e f)
     \<and> db_journal db' = db_journal db @
         [\<lparr> jr_event_id = e, jr_field_name = f, jr_value = wrap_journal_value v,
            jr_version = next_version db e f \<rparr>]"

definition same_context :: "database \<Rightarrow> database \<Rightarrow> bool" where
  "same_context db db' \<longleftrightarrow>
     db_field_versions db' = db_field_versions db \<and> db_journal db' = db_journal db"

lemma journal_version_positive:
  assumes "journal_wf db" and "db_field_versions db (e, f) = Some n"
  shows "1 \<le> n"
proof -
  from assms obtain j where "j \<in> set (db_journal db)" "jr_event_id j = e" "jr_field_name j = f"
      "jr_version j = n"
    unfolding journal_wf_def journal_value_at_def by (fastforce dest: scalar_SomeD)
  with assms show ?thesis unfolding journal_wf_def by fastforce
qed

lemma wrote_value_at:
  assumes "journal_wf db" and "wrote e f v db db'"
  shows "journal_value_at db' e f (next_version db e f) = Some (wrap_journal_value v)"
proof -
  have "find (\<lambda>j. jr_event_id j = e \<and> jr_field_name j = f \<and> jr_version j = next_version db e f)
      (db_journal db) = None"
    using assms(1) by (fastforce simp: find_None_iff journal_wf_def next_version_def)
  with assms(2) show ?thesis
    by (simp add: journal_value_at_def scalar_def wrote_def find_append)
qed

lemma wrote_keeps_value:
  assumes "wrote e f v db db'" and "journal_value_at db e' f' n = Some raw"
  shows "journal_value_at db' e' f' n = Some raw"
  using assms by (auto simp: journal_value_at_def scalar_def wrote_def find_append)

lemma wrote_wf:
  assumes "journal_wf db" and "wrote e f v db db'"
  shows "journal_wf db'"
  unfolding journal_wf_def
proof (intro conjI ballI allI impI)
  fix j assume "j \<in> set (db_journal db')"
  then show "\<exists>n. db_field_versions db' (jr_event_id j, jr_field_name j) = Some n
      \<and> 1 \<le> jr_version j \<and> jr_version j \<le> n"
    using assms journal_version_positive [OF assms(1)]
    by (fastforce simp: wrote_def journal_wf_def next_version_def split: option.splits)
next
  fix e' f' n assume n: "db_field_versions db' (e', f') = Some n"
  show "journal_value_at db' e' f' n \<noteq> None"
  proof (cases "(e', f') = (e, f)")
    case True
    with n assms(2) wrote_value_at [OF assms] show ?thesis by (simp add: wrote_def)
  next
    case False
    with n assms have "journal_value_at db e' f' n \<noteq> None"
      by (auto simp: wrote_def journal_wf_def)
    with wrote_keeps_value [OF assms(2)] show ?thesis by auto
  qed
qed

lemma wrote_view:
  assumes "journal_wf db" and "wrote e f v db db'"
  shows "context_view db' e f = (unwrap_journal_value (wrap_journal_value v), next_version db e f)"
  using wrote_value_at [OF assms] assms(2) by (simp add: context_view_def wrote_def)

lemma wrote_view_other:
  assumes "journal_wf db" and "wrote e f v db db'" and "(e', f') \<noteq> (e, f)"
  shows "context_view db' e' f' = context_view db e' f'"
proof -
  have v: "db_field_versions db' (e', f') = db_field_versions db (e', f')"
    using assms(2,3) by (auto simp: wrote_def)
  show ?thesis
  proof (cases "db_field_versions db (e', f')")
    case None
    with v show ?thesis by (simp add: context_view_def)
  next
    case (Some n)
    with assms(1) obtain raw where "journal_value_at db e' f' n = Some raw"
      unfolding journal_wf_def by blast
    with v Some wrote_keeps_value [OF assms(2) this] show ?thesis
      by (simp add: context_view_def)
  qed
qed

lemma same_context_simps:
  assumes "same_context db db'"
  shows "journal_value_at db' = journal_value_at db" "journal_wf db' = journal_wf db"
    "context_view db' = context_view db" "next_version db' = next_version db"
proof -
  from assms show at: "journal_value_at db' = journal_value_at db"
    by (intro ext) (simp add: same_context_def journal_value_at_def)
  from assms show "journal_wf db' = journal_wf db"
    unfolding journal_wf_def at same_context_def by (simp only:)
  from assms show "context_view db' = context_view db"
    unfolding same_context_def by (intro ext) (simp only: context_view_def at)
  from assms show "next_version db' = next_version db"
    unfolding same_context_def by (intro ext) (simp only: next_version_def)
qed

text \<open>The version a reader sees is the counter.\<close>

lemma view_version:
  assumes "journal_wf db"
  shows "snd (context_view db e f)
    = (case db_field_versions db (e, f) of None \<Rightarrow> 0 | Some n \<Rightarrow> n)"
  using assms by (fastforce simp: context_view_def journal_wf_def split: option.splits)

lemma next_version_view:
  "journal_wf db \<Longrightarrow> next_version db e f = snd (context_view db e f) + 1"
  by (simp add: view_version next_version_def split: option.splits)

section \<open>The operations as writes\<close>

lemma upsert_insert_wrote:
  "upsert_version e f db = (n, db1) \<Longrightarrow>
     n = next_version db e f \<and> wrote e f v db (insert_journal e f v n db1)"
  by (auto simp: upsert_version_def insert_journal_def wrote_def next_version_def Let_def)

lemma append_wrote:
  assumes "append_context_journal_in_session e f v db = Inr (n, db')"
  shows "n = next_version db e f" "wrote e f v db db'"
  using assms upsert_insert_wrote [of e f db]
  by (auto simp: append_context_journal_in_session_def split: prod.splits)

lemma init_wrote:
  "snd (init_context e v db) = db \<or> wrote e ''event'' v db (snd (init_context e v db))"
  by (auto simp: init_context_def wrote_def insert_journal_def next_version_def
      split: option.splits)

lemma set_wrote:
  assumes "context_set e k v db = Inr (n, db')" and "k \<noteq> ''analysis_only_complete''"
  shows "n = next_version db e k" "wrote e k v db db'"
  using assms upsert_insert_wrote [of e k db]
  by (auto simp: context_set_def split: prod.splits)

lemma cas_cases:
  assumes "compare_and_set e k n v db = Inr (b, db')" and "k \<noteq> ''analysis_only_complete''"
    and "journal_wf db"
  shows "if b then snd (context_view db e k) = n \<and> wrote e k v db db'
         else snd (context_view db e k) \<noteq> n \<and> db' = db"
proof -
  have pos: "m \<noteq> 0" if "db_field_versions db (e, k) = Some m" for m
    using journal_version_positive [OF assms(3) that] by simp
  show ?thesis
    using assms(1,2) pos unfolding view_version [OF assms(3)]
    by (cases "db_field_versions db (e, k)")
       (auto simp: compare_and_set_def wrote_def insert_journal_def next_version_def
         split: if_splits)
qed

section \<open>The completion marker\<close>

lemma is_true_iff: "is_true v \<longleftrightarrow> v = JBool True"
  by (cases v) auto

definition snapshot_complete :: "security_event_row \<Rightarrow> bool" where
  "snapshot_complete row \<longleftrightarrow>
     (\<exists>kvs. se_event_context_snapshot row = Some (JObj kvs)
        \<and> map_of kvs ''analysis_only_complete'' = Some (JBool True))"

text \<open>The marker is set: the journal or the snapshot of the event says \<open>true\<close>.\<close>

definition marked_complete :: "database \<Rightarrow> string \<Rightarrow> bool" where
  "marked_complete db e \<longleftrightarrow>
     fst (context_view db e ''analysis_only_complete'') = JBool True
     \<or> (\<exists>row. get_event db e = Some row \<and> snapshot_complete row)"

lemma unwrap_wrap_bool [simp]: "unwrap_journal_value (wrap_journal_value (JBool b)) = JBool b"
  by (simp add: wrap_journal_value_def unwrap_journal_value_def)

lemma merge_complete:
  "snapshot_complete (row\<lparr>se_event_context_snapshot :=
       Some (JObj (merge_analysis_only_complete_into_snapshot (Some (JObj kvs)) b))\<rparr>) \<longleftrightarrow>
     b \<or> map_of kvs ''analysis_only_complete'' = Some (JBool True)"
  by (auto simp: snapshot_complete_def merge_analysis_only_complete_into_snapshot_def Let_def
      update_conv' split: option.splits)

lemma snapshot_field:
  "(case map_of (case se_event_context_snapshot row of Some (JObj kvs) \<Rightarrow> kvs | _ \<Rightarrow> [])
       ''analysis_only_complete'' of None \<Rightarrow> False | Some v \<Rightarrow> is_true v) \<longleftrightarrow> snapshot_complete row"
  by (auto simp: snapshot_complete_def is_true_iff split: option.splits json.splits)

lemma current_value_view:
  assumes "journal_wf db"
  shows "(if (case db_field_versions db (e, f) of None \<Rightarrow> 0 | Some v \<Rightarrow> v) > 0
          then (case journal_value_at db e f
                       (case db_field_versions db (e, f) of None \<Rightarrow> 0 | Some v \<Rightarrow> v) of
                  None \<Rightarrow> JNull | Some raw \<Rightarrow> unwrap_journal_value raw)
          else JNull) = fst (context_view db e f)"
  using journal_version_positive [OF assms, of e f]
  by (cases "db_field_versions db (e, f)") (auto simp: context_view_def split: option.splits)

lemma complete_tx:
  assumes tx: "set_analysis_only_complete_in_tx e c x db = Inr (r, db')" and wf: "journal_wf db"
  obtains "r = None" "db' = db"
  | n row row' db1 where "r = Some (n, marked_complete db e \<or> c)" "get_event db e = Some row"
      "se_event_id row' = e"
      "db1 = db \<or> wrote e ''analysis_only_complete'' (JBool (marked_complete db e \<or> c)) db db1"
      "db_events db1 = db_events db"
      "snapshot_complete row' \<longleftrightarrow> marked_complete db e \<or> c" "db' = put_event row' db1"
proof -
  let ?f = "''analysis_only_complete''" and ?m = "marked_complete db e \<or> c"
  from tx obtain row where row: "get_event db e = Some row"
    by (auto simp: set_analysis_only_complete_in_tx_def)
  define kvs where "kvs = (case se_event_context_snapshot row of Some (JObj kvs) \<Rightarrow> kvs | _ \<Rightarrow> [])"
  define db1 where "db1 = (let (v, d) = upsert_version e ?f db
      in insert_journal e ?f (JBool ?m) v d)"
  have m: "is_true (fst (context_view db e ?f)) \<or> snapshot_complete row \<or> c \<longleftrightarrow> ?m"
    using row by (auto simp: marked_complete_def is_true_iff)
  have w: "wrote e ?f (JBool ?m) db db1" "db_events db1 = db_events db"
    using upsert_insert_wrote [of e ?f db]
    by (auto simp: db1_def upsert_version_def insert_journal_def Let_def split: prod.splits)
  define row' where "row' = row\<lparr>se_event_context_snapshot :=
      Some (JObj (merge_analysis_only_complete_into_snapshot (Some (JObj kvs)) ?m))\<rparr>"
  have kt: "map_of kvs ?f = Some (JBool True) \<longleftrightarrow> snapshot_complete row"
    by (auto simp: kvs_def snapshot_complete_def split: option.splits json.splits)
  have row': "se_event_id row' = e" "snapshot_complete row' \<longleftrightarrow> ?m"
    using events_table.get_key [OF row] row merge_complete [where row = row and kvs = kvs and b = ?m] kt
    by (auto simp: row'_def marked_complete_def)
  define cv where "cv = (case db_field_versions db (e, ?f) of None \<Rightarrow> 0 | Some v \<Rightarrow> v)"
  have cval: "(if cv > 0 then (case journal_value_at db e ?f cv of
      None \<Rightarrow> JNull | Some raw \<Rightarrow> unwrap_journal_value raw) else JNull) = fst (context_view db e ?f)"
    unfolding cv_def by (rule current_value_view [OF wf])
  have snap: "(case map_of kvs ?f of None \<Rightarrow> False | Some v \<Rightarrow> is_true v) \<longleftrightarrow> snapshot_complete row"
    unfolding kvs_def by (rule snapshot_field)
  have "r = None \<and> db' = db
      \<or> (\<exists>n. r = Some (n, ?m)) \<and> (db' = put_event row' db \<or> db' = put_event row' db1)"
    using tx unfolding set_analysis_only_complete_in_tx_def row of_opt_def Let_def option.case bind_res.simps
      cv_def [symmetric] kvs_def [symmetric] cval snap m
    by (auto simp: row'_def db1_def Let_def split: if_splits prod.splits)
  then show thesis
    using that row row' w by blast
qed

section \<open>Interleavings\<close>

text \<open>
  Any operation of the store, by any client. Callers that append to the journal inside
  their own transaction never name the completion marker.
\<close>

inductive context_step :: "database \<Rightarrow> database \<Rightarrow> bool" where
  step_init: "snd (init_context e v db) = db' \<Longrightarrow> context_step db db'"
| step_set: "context_set e k v db = Inr (n, db') \<Longrightarrow> context_step db db'"
| step_complete: "set_analysis_only_complete e b db = Inr (n, db') \<Longrightarrow> context_step db db'"
| step_cas: "compare_and_set e k m v db = Inr (b, db') \<Longrightarrow> context_step db db'"
| step_append: "append_context_journal_in_session e f v db = Inr (n, db') \<Longrightarrow>
    f \<noteq> ''analysis_only_complete'' \<Longrightarrow> context_step db db'"
| step_append_list: "append_list_context_journal_in_session e f v db = Inr (n, db') \<Longrightarrow>
    f \<noteq> ''analysis_only_complete'' \<Longrightarrow> context_step db db'"

text \<open>What a step does to the database: nothing, one write, or one update of the marker.\<close>

definition context_effect :: "database \<Rightarrow> database \<Rightarrow> bool" where
  "context_effect db db' \<longleftrightarrow>
     db' = db
     \<or> (\<exists>e f v. f \<noteq> ''analysis_only_complete'' \<and> wrote e f v db db'
            \<and> db_events db' = db_events db)
     \<or> (\<exists>e row b db1. get_event db e \<noteq> None \<and> se_event_id row = e \<and> (marked_complete db e \<longrightarrow> b)
            \<and> (db1 = db \<or> wrote e ''analysis_only_complete'' (JBool b) db db1)
            \<and> db_events db1 = db_events db \<and> snapshot_complete row = b
            \<and> db' = put_event row db1)"

lemma effect_refl: "context_effect db db"
  by (simp add: context_effect_def)

lemma effect_write:
  "f \<noteq> ''analysis_only_complete'' \<Longrightarrow> wrote e f v db db' \<Longrightarrow> db_events db' = db_events db
    \<Longrightarrow> context_effect db db'"
  by (auto simp: context_effect_def)

lemma effect_complete:
  assumes "set_analysis_only_complete_in_tx e c x db = Inr (r, db')" and "journal_wf db"
  shows "context_effect db db'"
  using complete_tx [OF assms]
proof cases
  case 1
  then show ?thesis by (simp add: effect_refl)
next
  case (2 n row row' db1)
  then show ?thesis
    unfolding context_effect_def
    by (intro disjI2 exI [of _ e] exI [of _ row'] exI [of _ "marked_complete db e \<or> c"] exI [of _ db1])
       simp
qed

lemma append_events:
  "append_context_journal_in_session e f v db = Inr (n, db') \<Longrightarrow> db_events db' = db_events db"
  by (auto simp: append_context_journal_in_session_def upsert_version_def insert_journal_def Let_def)

lemma init_events: "db_events (snd (init_context e v db)) = db_events db"
  by (simp add: init_context_def insert_journal_def split: option.splits)

lemma context_step_effect:
  assumes "context_step db db'" and wf: "journal_wf db"
  shows "context_effect db db'"
  using assms(1)
proof cases
  case (step_init e v)
  then show ?thesis
    using init_wrote [of e v db] init_events [of e v db] effect_refl [of db]
      effect_write [of "''event''" e v db db']
    by (elim disjE) simp_all
next
  case (step_set e k v n)
  show ?thesis
  proof (cases "k = ''analysis_only_complete''")
    case True
    with step_set show ?thesis using effect_complete [OF _ wf]
      by (auto simp: context_set_def set_analysis_only_complete_def split: json.splits option.splits)
  next
    case False
    with step_set have "db_events db' = db_events db"
      by (auto simp: context_set_def upsert_version_def insert_journal_def Let_def)
    with set_wrote [OF step_set False] False show ?thesis by (intro effect_write)
  qed
next
  case (step_complete e b n)
  then show ?thesis using effect_complete [OF _ wf]
    by (auto simp: set_analysis_only_complete_def split: option.splits)
next
  case (step_cas e k m v b)
  show ?thesis
  proof (cases "k = ''analysis_only_complete''")
    case True
    with step_cas show ?thesis using effect_complete [OF _ wf] effect_refl
      by (auto simp: compare_and_set_def split: if_splits)
  next
    case False
    with step_cas have "db_events db' = db_events db"
      by (auto simp: compare_and_set_def insert_journal_def Let_def split: if_splits option.splits)
    with cas_cases [OF step_cas False wf] False show ?thesis
      using effect_refl [of db] effect_write [of k e v db db'] by (cases b) simp_all
  qed
next
  case (step_append e f v n)
  then show ?thesis by (intro effect_write [OF _ append_wrote(2) append_events])
next
  case (step_append_list e f v n)
  then show ?thesis
    unfolding append_list_context_journal_in_session_def Let_def
    by (intro effect_write [OF _ append_wrote(2) append_events])
qed

lemma same_context_refl: "same_context db db"
  by (simp add: same_context_def)

lemma put_event_context: "same_context db (put_event row db)"
  by (simp add: same_context_def)

text \<open>A step keeps the invariant, and a field it changes moves to the next version.\<close>

lemma context_effect_view:
  assumes "context_effect db db'" and wf: "journal_wf db"
  shows "journal_wf db'"
    and "context_view db' e f = context_view db e f
      \<or> snd (context_view db' e f) = snd (context_view db e f) + 1"
proof -
  have written: "journal_wf db2 \<and> (context_view db2 e f = context_view db e f
      \<or> snd (context_view db2 e f) = snd (context_view db e f) + 1)"
    if "db1 = db \<or> (\<exists>e' f' v. wrote e' f' v db db1)" and "same_context db1 db2" for db1 db2
    using that(1)
  proof
    assume "db1 = db"
    then show ?thesis using wf same_context_simps [OF that(2)] by simp
  next
    assume "\<exists>e' f' v. wrote e' f' v db db1"
    then obtain e' f' v where w: "wrote e' f' v db db1" by blast
    show ?thesis
    proof (cases "(e, f) = (e', f')")
      case True
      then show ?thesis
        using wrote_wf [OF wf w] wrote_view [OF wf w] same_context_simps [OF that(2)]
          next_version_view [OF wf] by simp
    next
      case False
      then show ?thesis
        using wrote_wf [OF wf w] wrote_view_other [OF wf w False] same_context_simps [OF that(2)]
        by simp
    qed
  qed
  have "\<exists>db1. (db1 = db \<or> (\<exists>e' f' v. wrote e' f' v db db1)) \<and> same_context db1 db'"
    using assms(1) put_event_context same_context_refl unfolding context_effect_def by blast
  with written show "journal_wf db'"
    "context_view db' e f = context_view db e f
      \<or> snd (context_view db' e f) = snd (context_view db e f) + 1"
    by blast+
qed


lemma context_effect_cases [consumes 1, case_names unchanged wrote_field marked]:
  assumes "context_effect db db'"
  obtains "db' = db"
  | e f v where "f \<noteq> ''analysis_only_complete''" "wrote e f v db db'" "db_events db' = db_events db"
  | e row b db1 where "get_event db e \<noteq> None" "se_event_id row = e" "marked_complete db e \<longrightarrow> b"
      "db1 = db \<or> wrote e ''analysis_only_complete'' (JBool b) db db1"
      "db_events db1 = db_events db" "snapshot_complete row = b" "db' = put_event row db1"
proof -
  note c = assms [unfolded context_effect_def]
  show thesis
    by (rule disjE [OF c], erule that(1), erule disjE; elim exE conjE; rule that(2,3); assumption)
qed

lemma context_effect_marked:
  assumes "context_effect db db'" and wf: "journal_wf db" and m: "marked_complete db e"
  shows "marked_complete db' e"
  using assms(1)
proof (cases rule: context_effect_cases)
  case unchanged
  then show ?thesis using m by simp
next
  case (wrote_field e' f v)
  note f = wrote_field(1) and w = wrote_field(2) and ev = wrote_field(3)
  from wrote_view_other [OF wf w, of e "''analysis_only_complete''"] f
  have "context_view db' e ''analysis_only_complete'' = context_view db e ''analysis_only_complete''"
    by simp
  with m ev show ?thesis by (simp add: marked_complete_def get_event_def)
next
  case (marked e' row b db1)
  note ex = marked(1,2) and mb = marked(3) and w = marked(4) and ev = marked(5) and sc = marked(6)
    and db' = marked(7)
  show ?thesis
  proof (cases "e = e'")
    case True
    have "get_event db' e = Some row"
      using events_table.get_put_same [of db1 row] ex ev True by (simp add: db' get_event_def)
    with True m mb sc show ?thesis by (auto simp: marked_complete_def)
  next
    case False
    have "get_event db' e = get_event db e"
      using events_table.get_put_other [of e row db1] ex False ev by (simp add: db' get_event_def)
    moreover have "context_view db' e f = context_view db e f" for f
      using w wrote_view_other [OF wf, of e' _ _ db1 e f] False
        same_context_simps(3) [OF put_event_context, of row db1]
      by (auto simp: db')
    ultimately show ?thesis using m by (simp add: marked_complete_def)
  qed
qed

lemma context_run:
  assumes "context_step\<^sup>*\<^sup>* db db'" and "journal_wf db"
  shows "journal_wf db'" and "snd (context_view db e f) \<le> snd (context_view db' e f)"
    and "snd (context_view db' e f) = snd (context_view db e f) \<Longrightarrow>
      context_view db' e f = context_view db e f"
    and "marked_complete db e \<Longrightarrow> marked_complete db' e"
proof -
  have "journal_wf db' \<and> snd (context_view db e f) \<le> snd (context_view db' e f)
    \<and> (snd (context_view db' e f) = snd (context_view db e f) \<longrightarrow>
         context_view db' e f = context_view db e f)
    \<and> (marked_complete db e \<longrightarrow> marked_complete db' e)"
    using assms(1)
  proof induction
    case base
    then show ?case using assms(2) by simp
  next
    case (step db1 db2)
    then have wf: "journal_wf db1" by blast
    note eff = context_step_effect [OF step.hyps(2) wf]
    have wf2: "journal_wf db2" by (rule context_effect_view(1) [OF eff wf])
    from context_effect_view(2) [OF eff wf, of e f] show ?case
    proof
      assume "context_view db2 e f = context_view db1 e f"
      with step.IH wf2 context_effect_marked [OF eff wf, of e] show ?case by simp
    next
      assume "snd (context_view db2 e f) = snd (context_view db1 e f) + 1"
      with step.IH wf2 context_effect_marked [OF eff wf, of e] show ?case by simp
    qed
  qed
  then show "journal_wf db'" "snd (context_view db e f) \<le> snd (context_view db' e f)"
    "snd (context_view db' e f) = snd (context_view db e f) \<Longrightarrow>
      context_view db' e f = context_view db e f"
    "marked_complete db e \<Longrightarrow> marked_complete db' e"
    by blast+
qed

lemma reader_view:
  "k \<in> CONTEXT_FIELD_NAMES \<Longrightarrow> get_versioned_field db e k = Inr (context_view db e k)"
  by (simp add: get_versioned_field_def context_view_def split: option.splits)

text \<open>C34: No lost update. A client reads a field with its version, any clients then
  perform any store operations, and the first client compares-and-sets with the version
  it read: the write is accepted exactly when the field still is what was read, and then
  the field holds the new value under the next version; a refused write changes
  nothing.\<close>

theorem cas_no_lost_update:
  assumes "journal_wf db" and "context_step\<^sup>*\<^sup>* db db'"
    and "get_versioned_field db e k = Inr (old, n)"
    and "k \<in> CONTEXT_FIELD_NAMES - {''analysis_only_complete''}"
    and "compare_and_set e k n v db' = Inr (b, db'')"
  shows "b = (get_versioned_field db' e k = Inr (old, n))
    \<and> (if b then get_versioned_field db'' e k
                  = Inr (unwrap_journal_value (wrap_journal_value v), n + 1)
        else db'' = db')"
proof -
  from assms(4) have k: "k \<in> CONTEXT_FIELD_NAMES" "k \<noteq> ''analysis_only_complete''" by auto
  from assms(3) have old: "context_view db e k = (old, n)" by (simp add: reader_view [OF k(1)])
  note run = context_run(1) [OF assms(2,1)] context_run(2,3) [OF assms(2,1), of e k]
  note cas = cas_cases [OF assms(5) k(2) run(1)]
  show ?thesis
  proof (cases b)
    case True
    with cas have v: "snd (context_view db' e k) = n" and w: "wrote e k v db' db''" by simp_all
    from v run(3) old have "context_view db' e k = (old, n)" by simp
    moreover have "context_view db'' e k = (unwrap_journal_value (wrap_journal_value v), n + 1)"
      using wrote_view [OF run(1) w] next_version_view [OF run(1), of e k] v by simp
    ultimately show ?thesis using True k by (simp add: reader_view)
  next
    case False
    with cas show ?thesis using k by (auto simp: reader_view)
  qed
qed

definition example_read :: json where
  "example_read = JObj [(''summary'', JStr ''phishing'')]"

lemma empty_journal_wf: "journal_wf empty_database"
  by (simp add: journal_wf_def empty_database_def)

lemma triage_field: "''triage_result'' \<in> CONTEXT_FIELD_NAMES - {''analysis_only_complete''}"
  by (simp add: CONTEXT_FIELD_NAMES_def)

text \<open>Two clients read the unset field; the second to write is refused.\<close>

theorem cas_no_lost_update_witness:
  "\<exists>db'. compare_and_set ''evt-1'' ''triage_result'' 0 example_read empty_database = Inr (True, db')
     \<and> get_versioned_field db' ''evt-1'' ''triage_result'' \<noteq> Inr (JNull, 0)
     \<and> compare_and_set ''evt-1'' ''triage_result'' 0 JNull db' = Inr (False, db')"
proof -
  let ?cas = "compare_and_set ''evt-1'' ''triage_result'' 0"
  obtain db' where first: "?cas example_read empty_database = Inr (True, db')"
    using triage_field by (simp add: compare_and_set_def empty_database_def)
  obtain b db'' where second: "?cas JNull db' = Inr (b, db'')"
    using triage_field by (cases "db_field_versions db' (''evt-1'', ''triage_result'') = None")
      (auto simp: compare_and_set_def)
  have read: "get_versioned_field empty_database ''evt-1'' ''triage_result'' = Inr (JNull, 0)"
    using triage_field by (simp add: get_versioned_field_def empty_database_def)
  have run: "context_step\<^sup>*\<^sup>* empty_database db'"
    using step_cas [OF first] by blast
  note once = cas_no_lost_update [OF empty_journal_wf rtranclp.rtrancl_refl read triage_field first]
  note again = cas_no_lost_update [OF empty_journal_wf run read triage_field second]
  from once have "get_versioned_field db' ''evt-1'' ''triage_result'' \<noteq> Inr (JNull, 0)" by simp
  with first second again show ?thesis by (cases b) auto
qed



text \<open>What is written is read back. A successful \<open>set\<close> of a field allocates the next
  version and the versioned read then returns that value and version, unless the value
  is a dictionary whose only key is \<open>_scalar\<close> (the wrapper of scalar values); no other
  field of any event changes, and the counter and the journal keep agreeing.\<close>

theorem context_set_reads_back:
  assumes "journal_wf db" and "context_set e k v db = Inr (n, db')"
    and "k \<noteq> ''analysis_only_complete''" and "set (json_keys v) \<noteq> {''_scalar''}"
  shows "get_versioned_field db' e k = Inr (v, n)
    \<and> get_field_version db' e k = Some (snd (context_view db e k) + 1)
    \<and> (\<forall>e' k'. (e', k') \<noteq> (e, k) \<longrightarrow> context_view db' e' k' = context_view db e' k')
    \<and> journal_wf db'"
proof -
  note w = set_wrote [OF assms(2,3)]
  have k: "k \<in> CONTEXT_FIELD_NAMES" using assms(2) by (auto simp: context_set_def)
  have "unwrap_journal_value (wrap_journal_value v) = v"
    using assms(4) by (cases v) (auto simp: unwrap_journal_value_def wrap_journal_value_def)
  then have "get_versioned_field db' e k = Inr (v, n)"
    using wrote_view [OF assms(1) w(2)] w(1) by (simp add: reader_view [OF k])
  moreover have "get_field_version db' e k = Some (snd (context_view db e k) + 1)"
    using w next_version_view [OF assms(1), of e k]
    by (simp add: get_field_version_def wrote_def)
  ultimately show ?thesis
    using wrote_view_other [OF assms(1) w(2)] wrote_wf [OF assms(1) w(2)] by blast
qed

theorem context_set_reads_back_witness:
  "\<exists>n db'. context_set ''evt-1'' ''triage_result'' example_read empty_database = Inr (n, db')
     \<and> get_versioned_field db' ''evt-1'' ''triage_result'' = Inr (example_read, n)"
proof -
  obtain n db' where s: "context_set ''evt-1'' ''triage_result'' example_read empty_database = Inr (n, db')"
    using triage_field by (auto simp: context_set_def upsert_version_def Let_def)
  from context_set_reads_back [OF empty_journal_wf s] show ?thesis
    using s by (auto simp: example_read_def)
qed

end
