(* ===== verification/Approval.thy ===== *)
theory Approval
  imports State_Machine Context_Store
begin

text \<open>
  \<open>ApprovalEngine\<close> of \<open>backend/app/services/approval_engine.py\<close> with the models of
  \<open>models/approval.py\<close>: the hard gates and level rules, the approval records, human
  decisions with their idempotent replay, timeouts and the advance of a decided plan.
  A call returns the database and its result. The parameters of an engine form the
  record \<open>ap_env\<close>: the state machine's environment and whether one is configured, the
  provider manifest, SHA-256, the id generator, the impact assessment attached to an
  action (\<open>None\<close> without the service), the dump of a record and of a JSON value to text,
  and the two hooks that resume the workflow, which act on the orchestration graph and
  return a status. Messages to the event bus are not part of the database.
\<close>

section \<open>Decisions\<close>

datatype ApprovalDecisionKind = AUTO_APPROVE | REQUIRE_APPROVAL | AUTO_REJECT

definition ApprovalDecisionKind_members :: "ApprovalDecisionKind list" where
  "ApprovalDecisionKind_members = [AUTO_APPROVE, REQUIRE_APPROVAL, AUTO_REJECT]"

primrec ApprovalDecisionKind_value :: "ApprovalDecisionKind \<Rightarrow> string" where
  "ApprovalDecisionKind_value AUTO_APPROVE = ''auto_approve''"
| "ApprovalDecisionKind_value REQUIRE_APPROVAL = ''require_approval''"
| "ApprovalDecisionKind_value AUTO_REJECT = ''auto_reject''"

abbreviation ApprovalDecisionKind_parse :: "string \<Rightarrow> ApprovalDecisionKind option" where
  "ApprovalDecisionKind_parse \<equiv> enum_parse ApprovalDecisionKind_members ApprovalDecisionKind_value"

interpretation ApprovalDecisionKind_enum:
  str_enum ApprovalDecisionKind_members ApprovalDecisionKind_value
proof
  show "v \<in> set ApprovalDecisionKind_members" for v
    by (cases v) (simp_all add: ApprovalDecisionKind_members_def)
  show "distinct (map ApprovalDecisionKind_value ApprovalDecisionKind_members)"
    by (simp add: ApprovalDecisionKind_members_def)
qed

declare ApprovalDecisionKind_value.simps [simp del, enum_literals]
declare ApprovalDecisionKind_enum.value_eq_iff [simp] ApprovalDecisionKind_enum.parse_val [simp]

record ApprovalDecision =
  ad_decision :: ApprovalDecisionKind
  ad_rule_applied :: string
  ad_reason :: string

datatype ResumeStatus = RS_ok | RS_failed | RS_skipped | RS_deferred

text \<open>What a resume hook does: raise, or return a status or nothing.\<close>

datatype hook_result = Hook_raises | Hook_returns "ResumeStatus option"

record EvaluatePlanResult =
  ep_needs_wait :: bool
  ep_plan_revision :: int
  ep_evaluated_count :: nat
  ep_resume_deferred :: bool

record ApprovalOutcome =
  ao_resume_status :: "ResumeStatus option"
  ao_resume_degraded :: bool
  ao_persisted_status :: "ActionStatus option"
  ao_decision_id :: "string option"
  ao_idempotent_replay :: bool

record ap_env =
  ae_sm :: sm_env
  ae_state_machine :: bool
  ae_context_store :: bool
  ae_manifest :: CapabilityManifest
  ae_sha256 :: "string \<Rightarrow> string"
  ae_new_id :: "database \<Rightarrow> string"
  ae_impact :: "(Action \<Rightarrow> json option) option"
  ae_dump_record :: "approval_row \<Rightarrow> json"
  ae_str :: "json \<Rightarrow> string"
  ae_resume :: "(string \<Rightarrow> hook_result) option"
  ae_in_graph :: "string \<Rightarrow> bool"
  ae_rollback :: "(string \<Rightarrow> string \<Rightarrow> hook_result) option"

abbreviation ae_now :: "ap_env \<Rightarrow> int" where
  "ae_now env \<equiv> env_now (ae_sm env)"

definition SYSTEM_TIMEOUT_OPERATOR :: string where
  "SYSTEM_TIMEOUT_OPERATOR = ''system_timeout''"

definition APPROVAL_ENGINE_OPERATOR :: string where
  "APPROVAL_ENGINE_OPERATOR = ''ApprovalEngine''"

definition APPROVAL_TERMINAL :: "ActionStatus set" where
  "APPROVAL_TERMINAL = {AS_APPROVED, AS_REJECTED}"

section \<open>Rules\<close>

definition evaluate_hard_gates :: "Action \<Rightarrow> CapabilityManifest \<Rightarrow> ApprovalDecision option" where
  "evaluate_hard_gates a manifest =
     (if a_execution_owner a = None then None
      else
        let capability_gate =
              (if a_action_category a \<noteq> AC_ROLLBACK
                  \<and> a_tool_name a \<noteq> TERMINAL_DISPOSITION_TOOL
               then (if a_tool_name a \<notin> set (mf_allowed_operations manifest)
                     then Some \<lparr> ad_decision = AUTO_REJECT,
                                 ad_rule_applied = ''capability_not_allowed'',
                                 ad_reason = ''tool '' @ a_tool_name a
                                               @ '' not in provider manifest'' \<rparr>
                     else (case a_action_template_snapshot a of
                             None \<Rightarrow> None
                           | Some t \<Rightarrow>
                               (case manifest_supports_template_capabilities manifest
                                       (ts_required_capabilities t) of
                                  (supported, reason) \<Rightarrow>
                                    if \<not> supported
                                    then Some \<lparr> ad_decision = AUTO_REJECT,
                                      ad_rule_applied = ''playbook_capability_unsupported'',
                                      ad_reason = (case reason of
                                        Some r \<Rightarrow> if r = [] then ''playbook template capability unsupported'' else r
                                      | None \<Rightarrow> ''playbook template capability unsupported'') \<rparr>
                                    else None)))
               else None);
            readiness = a_writeback_readiness a;
            shown = ''writeback readiness='' @ WritebackReadiness_value readiness
        in
        if capability_gate \<noteq> None then capability_gate
        else if readiness = WR_PERMISSION_DENIED
        then Some \<lparr> ad_decision = AUTO_REJECT, ad_rule_applied = ''permission_denied'',
                    ad_reason = ''disposition permission denied for target/source'' \<rparr>
        else if readiness \<in> {WR_CAPABILITY_UNSUPPORTED, WR_NOT_CONFIGURED}
        then Some \<lparr> ad_decision = AUTO_REJECT, ad_rule_applied = ''capability_unsupported'',
                    ad_reason = shown \<rparr>
        else if readiness \<in> {WR_SOURCE_UNRESOLVED, WR_CAPABILITY_UNKNOWN,
                              WR_CONNECTOR_UNAVAILABLE}
        then Some \<lparr> ad_decision = REQUIRE_APPROVAL, ad_rule_applied = ''source_or_capability_gate'',
                    ad_reason = shown @ '' requires human review'' \<rparr>
        else if a_action_level a \<in> AUTO_APPROVABLE_ACTION_LEVELS \<and> a_execution_owner a \<noteq> None
                \<and> (\<not> mf_supports_idempotency manifest
                   \<or> \<not> mf_supports_lookup_by_idempotency manifest)
        then Some \<lparr> ad_decision = REQUIRE_APPROVAL,
                    ad_rule_applied = ''provider_idempotency_missing'',
                    ad_reason = ''provider lacks idempotency/lookup; manual approval required'' \<rparr>
        else None)"

text \<open>Confidence and severity are arguments of the source that it never reads.\<close>

definition evaluate_level_rules :: "Action \<Rightarrow> ActionLevel option \<Rightarrow> ApprovalDecision" where
  "evaluate_level_rules a max_auto_level =
     (let level = a_action_level a; shown = ActionLevel_value level in
      if level \<in> AUTO_APPROVABLE_ACTION_LEVELS
      then (let cap = (case max_auto_level of Some l \<Rightarrow> l | None \<Rightarrow> L1) in
            if action_level_rank level > action_level_rank cap
            then \<lparr> ad_decision = REQUIRE_APPROVAL, ad_rule_applied = ''level_exceeds_auto_cap'',
                   ad_reason = shown @ '' exceeds configured auto-approve cap ''
                                 @ ActionLevel_value cap @ '' (ISSUE-109)'' \<rparr>
            else \<lparr> ad_decision = AUTO_APPROVE, ad_rule_applied = ''level_l0_l1'',
                   ad_reason = shown @ '' auto-approvable after gates'' \<rparr>)
      else if level = L2
      then \<lparr> ad_decision = REQUIRE_APPROVAL, ad_rule_applied = ''level_l2_requires_human'',
             ad_reason = ''L2 requires human approval (confidence does not auto-approve)'' \<rparr>
      else if level = L3
      then \<lparr> ad_decision = REQUIRE_APPROVAL, ad_rule_applied = ''level_l3_requires_human'',
             ad_reason = ''L3 requires human approval (severity/confidence do not auto-approve)'' \<rparr>
      else \<lparr> ad_decision = REQUIRE_APPROVAL, ad_rule_applied = ''level_l4_l5_manual'',
             ad_reason = shown @ '' requires human approval'' \<rparr>)"

section \<open>Queries\<close>

definition load_record_row :: "database \<Rightarrow> string \<Rightarrow> int \<Rightarrow> approval_row option" where
  "load_record_row db action_id approval_cycle =
     scalar (\<lambda>r. ap_action_id r = action_id \<and> ap_approval_cycle r = approval_cycle)
       (db_approvals db)"

definition load_pending_record_row :: "database \<Rightarrow> string \<Rightarrow> approval_row option" where
  "load_pending_record_row db action_id =
     max_by ap_approval_cycle
       (filter (\<lambda>r. ap_action_id r = action_id \<and> ap_decided_at r = None) (db_approvals db))"

definition load_plan_response_actions :: "database \<Rightarrow> string \<Rightarrow> int \<Rightarrow> Action list res" where
  "load_plan_response_actions db event_id plan_revision =
     map_res action_from_orm
       (filter (\<lambda>a. act_event_id a = event_id \<and> act_plan_revision a = plan_revision
                   \<and> act_action_category a = ActionCategory_value AC_RESPONSE
                   \<and> act_superseded_by_revision a = None
                   \<and> act_status a \<noteq> ActionStatus_value AS_SUPERSEDED) (db_actions db))"

definition latest_revision :: "database \<Rightarrow> string \<Rightarrow> int" where
  "latest_revision db event_id =
     (case current_plan_revision db event_id of None \<Rightarrow> 0 | Some v \<Rightarrow> v)"

definition event_status :: "database \<Rightarrow> string \<Rightarrow> EventStatus option res" where
  "event_status db event_id =
     (case get_event db event_id of
        None \<Rightarrow> Inr None
      | Some row \<Rightarrow>
          (if se_status row = [] then Inr None
           else bind_res (parse_or_raise EventStatus_parse (se_status row)) (\<lambda>s. Inr (Some s))))"

definition is_plan_fully_decided :: "database \<Rightarrow> string \<Rightarrow> int \<Rightarrow> bool res" where
  "is_plan_fully_decided db event_id plan_revision =
     bind_res (load_plan_response_actions db event_id plan_revision) (\<lambda>actions.
     Inr (list_all (\<lambda>a. a_status a \<in> APPROVAL_TERMINAL) actions))"

section \<open>Writing records and statuses\<close>

text \<open>\<open>_record_to_model\<close>: the enumeration columns are parsed.\<close>

definition record_to_model :: "approval_row \<Rightarrow> approval_row res" where
  "record_to_model row =
     bind_res (parse_or_raise ActionLevel_parse (ap_required_level row)) (\<lambda>_.
     bind_res (parse_or_raise ApprovalDecisionKind_parse (ap_decision row)) (\<lambda>_. Inr row))"

definition sync_wm_records :: "ap_env \<Rightarrow> string \<Rightarrow> database \<Rightarrow> database res" where
  "sync_wm_records env event_id db =
     (if \<not> ae_context_store env then Inr db
      else
        bind_res (map_res record_to_model (filter (\<lambda>r. ap_event_id r = event_id)
                                             (db_approvals db))) (\<lambda>rows.
        bind_res (append_context_journal_in_session event_id ''approval_records''
                    (JList (map (ae_dump_record env) rows)) db) (\<lambda>(_, db'). Inr db')))"

definition impact_of :: "ap_env \<Rightarrow> Action \<Rightarrow> json option" where
  "impact_of env a = (case ae_impact env of None \<Rightarrow> None | Some assess \<Rightarrow> assess a)"

text \<open>\<open>timedelta(minutes=m)\<close> in microseconds.\<close>

definition minutes_us :: "int \<Rightarrow> int" where
  "minutes_us minutes = minutes * 60 * 1000000"

definition upsert_record ::
  "ap_env \<Rightarrow> Action \<Rightarrow> ApprovalDecision \<Rightarrow> int \<Rightarrow> database \<Rightarrow> database res" where
  "upsert_record env a decision approval_cycle db =
     (let kind = ad_decision decision;
          now = ae_now env;
          timeout_at = (if kind = REQUIRE_APPROVAL
                        then Some (now + minutes_us (cfg_approval_timeout_minutes
                                                       (env_settings (ae_sm env))))
                        else None);
          detail = JObj ([(''rule_applied'', JStr (ad_rule_applied decision)),
                          (''reason'', JStr (ad_reason decision))]
                         @ build_approval_binding_detail (ae_sha256 env) a
                         @ [(''impact_assessment'',
                             (case impact_of env a of None \<Rightarrow> JNull | Some j \<Rightarrow> j))]);
          inserted = \<lparr> ap_approval_id = ae_new_id env db, ap_action_id = a_action_id a,
                       ap_event_id = a_event_id a, ap_plan_revision = a_plan_revision a,
                       ap_approval_cycle = approval_cycle, ap_decision_id = None,
                       ap_required_level = ActionLevel_value (a_action_level a),
                       ap_decision = ApprovalDecisionKind_value kind,
                       ap_operator = (if kind \<noteq> REQUIRE_APPROVAL
                                      then Some APPROVAL_ENGINE_OPERATOR else None),
                       ap_comment = None, ap_detail = Some detail, ap_requested_at = now,
                       ap_decided_at = (if kind \<noteq> REQUIRE_APPROVAL then Some now else None),
                       ap_timeout_at = timeout_at \<rparr>
      in
      bind_res (case load_record_row db (a_action_id a) approval_cycle of
                  Some existing \<Rightarrow>
                    Inr (put_approval (existing\<lparr>ap_decision := ApprovalDecisionKind_value kind,
                                               ap_detail := Some detail,
                                               ap_timeout_at := timeout_at\<rparr>) db)
                | None \<Rightarrow>
                    bind_res (ensure (ap_approval_id inserted \<notin> ap_approval_id ` set (db_approvals db))
                                (IntegrityError ''approval_id'')) (\<lambda>_.
                    Inr (db\<lparr>db_approvals := db_approvals db @ [inserted]\<rparr>))) (\<lambda>db'.
      sync_wm_records env (a_event_id a) db'))"

definition set_action_status ::
  "ap_env \<Rightarrow> Action \<Rightarrow> ActionStatus \<Rightarrow> bool \<Rightarrow> database \<Rightarrow> database res" where
  "set_action_status env a target has_approval_evidence db =
     bind_res (validate_action_status_transition (a_action_category a)
                 (default_action_evidence\<lparr>ev_execution_phase := a_execution_phase a,
                    ev_action_level := a_action_level a,
                    ev_has_approval_evidence := has_approval_evidence \<or> target = AS_APPROVED\<rparr>)
                 (a_status a) target) (\<lambda>_.
     Inr (case get_action db (a_action_id a) of
            None \<Rightarrow> db
          | Some row \<Rightarrow> put_action (row\<lparr>act_status := ActionStatus_value target,
                                          act_updated_at := ae_now env\<rparr>) db))"

section \<open>Advancing the event and the plan\<close>

definition ensure_event_waiting_approval ::
  "ap_env \<Rightarrow> string \<Rightarrow> database \<Rightarrow> database \<times> unit res" where
  "ensure_event_waiting_approval env event_id db =
     (if \<not> ae_state_machine env then (db, Inr ())
      else (case event_status db event_id of
        Inl e \<Rightarrow> (db, Inl e)
      | Inr (Some ES_PLANNING_RESPONSE) \<Rightarrow>
          then_do (transition (ae_sm env) default_TransitionContext event_id ES_WAITING_APPROVAL
                     (Some APPROVAL_ENGINE_OPERATOR) (Some ''approval_required'') db)
            (\<lambda>db' _. (db', Inr ()))
      | Inr _ \<Rightarrow> (db, Inr ())))"

text \<open>The target status of a fully decided plan.\<close>

definition plan_target :: "Action list \<Rightarrow> EventStatus option" where
  "plan_target actions =
     (let approved = filter (\<lambda>a. a_status a = AS_APPROVED) actions;
          rejected = filter (\<lambda>a. a_status a = AS_REJECTED) actions;
          deferred = filter (\<lambda>a. a_tool_name a = TERMINAL_DISPOSITION_TOOL) actions;
          deferred_approved = list_ex (\<lambda>a. a_status a = AS_APPROVED) deferred;
          deferred_rejected = list_ex (\<lambda>a. a_status a = AS_REJECTED) deferred;
          required = list_ex a_writeback_required actions
      in
      if approved \<noteq> [] \<and> (\<not> required \<or> deferred_approved) then Some ES_EXECUTING_RESPONSE
      else if rejected \<noteq> [] \<and> approved = [] then Some ES_REPORTING
      else if required \<and> deferred_rejected then Some ES_REPORTING
      else if approved \<noteq> [] then Some ES_REPORTING
      else None)"

text \<open>
  The resume of the investigation after a decided plan; enqueueing the durable resume
  intent of a deferred one never fails and writes tables of its own.
\<close>

definition resume_after_plan :: "ap_env \<Rightarrow> string \<Rightarrow> ResumeStatus" where
  "resume_after_plan env event_id =
     (case ae_resume env of
        None \<Rightarrow> RS_skipped
      | Some resume \<Rightarrow>
          (if ae_in_graph env event_id then RS_deferred
           else (case resume event_id of
                   Hook_raises \<Rightarrow> RS_failed
                 | Hook_returns (Some RS_deferred) \<Rightarrow> RS_deferred
                 | Hook_returns (Some RS_skipped) \<Rightarrow> RS_failed
                 | Hook_returns _ \<Rightarrow> RS_ok)))"

text \<open>The state-machine step of \<open>_maybe_advance_plan\<close>; its flag tells a failed transition.\<close>

definition advance_event ::
  "ap_env \<Rightarrow> string \<Rightarrow> EventStatus option \<Rightarrow> database \<Rightarrow> database \<times> bool res" where
  "advance_event env event_id target db =
     (case target of
        None \<Rightarrow> (db, Inr True)
      | Some t \<Rightarrow>
          (if \<not> ae_state_machine env then (db, Inr True)
           else (case event_status db event_id of
             Inl e \<Rightarrow> (db, Inl e)
           | Inr s \<Rightarrow>
               (if s \<in> {Some ES_WAITING_APPROVAL, Some ES_PLANNING_RESPONSE}
                then (case transition (ae_sm env) default_TransitionContext event_id t
                             (Some APPROVAL_ENGINE_OPERATOR) (Some ''plan_fully_decided'') db of
                        (db', Inl _) \<Rightarrow> (db', Inr False)
                      | (db', Inr _) \<Rightarrow> (db', Inr True))
                else (db, Inr True)))))"

definition maybe_advance_plan ::
  "ap_env \<Rightarrow> string \<Rightarrow> int \<Rightarrow> database \<Rightarrow> database \<times> ResumeStatus option res" where
  "maybe_advance_plan env event_id plan_revision db =
     (case is_plan_fully_decided db event_id plan_revision of
        Inl e \<Rightarrow> (db, Inl e)
      | Inr False \<Rightarrow> (db, Inr None)
      | Inr True \<Rightarrow>
          (case load_plan_response_actions db event_id plan_revision of
             Inl e \<Rightarrow> (db, Inl e)
           | Inr actions \<Rightarrow>
               then_do (advance_event env event_id (plan_target actions) db) (\<lambda>db' advanced.
               (db', Inr (Some (if advanced then resume_after_plan env event_id
                                else RS_failed))))))"

section \<open>Evaluation\<close>

text \<open>\<open>str((detail or {}).get(key, default))\<close>.\<close>

definition py_str :: "ap_env \<Rightarrow> json \<Rightarrow> string" where
  "py_str env j = (case j of JStr s \<Rightarrow> s | JNull \<Rightarrow> ''None'' | _ \<Rightarrow> ae_str env j)"

definition detail_str :: "ap_env \<Rightarrow> json option \<Rightarrow> string \<Rightarrow> string \<Rightarrow> string" where
  "detail_str env detail key dflt =
     (case detail of
        Some (JObj kvs) \<Rightarrow> (case map_of kvs key of None \<Rightarrow> dflt | Some v \<Rightarrow> py_str env v)
      | _ \<Rightarrow> dflt)"

text \<open>\<open>ImpactAssessmentService.persist_evaluation\<close> (its column of the action row is not modelled).\<close>

definition persist_impact :: "ap_env \<Rightarrow> Action \<Rightarrow> database \<Rightarrow> database res" where
  "persist_impact env a db =
     (case impact_of env a of
        None \<Rightarrow> Inr db
      | Some assessment \<Rightarrow>
          bind_res (append_list_context_journal_in_session (a_event_id a) ''impact_assessments''
                      assessment
                      (case get_action db (a_action_id a) of
                         None \<Rightarrow> db
                       | Some row \<Rightarrow> put_action (row\<lparr>act_updated_at := ae_now env\<rparr>) db))
            (\<lambda>(_, db'). Inr db'))"

definition persist_evaluation_in_tx ::
  "ap_env \<Rightarrow> Action \<Rightarrow> ApprovalDecision \<Rightarrow> int \<Rightarrow> database \<Rightarrow> (unit \<times> database) res" where
  "persist_evaluation_in_tx env a decision approval_cycle db =
     bind_res (persist_impact env a db) (\<lambda>db1.
     bind_res (upsert_record env a decision approval_cycle db1) (\<lambda>db2.
     bind_res (case ad_decision decision of
                 AUTO_APPROVE \<Rightarrow> set_action_status env a AS_APPROVED True db2
               | AUTO_REJECT \<Rightarrow> set_action_status env a AS_REJECTED False db2
               | REQUIRE_APPROVAL \<Rightarrow> set_action_status env a AS_WAITING_APPROVAL False db2) (\<lambda>db3.
     Inr ((), db3))))"

definition persist_evaluation ::
  "ap_env \<Rightarrow> Action \<Rightarrow> ApprovalDecision \<Rightarrow> int \<Rightarrow> database \<Rightarrow> database \<times> unit res" where
  "persist_evaluation env a decision approval_cycle db =
     then_do (commit db (persist_evaluation_in_tx env a decision approval_cycle db)) (\<lambda>db' _.
     if ad_decision decision = REQUIRE_APPROVAL
     then ensure_event_waiting_approval env (a_event_id a) db'
     else (db', Inr ()))"

definition evaluation_decision :: "ap_env \<Rightarrow> Action \<Rightarrow> ApprovalDecision" where
  "evaluation_decision env a =
     (case evaluate_hard_gates a (ae_manifest env) of
        Some gate \<Rightarrow> gate
      | None \<Rightarrow> evaluate_level_rules a
                  (resolve_runtime_max_auto_level (env_settings (ae_sm env))))"

definition evaluate ::
  "ap_env \<Rightarrow> Action \<Rightarrow> int \<Rightarrow> bool \<Rightarrow> database \<Rightarrow> database \<times> ApprovalDecision res" where
  "evaluate env a approval_cycle advance_plan db =
     (case load_record_row db (a_action_id a) approval_cycle of
        Some existing \<Rightarrow>
          (db, bind_res (parse_or_raise ApprovalDecisionKind_parse (ap_decision existing)) (\<lambda>kind.
               Inr \<lparr> ad_decision = kind,
                     ad_rule_applied = detail_str env (ap_detail existing) ''rule_applied''
                                         ''existing_record'',
                     ad_reason = detail_str env (ap_detail existing) ''reason''
                                   ''existing approval record'' \<rparr>))
      | None \<Rightarrow>
          (let decision = evaluation_decision env a in
           then_do (persist_evaluation env a decision approval_cycle db) (\<lambda>db1 _.
           then_do (if advance_plan \<and> ad_decision decision \<in> {AUTO_APPROVE, AUTO_REJECT}
                    then maybe_advance_plan env (a_event_id a) (a_plan_revision a) db1
                    else (db1, Inr None)) (\<lambda>db2 _. (db2, Inr decision)))))"

fun evaluate_all ::
  "ap_env \<Rightarrow> int \<Rightarrow> Action list \<Rightarrow> database \<Rightarrow> database \<times> unit res" where
  "evaluate_all env approval_cycle [] db = (db, Inr ())"
| "evaluate_all env approval_cycle (a # as) db =
     then_do (evaluate env a approval_cycle False db) (\<lambda>db' _.
     evaluate_all env approval_cycle as db')"

definition evaluate_plan ::
  "ap_env \<Rightarrow> string \<Rightarrow> int \<Rightarrow> int \<Rightarrow> database \<Rightarrow> database \<times> EvaluatePlanResult res" where
  "evaluate_plan env event_id plan_revision approval_cycle db =
     (case load_plan_response_actions db event_id plan_revision of
        Inl e \<Rightarrow> (db, Inl e)
      | Inr actions \<Rightarrow>
          if actions = []
          then (db, Inr \<lparr> ep_needs_wait = False, ep_plan_revision = plan_revision,
                          ep_evaluated_count = 0, ep_resume_deferred = False \<rparr>)
          else
            then_do (evaluate_all env approval_cycle actions db) (\<lambda>db1 _.
            case load_plan_response_actions db1 event_id plan_revision of
              Inl e \<Rightarrow> (db1, Inl e)
            | Inr refreshed \<Rightarrow>
                let needs_wait = list_ex (\<lambda>a. a_status a = AS_WAITING_APPROVAL) refreshed in
                then_do (if needs_wait then (db1, Inr None)
                         else maybe_advance_plan env event_id plan_revision db1)
                  (\<lambda>db2 resume_status.
                     (db2, Inr \<lparr> ep_needs_wait = needs_wait, ep_plan_revision = plan_revision,
                                 ep_evaluated_count = length actions,
                                 ep_resume_deferred = (resume_status = Some RS_deferred) \<rparr>))))"

section \<open>Idempotency of decisions\<close>

datatype ApprovalOperation = Op_approve | Op_reject

primrec operation_label :: "ApprovalOperation \<Rightarrow> string" where
  "operation_label Op_approve = ''approve''"
| "operation_label Op_reject = ''reject''"

definition approval_operation :: "ActionStatus \<Rightarrow> ApprovalOperation" where
  "approval_operation target = (if target = AS_APPROVED then Op_approve else Op_reject)"

definition decision_status_for_operation :: "string \<Rightarrow> ActionStatus" where
  "decision_status_for_operation operation =
     (if operation = operation_label Op_approve then AS_APPROVED else AS_REJECTED)"

definition normalize_approval_comment :: "string option \<Rightarrow> string" where
  "normalize_approval_comment comment = (case comment of None \<Rightarrow> [] | Some c \<Rightarrow> strip c)"

text \<open>\<open>json.dumps\<close> of a string: quotes, backslashes and everything outside the printable ASCII range are escaped.\<close>

definition hex_digit :: "nat \<Rightarrow> char" where
  "hex_digit n = char_of (if n < 10 then 48 + n else 87 + n)"

definition json_escape_char :: "char \<Rightarrow> string" where
  "json_escape_char c =
     (let n = (of_char c :: nat) in
      if c = CHR 0x22 then [CHR 0x5C, CHR 0x22]
      else if c = CHR 0x5C then [CHR 0x5C, CHR 0x5C]
      else if c = CHR 0x0A then [CHR 0x5C, CHR ''n'']
      else if c = CHR 0x0D then [CHR 0x5C, CHR ''r'']
      else if c = CHR 0x09 then [CHR 0x5C, CHR ''t'']
      else if c = CHR 0x08 then [CHR 0x5C, CHR ''b'']
      else if c = CHR 0x0C then [CHR 0x5C, CHR ''f'']
      else if n < 32 \<or> 126 < n
      then CHR 0x5C # ''u00'' @ [hex_digit (n div 16), hex_digit (n mod 16)]
      else [c])"

definition json_dumps_comment :: "string \<Rightarrow> string" where
  "json_dumps_comment c =
     [CHR 0x7B, CHR 0x22] @ ''comment'' @ [CHR 0x22, CHR '':'', CHR '' '', CHR 0x22]
     @ concat (map json_escape_char c) @ [CHR 0x22, CHR 0x7D]"

definition approval_payload_hash :: "ap_env \<Rightarrow> string option \<Rightarrow> string" where
  "approval_payload_hash env comment =
     ae_sha256 env (json_dumps_comment (normalize_approval_comment comment))"

text \<open>The stored operation and payload hash of a decided record.\<close>

definition idempotency_binding_from_record ::
  "ap_env \<Rightarrow> approval_row \<Rightarrow> ActionStatus \<Rightarrow> json \<times> string" where
  "idempotency_binding_from_record env record action_status =
     (let stored = (case ap_detail record of
                      Some d \<Rightarrow> json_get d ''idempotency'' | None \<Rightarrow> None);
          field = (\<lambda>key. case stored of None \<Rightarrow> None | Some d \<Rightarrow> json_get d key)
      in (case (field ''operation'', field ''payload_hash'') of
            (Some oper, Some hash) \<Rightarrow>
              (if json_truthy oper \<and> json_truthy hash then (oper, py_str env hash)
               else (JStr (operation_label (if action_status = AS_REJECTED then Op_reject
                                            else Op_approve)),
                     approval_payload_hash env (ap_comment record)))
          | _ \<Rightarrow> (JStr (operation_label (if action_status = AS_REJECTED then Op_reject
                                         else Op_approve)),
                  approval_payload_hash env (ap_comment record))))"

definition persist_idempotency_detail ::
  "ApprovalOperation \<Rightarrow> string \<Rightarrow> approval_row \<Rightarrow> approval_row" where
  "persist_idempotency_detail operation payload_hash record =
     (let detail = (case ap_detail record of Some (JObj kvs) \<Rightarrow> kvs | _ \<Rightarrow> [])
      in record\<lparr>ap_detail := Some (JObj (AList.update ''idempotency''
           (JObj [(''operation'', JStr (operation_label operation)),
                  (''payload_hash'', JStr payload_hash)]) detail))\<rparr>)"

definition resolve_idempotent_replay ::
  "ap_env \<Rightarrow> string \<Rightarrow> string \<Rightarrow> ApprovalOperation \<Rightarrow> string \<Rightarrow> action_row \<Rightarrow> database
     \<Rightarrow> ApprovalOutcome option res" where
  "resolve_idempotent_replay env action_id decision_id operation payload_hash row db =
     (case scalar (\<lambda>r. ap_decision_id r = Some decision_id \<and> ap_decided_at r \<noteq> None)
             (db_approvals db) of
        None \<Rightarrow> Inr None
      | Some replay \<Rightarrow>
          bind_res (ensure (ap_action_id replay = action_id)
                      (ApprovalDecisionConflictError ''decision_id already used'')) (\<lambda>_.
          bind_res (parse_or_raise ActionStatus_parse (act_status row)) (\<lambda>status.
          case idempotency_binding_from_record env replay status of (stored_op, stored_hash) \<Rightarrow>
          bind_res (ensure (stored_op = JStr (operation_label operation) \<and> stored_hash = payload_hash)
                      (ApprovalDecisionConflictError
                         ''decision_id replay operation or payload mismatch'')) (\<lambda>_.
          Inr (Some \<lparr> ao_resume_status = None, ao_resume_degraded = False,
                      ao_persisted_status =
                        Some (decision_status_for_operation (operation_label operation)),
                      ao_decision_id = Some decision_id, ao_idempotent_replay = True \<rparr>)))))"

section \<open>Human decisions\<close>

definition hook_status :: "hook_result \<Rightarrow> ResumeStatus option" where
  "hook_status h = (case h of Hook_raises \<Rightarrow> Some RS_failed | Hook_returns s \<Rightarrow> s)"

definition finish_rollback_decision ::
  "ap_env \<Rightarrow> string \<Rightarrow> Principal \<Rightarrow> ActionStatus \<Rightarrow> ApprovalOutcome \<Rightarrow> ApprovalOutcome" where
  "finish_rollback_decision env action_id p target outcome =
     (if target \<noteq> AS_APPROVED then outcome
      else
        let resume_status = (case ae_rollback env of
                               None \<Rightarrow> Some RS_failed
                             | Some handler \<Rightarrow> hook_status (handler action_id (pr_subject p)))
        in outcome\<lparr>ao_resume_status := resume_status,
                   ao_resume_degraded := (resume_status = Some RS_failed)\<rparr>)"

text \<open>\<open>uq_approval_record_decision_id\<close>, checked when the session flushes.\<close>

definition decision_id_free :: "database \<Rightarrow> approval_row \<Rightarrow> bool" where
  "decision_id_free db record \<longleftrightarrow>
     (ap_decision_id record = None
      \<or> list_all (\<lambda>r. ap_approval_id r = ap_approval_id record
                     \<or> ap_decision_id r \<noteq> ap_decision_id record) (db_approvals db))"

definition decide_in_tx ::
  "ap_env \<Rightarrow> string \<Rightarrow> Principal \<Rightarrow> string option \<Rightarrow> string option \<Rightarrow> ActionStatus \<Rightarrow> database
     \<Rightarrow> (Action \<times> database) res" where
  "decide_in_tx env action_id p comment decision_id target db =
     bind_res (of_opt (ResourceNotFoundError ''action not found'') (get_action db action_id)) (\<lambda>row.
     bind_res (action_from_orm row) (\<lambda>a.
     bind_res (if target = AS_APPROVED
               then bind_res (case evaluate_hard_gates a (ae_manifest env) of
                                Some gate \<Rightarrow> action_err (Approval_blocked_by_gate
                                                          (ad_rule_applied gate))
                              | None \<Rightarrow> Inr ()) (\<lambda>_.
                    case load_pending_record_row db action_id of
                      None \<Rightarrow> Inr ()
                    | Some pending \<Rightarrow>
                        (case ap_detail pending of
                           Some d \<Rightarrow> if is_dict d
                                     then validate_approval_binding (ae_sha256 env) a (Some d)
                                     else Inr ()
                         | None \<Rightarrow> Inr ()))
               else Inr ()) (\<lambda>_.
     let pending = load_pending_record_row db action_id in
     bind_res (ensure (case pending of None \<Rightarrow> True | Some r \<Rightarrow> ap_decided_at r = None)
                 (ApprovalDecisionConflictError ''approval already decided by another operator'')) (\<lambda>_.
     bind_res (if a_status a = AS_WAITING_APPROVAL then Inr ()
               else if a_status a \<in> APPROVAL_TERMINAL
                       \<and> scalar (\<lambda>r. ap_action_id r = action_id \<and> ap_decided_at r \<noteq> None)
                            (db_approvals db) \<noteq> None
               then Inl (ApprovalDecisionConflictError ''approval already decided by another operator'')
               else action_err (Not_waiting_approval (a_status a))) (\<lambda>_.
     bind_res (of_opt (ResourceNotFoundError ''approval record missing'') pending) (\<lambda>record.
     bind_res (ensure (decision_id = None \<or> decision_id = Some []
                       \<or> scalar (\<lambda>r. ap_decision_id r = decision_id \<and> ap_action_id r \<noteq> action_id)
                            (db_approvals db) = None)
                 (ApprovalDecisionConflictError ''decision_id already used'')) (\<lambda>_.
     let now = ae_now env;
         record' = persist_idempotency_detail (approval_operation target)
                     (approval_payload_hash env comment)
                     (record\<lparr>ap_operator := Some (pr_subject p), ap_comment := comment,
                             ap_decided_at := Some now, ap_decision_id := decision_id\<rparr>)
     in
     bind_res (validate_action_status_transition (a_action_category a)
                 (default_action_evidence\<lparr>ev_execution_phase := a_execution_phase a,
                    ev_action_level := a_action_level a, ev_has_approval_evidence := True\<rparr>)
                 (a_status a) target) (\<lambda>_.
     bind_res (ensure (decision_id_free db record') (IntegrityError ''decision_id'')) (\<lambda>_.
     let row' = row\<lparr>act_status := ActionStatus_value target, act_updated_at := now\<rparr> in
     bind_res (action_from_orm row') (\<lambda>decided.
     Inr (decided, put_action row' (put_approval record' db))))))))))))"

definition decide ::
  "ap_env \<Rightarrow> string \<Rightarrow> Principal \<Rightarrow> string option \<Rightarrow> string option \<Rightarrow> ActionStatus \<Rightarrow> database
     \<Rightarrow> database \<times> ApprovalOutcome res" where
  "decide env action_id p comment decision_id target db =
     (let replay =
            (case decision_id of
               None \<Rightarrow> Inr None
             | Some did \<Rightarrow>
                 (if did = [] then Inr None
                  else (case get_action db action_id of
                          None \<Rightarrow> Inr None
                        | Some row \<Rightarrow>
                            bind_res (action_from_orm row) (\<lambda>a.
                            bind_res (resolve_idempotent_replay env action_id did
                                        (approval_operation target)
                                        (approval_payload_hash env comment) row db) (\<lambda>outcome.
                            Inr (map_option (\<lambda>oc. if a_action_category a = AC_ROLLBACK
                                   then finish_rollback_decision env action_id p target oc
                                   else oc) outcome))))))
      in (case replay of
            Inl e \<Rightarrow> (db, Inl e)
          | Inr (Some outcome) \<Rightarrow> (db, Inr outcome)
          | Inr None \<Rightarrow>
              then_do (commit db (decide_in_tx env action_id p comment decision_id target db))
                (\<lambda>db1 decided.
                   let outcome = \<lparr> ao_resume_status = None, ao_resume_degraded = False,
                                   ao_persisted_status = Some target,
                                   ao_decision_id = decision_id, ao_idempotent_replay = False \<rparr>
                   in
                   if a_action_category decided = AC_ROLLBACK
                   then (db1, Inr (finish_rollback_decision env action_id p target outcome))
                   else then_do (maybe_advance_plan env (a_event_id decided)
                                   (a_plan_revision decided) db1)
                          (\<lambda>db2 resume_status.
                             (db2, Inr (outcome\<lparr>ao_resume_status := resume_status,
                                ao_resume_degraded := (resume_status = Some RS_failed)\<rparr>))))))"

definition approve ::
  "ap_env \<Rightarrow> string \<Rightarrow> Principal \<Rightarrow> string option \<Rightarrow> string option \<Rightarrow> database
     \<Rightarrow> database \<times> ApprovalOutcome res" where
  "approve env action_id p comment decision_id db =
     decide env action_id p comment decision_id AS_APPROVED db"

definition reject ::
  "ap_env \<Rightarrow> string \<Rightarrow> Principal \<Rightarrow> string option \<Rightarrow> string option \<Rightarrow> database
     \<Rightarrow> database \<times> ApprovalOutcome res" where
  "reject env action_id p comment decision_id db =
     decide env action_id p comment decision_id AS_REJECTED db"

section \<open>Timeouts and manual review\<close>

definition timed_out_record :: "int \<Rightarrow> approval_row \<Rightarrow> approval_row" where
  "timed_out_record now record =
     record\<lparr>ap_operator := Some SYSTEM_TIMEOUT_OPERATOR, ap_comment := Some ''approval timeout'',
            ap_decision := ApprovalDecisionKind_value AUTO_REJECT, ap_decided_at := Some now\<rparr>"

text \<open>The transaction of \<open>handle_timeout\<close>: the rejected action, or \<open>None\<close> when it returns early.\<close>

definition handle_timeout_in_tx ::
  "ap_env \<Rightarrow> string \<Rightarrow> int \<Rightarrow> database \<Rightarrow> (Action option \<times> database) res" where
  "handle_timeout_in_tx env action_id approval_cycle db =
     (case get_action db action_id of
        None \<Rightarrow> Inr (None, db)
      | Some row \<Rightarrow>
          if act_status row \<noteq> ActionStatus_value AS_WAITING_APPROVAL then Inr (None, db)
          else (case load_record_row db action_id approval_cycle of
            None \<Rightarrow> Inr (None, db)
          | Some record \<Rightarrow>
              if ap_decided_at record \<noteq> None then Inr (None, db)
              else
                let row' = row\<lparr>act_status := ActionStatus_value AS_REJECTED,
                               act_updated_at := ae_now env\<rparr>
                in bind_res (action_from_orm row') (\<lambda>a.
                   Inr (Some a, put_action row'
                                  (put_approval (timed_out_record (ae_now env) record) db)))))"

definition handle_timeout ::
  "ap_env \<Rightarrow> string \<Rightarrow> int \<Rightarrow> database \<Rightarrow> database \<times> unit res" where
  "handle_timeout env action_id approval_cycle db =
     then_do (commit db (handle_timeout_in_tx env action_id approval_cycle db)) (\<lambda>db1 rejected.
     case rejected of
       None \<Rightarrow> (db1, Inr ())
     | Some a \<Rightarrow>
         if a_action_category a = AC_ROLLBACK then (db1, Inr ())
         else then_do (maybe_advance_plan env (a_event_id a) (a_plan_revision a) db1)
                (\<lambda>db2 _. (db2, Inr ())))"

definition expired_records :: "int \<Rightarrow> database \<Rightarrow> approval_row list" where
  "expired_records now db =
     filter (\<lambda>r. ap_decided_at r = None
                 \<and> (case ap_timeout_at r of None \<Rightarrow> False | Some t \<Rightarrow> t \<le> now)
                 \<and> ap_decision r = ApprovalDecisionKind_value REQUIRE_APPROVAL) (db_approvals db)"

text \<open>
  The loop over the selected record objects: an iteration changes its own record and
  the action, whose row is read again.
\<close>

fun expire_records :: "int \<Rightarrow> approval_row list \<Rightarrow> string list \<times> database \<Rightarrow> string list \<times> database" where
  "expire_records now [] st = st"
| "expire_records now (record # records) (touched, db) =
     (case get_action db (ap_action_id record) of
        None \<Rightarrow> expire_records now records (touched, db)
      | Some action \<Rightarrow>
          if act_status action \<noteq> ActionStatus_value AS_WAITING_APPROVAL
          then expire_records now records (touched, db)
          else expire_records now records
            (if act_action_category action \<noteq> ActionCategory_value AC_ROLLBACK
             then touched @ [ap_event_id record] else touched,
             put_action (action\<lparr>act_status := ActionStatus_value AS_REJECTED,
                                act_updated_at := now\<rparr>)
               (put_approval (timed_out_record now record) db)))"

definition scan_expired_approval_records :: "int \<Rightarrow> database \<Rightarrow> string list \<times> database" where
  "scan_expired_approval_records now db = expire_records now (expired_records now db) ([], db)"

text \<open>\<open>dict.fromkeys(xs)\<close>: the first occurrences, in order.\<close>

definition dict_fromkeys :: "'a list \<Rightarrow> 'a list" where
  "dict_fromkeys xs = rev (remdups (rev xs))"

fun advance_touched :: "ap_env \<Rightarrow> string list \<Rightarrow> database \<Rightarrow> database \<times> unit res" where
  "advance_touched env [] db = (db, Inr ())"
| "advance_touched env (e # es) db =
     then_do (maybe_advance_plan env e (latest_revision db e) db) (\<lambda>db' _.
     advance_touched env es db')"

text \<open>\<open>lock_free\<close> is the answer of \<open>pg_try_advisory_lock\<close>.\<close>

definition scan_timeouts :: "ap_env \<Rightarrow> bool \<Rightarrow> database \<Rightarrow> database \<times> string list res" where
  "scan_timeouts env lock_free db =
     (if \<not> lock_free then (db, Inr [])
      else (case scan_expired_approval_records (ae_now env) db of
        (touched, db1) \<Rightarrow>
          then_do (advance_touched env (dict_fromkeys touched) db1) (\<lambda>db2 _. (db2, Inr touched))))"

definition require_manual_review_in_tx ::
  "ap_env \<Rightarrow> string \<Rightarrow> string \<Rightarrow> int \<Rightarrow> database \<Rightarrow> (Action \<times> database) res" where
  "require_manual_review_in_tx env action_id reason approval_cycle db =
     bind_res (of_opt (ResourceNotFoundError ''action not found'') (get_action db action_id)) (\<lambda>row.
     bind_res (action_from_orm row) (\<lambda>a.
     bind_res (upsert_record env a \<lparr> ad_decision = REQUIRE_APPROVAL,
                                     ad_rule_applied = ''manual_review'', ad_reason = reason \<rparr>
                 approval_cycle db) (\<lambda>db1.
     bind_res (set_action_status env a AS_WAITING_APPROVAL False db1) (\<lambda>db2.
     Inr (a, db2)))))"

definition require_manual_review ::
  "ap_env \<Rightarrow> string \<Rightarrow> string \<Rightarrow> int \<Rightarrow> database \<Rightarrow> database \<times> unit res" where
  "require_manual_review env action_id reason approval_cycle db =
     then_do (commit db (require_manual_review_in_tx env action_id reason approval_cycle db))
       (\<lambda>db1 a. ensure_event_waiting_approval env (a_event_id a) db1)"

end
