(* ===== verification/Approval_Facts.thy ===== *)
theory Approval_Facts
  imports Approval State_Machine_Facts
begin

text \<open>
  What the approval engine guarantees together with the executor and the state
  machine: no action above the auto-approvable levels gets past approval without a
  decided human approval, a decision can be retried but not changed, an expired request
  is rejected, and a plan executes only when fully decided.
\<close>

section \<open>The human in the loop\<close>

definition PAST_APPROVAL :: "string set" where
  "PAST_APPROVAL = ActionStatus_value ` {AS_APPROVED, AS_EXECUTING, AS_PARTIAL_SUCCESS,
     AS_SUCCESS, AS_FAILED, AS_UNKNOWN, AS_ROLLED_BACK}"

definition needs_human :: "action_row \<Rightarrow> bool" where
  "needs_human row \<longleftrightarrow>
     act_action_category row \<in> RESPONSE_OR_ROLLBACK
     \<and> ActionLevel_parse (act_action_level row) \<notin> Some ` AUTO_APPROVABLE_ACTION_LEVELS"

text \<open>A decided record whose stored operation is \<open>approve\<close>; only a principal's decision writes one.\<close>

definition human_approved :: "string \<Rightarrow> approval_row \<Rightarrow> bool" where
  "human_approved k r \<longleftrightarrow>
     ap_action_id r = k \<and> ap_decided_at r \<noteq> None
     \<and> (\<exists>d i. ap_detail r = Some d \<and> json_get d ''idempotency'' = Some i
          \<and> json_get i ''operation'' = Some (JStr (operation_label Op_approve)))"

definition backed :: "database \<Rightarrow> bool" where
  "backed db \<longleftrightarrow>
     (\<forall>k row. get_action db k = Some row \<longrightarrow> needs_human row \<longrightarrow> act_status row \<in> PAST_APPROVAL
        \<longrightarrow> (\<exists>r\<in>set (db_approvals db). human_approved k r))"

definition human_loop :: "database \<Rightarrow> bool" where
  "human_loop db \<longleftrightarrow>
     keys_unique db \<and> distinct (map ap_approval_id (db_approvals db)) \<and> backed db"

definition levels_kept :: "database \<Rightarrow> database \<Rightarrow> bool" where
  "levels_kept db db' \<longleftrightarrow>
     (\<forall>k. map_option (\<lambda>r. (act_action_level r, act_action_category r)) (get_action db' k)
        = map_option (\<lambda>r. (act_action_level r, act_action_category r)) (get_action db k))"

definition approval_safe :: "database \<Rightarrow> database \<Rightarrow> bool" where
  "approval_safe db db' \<longleftrightarrow> (human_loop db \<longrightarrow> human_loop db' \<and> levels_kept db db')"

lemma approval_safe_refl: "approval_safe db db"
  by (simp add: approval_safe_def levels_kept_def)

lemma approval_safe_trans:
  "approval_safe db db' \<Longrightarrow> approval_safe db' db'' \<Longrightarrow> approval_safe db db''"
  by (simp add: approval_safe_def levels_kept_def)

lemma backedD:
  "human_loop db \<Longrightarrow> get_action db k = Some row \<Longrightarrow> needs_human row \<Longrightarrow>
     act_status row \<in> PAST_APPROVAL \<Longrightarrow> \<exists>r\<in>set (db_approvals db). human_approved k r"
  by (auto simp: human_loop_def backed_def)

text \<open>An admissible change of an action row.\<close>

definition status_step :: "action_row \<Rightarrow> action_row \<Rightarrow> bool" where
  "status_step row row' \<longleftrightarrow>
     act_action_id row' = act_action_id row \<and> act_action_level row' = act_action_level row
     \<and> act_action_category row' = act_action_category row
     \<and> (act_status row' \<in> PAST_APPROVAL \<longrightarrow> needs_human row \<longrightarrow> act_status row \<in> PAST_APPROVAL)"

lemma needs_human_cong:
  "act_action_level row' = act_action_level row \<Longrightarrow>
   act_action_category row' = act_action_category row \<Longrightarrow> needs_human row' = needs_human row"
  by (simp add: needs_human_def)

lemma safe_frame:
  assumes "db_actions db' = db_actions db" "db_jobs db' = db_jobs db"
    "db_approvals db' = db_approvals db"
  shows "approval_safe db db'"
  using assms
  by (simp add: approval_safe_def human_loop_def keys_unique_def backed_def levels_kept_def
      get_action_def)

lemma keys_unique_put_action [simp]: "keys_unique (put_action r db) = keys_unique db"
  by (simp add: keys_unique_def actions_table.keys_put)

lemma keys_unique_put_approval [simp]: "keys_unique (put_approval r db) = keys_unique db"
  by (simp add: keys_unique_def)

lemma get_put_action:
  assumes "get_action db k = Some row" and "act_action_id row' = act_action_id row"
  shows "get_action (put_action row' db) x = (if x = k then Some row' else get_action db x)"
proof -
  have "act_action_id row' = k" using assms actions_table.get_key by simp
  then show ?thesis
    using assms actions_table.get_put_same [of db row'] actions_table.get_put_other [of x row' db]
    by auto
qed

lemma safe_put_action:
  assumes "get_action db k = Some row" and "status_step row row'"
  shows "approval_safe db (put_action row' db)"
  unfolding approval_safe_def
proof (intro impI conjI)
  assume hl: "human_loop db"
  note get = get_put_action [OF assms(1), of row'] and st = assms(2) [unfolded status_step_def]
  have "needs_human row' = needs_human row" using st by (intro needs_human_cong) auto
  then show "human_loop (put_action row' db)"
    using hl st get assms(1) by (auto simp: human_loop_def backed_def)
  show "levels_kept db (put_action row' db)"
    using st get assms(1) by (auto simp: levels_kept_def)
qed

text \<open>The accepted status moves only enter the past-approval statuses at \<open>APPROVED\<close>.\<close>

lemma enters_past_approval:
  assumes "validate_action_status_transition cat ev s t = Inr ()"
    and "cat \<in> {AC_RESPONSE, AC_ROLLBACK}"
    and "ActionStatus_value t \<in> PAST_APPROVAL" and "ActionStatus_value s \<notin> PAST_APPROVAL"
  shows "t = AS_APPROVED"
    and "ev_action_level ev \<in> AUTO_APPROVABLE_ACTION_LEVELS \<or> ev_has_approval_evidence ev"
proof -
  from assms(1) have e: "edge_allowed (ACTION_STATUS_TRANSITIONS_BY_CATEGORY cat) s t"
    by (auto simp: validate_action_status_transition_def split: if_splits)
  show t: "t = AS_APPROVED"
    using e assms(2-4) by (cases s) (auto simp: edge_allowed_def PAST_APPROVAL_def image_iff)
  show "ev_action_level ev \<in> AUTO_APPROVABLE_ACTION_LEVELS \<or> ev_has_approval_evidence ev"
    using assms(1,2) t by (auto simp: validate_action_status_transition_def split: if_splits)
qed

lemma needs_human_category:
  assumes "needs_human row" and "ActionCategory_parse (act_action_category row) = Some c"
  shows "c \<in> {AC_RESPONSE, AC_ROLLBACK}"
  using assms by (auto simp: needs_human_def RESPONSE_OR_ROLLBACK_def)

text \<open>A validated move to another status than \<open>APPROVED\<close> is admissible.\<close>

lemma status_step_validated:
  assumes "validate_action_status_transition c ev s t = Inr ()" and "t \<noteq> AS_APPROVED"
    and "ActionCategory_parse (act_action_category row) = Some c"
    and "act_status row = ActionStatus_value s" and "act_status row' = ActionStatus_value t"
    and "act_action_id row' = act_action_id row" "act_action_level row' = act_action_level row"
      "act_action_category row' = act_action_category row"
  shows "status_step row row'"
  using assms needs_human_category [OF _ assms(3)] enters_past_approval(1) [OF assms(1)]
  by (auto simp: status_step_def)

text \<open>So is a move out of the past-approval statuses or among them.\<close>

lemma status_step_past:
  assumes "act_status row \<in> PAST_APPROVAL"
    and "act_action_id row' = act_action_id row" "act_action_level row' = act_action_level row"
      "act_action_category row' = act_action_category row"
  shows "status_step row row'"
  using assms by (simp add: status_step_def)

lemma status_step_same:
  assumes "act_status row' = act_status row"
    and "act_action_id row' = act_action_id row" "act_action_level row' = act_action_level row"
      "act_action_category row' = act_action_category row"
  shows "status_step row row'"
  using assms by (simp add: status_step_def)

lemma executing_past: "ActionStatus_value AS_EXECUTING \<in> PAST_APPROVAL"
  "ActionStatus_value AS_APPROVED \<in> PAST_APPROVAL" "ActionStatus_value AS_UNKNOWN \<in> PAST_APPROVAL"
  by (simp_all add: PAST_APPROVAL_def)

subsection \<open>The executor\<close>

lemma list_all2_find:
  assumes "list_all2 R xs ys" and "\<And>x y. R x y \<Longrightarrow> key y = key x"
  shows "rel_option R (find (\<lambda>x. key x = k) xs) (find (\<lambda>x. key x = k) ys)"
  using assms(1) by (induction rule: list_all2_induct) (auto dest: assms(2))

lemma action_reclaimed_step: "action_reclaimed row row' \<Longrightarrow> status_step row row'"
  unfolding action_reclaimed_def
proof (elim disjE conjE)
  assume s: "act_status row = ActionStatus_value AS_EXECUTING"
    and "row' = row\<lparr>act_status := act_status row', act_execution_job_id := act_execution_job_id row',
         act_executed_at := act_executed_at row', act_updated_at := act_updated_at row'\<rparr>"
  then obtain a b c d where "row' = row\<lparr>act_status := a, act_execution_job_id := b,
      act_executed_at := c, act_updated_at := d\<rparr>" by blast
  with s show ?thesis by (intro status_step_past) (simp_all add: executing_past)
qed (simp add: status_step_same)

lemma reclaim_rel_approvals: "reclaim_rel db db' \<Longrightarrow> db_approvals db' = db_approvals db"
  unfolding reclaim_rel_def by (cases db; cases db') simp

lemma safe_reclaim:
  assumes "reclaim_rel db db'"
  shows "approval_safe db db'"
  unfolding approval_safe_def
proof (intro impI)
  assume hl: "human_loop db"
  then have k: "keys_unique db" by (simp add: human_loop_def)
  from assms k have k': "keys_unique db'"
    and acts: "list_all2 action_reclaimed (db_actions db) (db_actions db')"
    unfolding reclaim_rel_def by blast+
  have ap: "db_approvals db' = db_approvals db"
    by (rule reclaim_rel_approvals [OF assms])
  have acts': "list_all2 status_step (db_actions db) (db_actions db')"
    by (rule list_all2_mono [OF acts action_reclaimed_step])
  have rel: "rel_option status_step (get_action db x) (get_action db' x)" for x
    unfolding get_action_def by (rule list_all2_find [OF acts']) (simp add: status_step_def)
  have step: "\<exists>row. get_action db x = Some row \<and> status_step row row'"
    if "get_action db' x = Some row'" for x row'
    using rel [of x] that by (simp add: option_rel_Some2)
  have "backed db'"
    unfolding backed_def ap
  proof (intro allI impI)
    fix x row'
    assume "get_action db' x = Some row'" and n: "needs_human row'" "act_status row' \<in> PAST_APPROVAL"
    with step obtain row where row: "get_action db x = Some row" and st: "status_step row row'"
      by blast
    from st have "needs_human row' = needs_human row"
      by (intro needs_human_cong) (simp_all add: status_step_def)
    with st n have "needs_human row" "act_status row \<in> PAST_APPROVAL"
      by (simp_all add: status_step_def)
    with backedD [OF hl row] show "\<exists>r\<in>set (db_approvals db). human_approved x r" by blast
  qed
  moreover have "levels_kept db db'"
    unfolding levels_kept_def
  proof
    fix x
    show "map_option (\<lambda>r. (act_action_level r, act_action_category r)) (get_action db' x)
      = map_option (\<lambda>r. (act_action_level r, act_action_category r)) (get_action db x)"
      using rel [of x]
      by (cases "get_action db x"; cases "get_action db' x") (simp_all add: status_step_def)
  qed
  ultimately show "human_loop db' \<and> levels_kept db db'"
    using hl k' by (simp add: human_loop_def ap)
qed

lemma safe_claim:
  assumes "claim_action settings sha256 now aid db = Inr (a', db')"
  shows "approval_safe db db'"
  using assms
proof (rule claim_actionD)
  fix row :: action_row and a
  assume row: "get_action db aid = Some row" and a: "action_from_row row = Inr a"
    and st: "a_status a = AS_APPROVED"
    and db': "db' = put_action (row\<lparr>act_status := ActionStatus_value AS_EXECUTING,
                                     act_updated_at := now\<rparr>) db"
  have "act_status row \<in> PAST_APPROVAL"
    using action_from_row_status [OF a] st executing_past by simp
  then show ?thesis
    unfolding db' by (intro safe_put_action [OF row] status_step_past) simp_all
qed

lemma safe_restore:
  assumes r: "restore_approved_ownerless now aid db = Inr db'"
  shows "approval_safe db db'"
proof (cases "get_action db aid")
  case None
  with r show ?thesis by (simp add: restore_approved_ownerless_def approval_safe_refl)
next
  case (Some row)
  with r have "db' = db \<or> act_status row = ActionStatus_value AS_EXECUTING
      \<and> db' = put_action (row\<lparr>act_status := ActionStatus_value AS_APPROVED,
                             act_updated_at := now\<rparr>) db"
    by (auto simp: restore_approved_ownerless_def dest!: ActionStatus_enum.parse_SomeD split: if_splits)
  then show ?thesis
    by (elim disjE conjE)
       (simp_all add: approval_safe_refl safe_put_action [OF Some] status_step_past executing_past)
qed

lemma safe_fail:
  assumes r: "fail_executing_action now aid db = Inr db'"
  shows "approval_safe db db'"
proof (cases "get_action db aid")
  case None
  with r show ?thesis by (simp add: fail_executing_action_def approval_safe_refl)
next
  case (Some row)
  with r have "db' = db \<or> act_status row = ActionStatus_value AS_EXECUTING
      \<and> db' = put_action (row\<lparr>act_status := ActionStatus_value AS_FAILED,
                             act_executed_at := Some now, act_updated_at := now\<rparr>) db"
    by (auto simp: fail_executing_action_def dest!: ActionStatus_enum.parse_SomeD split: if_splits)
  then show ?thesis
    by (elim disjE conjE)
       (simp_all add: approval_safe_refl safe_put_action [OF Some] status_step_past executing_past)
qed

lemma safe_add_audit: "approval_safe db (add_audit e f t p r n db)"
  by (rule safe_frame) simp_all

lemma safe_resolve_unknown:
  assumes r: "resolve_unknown now aid resolution subject comment db = Inr (b, db')"
  shows "approval_safe db db'"
proof -
  from r obtain target row s where
    t: "RESOLUTION_MAPPING resolution = Some target" and row: "get_action db aid = Some row"
      and s: "ActionStatus_parse (act_status row) = Some s"
    by (auto simp: resolve_unknown_def)
  show ?thesis
  proof (cases "s = AS_UNKNOWN")
    case False
    with r t row s show ?thesis
      by (auto simp: resolve_unknown_def parse_or_raise_def of_opt_def approval_safe_refl
          split: if_splits)
  next
    case True
    with r t row s obtain c where c: "ActionCategory_parse (act_action_category row) = Some c"
      by (auto simp: resolve_unknown_def parse_or_raise_def of_opt_def split: if_splits option.splits)
    let ?row' = "row\<lparr>act_status := ActionStatus_value target, act_executed_at := Some now,
        act_updated_at := now\<rparr>"
    from r t row s c True obtain e f g p q where
      db': "db' = add_audit e f g p q now (put_action ?row' db)"
      by (auto simp: resolve_unknown_def parse_or_raise_def of_opt_def)
    have "status_step row ?row'"
      using ActionStatus_enum.parse_SomeD [OF s] True executing_past
      by (intro status_step_past) simp_all
    then show ?thesis
      unfolding db' by (intro approval_safe_trans [OF safe_put_action [OF row] safe_add_audit])
  qed
qed

lemma map_job_not_approved: "map_job_to_action_status js \<noteq> AS_APPROVED"
  by (simp add: map_job_to_action_status_def)

lemma safe_attach:
  assumes r: "attach_existing_job now operator aid job db = Inr db'"
  shows "approval_safe db db'"
proof -
  from r obtain row s where row: "get_action db aid = Some row"
    and s: "ActionStatus_parse (act_status row) = Some s"
    by (auto simp: attach_existing_job_def Let_def)
  note st = ActionStatus_enum.parse_SomeD [OF s]
  let ?row = "row\<lparr>act_execution_job_id := Some (job_job_id job)\<rparr>"
  have same: "status_step row ?row" by (rule status_step_same) simp_all
  have moved: "status_step row row'"
    if "ActionCategory_parse (act_action_category row) = Some c" and "t \<noteq> AS_APPROVED"
      and "validate_action_status_transition c default_action_evidence s t = Inr ()"
      and "row' = ?row\<lparr>act_status := ActionStatus_value t, act_executed_at := x, act_updated_at := now\<rparr>"
    for c t row' x
    by (rule status_step_validated [OF that(3,2,1)]) (simp_all add: st that(4))
  have audited: "approval_safe db db'"
    if "status_step row row'" and "db' = add_audit e f t p q n (put_action row' db)" for row' e f t p q n
    using approval_safe_trans [OF safe_put_action [OF row that(1)] safe_add_audit] that(2) by simp
  obtain js where js: "ExecutionJobStatus_parse (job_status job) = Some js"
    using r row s by (auto simp: attach_existing_job_def Let_def)
  show ?thesis
  proof (cases "js \<in> {JS_QUEUED, JS_RUNNING}")
    case True
    then obtain c where "ActionCategory_parse (act_action_category row) = Some c"
      "validate_action_status_transition c default_action_evidence s AS_UNKNOWN = Inr ()"
      and "db' = add_audit (act_event_id row) (Some (ActionStatus_value s))
          (Some (ActionStatus_value AS_UNKNOWN)) (Some operator)
          (Some ''duplicate_idempotency_key_reclaim:attached_existing_job'') now (put_action
          (?row\<lparr>act_status := ActionStatus_value AS_UNKNOWN, act_updated_at := now\<rparr>) db)"
      using r row s js by (auto simp: attach_existing_job_def parse_or_raise_def of_opt_def Let_def
          split: option.splits)
    then show ?thesis
      by (intro audited [OF moved [of c AS_UNKNOWN _ "act_executed_at row"]]) simp_all
  next
    case False
    let ?t = "map_job_to_action_status js"
    show ?thesis
    proof (cases "?t = s")
      case True
      with r row s js False have "db' = put_action ?row db"
        by (auto simp: attach_existing_job_def parse_or_raise_def of_opt_def Let_def)
      with safe_put_action [OF row same] show ?thesis by simp
    next
      case neq: False
      then obtain c where "ActionCategory_parse (act_action_category row) = Some c"
        "validate_action_status_transition c default_action_evidence s ?t = Inr ()"
        and "db' = add_audit (act_event_id row) (Some (ActionStatus_value s))
            (Some (ActionStatus_value ?t)) (Some operator)
            (Some ''duplicate_idempotency_key_reclaim:attached_terminal_job'') now (put_action
            (?row\<lparr>act_status := ActionStatus_value ?t, act_executed_at := Some now,
                   act_updated_at := now\<rparr>) db)"
        using r row s js False by (auto simp: attach_existing_job_def parse_or_raise_def of_opt_def
            Let_def split: option.splits)
      then show ?thesis
        by (intro audited [OF moved [of c ?t _ "Some now"]]) (simp_all add: map_job_not_approved)
    qed
  qed
qed

lemma safe_transition:
  assumes "transition env caller k t p r db = (db', res)"
  shows "approval_safe db db'"
proof -
  have tx: "approval_safe db0 db'" if "transition_in_tx env caller k t p r db0 = Inr (e', db')" for db0 e'
    using that
  proof (rule transition_in_txD)
    fix e s
    assume "audited env k s t (put_event e' db0) db'"
    from audited_frames [OF this] show ?thesis by (intro safe_frame) simp_all
  qed
  from transition_cases [OF assms] show ?thesis
  proof (elim disjE exE conjE)
    fix e' db0
    assume "transition_in_tx env caller k t p r db0 = Inr (e', db')"
      and "if t = ES_CLOSED then reclaim_rel db db0 else db0 = db"
    then show ?thesis
      using tx [of db0 e'] safe_reclaim [of db db0] approval_safe_trans [of db db0 db']
      by (auto split: if_splits)
  qed (simp_all add: approval_safe_refl safe_reclaim)
qed

lemma safe_force_close:
  assumes "force_close env k p r db = (db', res)"
  shows "approval_safe db db'"
proof (cases "force_close_in_tx env k p r db")
  case (Inl x)
  with assms show ?thesis by (simp add: force_close_def approval_safe_refl)
next
  case (Inr ed)
  obtain e' d where "ed = (e', d)" by force
  with assms Inr have "force_close_in_tx env k p r db = Inr (e', db')"
    by (simp add: force_close_def)
  then show ?thesis
  proof (rule force_close_in_txD)
    fix e s
    assume "audited env k s ES_CLOSED (put_event e' db) db'"
    from audited_frames [OF this] show ?thesis by (intro safe_frame) simp_all
  qed
qed

subsection \<open>The approval records\<close>

lemma safe_approvals:
  assumes "db_actions db' = db_actions db" "db_jobs db' = db_jobs db"
    and "distinct (map ap_approval_id (db_approvals db)) \<Longrightarrow>
      distinct (map ap_approval_id (db_approvals db'))
      \<and> (\<forall>k. \<forall>r\<in>set (db_approvals db). human_approved k r \<longrightarrow>
            (\<exists>r'\<in>set (db_approvals db'). human_approved k r'))"
  shows "approval_safe db db'"
  unfolding approval_safe_def
proof (intro impI conjI)
  assume hl: "human_loop db"
  have get: "get_action db' = get_action db" using assms(1) by (simp add: get_action_def fun_eq_iff)
  from hl assms(3) have d: "distinct (map ap_approval_id (db_approvals db'))"
    and h: "\<And>k r. r \<in> set (db_approvals db) \<Longrightarrow> human_approved k r \<Longrightarrow>
      \<exists>r'\<in>set (db_approvals db'). human_approved k r'"
    by (auto simp: human_loop_def)
  have "backed db'"
    unfolding backed_def get
  proof (intro allI impI)
    fix k row
    assume "get_action db k = Some row" "needs_human row" "act_status row \<in> PAST_APPROVAL"
    from backedD [OF hl this] h show "\<exists>r\<in>set (db_approvals db'). human_approved k r" by blast
  qed
  with hl d assms(1,2) show "human_loop db'" by (simp add: human_loop_def keys_unique_def)
  show "levels_kept db db'" by (simp add: levels_kept_def get)
qed

lemma put_approval_ids [simp]:
  "map ap_approval_id (db_approvals (put_approval r db)) = map ap_approval_id (db_approvals db)"
  by (auto simp: put_approval_def update_where_def)

lemma put_approval_set:
  assumes "record \<in> set (db_approvals db)" and "ap_approval_id r = ap_approval_id record"
  shows "r \<in> set (db_approvals (put_approval r db))"
    and "distinct (map ap_approval_id (db_approvals db)) \<Longrightarrow> x \<in> set (db_approvals db) \<Longrightarrow>
      x \<noteq> record \<Longrightarrow> x \<in> set (db_approvals (put_approval r db))"
  using assms by (auto simp: put_approval_def update_where_def image_iff distinct_map dest: inj_onD)

lemma safe_put_approval:
  assumes "record \<in> set (db_approvals db)" and "ap_approval_id r = ap_approval_id record"
    and "ap_decided_at record = None"
  shows "approval_safe db (put_approval r db)"
proof (rule safe_approvals)
  assume d: "distinct (map ap_approval_id (db_approvals db))"
  have "\<exists>r'\<in>set (db_approvals (put_approval r db)). human_approved k r'"
    if x: "x \<in> set (db_approvals db)" "human_approved k x" for k x
  proof -
    from x assms(3) have "x \<noteq> record" by (auto simp: human_approved_def)
    with put_approval_set(2) [OF assms(1,2) d x(1)] x(2) show ?thesis by blast
  qed
  with d show "distinct (map ap_approval_id (db_approvals (put_approval r db))) \<and>
      (\<forall>k. \<forall>x\<in>set (db_approvals db). human_approved k x \<longrightarrow>
         (\<exists>r'\<in>set (db_approvals (put_approval r db)). human_approved k r'))"
    by simp
qed simp_all

text \<open>Approving an action whose human approval is on record.\<close>

lemma safe_put_action_backed:
  assumes "get_action db k = Some row" and "act_action_id row' = act_action_id row"
    "act_action_level row' = act_action_level row" "act_action_category row' = act_action_category row"
    and "r \<in> set (db_approvals db)" "human_approved k r"
  shows "approval_safe db (put_action row' db)"
  unfolding approval_safe_def
proof (intro impI conjI)
  assume hl: "human_loop db"
  note get = get_put_action [OF assms(1,2)]
  show "human_loop (put_action row' db)"
    using hl get assms(5,6) by (auto simp: human_loop_def backed_def)
  show "levels_kept db (put_action row' db)"
    using get assms(1,3,4) by (auto simp: levels_kept_def)
qed

lemma load_pendingD:
  assumes "load_pending_record_row db k = Some r"
  shows "r \<in> set (db_approvals db)" "ap_action_id r = k" "ap_decided_at r = None"
  using max_by_SomeD [OF assms [unfolded load_pending_record_row_def]] by auto

lemma load_recordD:
  assumes "load_record_row db k c = Some r"
  shows "r \<in> set (db_approvals db)" "ap_action_id r = k" "ap_approval_cycle r = c"
  using scalar_SomeD [OF assms [unfolded load_record_row_def]] by auto

text \<open>What a committed decision found and wrote.\<close>

definition decided_record ::
  "ap_env \<Rightarrow> Principal \<Rightarrow> string option \<Rightarrow> string option \<Rightarrow> ActionStatus \<Rightarrow> approval_row \<Rightarrow> approval_row"
where
  "decided_record env p comment decision_id target record =
     persist_idempotency_detail (approval_operation target) (approval_payload_hash env comment)
       (record\<lparr>ap_operator := Some (pr_subject p), ap_comment := comment,
               ap_decided_at := Some (ae_now env), ap_decision_id := decision_id\<rparr>)"

lemma decide_in_txD:
  assumes "decide_in_tx env aid p comment did target db = Inr (decided, db')"
  obtains row a rc where "get_action db aid = Some row" "action_from_orm row = Inr a"
    "a_status a = AS_WAITING_APPROVAL" "load_pending_record_row db aid = Some rc"
    "target = AS_APPROVED \<Longrightarrow> evaluate_hard_gates a (ae_manifest env) = None"
    "decision_id_free db (decided_record env p comment did target rc)"
    "action_from_orm (row\<lparr>act_status := ActionStatus_value target,
                          act_updated_at := ae_now env\<rparr>) = Inr decided"
    "db' = put_action (row\<lparr>act_status := ActionStatus_value target, act_updated_at := ae_now env\<rparr>)
             (put_approval (decided_record env p comment did target rc) db)"
proof -
  from assms obtain row a where row: "get_action db aid = Some row" "action_from_orm row = Inr a"
    by (auto simp: decide_in_tx_def)
  note e = assms [unfolded decide_in_tx_def row of_opt_def option.case bind_res.simps Let_def,
      folded decided_record_def]
  have st: "a_status a = AS_WAITING_APPROVAL"
    using e by (auto split: if_splits)
  obtain rc where rc: "load_pending_record_row db aid = Some rc"
    using e by (cases "load_pending_record_row db aid") auto
  have gate: "target = AS_APPROVED \<Longrightarrow> evaluate_hard_gates a (ae_manifest env) = None"
    using e by (cases "evaluate_hard_gates a (ae_manifest env)") auto
  show thesis
    by (rule that [OF row st rc gate]) (use e st rc in \<open>auto\<close>)
qed

subsection \<open>The engine's operations\<close>

lemma safe_fst_commit:
  "(\<And>y s'. r = Inr (y, s') \<Longrightarrow> approval_safe s s') \<Longrightarrow> approval_safe s (fst (commit s r))"
  by (cases "(s, r)" rule: commit.cases) (auto simp: approval_safe_refl)

lemma safe_fst_then_do:
  assumes "approval_safe s (fst m)" and "\<And>t y. m = (t, Inr y) \<Longrightarrow> approval_safe t (fst (f t y))"
  shows "approval_safe s (fst (then_do m f))"
  using assms
  by (cases "(m, f)" rule: then_do.cases) (auto elim: approval_safe_trans)

lemma safe_fst_transition: "approval_safe db (fst (transition env caller k t p r db))"
  by (rule safe_transition [OF prod.collapse [symmetric]])

lemma safe_ensure_event_waiting: "approval_safe db (fst (ensure_event_waiting_approval env e db))"
  unfolding ensure_event_waiting_approval_def
  by (auto simp: approval_safe_refl intro!: safe_fst_then_do safe_fst_transition
      split: sum.splits option.splits EventStatus.splits)

lemma safe_advance_event: "approval_safe db (fst (advance_event env e t db))"
proof -
  have "approval_safe db s" if "transition c d k t' p r db = (s, x)" for c d k t' p r s x
    using that by (rule safe_transition)
  then show ?thesis
    unfolding advance_event_def
    by (auto simp: approval_safe_refl split: option.splits sum.splits prod.splits)
qed

lemma safe_maybe_advance: "approval_safe db (fst (maybe_advance_plan env e v db))"
  unfolding maybe_advance_plan_def
  by (auto simp: approval_safe_refl intro!: safe_fst_then_do safe_advance_event
      split: sum.splits bool.splits)

lemma safe_journal:
  "append_context_journal_in_session e f v db = Inr (n, db') \<Longrightarrow> approval_safe db db'"
  by (rule safe_frame)
     (auto simp: append_context_journal_in_session_def insert_journal_def upsert_version_def
        Let_def split: if_splits prod.splits)

lemma safe_sync: "sync_wm_records env e db = Inr db' \<Longrightarrow> approval_safe db db'"
  by (auto simp: sync_wm_records_def approval_safe_refl intro: safe_journal split: if_splits)

lemma human_decided_record:
  assumes "ap_action_id rc = k"
  shows "human_approved k (decided_record env p c did AS_APPROVED rc)"
  using assms
  by (auto simp: human_approved_def decided_record_def persist_idempotency_detail_def Let_def
      approval_operation_def update_conv)

lemma decided_record_id [simp]:
  "ap_approval_id (decided_record env p c did t rc) = ap_approval_id rc"
  by (simp add: decided_record_def persist_idempotency_detail_def Let_def)

lemma safe_decide_in_tx:
  assumes "decide_in_tx env aid p comment did target db = Inr (decided, db')"
    and t: "target \<in> {AS_APPROVED, AS_REJECTED}"
  shows "approval_safe db db'"
  using assms(1)
proof (rule decide_in_txD)
  fix row :: action_row and a rc
  let ?r = "decided_record env p comment did target rc"
    and ?row = "row\<lparr>act_status := ActionStatus_value target, act_updated_at := ae_now env\<rparr>"
  assume row: "get_action db aid = Some row" and rc: "load_pending_record_row db aid = Some rc"
    and db': "db' = put_action ?row (put_approval ?r db)"
  note p = load_pendingD [OF rc]
  have 1: "approval_safe db (put_approval ?r db)"
    by (rule safe_put_approval [OF p(1) _ p(3)]) simp
  have row1: "get_action (put_approval ?r db) aid = Some row" using row by simp
  have 2: "approval_safe (put_approval ?r db) db'"
  proof (cases "target = AS_APPROVED")
    case True
    have "human_approved aid ?r" using True p(2) human_decided_record by simp
    with put_approval_set(1) [OF p(1), of ?r] show ?thesis
      unfolding db' by (intro safe_put_action_backed [OF row1]) simp_all
  next
    case False
    with t have "status_step row ?row" by (auto simp: status_step_def PAST_APPROVAL_def)
    then show ?thesis unfolding db' by (rule safe_put_action [OF row1])
  qed
  show ?thesis by (rule approval_safe_trans [OF 1 2])
qed

lemma safe_decide:
  assumes "target \<in> {AS_APPROVED, AS_REJECTED}"
  shows "approval_safe db (fst (decide env aid p comment did target db))"
  unfolding decide_def Let_def
  by (auto simp: approval_safe_refl intro!: safe_fst_then_do safe_fst_commit safe_maybe_advance
      intro: safe_decide_in_tx [OF _ assms] split: sum.splits option.splits)

text \<open>Rejecting an action together with its undecided record.\<close>

lemma safe_reject_both:
  assumes "get_action db k = Some row" and "rc \<in> set (db_approvals db)" "ap_decided_at rc = None"
  shows "approval_safe db (put_action (row\<lparr>act_status := ActionStatus_value AS_REJECTED,
                                            act_updated_at := now\<rparr>)
                             (put_approval (timed_out_record now rc) db))"
proof (rule approval_safe_trans)
  show "approval_safe db (put_approval (timed_out_record now rc) db)"
    by (rule safe_put_approval [OF assms(2) _ assms(3)]) (simp add: timed_out_record_def)
  show "approval_safe (put_approval (timed_out_record now rc) db)
      (put_action (row\<lparr>act_status := ActionStatus_value AS_REJECTED, act_updated_at := now\<rparr>)
         (put_approval (timed_out_record now rc) db))"
    by (rule safe_put_action [of _ k row])
       (auto simp: assms(1) status_step_def PAST_APPROVAL_def)
qed

lemma safe_handle_timeout_in_tx:
  assumes "handle_timeout_in_tx env aid c db = Inr (x, db')"
  shows "approval_safe db db'"
proof (cases "db' = db")
  case False
  with assms obtain row rc where "get_action db aid = Some row"
    and rc: "load_record_row db aid c = Some rc" "ap_decided_at rc = None"
    and "db' = put_action (row\<lparr>act_status := ActionStatus_value AS_REJECTED,
                                act_updated_at := ae_now env\<rparr>)
                 (put_approval (timed_out_record (ae_now env) rc) db)"
    by (auto simp: handle_timeout_in_tx_def Let_def split: option.splits if_splits)
  with load_recordD(1) [OF rc(1)] show ?thesis by (auto intro: safe_reject_both)
qed (simp add: approval_safe_refl)

lemma safe_handle_timeout: "approval_safe db (fst (handle_timeout env aid c db))"
  unfolding handle_timeout_def
  by (auto simp: approval_safe_refl intro!: safe_fst_then_do safe_fst_commit safe_maybe_advance
      intro: safe_handle_timeout_in_tx split: option.splits)

lemma safe_expire_records:
  assumes "\<forall>r\<in>set rs. r \<in> set (db_approvals db) \<and> ap_decided_at r = None"
    and "distinct (map ap_approval_id (db_approvals db))" "distinct rs"
  shows "approval_safe db (snd (expire_records now rs (touched, db)))"
  using assms
proof (induction rs arbitrary: touched db)
  case Nil
  then show ?case by (simp add: approval_safe_refl)
next
  case (Cons r rs)
  show ?case
  proof (cases "\<exists>row. get_action db (ap_action_id r) = Some row
                  \<and> act_status row = ActionStatus_value AS_WAITING_APPROVAL")
    case False
    then show ?thesis using Cons.IH Cons.prems by (auto split: option.splits)
  next
    case True
    then obtain row where row: "get_action db (ap_action_id r) = Some row"
      "act_status row = ActionStatus_value AS_WAITING_APPROVAL" by blast
    let ?db = "put_action (row\<lparr>act_status := ActionStatus_value AS_REJECTED, act_updated_at := now\<rparr>)
                 (put_approval (timed_out_record now r) db)"
    have r: "r \<in> set (db_approvals db)" "ap_decided_at r = None" using Cons.prems(1) by auto
    have "x \<in> set (db_approvals ?db)" if "x \<in> set rs" for x
      using put_approval_set(2) [OF r(1), of "timed_out_record now r" x] Cons.prems that
      by (auto simp: timed_out_record_def)
    with Cons.prems have "approval_safe ?db (snd (expire_records now rs (t, ?db)))" for t
      by (intro Cons.IH) auto
    then show ?thesis
      using approval_safe_trans [OF safe_reject_both [OF row(1) r, of now]] row by simp
  qed
qed

lemma safe_advance_touched: "approval_safe db (fst (advance_touched env es db))"
  by (induction es arbitrary: db)
     (auto simp: approval_safe_refl intro!: safe_fst_then_do safe_maybe_advance)

lemma safe_scan: "approval_safe db (snd (scan_expired_approval_records now db))"
proof (cases "human_loop db")
  case True
  then have d: "distinct (map ap_approval_id (db_approvals db))" by (simp add: human_loop_def)
  then show ?thesis
    unfolding scan_expired_approval_records_def
    by (intro safe_expire_records) (auto simp: expired_records_def distinct_map)
qed (simp add: approval_safe_def)

lemma safe_scan_timeouts: "approval_safe db (fst (scan_timeouts env lock db))"
proof -
  have "approval_safe db (snd (scan_expired_approval_records (ae_now env) db))"
    by (rule safe_scan)
  then show ?thesis
    unfolding scan_timeouts_def
    by (auto simp: approval_safe_refl split: prod.splits
        intro!: approval_safe_trans [OF _ safe_fst_then_do [OF safe_advance_touched]])
qed

text \<open>Reopening an approval may replace a decided record, but its action waits again.\<close>

definition humans_kept :: "string set \<Rightarrow> database \<Rightarrow> database \<Rightarrow> bool" where
  "humans_kept ks db db' \<longleftrightarrow>
     db_actions db' = db_actions db \<and> db_jobs db' = db_jobs db
     \<and> (distinct (map ap_approval_id (db_approvals db)) \<longrightarrow>
          distinct (map ap_approval_id (db_approvals db'))
          \<and> (\<forall>k. k \<notin> ks \<longrightarrow> (\<forall>r\<in>set (db_approvals db). human_approved k r \<longrightarrow>
                (\<exists>r'\<in>set (db_approvals db'). human_approved k r'))))"

lemma humans_kept_safe: "humans_kept {} db db' \<Longrightarrow> approval_safe db db'"
  by (rule safe_approvals) (auto simp: humans_kept_def)

lemma sync_wm_records_frame:
  "sync_wm_records env e db = Inr db' \<Longrightarrow>
     db_actions db' = db_actions db \<and> db_jobs db' = db_jobs db \<and> db_approvals db' = db_approvals db"
  by (auto simp: sync_wm_records_def append_context_journal_in_session_def
      insert_journal_def upsert_version_def Let_def split: if_splits prod.splits)

lemma humans_kept_sync:
  assumes "humans_kept ks db db1" and "sync_wm_records env e db1 = Inr db'"
  shows "humans_kept ks db db'"
  using assms(1) sync_wm_records_frame [OF assms(2)] by (simp add: humans_kept_def)

lemma humans_kept_insert:
  "ap_approval_id x \<notin> ap_approval_id ` set (db_approvals db) \<Longrightarrow>
     humans_kept ks db (db\<lparr>db_approvals := db_approvals db @ [x]\<rparr>)"
  by (auto simp: humans_kept_def)

lemma humans_kept_put:
  assumes "rc \<in> set (db_approvals db)" "ap_action_id rc = k" "ap_approval_id r = ap_approval_id rc"
  shows "humans_kept {k} db (put_approval r db)"
  using put_approval_set(2) [OF assms(1,3)] assms(2)
  by (fastforce simp: humans_kept_def human_approved_def)

lemma upsert_record_humans:
  assumes u: "upsert_record env a d c db = Inr db'"
  shows "humans_kept {a_action_id a} db db'"
    and "load_record_row db (a_action_id a) c = None \<Longrightarrow> humans_kept {} db db'"
proof -
  show "humans_kept {} db db'" if "load_record_row db (a_action_id a) c = None"
    using u that
    by (auto simp: upsert_record_def Let_def intro!: humans_kept_sync [OF humans_kept_insert])
  then have "humans_kept {a_action_id a} db db'" if "load_record_row db (a_action_id a) c = None"
    using that by (auto simp: humans_kept_def)
  moreover have "humans_kept {a_action_id a} db db'"
    if l: "load_record_row db (a_action_id a) c = Some rc" for rc
  proof -
    have "sync_wm_records env (a_event_id a) (put_approval r' db) = Inr db' \<Longrightarrow>
        ap_approval_id r' = ap_approval_id rc \<Longrightarrow> humans_kept {a_action_id a} db db'" for r'
      by (rule humans_kept_sync [OF humans_kept_put [OF load_recordD(1,2) [OF l]]])
    then show ?thesis using u l by (simp add: upsert_record_def Let_def)
  qed
  ultimately show "humans_kept {a_action_id a} db db'"
    by (cases "load_record_row db (a_action_id a) c") auto
qed

lemma safe_reopen:
  assumes k: "humans_kept {k} db db1" and row: "get_action db k = Some row"
    and row': "act_action_id row' = act_action_id row" "act_action_level row' = act_action_level row"
      "act_action_category row' = act_action_category row" "act_status row' \<notin> PAST_APPROVAL"
  shows "approval_safe db (put_action row' db1)"
  unfolding approval_safe_def
proof (intro impI conjI)
  assume hl: "human_loop db"
  have get1: "get_action db1 = get_action db" using k by (simp add: humans_kept_def get_action_def fun_eq_iff)
  have get: "get_action (put_action row' db1) x = (if x = k then Some row' else get_action db x)" for x
    using get_put_action [of db1 k row row' x] row row'(1) by (simp add: get1)
  have "\<exists>r'\<in>set (db_approvals db1). human_approved x r'"
    if x: "x \<noteq> k" "get_action db x = Some r" "needs_human r" "act_status r \<in> PAST_APPROVAL" for x r
    using backedD [OF hl x(2-4)] k hl x(1) by (auto simp: humans_kept_def human_loop_def)
  then have "backed (put_action row' db1)"
    using row'(4) by (auto simp: backed_def get)
  with hl k show "human_loop (put_action row' db1)"
    by (auto simp: human_loop_def humans_kept_def keys_unique_def actions_table.keys_put)
  show "levels_kept db (put_action row' db1)"
    using row row' by (auto simp: levels_kept_def get)
qed

lemma action_from_orm_id:
  "action_from_orm row = Inr a \<Longrightarrow> a_action_id a = act_action_id row"
  unfolding action_readers_agree by (erule action_from_row_parts) (rule build_action_fields(1))

lemma safe_require_manual_review_in_tx:
  assumes "require_manual_review_in_tx env aid reason c db = Inr (a, db')"
  shows "approval_safe db db'"
proof -
  from assms obtain row db1 where row: "get_action db aid = Some row" "action_from_orm row = Inr a"
    and u: "upsert_record env a \<lparr> ad_decision = REQUIRE_APPROVAL, ad_rule_applied = ''manual_review'',
                                   ad_reason = reason \<rparr> c db = Inr db1"
    and st: "set_action_status env a AS_WAITING_APPROVAL False db1 = Inr db'"
    by (auto simp: require_manual_review_in_tx_def)
  have aid: "a_action_id a = aid"
    using action_from_orm_id [OF row(2)] actions_table.get_key [OF row(1)] by simp
  note k = upsert_record_humans(1) [OF u, unfolded aid]
  have "get_action db1 aid = Some row" using k row(1) by (simp add: humans_kept_def get_action_def)
  with st aid have "db' = put_action (row\<lparr>act_status := ActionStatus_value AS_WAITING_APPROVAL,
                                           act_updated_at := ae_now env\<rparr>) db1"
    by (simp add: set_action_status_def)
  then show ?thesis
    using safe_reopen [OF k row(1), of "row\<lparr>act_status := ActionStatus_value AS_WAITING_APPROVAL,
                                            act_updated_at := ae_now env\<rparr>"]
    by (auto simp: PAST_APPROVAL_def)
qed

lemma safe_require_manual_review:
  "approval_safe db (fst (require_manual_review env aid reason c db))"
  unfolding require_manual_review_def
  by (intro safe_fst_then_do safe_fst_commit safe_ensure_event_waiting)
     (rule safe_require_manual_review_in_tx)

text \<open>The engine approves by itself only at an auto-approvable level.\<close>

lemma evaluation_auto_approve:
  "ad_decision (evaluation_decision env a) = AUTO_APPROVE \<Longrightarrow>
     a_action_level a \<in> AUTO_APPROVABLE_ACTION_LEVELS"
  by (auto simp: evaluation_decision_def evaluate_hard_gates_def evaluate_level_rules_def Let_def
      split: option.splits if_splits prod.splits)

text \<open>The action in hand has the level of its row.\<close>

definition same_level :: "database \<Rightarrow> Action \<Rightarrow> bool" where
  "same_level db a \<longleftrightarrow>
     (\<forall>row. get_action db (a_action_id a) = Some row \<longrightarrow>
        ActionLevel_parse (act_action_level row) = Some (a_action_level a))"

lemma same_level_kept:
  assumes sl: "same_level db a" and l: "levels_kept db db'"
  shows "same_level db' a"
  unfolding same_level_def
proof (intro allI impI)
  fix row
  assume "get_action db' (a_action_id a) = Some row"
  with l [unfolded levels_kept_def, rule_format, of "a_action_id a"]
  obtain row0 where "get_action db (a_action_id a) = Some row0"
    and "act_action_level row = act_action_level row0"
    by (cases "get_action db (a_action_id a)") auto
  with sl show "ActionLevel_parse (act_action_level row) = Some (a_action_level a)"
    by (simp add: same_level_def)
qed

lemma safe_set_action_status:
  assumes "set_action_status env a t h db = Inr db'"
    and "t \<in> {AS_REJECTED, AS_WAITING_APPROVAL}
         \<or> same_level db a \<and> a_action_level a \<in> AUTO_APPROVABLE_ACTION_LEVELS"
  shows "approval_safe db db'"
proof (cases "get_action db (a_action_id a)")
  case None
  with assms(1) show ?thesis by (simp add: set_action_status_def approval_safe_refl)
next
  case (Some row)
  let ?row = "row\<lparr>act_status := ActionStatus_value t, act_updated_at := ae_now env\<rparr>"
  have "status_step row ?row"
    using assms(2) Some by (auto simp: status_step_def PAST_APPROVAL_def needs_human_def same_level_def)
  with assms(1) Some show ?thesis
    using safe_put_action [OF Some, of ?row] by (simp add: set_action_status_def)
qed

lemma persist_impact_safe:
  assumes "persist_impact env a db = Inr db'"
  shows "approval_safe db db'" "db_approvals db' = db_approvals db"
proof -
  let ?db = "case get_action db (a_action_id a) of None \<Rightarrow> db
             | Some row \<Rightarrow> put_action (row\<lparr>act_updated_at := ae_now env\<rparr>) db"
  have 1: "approval_safe db ?db"
    by (auto simp: approval_safe_refl status_step_same split: option.splits intro: safe_put_action)
  have 2: "db_approvals ?db = db_approvals db" by (simp split: option.splits)
  show "approval_safe db db'"
  proof (cases "impact_of env a")
    case None
    with assms show ?thesis by (simp add: persist_impact_def approval_safe_refl)
  next
    case (Some j)
    with assms obtain v n where
      "append_context_journal_in_session (a_event_id a) ''impact_assessments'' v ?db = Inr (n, db')"
      by (auto simp: persist_impact_def append_list_context_journal_in_session_def Let_def)
    then show ?thesis by (rule approval_safe_trans [OF 1 safe_journal])
  qed
  show "db_approvals db' = db_approvals db"
    using assms 2
    by (auto simp: persist_impact_def append_list_context_journal_in_session_def Let_def
        append_context_journal_in_session_def insert_journal_def upsert_version_def
        split: option.splits if_splits)
qed

lemma safe_persist_evaluation_in_tx:
  assumes "persist_evaluation_in_tx env a d c db = Inr (u, db')"
    and n: "load_record_row db (a_action_id a) c = None"
    and lv: "ad_decision d = AUTO_APPROVE \<Longrightarrow> a_action_level a \<in> AUTO_APPROVABLE_ACTION_LEVELS"
    and sl: "same_level db a"
  shows "approval_safe db db'"
proof (cases "human_loop db")
  case True
  from assms(1) obtain db1 db2 where 1: "persist_impact env a db = Inr db1"
    and 2: "upsert_record env a d c db1 = Inr db2"
    and 3: "(case ad_decision d of
                 AUTO_APPROVE \<Rightarrow> set_action_status env a AS_APPROVED True db2
               | AUTO_REJECT \<Rightarrow> set_action_status env a AS_REJECTED False db2
               | REQUIRE_APPROVAL \<Rightarrow> set_action_status env a AS_WAITING_APPROVAL False db2) = Inr db'"
    by (auto simp: persist_evaluation_in_tx_def)
  have "load_record_row db1 (a_action_id a) c = None"
    using n persist_impact_safe(2) [OF 1] by (simp add: load_record_row_def)
  then have "approval_safe db1 db2"
    by (rule humans_kept_safe [OF upsert_record_humans(2) [OF 2]])
  with persist_impact_safe(1) [OF 1] have s: "approval_safe db db2" by (rule approval_safe_trans)
  with True sl have "same_level db2 a" by (auto simp: approval_safe_def intro: same_level_kept)
  with 3 lv have "approval_safe db2 db'"
    by (cases "ad_decision d") (auto intro: safe_set_action_status)
  with s show ?thesis by (rule approval_safe_trans)
qed (simp add: approval_safe_def)

lemma safe_evaluate:
  assumes "same_level db a"
  shows "approval_safe db (fst (evaluate env a c adv db))"
proof (cases "load_record_row db (a_action_id a) c")
  case None
  have "approval_safe db (fst (persist_evaluation env a (evaluation_decision env a) c db))"
    unfolding persist_evaluation_def
    by (intro safe_fst_then_do safe_fst_commit)
       (auto intro: safe_persist_evaluation_in_tx [OF _ None _ assms] evaluation_auto_approve
          safe_ensure_event_waiting approval_safe_refl)
  with None show ?thesis
    by (auto simp: evaluate_def Let_def approval_safe_refl intro!: safe_fst_then_do safe_maybe_advance)
qed (simp add: evaluate_def approval_safe_refl)

lemma safe_evaluate_all:
  assumes "human_loop db \<Longrightarrow> \<forall>a\<in>set as. same_level db a"
  shows "approval_safe db (fst (evaluate_all env c as db))"
  using assms
proof (induction as arbitrary: db)
  case Nil
  then show ?case by (simp add: approval_safe_refl)
next
  case (Cons a as)
  show ?case
  proof (cases "human_loop db")
    case True
    have e: "approval_safe db (fst (evaluate env a c False db))"
      using Cons.prems [OF True] by (intro safe_evaluate) simp
    have "approval_safe t (fst (evaluate_all env c as t))"
      if t: "evaluate env a c False db = (t, Inr y)" for t y
    proof (rule Cons.IH)
      have "levels_kept db t" using e True t by (simp add: approval_safe_def)
      then show "\<forall>a\<in>set as. same_level t a"
        using Cons.prems [OF True] by (auto intro: same_level_kept)
    qed
    with e show ?thesis by (simp add: safe_fst_then_do)
  qed (simp add: approval_safe_def)
qed

lemma map_res_sources:
  "map_res f xs = Inr ys \<Longrightarrow> y \<in> set ys \<Longrightarrow> \<exists>x\<in>set xs. f x = Inr y"
  by (induction xs arbitrary: ys) auto

lemma plan_actions_same_level:
  assumes "keys_unique db" and "load_plan_response_actions db e v = Inr as" and "a \<in> set as"
  shows "same_level db a"
proof -
  from map_res_sources [OF assms(2) [unfolded load_plan_response_actions_def] assms(3)]
  obtain row where row: "row \<in> set (db_actions db)" "action_from_row row = Inr a"
    by (auto simp: action_readers_agree)
  from row(2) have l: "ActionLevel_parse (act_action_level row) = Some (a_action_level a)"
    and k: "a_action_id a = act_action_id row"
    by (auto elim!: action_from_row_parts dest: build_action_fields(1))
  have "x = row" if "get_action db (a_action_id a) = Some x" for x
    using that k row(1) assms(1)
    by (auto simp: get_action_def keys_unique_def find_Some_iff distinct_map scalar_def
        dest: inj_onD [of act_action_id])
  with l show ?thesis by (auto simp: same_level_def)
qed

lemma safe_evaluate_plan: "approval_safe db (fst (evaluate_plan env e v c db))"
proof (cases "load_plan_response_actions db e v")
  case (Inl x)
  then show ?thesis by (simp add: evaluate_plan_def approval_safe_refl)
next
  case (Inr as)
  have "approval_safe db (fst (evaluate_all env c as db))"
    using plan_actions_same_level [OF _ Inr] by (intro safe_evaluate_all) (auto simp: human_loop_def)
  with Inr show ?thesis
    by (auto simp: evaluate_plan_def Let_def approval_safe_refl
        intro!: safe_fst_then_do safe_maybe_advance split: sum.splits)
qed

subsection \<open>Runs of the system\<close>

text \<open>
  One committed call of the executor, the state machine or the approval engine, by any
  process, with any arguments, at any time.
\<close>

inductive system_step :: "database \<Rightarrow> database \<Rightarrow> bool" where
  claimed: "claim_action settings sha256 now aid db = Inr (a, db') \<Longrightarrow> system_step db db'"
| restored: "restore_approved_ownerless now aid db = Inr db' \<Longrightarrow> system_step db db'"
| failed: "fail_executing_action now aid db = Inr db' \<Longrightarrow> system_step db db'"
| resolved: "resolve_unknown now aid resolution subject comment db = Inr (b, db') \<Longrightarrow>
    system_step db db'"
| attached: "attach_existing_job now operator aid job db = Inr db' \<Longrightarrow> system_step db db'"
| reconciled: "reconcile_stale_executions_for_event settings now event limit force locked db
    = Inr (n, db') \<Longrightarrow> system_step db db'"
| moved: "transition env caller event target operator why db = (db', res) \<Longrightarrow> system_step db db'"
| force_closed: "force_close env event p why db = (db', res) \<Longrightarrow> system_step db db'"
| plan_evaluated: "evaluate_plan aenv event revision cycle db = (db', eval) \<Longrightarrow> system_step db db'"
| approved: "approve aenv aid p comment did db = (db', outcome) \<Longrightarrow> system_step db db'"
| rejected: "reject aenv aid p comment did db = (db', outcome) \<Longrightarrow> system_step db db'"
| timed_out: "handle_timeout aenv aid cycle db = (db', u) \<Longrightarrow> system_step db db'"
| scanned: "scan_timeouts aenv lock_free db = (db', events) \<Longrightarrow> system_step db db'"
| reviewed: "require_manual_review aenv aid reason cycle db = (db', u) \<Longrightarrow> system_step db db'"

lemma system_step_safe: "system_step db db' \<Longrightarrow> approval_safe db db'"
proof (induction rule: system_step.induct)
  case (plan_evaluated aenv event revision cycle db db' eval)
  then show ?case using safe_evaluate_plan [of db aenv event revision cycle] by simp
next
  case (approved aenv aid p comment did db db' outcome)
  then show ?case using safe_decide [of AS_APPROVED db aenv aid p comment did]
    by (simp add: approve_def)
next
  case (rejected aenv aid p comment did db db' outcome)
  then show ?case using safe_decide [of AS_REJECTED db aenv aid p comment did]
    by (simp add: reject_def)
next
  case (timed_out aenv aid cycle db db' u)
  then show ?case using safe_handle_timeout [of db aenv aid cycle] by simp
next
  case (scanned aenv lock_free db db' events)
  then show ?case using safe_scan_timeouts [of db aenv lock_free] by simp
next
  case (reviewed aenv aid reason cycle db db' u)
  then show ?case using safe_require_manual_review [of db aenv aid reason cycle] by simp
qed (auto intro: safe_claim safe_restore safe_fail safe_resolve_unknown safe_attach
       safe_reclaim reconcile_rel safe_transition safe_force_close)

lemma system_run_safe: "system_step\<^sup>*\<^sup>* db db' \<Longrightarrow> approval_safe db db'"
  by (induction rule: rtranclp_induct)
     (auto simp: approval_safe_refl intro: approval_safe_trans system_step_safe)

text \<open>C1: The human stays in the loop. Along every run of committed calls of the executor,
  the state machine and the approval engine, a response or rollback action above the
  auto-approvable levels that is approved, executing or settled has an approval record
  decided by a principal's \<open>approve\<close> call, provided this held (with unique primary keys)
  at the start; and no run changes an action's level or category.\<close>

theorem human_in_the_loop:
  assumes "system_step\<^sup>*\<^sup>* db db'" and "human_loop db"
  shows "(\<forall>k row. get_action db' k = Some row \<longrightarrow> needs_human row \<longrightarrow>
            act_status row \<in> PAST_APPROVAL \<longrightarrow> (\<exists>r\<in>set (db_approvals db'). human_approved k r))
    \<and> levels_kept db db'"
  using system_run_safe [OF assms(1)] assms(2)
  by (auto simp: approval_safe_def human_loop_def backed_def)

definition example_rollback :: action_row where
  "example_rollback = example_action_row\<lparr>act_action_category := ActionCategory_value AC_ROLLBACK,
     act_status := ActionStatus_value AS_WAITING_APPROVAL\<rparr>"

definition example_request :: approval_row where
  "example_request =
     \<lparr> ap_approval_id = ''apr-1'', ap_action_id = ''act-1'', ap_event_id = ''evt-1'',
       ap_plan_revision = 1, ap_approval_cycle = 0, ap_decision_id = None,
       ap_required_level = ActionLevel_value L3,
       ap_decision = ApprovalDecisionKind_value REQUIRE_APPROVAL, ap_operator = None,
       ap_comment = None, ap_detail = None, ap_requested_at = 0, ap_decided_at = None,
       ap_timeout_at = Some 10 \<rparr>"

definition example_waiting :: database where
  "example_waiting = empty_database\<lparr>db_actions := [example_rollback],
     db_approvals := [example_request]\<rparr>"

definition example_ap_env :: ap_env where
  "example_ap_env =
     \<lparr> ae_sm = example_env, ae_state_machine = True, ae_context_store = False,
       ae_manifest = default_CapabilityManifest ''mock'',
       ae_sha256 = id, ae_new_id = (\<lambda>_. ''apr-2''), ae_impact = None,
       ae_dump_record = (\<lambda>_. JNull), ae_str = (\<lambda>_. []), ae_resume = None,
       ae_in_graph = (\<lambda>_. False), ae_rollback = None \<rparr>"

definition example_operator :: Principal where
  "example_operator = \<lparr> pr_subject = ''analyst-1'', pr_roles = [] \<rparr>"

lemma example_rollback_decodes:
  assumes "st \<in> {AS_WAITING_APPROVAL, AS_APPROVED, AS_REJECTED}"
  shows "\<exists>a. action_from_orm (example_rollback\<lparr>act_status := ActionStatus_value st,
      act_updated_at := n\<rparr>) = Inr a \<and> a_action_category a = AC_ROLLBACK \<and> a_status a = st
      \<and> a_writeback_readiness a = WR_NOT_REQUIRED \<and> a_execution_phase a = AP_IMMEDIATE \<and> a_action_level a = L3"
  using assms
  by (auto simp: action_from_orm_def example_rollback_def example_action_row_def build_action_def
        pydantic_opt_enum_def validate_action_model_iff action_wf_def TERMINAL_DISPOSITION_TOOL_def)

lemma example_approve:
  "\<exists>oc. approve example_ap_env ''act-1'' example_operator None (Some ''d-1'') example_waiting =
     (put_action (example_rollback\<lparr>act_status := ActionStatus_value AS_APPROVED, act_updated_at := 50\<rparr>)
        (put_approval (decided_record example_ap_env example_operator None (Some ''d-1'') AS_APPROVED
                         example_request) example_waiting), Inr oc)"
proof -
  obtain a where a: "action_from_orm example_rollback = Inr a" "a_action_category a = AC_ROLLBACK"
      "a_status a = AS_WAITING_APPROVAL" "a_writeback_readiness a = WR_NOT_REQUIRED"
      "a_execution_phase a = AP_IMMEDIATE" "a_action_level a = L3"
    using example_rollback_decodes [of AS_WAITING_APPROVAL 0]
    by (auto simp: example_rollback_def example_action_row_def)
  obtain b where b: "action_from_orm (example_rollback\<lparr>act_status := ActionStatus_value AS_APPROVED,
      act_updated_at := 50\<rparr>) = Inr b" "a_action_category b = AC_ROLLBACK"
    using example_rollback_decodes [of AS_APPROVED 50] by auto
  have get: "get_action example_waiting ''act-1'' = Some example_rollback"
    by (simp add: example_waiting_def get_action_def example_rollback_def example_action_row_def)
  have pend: "load_pending_record_row example_waiting ''act-1'' = Some example_request"
    by (simp add: load_pending_record_row_def example_waiting_def example_request_def)
  have now: "ae_now example_ap_env = 50" by (simp add: example_ap_env_def example_env_def)
  have gate: "evaluate_hard_gates a m = None" for m using a
    by (simp add: evaluate_hard_gates_def AUTO_APPROVABLE_ACTION_LEVELS_def)
  have free: "decision_id_free example_waiting (decided_record example_ap_env example_operator None
      (Some ''d-1'') AS_APPROVED example_request)"
    by (simp add: decision_id_free_def example_waiting_def)
  have "decide_in_tx example_ap_env ''act-1'' example_operator None (Some ''d-1'') AS_APPROVED
      example_waiting = Inr (b, put_action (example_rollback\<lparr>act_status := ActionStatus_value AS_APPROVED,
        act_updated_at := 50\<rparr>)
        (put_approval (decided_record example_ap_env example_operator None (Some ''d-1'') AS_APPROVED
                         example_request) example_waiting))"
    unfolding decide_in_tx_def Let_def decided_record_def [symmetric] get pend now
    using a b gate free now
    by (simp add: example_request_def example_waiting_def scalar_def gate_simps
        default_action_evidence_def decided_record_def)
  then show ?thesis
    using a b get
    by (simp add: approve_def decide_def Let_def resolve_idempotent_replay_def scalar_def
        example_waiting_def example_request_def)
qed

theorem human_in_the_loop_witness:
  "\<exists>db' row. system_step\<^sup>*\<^sup>* example_waiting db' \<and> get_action db' ''act-1'' = Some row
     \<and> needs_human row \<and> act_status row \<in> PAST_APPROVAL
     \<and> (\<exists>r\<in>set (db_approvals db'). human_approved ''act-1'' r)"
proof -
  let ?row = "example_rollback\<lparr>act_status := ActionStatus_value AS_APPROVED, act_updated_at := 50\<rparr>"
  obtain db' oc where db': "approve example_ap_env ''act-1'' example_operator None (Some ''d-1'')
      example_waiting = (db', Inr oc)" and get: "get_action db' ''act-1'' = Some ?row"
    using example_approve
    by (auto simp: example_waiting_def get_action_def put_action_def put_approval_def update_where_def
        example_rollback_def example_action_row_def)
  have run: "system_step\<^sup>*\<^sup>* example_waiting db'"
    using system_step.approved [OF db'] by blast
  have hl: "human_loop example_waiting"
    by (auto simp: human_loop_def keys_unique_def backed_def example_waiting_def empty_database_def
        get_action_def PAST_APPROVAL_def example_rollback_def scalar_def split: if_splits)
  have n: "needs_human ?row"
    by (simp add: needs_human_def example_rollback_def example_action_row_def RESPONSE_OR_ROLLBACK_def
        AUTO_APPROVABLE_ACTION_LEVELS_def)
  from human_in_the_loop [OF run hl] get n run show ?thesis
    by (auto simp: executing_past intro!: exI [of _ db'])
qed

end
