(* ===== verification/Approval_Decisions.thy ===== *)
theory Approval_Decisions
  imports Approval_Facts
begin

text \<open>
  Single decisions of the approval engine: a decision can be retried but not changed, a
  hard gate blocks every approval, a timeout scan rejects exactly the overdue waiting
  actions, a plan executes only when fully decided, and what a manual review of a
  decided record leaves behind.
\<close>

section \<open>Retrying a decision\<close>

text \<open>The JSON text of a comment determines the comment: the escapes are uniquely decodable.\<close>

definition hex_val :: "char \<Rightarrow> nat" where
  "hex_val c = (let n = of_char c in if n < 58 then n - 48 else n - 87)"

fun unescape :: "string \<Rightarrow> char \<times> string" where
  "unescape [] = (CHR 0x00, [])"
| "unescape [c] = (c, [])"
| "unescape (c # d # s) =
     (if c \<noteq> CHR 0x5C then (c, d # s)
      else if d = CHR ''u'' then (char_of (16 * hex_val (s ! 2) + hex_val (s ! 3)), drop 4 s)
      else (if d = CHR ''n'' then CHR 0x0A else if d = CHR ''r'' then CHR 0x0D
            else if d = CHR ''t'' then CHR 0x09 else if d = CHR ''b'' then CHR 0x08
            else if d = CHR ''f'' then CHR 0x0C else d, s))"

lemma hex_val_digit: "k < 16 \<Longrightarrow> hex_val (hex_digit k) = k"
  by (auto simp: hex_val_def hex_digit_def Let_def)

lemma unescape_escape: "s \<noteq> [] \<Longrightarrow> unescape (json_escape_char c @ s) = (c, s)"
proof -
  assume s: "s \<noteq> []"
  have h: "(of_char c :: nat) div 16 < 16" "(of_char c :: nat) mod 16 < 16"
    by (simp_all add: div_less_iff_less_mult)
  have "char_of (16 * (of_char c div 16) + of_char c mod 16 :: nat) = c" by simp
  with s h show ?thesis
    by (cases s) (auto simp: json_escape_char_def Let_def hex_val_digit)
qed

lemma json_text_inj:
  "concat (map json_escape_char c) @ [CHR 0x22, CHR 0x7D]
     = concat (map json_escape_char d) @ [CHR 0x22, CHR 0x7D] \<Longrightarrow> c = d"
proof (induction c arbitrary: d)
  case Nil
  show ?case
  proof (cases d)
    case (Cons y ys)
    with Nil have "[CHR 0x22, CHR 0x7D] = json_escape_char y @ concat (map json_escape_char ys) @ [CHR 0x22, CHR 0x7D]"
      by simp
    then show ?thesis by (auto simp: json_escape_char_def Let_def split: if_splits)
  qed simp
next
  case (Cons x xs)
  show ?case
  proof (cases d)
    case Nil
    with Cons.prems have "json_escape_char x @ concat (map json_escape_char xs) @ [CHR 0x22, CHR 0x7D] = [CHR 0x22, CHR 0x7D]"
      by simp
    then show ?thesis by (auto simp: json_escape_char_def Let_def split: if_splits)
  next
    case (Cons y ys)
    let ?t = "\<lambda>s. concat (map json_escape_char s) @ [CHR 0x22, CHR 0x7D]"
    from Cons.prems Cons have "json_escape_char x @ ?t xs = json_escape_char y @ ?t ys" by simp
    then have "unescape (json_escape_char x @ ?t xs) = unescape (json_escape_char y @ ?t ys)"
      by (rule arg_cong)
    then have "x = y" "?t xs = ?t ys" by (simp_all add: unescape_escape)
    with Cons.IH Cons show ?thesis by simp
  qed
qed

lemma json_dumps_comment_inj: "json_dumps_comment c = json_dumps_comment d \<longleftrightarrow> c = d"
  using json_text_inj [of c d] by (auto simp: json_dumps_comment_def)

lemma payload_hash_eq_iff:
  assumes "ae_sha256 env' = ae_sha256 env"
    and "ae_sha256 env (json_dumps_comment (normalize_approval_comment c'))
           = ae_sha256 env (json_dumps_comment (normalize_approval_comment c)) \<Longrightarrow>
         json_dumps_comment (normalize_approval_comment c')
           = json_dumps_comment (normalize_approval_comment c)"
  shows "approval_payload_hash env' c' = approval_payload_hash env c \<longleftrightarrow>
      normalize_approval_comment c' = normalize_approval_comment c"
  using assms by (auto simp: approval_payload_hash_def json_dumps_comment_inj)

text \<open>Advancing the plan moves the event only.\<close>

lemma transition_open_frame:
  assumes "transition env caller k t p r db = (db', res)" and "t \<noteq> ES_CLOSED"
  shows "db_actions db' = db_actions db" "db_jobs db' = db_jobs db"
    "db_approvals db' = db_approvals db"
proof -
  have tx: "db_actions db' = db_actions db \<and> db_jobs db' = db_jobs db
      \<and> db_approvals db' = db_approvals db"
    if "transition_in_tx env caller k t p r db = Inr (e', db')" for e'
    using that
  proof (rule transition_in_txD)
    fix e s
    assume "audited env k s t (put_event e' db) db'"
    from audited_frames [OF this] show ?thesis by simp
  qed
  with assms
  show "db_actions db' = db_actions db" "db_jobs db' = db_jobs db"
    "db_approvals db' = db_approvals db"
    by (auto simp: transition_def split: if_splits sum.splits)
qed

lemma plan_target_open: "plan_target as = Some t \<Longrightarrow> t \<in> {ES_EXECUTING_RESPONSE, ES_REPORTING}"
  by (auto simp: plan_target_def Let_def split: if_splits)

lemma maybe_advance_frame:
  assumes "maybe_advance_plan env e v db = (db', r)"
  shows "db_actions db' = db_actions db" "db_approvals db' = db_approvals db"
proof -
  have adv: "db_actions s = db_actions db \<and> db_approvals s = db_approvals db"
    if "advance_event env e (plan_target as) db = (s, x)" for as s x
    using that plan_target_open [of as] transition_open_frame [of "ae_sm env" default_TransitionContext e
        _ "Some APPROVAL_ENGINE_OPERATOR" "Some ''plan_fully_decided''" db]
    by (auto simp: advance_event_def split: option.splits if_splits sum.splits prod.splits)
  from assms have "db_actions db' = db_actions db \<and> db_approvals db' = db_approvals db"
    by (auto simp: maybe_advance_plan_def split: sum.splits bool.splits
        dest!: then_do_cases dest: adv)
  then show "db_actions db' = db_actions db" "db_approvals db' = db_approvals db" by auto
qed

text \<open>A fresh decision: what is in the tables after it.\<close>

lemma decide_fresh:
  assumes d: "decide env aid p c did t db = (db1, Inr oc)" and "\<not> ao_idempotent_replay oc"
  obtains decided db0 where "decide_in_tx env aid p c did t db = Inr (decided, db0)"
    "db_actions db1 = db_actions db0" "db_approvals db1 = db_approvals db0"
proof -
  have fin: "ao_idempotent_replay (finish_rollback_decision env aid p t o') = ao_idempotent_replay o'" for o'
    by (simp add: finish_rollback_decision_def Let_def)
  have rep: "ao_idempotent_replay o'"
    if "resolve_idempotent_replay env aid did' op h row db = Inr (Some o')" for did' op h row o'
    using that
    by (auto simp: resolve_idempotent_replay_def split_beta split: option.splits)
  have "\<exists>decided db0. decide_in_tx env aid p c did t db = Inr (decided, db0)
      \<and> db_actions db1 = db_actions db0 \<and> db_approvals db1 = db_approvals db0"
  proof (cases "decide_in_tx env aid p c did t db")
    case (Inl e)
    then show ?thesis
      using d assms(2) rep
      by (auto simp: decide_def Let_def fin split: option.splits if_splits sum.splits)
  next
    case (Inr y)
    obtain decided db0 where y: "y = (decided, db0)" by force
    have fr: "db_actions s = db_actions db0 \<and> db_approvals s = db_approvals db0"
      if "maybe_advance_plan env (a_event_id decided) (a_plan_revision decided) db0 = (s, r)" for s r
      using maybe_advance_frame [OF that] by simp
    show ?thesis
      using d assms(2) rep fr Inr y
      by (auto simp: decide_def Let_def fin split: option.splits if_splits sum.splits
          dest!: then_do_cases)
  qed
  then show thesis using that by blast
qed

lemma decided_record_binding:
  assumes "ae_sha256 env' = ae_sha256 env" and "t \<in> {AS_APPROVED, AS_REJECTED}"
  shows "idempotency_binding_from_record env' (decided_record env p c did t rc) t
    = (JStr (operation_label (approval_operation t)), approval_payload_hash env c)"
  using assms
  by (auto simp: idempotency_binding_from_record_def decided_record_def Let_def update_conv
      persist_idempotency_detail_def approval_payload_hash_def approval_operation_def py_str_def)

lemma decided_record_fields [simp]:
  "ap_decision_id (decided_record env p c did t rc) = did"
  "ap_decided_at (decided_record env p c did t rc) = Some (ae_now env)"
  "ap_action_id (decided_record env p c did t rc) = ap_action_id rc"
  by (simp_all add: decided_record_def persist_idempotency_detail_def Let_def)

lemma scalar_unique:
  assumes "x \<in> set xs" "P x" "\<And>y. y \<in> set xs \<Longrightarrow> P y \<Longrightarrow> y = x"
  shows "scalar P xs = Some x"
proof (cases "scalar P xs")
  case None
  with assms(1,2) show ?thesis by (auto simp: scalar_None_iff)
next
  case (Some y)
  with scalar_SomeD [OF Some] assms(3) show ?thesis by auto
qed

lemma decision_lookup:
  assumes "rc \<in> set (db_approvals db)" and "distinct (map ap_approval_id (db_approvals db))"
    and "ap_approval_id r = ap_approval_id rc" "ap_decision_id r = Some did" "ap_decided_at r \<noteq> None"
    and "decision_id_free db r"
  shows "scalar (\<lambda>x. ap_decision_id x = Some did \<and> ap_decided_at x \<noteq> None)
           (db_approvals (put_approval r db)) = Some r"
proof (rule scalar_unique)
  show "r \<in> set (db_approvals (put_approval r db))" by (rule put_approval_set(1) [OF assms(1,3)])
  show "ap_decision_id r = Some did \<and> ap_decided_at r \<noteq> None" using assms(4,5) by simp
  fix y
  assume "y \<in> set (db_approvals (put_approval r db))"
    and "ap_decision_id y = Some did \<and> ap_decided_at y \<noteq> None"
  with assms(4,6) show "y = r"
    by (auto simp: put_approval_def update_where_def decision_id_free_def list_all_iff split: if_splits)
qed



section \<open>Gates\<close>

lemma no_replay:
  assumes "\<And>d. did = Some d \<Longrightarrow> d \<noteq> [] \<Longrightarrow>
      scalar (\<lambda>r. ap_decision_id r = Some d \<and> ap_decided_at r \<noteq> None) (db_approvals db) = None"
    and "get_action db aid = Some row" "action_from_orm row = Inr a"
    and "decide_in_tx env aid p c did t db = Inl e"
  shows "decide env aid p c did t db = (db, Inl e)"
proof (cases did)
  case None
  with assms(4) show ?thesis by (simp add: decide_def Let_def)
next
  case (Some d)
  with assms show ?thesis
    by (cases "d = []") (simp_all add: decide_def Let_def resolve_idempotent_replay_def)
qed

text \<open>C21: A hard gate makes an action unapprovable. While a gate fires, a fresh \<open>approve\<close>
  is refused with the gate's rule and changes nothing, whatever the gate decided; in
  particular when the gate itself asks for human approval, so that the evaluation puts the
  action in front of a human whose approval is then refused.\<close>

theorem gate_blocks_every_approval:
  assumes "get_action db aid = Some row" and "action_from_orm row = Inr a"
    and gate: "evaluate_hard_gates a (ae_manifest env) = Some gate"
    and "\<And>d. did = Some d \<Longrightarrow> d \<noteq> [] \<Longrightarrow>
      scalar (\<lambda>r. ap_decision_id r = Some d \<and> ap_decided_at r \<noteq> None) (db_approvals db) = None"
  shows "approve env aid p comment did db
      = (db, action_err (Approval_blocked_by_gate (ad_rule_applied gate)))
    \<and> evaluation_decision env a = gate"
proof
  have "decide_in_tx env aid p comment did AS_APPROVED db
      = action_err (Approval_blocked_by_gate (ad_rule_applied gate))"
    using assms(1,2) gate by (simp add: decide_in_tx_def of_opt_def)
  then show "approve env aid p comment did db
      = (db, action_err (Approval_blocked_by_gate (ad_rule_applied gate)))"
    unfolding approve_def by (intro no_replay [OF _ assms(1,2)] assms(4))
  show "evaluation_decision env a = gate" using gate by (simp add: evaluation_decision_def)
qed

text \<open>An L1 action on a provider without idempotent lookup: human approval is asked for and refused.\<close>

definition example_unapprovable :: action_row where
  "example_unapprovable = example_action_row\<lparr>act_action_level := ActionLevel_value L1,
     act_status := ActionStatus_value AS_WAITING_APPROVAL\<rparr>"

definition example_plain_provider :: ap_env where
  "example_plain_provider = example_ap_env\<lparr>ae_manifest :=
     (ae_manifest example_ap_env)\<lparr>mf_allowed_operations := [''isolate_host''],
        mf_supports_idempotency := False\<rparr>\<rparr>"

theorem gate_blocks_every_approval_witness:
  "\<exists>a. action_from_orm example_unapprovable = Inr a
     \<and> ad_decision (evaluation_decision example_plain_provider a) = REQUIRE_APPROVAL
     \<and> approve example_plain_provider ''act-1'' example_operator None (Some ''d-1'')
         (example_waiting\<lparr>db_actions := [example_unapprovable]\<rparr>)
       = (example_waiting\<lparr>db_actions := [example_unapprovable]\<rparr>,
          action_err (Approval_blocked_by_gate ''provider_idempotency_missing''))"
proof -
  obtain a where a: "action_from_orm example_unapprovable = Inr a" "a_action_category a = AC_RESPONSE"
      "a_tool_name a = ''isolate_host''" "a_writeback_readiness a = WR_NOT_REQUIRED"
      "a_action_level a = L1" "a_execution_owner a = Some EO_DIRECT_TOOL"
      "a_action_template_snapshot a = None"
    by (auto simp: action_from_orm_def example_unapprovable_def example_action_row_def build_action_def
        pydantic_opt_enum_def validate_action_model_iff action_wf_def TERMINAL_DISPOSITION_TOOL_def)
  obtain gate where gate: "evaluate_hard_gates a (ae_manifest example_plain_provider) = Some gate"
    "ad_rule_applied gate = ''provider_idempotency_missing''" "ad_decision gate = REQUIRE_APPROVAL"
    using a by (auto simp: evaluate_hard_gates_def example_plain_provider_def example_ap_env_def
        TERMINAL_DISPOSITION_TOOL_def AUTO_APPROVABLE_ACTION_LEVELS_def)
  have get: "get_action (example_waiting\<lparr>db_actions := [example_unapprovable]\<rparr>) ''act-1''
      = Some example_unapprovable"
    by (simp add: get_action_def example_unapprovable_def example_action_row_def)
  from gate_blocks_every_approval [OF get a(1) gate(1), of "Some ''d-1''" example_operator None]
    a(1) gate(2,3) show ?thesis
    by (auto simp: example_waiting_def example_request_def scalar_def)
qed

section \<open>Timeouts\<close>

text \<open>The row of an action after the scan.\<close>

definition expired_row :: "int \<Rightarrow> approval_row list \<Rightarrow> action_row \<Rightarrow> action_row" where
  "expired_row now rs row =
     (if act_status row = ActionStatus_value AS_WAITING_APPROVAL
         \<and> (\<exists>r\<in>set rs. ap_action_id r = act_action_id row)
      then row\<lparr>act_status := ActionStatus_value AS_REJECTED, act_updated_at := now\<rparr> else row)"

lemma expire_records_actions:
  "get_action (snd (expire_records now rs (touched, db))) k
     = map_option (expired_row now rs) (get_action db k)"
proof (induction rs arbitrary: touched db)
  case Nil
  have "expired_row now [] = id" by (auto simp: expired_row_def)
  then show ?case by (cases "get_action db k") simp_all
next
  case (Cons r rs)
  let ?k = "ap_action_id r"
  show ?case
  proof (cases "\<exists>row. get_action db ?k = Some row
                  \<and> act_status row = ActionStatus_value AS_WAITING_APPROVAL")
    case False
    have "expired_row now (r # rs) row = expired_row now rs row"
      if "get_action db k = Some row" for row
      using False that actions_table.get_key [OF that] by (auto simp: expired_row_def)
    with False Cons.IH [of touched db] show ?thesis
      by (cases "get_action db k") (auto split: option.splits)
  next
    case True
    then obtain row where row: "get_action db ?k = Some row"
      "act_status row = ActionStatus_value AS_WAITING_APPROVAL" by blast
    let ?row = "row\<lparr>act_status := ActionStatus_value AS_REJECTED, act_updated_at := now\<rparr>"
    let ?db = "put_action ?row (put_approval (timed_out_record now r) db)"
    have get: "get_action ?db x = (if x = ?k then Some ?row else get_action db x)" for x
      using get_put_action [of "put_approval (timed_out_record now r) db" ?k row ?row x] row(1) by simp
    have key: "act_action_id row = ?k" using actions_table.get_key [OF row(1)] by simp
    have "expired_row now rs ?row = expired_row now (r # rs) row"
      using row(2) key by (auto simp: expired_row_def)
    moreover have "expired_row now rs x = expired_row now (r # rs) x"
      if "get_action db k = Some x" "k \<noteq> ?k" for x
      using actions_table.get_key [OF that(1)] that(2) by (auto simp: expired_row_def)
    ultimately have "map_option (expired_row now rs) (get_action ?db k)
        = map_option (expired_row now (r # rs)) (get_action db k)"
      using row(1) by (cases "get_action db k") (auto simp: get)
    then show ?thesis using row by (simp add: Cons.IH)
  qed
qed



section \<open>Plans\<close>

lemma transition_arrives:
  assumes "transition env caller k t p r db = (db', Inr e')" and "t \<noteq> ES_CLOSED"
  shows "get_event db' k = Some e' \<and> se_status e' = EventStatus_value t"
proof -
  from assms have "transition_in_tx env caller k t p r db = Inr (e', db')"
    by (auto simp: transition_def split: sum.splits)
  then show ?thesis
  proof (rule transition_in_txD)
    fix e s
    assume e: "get_event db k = Some e" and m: "event_moved s t e e'"
      and a: "audited env k s t (put_event e' db) db'"
    have "se_event_id e' = k" using m events_table.get_key [OF e] by (simp add: event_moved_def)
    then have "get_event db' k = Some e'"
      using audited_frames(9) [OF a] events_table.get_put_same [of db e'] e by simp
    with m show ?thesis by (auto simp: event_moved_def)
  qed
qed

lemma transition_result:
  assumes "transition env caller k t p r db = (db', res)" and "t \<noteq> ES_CLOSED"
  shows "db' = db \<or> (\<exists>e'. get_event db' k = Some e' \<and> se_status e' = EventStatus_value t)"
proof (cases res)
  case (Inl x)
  with assms show ?thesis by (auto simp: transition_def split: sum.splits)
next
  case (Inr e')
  with assms transition_arrives [of env caller k t p r db db' e'] show ?thesis by simp
qed

text \<open>What makes a plan executable.\<close>

definition executable_plan :: "Action list \<Rightarrow> bool" where
  "executable_plan as \<longleftrightarrow>
     (\<forall>a\<in>set as. a_status a \<in> APPROVAL_TERMINAL)
     \<and> (\<exists>a\<in>set as. a_status a = AS_APPROVED)
     \<and> ((\<exists>a\<in>set as. a_writeback_required a) \<longrightarrow>
          (\<exists>a\<in>set as. a_tool_name a = TERMINAL_DISPOSITION_TOOL \<and> a_status a = AS_APPROVED))"

lemma plan_target_executing:
  "plan_target as = Some ES_EXECUTING_RESPONSE \<Longrightarrow> list_all (\<lambda>a. a_status a \<in> APPROVAL_TERMINAL) as \<Longrightarrow>
     executable_plan as"
  by (auto simp: plan_target_def executable_plan_def Let_def list_all_iff list_ex_iff filter_empty_conv
      split: if_splits)

text \<open>C17: A plan starts executing only when it is decided. If advancing a plan revision brings
  an event into \<open>EXECUTING_RESPONSE\<close>, every current response action of the revision is
  approved or rejected, one at least is approved, and if any of them requires a writeback
  then the terminal disposition action is approved as well.\<close>

theorem plan_executes_only_decided:
  assumes "maybe_advance_plan env e v db = (db', r)"
    and "get_event db e = Some row" "se_status row \<noteq> EventStatus_value ES_EXECUTING_RESPONSE"
    and "get_event db' e = Some row'" "se_status row' = EventStatus_value ES_EXECUTING_RESPONSE"
  shows "\<exists>as. load_plan_response_actions db' e v = Inr as \<and> executable_plan as"
proof -
  have ne: "db' \<noteq> db" using assms by auto
  obtain as where as: "load_plan_response_actions db e v = Inr as"
    and dec: "list_all (\<lambda>a. a_status a \<in> APPROVAL_TERMINAL) as"
    using assms(1) ne
    by (auto simp: maybe_advance_plan_def is_plan_fully_decided_def split: sum.splits bool.splits)
  obtain x where adv: "advance_event env e (plan_target as) db = (db', x)"
    using assms(1) ne as dec
    by (auto simp: maybe_advance_plan_def is_plan_fully_decided_def dest!: then_do_cases)
  obtain t p why res where t: "plan_target as = Some t"
    and tr: "transition (ae_sm env) default_TransitionContext e t p why db = (db', res)"
    using adv ne by (auto simp: advance_event_def split: option.splits if_splits sum.splits prod.splits)
  have "t \<noteq> ES_CLOSED" using plan_target_open [OF t] by auto
  from transition_result [OF tr this] ne assms(4,5) have "t = ES_EXECUTING_RESPONSE" by auto
  with t dec have "executable_plan as" by (simp add: plan_target_executing)
  moreover have "load_plan_response_actions db' e v = Inr as"
    using as maybe_advance_frame(1) [OF assms(1)] by (simp add: load_plan_response_actions_def)
  ultimately show ?thesis by blast
qed

text \<open>An event waiting on one approved action.\<close>

definition example_decided :: database where
  "example_decided = empty_database\<lparr>
     db_events := [example_event\<lparr>se_status := EventStatus_value ES_WAITING_APPROVAL\<rparr>],
     db_actions := [example_action_row]\<rparr>"

lemma example_decided_context:
  "\<exists>ctx. build_authoritative_context example_env example_decided ''evt-1''
      (example_event\<lparr>se_status := EventStatus_value ES_WAITING_APPROVAL\<rparr>) default_TransitionContext = Inr ctx
    \<and> cx_final_verdict ctx = Some FV_CONFIRMED_THREAT \<and> \<not> cx_force_close ctx"
proof -
  have "current_plan_revision example_decided ''evt-1'' = Some 1"
    by (simp add: current_plan_revision_def example_decided_def example_defs max_of_def)
  moreover have "\<exists>v. build_closed_gate_actions example_decided ''evt-1'' (Some 1) = Inr v"
    by (simp add: build_closed_gate_actions_def example_decided_def example_defs RESPONSE_OR_ROLLBACK_def
        closed_gate_view_def load_active_outboxes_def worst_unconfirmed_outbox_status_def
        List.map_filter_def action_has_job_or_outbox_def scalar_def Let_def)
  ultimately show ?thesis
    by (auto simp: build_authoritative_context_def Let_def parse_or_raise_def of_opt_def
        pydantic_enum_def example_event_def)
qed

lemma EventStatus_nonempty [simp]: "EventStatus_value s \<noteq> []"
  by (cases s) (simp_all add: enum_literals)

lemma example_plan_moves:
  "\<exists>db' r e'. maybe_advance_plan example_ap_env ''evt-1'' 1 example_decided = (db', Inr r)
     \<and> get_event db' ''evt-1'' = Some e' \<and> se_status e' = EventStatus_value ES_EXECUTING_RESPONSE"
proof -
  let ?e = "example_event\<lparr>se_status := EventStatus_value ES_WAITING_APPROVAL\<rparr>"
  obtain a where a: "action_from_orm example_action_row = Inr a" "a_status a = AS_APPROVED"
    "a_writeback_required a = False"
    by (auto simp: action_from_orm_def example_action_row_def build_action_def
        pydantic_opt_enum_def validate_action_model_iff action_wf_def TERMINAL_DISPOSITION_TOOL_def)
  have load: "load_plan_response_actions example_decided ''evt-1'' 1 = Inr [a]"
    using a(1) by (simp add: load_plan_response_actions_def example_decided_def example_action_row_def)
  have get: "get_event example_decided ''evt-1'' = Some ?e"
    by (simp add: get_event_def example_decided_def example_event_def)
  obtain ctx where ctx: "build_authoritative_context example_env example_decided ''evt-1'' ?e
      default_TransitionContext = Inr ctx" "cx_final_verdict ctx = Some FV_CONFIRMED_THREAT"
      "\<not> cx_force_close ctx"
    using example_decided_context by blast
  have "validate_transition ctx ES_WAITING_APPROVAL ES_EXECUTING_RESPONSE = Inr ()"
    using ctx(2,3) by (auto simp: event_accepts_iff edge_allowed_def validate_verdict_status_def
        VERDICT_STATUS_RULES_def with_failed_def)
  then obtain db' row where tr: "transition example_env default_TransitionContext ''evt-1''
      ES_EXECUTING_RESPONSE (Some APPROVAL_ENGINE_OPERATOR) (Some ''plan_fully_decided'') example_decided
      = (db', Inr row)"
    using get ctx(1)
    by (auto simp: transition_def transition_in_tx_def parse_or_raise_def of_opt_def Let_def
        security_event_from_row_def example_valid ensure_def apply_pre_transition_side_effects_def)
  from transition_arrives [OF tr] have "get_event db' ''evt-1'' = Some row"
    "se_status row = EventStatus_value ES_EXECUTING_RESPONSE" by simp_all
  with load a tr get show ?thesis
    by (auto simp: maybe_advance_plan_def is_plan_fully_decided_def advance_event_def plan_target_def
        APPROVAL_TERMINAL_def event_status_def example_ap_env_def parse_or_raise_def of_opt_def)
qed

theorem plan_executes_only_decided_witness:
  "\<exists>db' r as. maybe_advance_plan example_ap_env ''evt-1'' 1 example_decided = (db', Inr r)
     \<and> load_plan_response_actions db' ''evt-1'' 1 = Inr as \<and> executable_plan as"
proof -
  obtain db' r e' where m: "maybe_advance_plan example_ap_env ''evt-1'' 1 example_decided = (db', Inr r)"
    and e': "get_event db' ''evt-1'' = Some e'" "se_status e' = EventStatus_value ES_EXECUTING_RESPONSE"
    using example_plan_moves by blast
  have get: "get_event example_decided ''evt-1''
      = Some (example_event\<lparr>se_status := EventStatus_value ES_WAITING_APPROVAL\<rparr>)"
    by (simp add: get_event_def example_decided_def example_event_def)
  from plan_executes_only_decided [OF m get _ e'] m show ?thesis by auto
qed

section \<open>Reviewing a decided action again\<close>

lemma not_waiting_or_missing:
  assumes "load_pending_record_row db aid = None"
  shows "\<exists>e. decide_in_tx env aid p c did t db = Inl e"
proof (cases "decide_in_tx env aid p c did t db")
  case (Inr y)
  obtain decided db' where "y = (decided, db')" by force
  with Inr have "decide_in_tx env aid p c did t db = Inr (decided, db')" by simp
  then show ?thesis by (rule decide_in_txD) (use assms in simp)
qed blast

lemma upsert_existing:
  assumes "upsert_record env a d cycle db = Inr db'" and "load_record_row db (a_action_id a) cycle = Some rc"
  shows "\<exists>r'. sync_wm_records env (a_event_id a) (put_approval r' db) = Inr db'
      \<and> ap_decided_at r' = ap_decided_at rc"
  using assms by (simp add: upsert_record_def Let_def) (rule exI, erule conjI, simp)

lemma load_pending_None_iff:
  "load_pending_record_row db k = None \<longleftrightarrow>
     (\<forall>r\<in>set (db_approvals db). ap_action_id r = k \<longrightarrow> ap_decided_at r \<noteq> None)"
  by (auto simp: load_pending_record_row_def filter_empty_conv)

text \<open>C22: A manual review of an already decided approval strands the action. The review keeps
  the record's decision time, so the action waits for approval with no pending request:
  every fresh approval or rejection of it is refused and no timeout scan ever touches it.\<close>

theorem review_of_decided_record_strands:
  assumes r: "require_manual_review_in_tx env aid reason cycle db = Inr (a, db')"
    and "load_record_row db aid cycle \<noteq> None" and pend: "load_pending_record_row db aid = None"
  shows "(\<exists>row. get_action db' aid = Some row \<and> act_status row = ActionStatus_value AS_WAITING_APPROVAL)
    \<and> load_pending_record_row db' aid = None
    \<and> (\<exists>e. approve env' aid p c None db' = (db', Inl e))
    \<and> (\<exists>e. reject env' aid p c None db' = (db', Inl e))
    \<and> get_action (snd (scan_expired_approval_records now db')) aid = get_action db' aid"
proof -
  from r obtain row db1 where row: "get_action db aid = Some row" "action_from_orm row = Inr a"
    and u: "upsert_record env a \<lparr> ad_decision = REQUIRE_APPROVAL, ad_rule_applied = ''manual_review'',
                                   ad_reason = reason \<rparr> cycle db = Inr db1"
    and st: "set_action_status env a AS_WAITING_APPROVAL False db1 = Inr db'"
    by (auto simp: require_manual_review_in_tx_def)
  have aid: "a_action_id a = aid"
    using action_from_orm_id [OF row(2)] actions_table.get_key [OF row(1)] by simp
  obtain rc where rc: "load_record_row db aid cycle = Some rc" using assms(2) by blast
  obtain r' where r': "ap_decided_at r' = ap_decided_at rc"
    and sync: "sync_wm_records env (a_event_id a) (put_approval r' db) = Inr db1"
    using upsert_existing [OF u] rc aid by blast
  have "ap_decided_at rc \<noteq> None" using load_recordD [OF rc] pend by (auto simp: load_pending_None_iff)
  with r' pend have "load_pending_record_row (put_approval r' db) aid = None"
    by (auto simp: load_pending_None_iff put_approval_def update_where_def)
  with sync_wm_records_frame [OF sync] have p1: "load_pending_record_row db1 aid = None"
    by (simp add: load_pending_record_row_def)
  have get1: "get_action db1 aid = Some row"
    using sync_wm_records_frame [OF sync] row(1) by (simp add: get_action_def)
  let ?row = "row\<lparr>act_status := ActionStatus_value AS_WAITING_APPROVAL, act_updated_at := ae_now env\<rparr>"
  have db': "db' = put_action ?row db1" using st get1 aid by (simp add: set_action_status_def)
  have get: "get_action db' aid = Some ?row" using get_put_action [OF get1, of ?row aid] by (simp add: db')
  have p2: "load_pending_record_row db' aid = None" using p1 by (simp add: db' load_pending_record_row_def)
  have none: "\<exists>e. decide env' aid p c None t db' = (db', Inl e)" for t
    using not_waiting_or_missing [OF p2, of env' p c None t] by (auto simp: decide_def Let_def)
  have "expired_row now (expired_records now db') ?row = ?row"
    using p2 actions_table.get_key [OF row(1)]
    by (auto simp: expired_row_def expired_records_def load_pending_None_iff)
  then have "get_action (snd (scan_expired_approval_records now db')) aid = get_action db' aid"
    using get expire_records_actions [of now "expired_records now db'" "[]" db' aid]
    by (simp add: scan_expired_approval_records_def)
  with get p2 none show ?thesis by (auto simp: approve_def reject_def)
qed

theorem review_of_decided_record_strands_witness:
  "\<exists>a db'. require_manual_review_in_tx example_ap_env ''act-1'' ''again'' 0
       (example_waiting\<lparr>db_actions := [example_rollback\<lparr>act_status := ActionStatus_value AS_APPROVED\<rparr>],
          db_approvals := [example_request\<lparr>ap_decided_at := Some 5\<rparr>]\<rparr>) = Inr (a, db')
     \<and> (\<exists>e. approve example_ap_env ''act-1'' example_operator None None db' = (db', Inl e))"
proof -
  let ?row = "example_rollback\<lparr>act_status := ActionStatus_value AS_APPROVED\<rparr>"
  let ?db = "example_waiting\<lparr>db_actions := [?row],
          db_approvals := [example_request\<lparr>ap_decided_at := Some 5\<rparr>]\<rparr>"
  obtain a where a: "action_from_orm ?row = Inr a" "a_action_category a = AC_ROLLBACK"
      "a_status a = AS_APPROVED" "a_execution_phase a = AP_IMMEDIATE" "a_action_level a = L3"
    using example_rollback_decodes [of AS_APPROVED 0]
    by (auto simp: example_rollback_def example_action_row_def)
  have id: "a_action_id a = ''act-1''"
    using action_from_orm_id [OF a(1)] by (simp add: example_rollback_def example_action_row_def)
  have get: "get_action ?db ''act-1'' = Some ?row"
    by (simp add: get_action_def example_rollback_def example_action_row_def)
  have rc: "load_record_row ?db ''act-1'' 0 = Some (example_request\<lparr>ap_decided_at := Some 5\<rparr>)"
    by (simp add: load_record_row_def scalar_def example_request_def)
  have "\<exists>db'. require_manual_review_in_tx example_ap_env ''act-1'' ''again'' 0 ?db = Inr (a, db')"
    unfolding require_manual_review_in_tx_def get of_opt_def
    using a id rc
    by (simp add: upsert_record_def Let_def sync_wm_records_def example_ap_env_def set_action_status_def
        gate_simps default_action_evidence_def)
  then obtain db' where r: "require_manual_review_in_tx example_ap_env ''act-1'' ''again'' 0 ?db = Inr (a, db')"
    by blast
  have "load_pending_record_row ?db ''act-1'' = None"
    by (simp add: load_pending_record_row_def example_request_def)
  from review_of_decided_record_strands [OF r _ this, of example_ap_env example_operator None 0] rc r
  show ?thesis by auto
qed

end
