(* ===== verification/Audit_Trail.thy ===== *)
theory Audit_Trail
  imports State_Machine_Facts
begin

text \<open>
  The audit log as the history of an event: along every run of the state machine the
  rows added for an event replay its status changes.
\<close>

section \<open>Histories\<close>

definition trail :: "database \<Rightarrow> string \<Rightarrow> audit_row list" where
  "trail db event_id = filter (\<lambda>r. au_event_id r = event_id) (db_audits db)"

text \<open>Rows that lead from one status to another along the transition matrix.\<close>

fun replays :: "string \<Rightarrow> audit_row list \<Rightarrow> string \<Rightarrow> bool" where
  "replays s [] t \<longleftrightarrow> s = t"
| "replays s (r # rs) t \<longleftrightarrow>
     au_from_status r = Some s
     \<and> (\<exists>u v. s = EventStatus_value u \<and> au_to_status r = Some (EventStatus_value v)
          \<and> edge_allowed STATE_TRANSITIONS u v \<and> replays (EventStatus_value v) rs t)"

definition replans :: "audit_row list \<Rightarrow> nat" where
  "replans rs = length (filter (\<lambda>r. au_to_status r = Some (EventStatus_value ES_REPLANNING)) rs)"

lemma replays_snoc:
  "replays s (rs @ [r]) t \<longleftrightarrow>
     (\<exists>u v. replays s rs (EventStatus_value u) \<and> au_from_status r = Some (EventStatus_value u)
        \<and> au_to_status r = Some (EventStatus_value v) \<and> edge_allowed STATE_TRANSITIONS u v
        \<and> t = EventStatus_value v)"
  by (induction rs arbitrary: s) auto

inductive event_step :: "database \<Rightarrow> database \<Rightarrow> bool" where
  moves: "env_audit_log env \<Longrightarrow> transition env caller event target operator why db = (db', res) \<Longrightarrow>
    event_step db db'"
| force_closes: "env_audit_log env \<Longrightarrow> force_close env event p why db = (db', res) \<Longrightarrow>
    event_step db db'"

text \<open>One step for one event: nothing, or one row and one accepted move.\<close>

definition recorded :: "string \<Rightarrow> database \<Rightarrow> database \<Rightarrow> bool" where
  "recorded k db db' \<longleftrightarrow>
     get_event db' k = get_event db k \<and> trail db' k = trail db k
     \<or> (\<exists>e e' s t r. get_event db k = Some e \<and> get_event db' k = Some e' \<and> event_moved s t e e'
          \<and> trail db' k = trail db k @ [r] \<and> au_from_status r = Some (EventStatus_value s)
          \<and> au_to_status r = Some (EventStatus_value t))"

lemma recorded_move:
  assumes "get_event db k = Some e" and "event_moved s t e e'"
    and "audited env k s t (put_event e' db) db'" and "env_audit_log env"
  shows "recorded x db db'"
proof -
  obtain p r where db': "db' = add_audit k (Some (EventStatus_value s)) (Some (EventStatus_value t)) p r
      (env_now env) (put_event e' db)"
    using assms(3,4) by (auto simp: audited_def)
  have id: "se_event_id e' = k"
    using assms(2) events_table.get_key [OF assms(1)] by (simp add: event_moved_def)
  show ?thesis
  proof (cases "x = k")
    case True
    have "get_event db' k = Some e'"
      using events_table.get_put_same [of db e'] assms(1) id by (simp add: db')
    moreover have "\<exists>r. trail db' k = trail db k @ [r] \<and> au_from_status r = Some (EventStatus_value s)
          \<and> au_to_status r = Some (EventStatus_value t)"
      by (simp add: db' trail_def add_audit_def)
    ultimately show ?thesis using assms(1,2) True unfolding recorded_def by blast
  next
    case False
    then have "get_event db' x = get_event db x"
      using events_table.get_put_other [of x e' db] id by (simp add: db')
    moreover have "trail db' x = trail db x" using False by (simp add: db' trail_def add_audit_def)
    ultimately show ?thesis by (simp add: recorded_def)
  qed
qed

lemma reclaim_rel_frames:
  "reclaim_rel db db' \<Longrightarrow> db_events db' = db_events db \<and> db_audits db' = db_audits db"
  unfolding reclaim_rel_def by (cases db; cases db') simp

lemma recorded_after_reclaim:
  assumes "reclaim_rel db db0" and "recorded k db0 db'"
  shows "recorded k db db'"
  using reclaim_rel_frames [OF assms(1)] assms(2)
  by (simp add: recorded_def trail_def get_event_def)

lemma recorded_refl: "recorded k db db"
  by (simp add: recorded_def)

lemma event_step_recorded:
  assumes "event_step db db'"
  shows "recorded k db db'"
  using assms
proof cases
  case (moves env caller event target operator why res)
  have tx: "recorded k db0 db'"
    if "transition_in_tx env caller event target operator why db0 = Inr (e', db')" for db0 e'
    using that
  proof (rule transition_in_txD)
    fix e s
    assume "get_event db0 event = Some e" "event_moved s target e e'"
      "audited env event s target (put_event e' db0) db'"
    then show ?thesis using moves(1) by (rule recorded_move)
  qed
  from transition_cases [OF moves(2)] show ?thesis
  proof (elim disjE exE conjE)
    fix e' db0
    assume "transition_in_tx env caller event target operator why db0 = Inr (e', db')"
      and "if target = ES_CLOSED then reclaim_rel db db0 else db0 = db"
    then show ?thesis
      using tx [of db0 e'] recorded_after_reclaim [of db db0 k db'] by (auto split: if_splits)
  next
    assume "reclaim_rel db db'"
    then show ?thesis by (rule recorded_after_reclaim) (rule recorded_refl)
  qed (simp add: recorded_refl)
next
  case (force_closes env event p why res)
  show ?thesis
  proof (cases "force_close_in_tx env event p why db")
    case (Inl x)
    with force_closes show ?thesis by (simp add: force_close_def recorded_refl)
  next
    case (Inr ed)
    obtain e' d where "ed = (e', d)" by force
    with force_closes Inr have "force_close_in_tx env event p why db = Inr (e', db')"
      by (simp add: force_close_def)
    then show ?thesis
    proof (rule force_close_in_txD)
      fix e s
      assume "get_event db event = Some e" "event_moved s ES_CLOSED e e'"
        "audited env event s ES_CLOSED (put_event e' db) db'"
      then show ?thesis using force_closes(1) by (rule recorded_move)
    qed
  qed
qed

text \<open>The history of an event since \<open>db\<close>.\<close>

definition history :: "database \<Rightarrow> string \<Rightarrow> security_event_row \<Rightarrow> database \<Rightarrow> bool" where
  "history db k e db' \<longleftrightarrow>
     (\<exists>e' rs. get_event db' k = Some e' \<and> trail db' k = trail db k @ rs
        \<and> replays (se_status e) rs (se_status e')
        \<and> se_replan_count e' = se_replan_count e + int (replans rs)
        \<and> (replans rs > 0 \<longrightarrow> se_replan_count e' \<le> MAX_REPLAN_COUNT))"

lemma history_step:
  assumes "history db k e db1" and "recorded k db1 db2"
  shows "history db k e db2"
proof -
  from assms(1) obtain e1 :: security_event_row and rs where e1: "get_event db1 k = Some e1" "trail db1 k = trail db k @ rs"
    "replays (se_status e) rs (se_status e1)"
    "se_replan_count e1 = se_replan_count e + int (replans rs)"
    "replans rs > 0 \<longrightarrow> se_replan_count e1 \<le> MAX_REPLAN_COUNT"
    unfolding history_def by (elim exE conjE) (rule that)
  from assms(2) [unfolded recorded_def] show ?thesis
  proof (elim disjE exE conjE)
    assume "get_event db2 k = get_event db1 k" "trail db2 k = trail db1 k"
    with e1 show ?thesis unfolding history_def by (intro exI [of _ e1] exI [of _ rs]) simp
  next
    fix e1' e2 s t r
    assume g: "get_event db1 k = Some e1'" "get_event db2 k = Some e2" and m: "event_moved s t e1' e2"
      and r: "trail db2 k = trail db1 k @ [r]" "au_from_status r = Some (EventStatus_value s)"
        "au_to_status r = Some (EventStatus_value t)"
    have "e1' = e1" using g(1) e1(1) by simp
    with m have st: "se_status e1 = EventStatus_value s" "se_status e2 = EventStatus_value t"
      "edge_allowed STATE_TRANSITIONS s t"
      "se_replan_count e2 = se_replan_count e1 + (if t = ES_REPLANNING then 1 else 0)"
      "t = ES_REPLANNING \<longrightarrow> se_replan_count e2 \<le> MAX_REPLAN_COUNT"
      unfolding event_moved_def by blast+
    have "replays (se_status e) (rs @ [r]) (se_status e2)"
      using e1(3) st r by (auto simp: replays_snoc)
    moreover have "replans (rs @ [r]) = replans rs + (if t = ES_REPLANNING then 1 else 0)"
      using r(3) by (simp add: replans_def)
    ultimately show ?thesis
      unfolding history_def using e1 st r(1) g(2)
      by (intro exI [of _ e2] exI [of _ "rs @ [r]"]) (auto split: if_splits)
  qed
qed

lemma replays_closed: "replays (EventStatus_value ES_CLOSED) rs t \<Longrightarrow> rs = [] \<and> t = EventStatus_value ES_CLOSED"
  by (cases rs) (auto simp: edge_allowed_def)

text \<open>C23: The audit log is the history of the event. Along every run of logged transitions and
  administrative closes, the rows added for an event replay its status changes edge by edge
  along the transition matrix, from the status it had to the status it has; the replanning
  count grew by the number of rows into \<open>REPLANNING\<close> and never above the limit; and a
  closed event stays closed with no further row.\<close>

theorem audit_log_is_history:
  assumes "event_step\<^sup>*\<^sup>* db db'" and "get_event db k = Some e"
  shows "history db k e db'
    \<and> (se_status e = EventStatus_value ES_CLOSED \<longrightarrow>
         trail db' k = trail db k \<and> map_option se_status (get_event db' k) = Some (se_status e))"
proof -
  have h: "history db k e db'"
    using assms(1)
  proof (induction rule: rtranclp_induct)
    case base
    show ?case unfolding history_def using assms(2)
      by (intro exI [of _ e] exI [of _ "[]"]) (simp add: replans_def)
  next
    case (step db1 db2)
    then show ?case by (blast intro: history_step event_step_recorded)
  qed
  moreover have "trail db' k = trail db k \<and> map_option se_status (get_event db' k) = Some (se_status e)"
    if "se_status e = EventStatus_value ES_CLOSED"
    using h that replays_closed unfolding history_def by fastforce
  ultimately show ?thesis by blast
qed

theorem audit_log_is_history_witness:
  "\<exists>db' e'. transition example_env default_TransitionContext ''evt-1'' ES_CLOSED None None
       example_database = (db', Inr e')
     \<and> history example_database ''evt-1'' example_event db'"
proof -
  obtain db' e' where t: "transition example_env default_TransitionContext ''evt-1'' ES_CLOSED None None
       example_database = (db', Inr e')" using example_close by blast
  have "event_step example_database db'"
    by (rule event_step.moves [OF _ t]) (simp add: example_env_def)
  then have "event_step\<^sup>*\<^sup>* example_database db'" by blast
  moreover have "get_event example_database ''evt-1'' = Some example_event"
    by (simp add: get_event_def example_defs)
  ultimately show ?thesis using audit_log_is_history t by blast
qed

end
