(* ===== verification/Tool_Guards.thy ===== *)
theory Tool_Guards
  imports Workflow Store "HOL-Library.AList"
begin

text \<open>
  The two guards of a tool call: the circuit breaker of one tool
  (\<open>tools/circuit_breaker.py\<close>) and the convergence guard of one event
  (\<open>orchestration/convergence_guard.py\<close>).

  Each method of a breaker runs without an await, so a concurrent history of a breaker is
  a sequence of method calls; clock readings are integers. Of the convergence guard the
  canonical text of the parameters, the digest and the working memory are parameters; the
  diagnostic text of a stop is not modelled.
\<close>

section \<open>Circuit breaker\<close>

datatype CircuitState = CB_CLOSED | CB_OPEN | CB_HALF_OPEN

record CircuitBreaker =
  cb_failure_threshold :: int
  cb_recovery_timeout :: int
  cb_state :: CircuitState
  cb_failure_count :: int
  cb_opened_at :: "int option"
  cb_half_open_probe_in_flight :: bool

definition new_breaker :: "int \<Rightarrow> int \<Rightarrow> CircuitBreaker" where
  "new_breaker failure_threshold recovery_timeout =
     \<lparr> cb_failure_threshold = failure_threshold, cb_recovery_timeout = recovery_timeout,
       cb_state = CB_CLOSED, cb_failure_count = 0, cb_opened_at = None,
       cb_half_open_probe_in_flight = False \<rparr>"

definition allow_request :: "int \<Rightarrow> CircuitBreaker \<Rightarrow> bool \<times> CircuitBreaker" where
  "allow_request now b =
     (case cb_state b of
        CB_CLOSED \<Rightarrow> (True, b)
      | CB_OPEN \<Rightarrow>
          (if (case cb_opened_at b of None \<Rightarrow> False
               | Some opened_at \<Rightarrow> now - opened_at \<ge> cb_recovery_timeout b)
           then (True, b\<lparr>cb_state := CB_HALF_OPEN, cb_half_open_probe_in_flight := False\<rparr>)
           else (False, b))
      | CB_HALF_OPEN \<Rightarrow>
          (if cb_half_open_probe_in_flight b then (False, b)
           else (True, b\<lparr>cb_half_open_probe_in_flight := True\<rparr>)))"

definition record_success :: "CircuitBreaker \<Rightarrow> CircuitBreaker" where
  "record_success b =
     b\<lparr>cb_state := CB_CLOSED, cb_failure_count := 0, cb_opened_at := None,
       cb_half_open_probe_in_flight := False\<rparr>"

definition record_failure :: "int \<Rightarrow> CircuitBreaker \<Rightarrow> CircuitBreaker" where
  "record_failure now b =
     (if cb_state b = CB_HALF_OPEN
      then b\<lparr>cb_state := CB_OPEN, cb_opened_at := Some now, cb_half_open_probe_in_flight := False\<rparr>
      else
        let b1 = b\<lparr>cb_failure_count := cb_failure_count b + 1\<rparr>;
            b2 = (if cb_failure_count b1 \<ge> cb_failure_threshold b
                  then b1\<lparr>cb_state := CB_OPEN, cb_opened_at := Some now\<rparr> else b1)
        in b2\<lparr>cb_half_open_probe_in_flight := False\<rparr>)"

text \<open>\<open>CircuitBreakerRegistry\<close>: one breaker per tool, created on first use.\<close>

record CircuitBreakerRegistry =
  br_failure_threshold :: int
  br_recovery_timeout :: int
  br_breakers :: "string \<rightharpoonup> CircuitBreaker"

definition breaker_get ::
  "string \<Rightarrow> CircuitBreakerRegistry \<Rightarrow> CircuitBreaker \<times> CircuitBreakerRegistry" where
  "breaker_get tool_name reg =
     (case br_breakers reg tool_name of
        Some b \<Rightarrow> (b, reg)
      | None \<Rightarrow>
          let b = new_breaker (br_failure_threshold reg) (br_recovery_timeout reg)
          in (b, reg\<lparr>br_breakers := (br_breakers reg)(tool_name \<mapsto> b)\<rparr>))"

section \<open>Convergence guard\<close>

definition VALID_STEP_TYPES :: "string set" where
  "VALID_STEP_TYPES = {''react_round'', ''replan'', ''agent_retry'', ''tool_call'', ''llm_call''}"

definition RECENT_ACTIONS_MAXLEN :: nat where
  "RECENT_ACTIONS_MAXLEN = 2 * MAX_OSCILLATION + 2"

datatype StopReason =
  SR_GLOBAL_MAX_STEPS | SR_OSCILLATION | SR_DUPLICATE_TOOL_CALLS | SR_MAX_LLM_CALLS | SR_NONE

record ConvergenceState =
  cv_total_steps :: nat
  cv_react_rounds :: nat
  cv_replan_count :: nat
  cv_llm_calls :: nat
  cv_tool_call_signatures :: "(string \<times> nat) list"
  cv_recent_actions :: "string list"

definition new_ConvergenceState :: ConvergenceState where
  "new_ConvergenceState =
     \<lparr> cv_total_steps = 0, cv_react_rounds = 0, cv_replan_count = 0, cv_llm_calls = 0,
       cv_tool_call_signatures = [], cv_recent_actions = [] \<rparr>"

record StopDecision =
  sd_stop :: bool
  sd_reason :: StopReason

type_synonym guard_states = "string \<rightharpoonup> ConvergenceState"

text \<open>What the write of \<open>convergence_state\<close> to the working memory does.\<close>

datatype persist_result = Persisted | Persist_ShadowTraceError | Persist_other_error

record guard_env =
  ge_canonical :: "json \<Rightarrow> string"
  ge_sha256 :: "string \<Rightarrow> string"
  ge_working_memory :: "(string \<Rightarrow> ConvergenceState \<Rightarrow> StopReason \<Rightarrow> persist_result) option"

definition make_tool_call_signature :: "guard_env \<Rightarrow> string \<Rightarrow> json \<Rightarrow> string" where
  "make_tool_call_signature env tool_name params =
     tool_name @ '':'' @ take 16 (ge_sha256 env (ge_canonical env params))"

definition effective_signature ::
  "guard_env \<Rightarrow> string option \<Rightarrow> json option \<Rightarrow> string option \<Rightarrow> string option" where
  "effective_signature env tool_name params signature =
     (case signature of
        Some s \<Rightarrow> Some s
      | None \<Rightarrow>
          (case (tool_name, params) of
             (Some t, Some p) \<Rightarrow> Some (make_tool_call_signature env t p)
           | _ \<Rightarrow> tool_name))"

text \<open>The label of a step in the sliding window.\<close>

definition step_label :: "string \<Rightarrow> string option \<Rightarrow> string" where
  "step_label step_type sig =
     (case sig of
        None \<Rightarrow> step_type
      | Some s \<Rightarrow> if s = [] then step_type else step_type @ '':'' @ s)"

definition get_or_create_state :: "guard_states \<Rightarrow> string \<Rightarrow> ConvergenceState" where
  "get_or_create_state states event_id =
     (case states event_id of None \<Rightarrow> new_ConvergenceState | Some s \<Rightarrow> s)"

definition count_step :: "string \<Rightarrow> string option \<Rightarrow> ConvergenceState \<Rightarrow> ConvergenceState" where
  "count_step step_type sig s =
     (if step_type = ''react_round'' then s\<lparr>cv_react_rounds := cv_react_rounds s + 1\<rparr>
      else if step_type = ''replan'' then s\<lparr>cv_replan_count := cv_replan_count s + 1\<rparr>
      else if step_type = ''tool_call''
      then (case sig of
              None \<Rightarrow> s
            | Some x \<Rightarrow>
                if x = [] then s
                else s\<lparr>cv_tool_call_signatures :=
                         AList.update x
                           (case map_of (cv_tool_call_signatures s) x of None \<Rightarrow> 1 | Some n \<Rightarrow> n + 1)
                           (cv_tool_call_signatures s)\<rparr>)
      else if step_type = ''llm_call'' then s\<lparr>cv_llm_calls := cv_llm_calls s + 1\<rparr>
      else s)"

definition record_step ::
  "guard_env \<Rightarrow> string \<Rightarrow> string \<Rightarrow> string option \<Rightarrow> json option \<Rightarrow> string option \<Rightarrow> guard_states
     \<Rightarrow> guard_states" where
  "record_step env event_id step_type tool_name params signature states =
     (let sig = effective_signature env tool_name params signature;
          s = get_or_create_state states event_id;
          s1 = s\<lparr>cv_total_steps := cv_total_steps s + 1\<rparr>;
          s2 = (if step_type \<in> VALID_STEP_TYPES then count_step step_type sig s1 else s1);
          actions = cv_recent_actions s2 @ [step_label step_type sig];
          s3 = s2\<lparr>cv_recent_actions :=
                  (if length actions > RECENT_ACTIONS_MAXLEN
                   then drop (length actions - RECENT_ACTIONS_MAXLEN) actions else actions)\<rparr>
      in states(event_id \<mapsto> s3))"

definition detect_oscillation :: "string list \<Rightarrow> (string \<times> string) option" where
  "detect_oscillation actions =
     (let window = 2 * MAX_OSCILLATION in
      if length actions < window then None
      else
        let recent = drop (length actions - window) actions; a = recent ! 0; b = recent ! 1
        in if a = b then None
           else if list_all (\<lambda>i. recent ! i = (if i mod 2 = 0 then a else b)) [0..<window]
           then Some (a, b) else None)"

text \<open>The first stop condition that holds, in order of priority.\<close>

definition stop_condition :: "ConvergenceState \<Rightarrow> StopReason option" where
  "stop_condition s =
     (if cv_total_steps s \<ge> GLOBAL_MAX_STEPS then Some SR_GLOBAL_MAX_STEPS
      else if cv_llm_calls s \<ge> MAX_TOTAL_LLM_CALLS then Some SR_MAX_LLM_CALLS
      else if list_ex (\<lambda>(_, count). count > MAX_DUPLICATE_TOOL_CALLS) (cv_tool_call_signatures s)
      then Some SR_DUPLICATE_TOOL_CALLS
      else if detect_oscillation (cv_recent_actions s) \<noteq> None then Some SR_OSCILLATION
      else None)"

definition no_stop :: StopDecision where
  "no_stop = \<lparr> sd_stop = False, sd_reason = SR_NONE \<rparr>"

text \<open>An error of the working memory other than the application's own is caught by \<open>should_stop\<close>.\<close>

definition stop_decision :: "guard_env \<Rightarrow> string \<Rightarrow> ConvergenceState \<Rightarrow> StopReason \<Rightarrow> StopDecision" where
  "stop_decision env event_id s reason =
     (case ge_working_memory env of
        None \<Rightarrow> \<lparr> sd_stop = True, sd_reason = reason \<rparr>
      | Some write \<Rightarrow>
          (case write event_id s reason of
             Persist_other_error \<Rightarrow> no_stop
           | _ \<Rightarrow> \<lparr> sd_stop = True, sd_reason = reason \<rparr>))"

definition should_stop :: "guard_env \<Rightarrow> string \<Rightarrow> guard_states \<Rightarrow> StopDecision" where
  "should_stop env event_id states =
     (case states event_id of
        None \<Rightarrow> no_stop
      | Some s \<Rightarrow>
          (case stop_condition s of None \<Rightarrow> no_stop | Some reason \<Rightarrow> stop_decision env event_id s reason))"

definition guard_get_state :: "guard_states \<Rightarrow> string \<Rightarrow> ConvergenceState" where
  "guard_get_state states event_id =
     (case states event_id of None \<Rightarrow> new_ConvergenceState | Some s \<Rightarrow> s)"

definition guard_reset :: "string \<Rightarrow> guard_states \<Rightarrow> guard_states" where
  "guard_reset event_id states = states(event_id := None)"

end
