(* ===== verification/Error_Taxonomy.thy ===== *)
theory Error_Taxonomy
  imports Errors
begin

text \<open>
  The error taxonomy of \<open>core/errors.py\<close>: categories, the table of error codes, and which
  exceptions may be retried automatically.
\<close>

section \<open>Categories and codes\<close>

datatype ErrorCategory =
  EC_TRANSIENT | EC_PERMANENT | EC_USER_INPUT | EC_SYSTEM | EC_LLM | EC_TOOL | EC_BUDGET
  | EC_GUARDRAIL

definition category_retryable_default :: "ErrorCategory \<Rightarrow> bool" where
  "category_retryable_default category \<longleftrightarrow> category \<in> {EC_TRANSIENT, EC_LLM, EC_TOOL}"

definition NON_AUTO_RETRY_CODES :: "string set" where
  "NON_AUTO_RETRY_CODES =
    {
     ''permission_denied'', ''invalid_operation'', ''version_conflict'',
     ''unknown_delivery'', ''delivery_outcome_unknown'', ''submission_unknown'',
     ''writeback_pending'', ''closed_side_effects_pending'', ''writeback_failed'',
     ''auth_error'', ''validation_error'', ''tool_validation_error'', ''unsupported'',
     ''capacity_limit_exceeded'', ''wrong_execution_channel'', ''llm_invalid_json'',
     ''llm_auth_error'', ''llm_audit_error''}"

definition retryable_for_code :: "string \<Rightarrow> bool \<Rightarrow> bool" where
  "retryable_for_code code category_default \<longleftrightarrow>
     (if code \<in> NON_AUTO_RETRY_CODES then False else category_default)"

definition ERROR_CODE_REGISTRY :: "string \<rightharpoonup> ErrorCategory" where
  "ERROR_CODE_REGISTRY = map_of
    [
     (''event_not_found'', EC_USER_INPUT), (''not_found'', EC_USER_INPUT),
     (''approval_required'', EC_PERMANENT), (''approval_decision_conflict'', EC_PERMANENT),
     (''validation_error'', EC_USER_INPUT), (''unauthorized'', EC_USER_INPUT),
     (''forbidden'', EC_USER_INPUT), (''internal_error'', EC_SYSTEM),
     (''invalid_state_transition'', EC_PERMANENT),
     (''closed_simulated_receipt_rejected'', EC_PERMANENT),
     (''closed_weak_confirmation_evidence'', EC_PERMANENT),
     (''closed_requires_report'', EC_PERMANENT),
     (''invalid_verdict_status_combination'', EC_PERMANENT), (''tool_timeout'', EC_TOOL),
     (''timeout'', EC_TRANSIENT), (''llm_timeout'', EC_LLM), (''llm_auth_error'', EC_LLM),
     (''llm_rate_limited'', EC_LLM), (''llm_invalid_json'', EC_LLM),
     (''llm_provider_error'', EC_LLM), (''llm_audit_error'', EC_LLM),
     (''llm_config_error'', EC_SYSTEM), (''llm_custom_not_probed'', EC_SYSTEM),
     (''budget_exceeded'', EC_BUDGET), (''guardrail_failed'', EC_GUARDRAIL),
     (''guardrail_blocked'', EC_GUARDRAIL), (''guardrail_violation'', EC_GUARDRAIL),
     (''working_memory_unauthorized_write'', EC_GUARDRAIL),
     (''tool_not_found'', EC_USER_INPUT), (''tool_already_registered'', EC_USER_INPUT),
     (''tool_validation_error'', EC_USER_INPUT),
     (''tool_call_grant_denied'', EC_GUARDRAIL),
     (''tool_call_grant_unavailable'', EC_TRANSIENT),
     (''wrong_execution_channel'', EC_PERMANENT), (''auth_error'', EC_TOOL),
     (''rate_limited'', EC_TRANSIENT), (''remote_error'', EC_TRANSIENT),
     (''http_5xx'', EC_TRANSIENT), (''circuit_open'', EC_TRANSIENT),
     (''unsupported'', EC_PERMANENT), (''capacity_limit_exceeded'', EC_TOOL),
     (''correlation_mismatch'', EC_TOOL), (''react_action_denied'', EC_GUARDRAIL),
     (''permission_denied'', EC_PERMANENT), (''invalid_operation'', EC_PERMANENT),
     (''version_conflict'', EC_PERMANENT), (''unknown_delivery'', EC_TRANSIENT),
     (''delivery_outcome_unknown'', EC_TRANSIENT), (''submission_unknown'', EC_TRANSIENT),
     (''lookup_apply_failed'', EC_SYSTEM), (''lookup_claim_invalid'', EC_PERMANENT),
     (''lookup_degraded'', EC_TRANSIENT), (''lookup_inconclusive'', EC_TRANSIENT),
     (''lookup_never_accepted'', EC_TRANSIENT), (''lookup_not_found'', EC_PERMANENT),
     (''lookup_unknown'', EC_TRANSIENT), (''lookup_unsupported'', EC_PERMANENT),
     (''writeback_pending'', EC_PERMANENT),
     (''closed_side_effects_pending'', EC_PERMANENT), (''writeback_failed'', EC_TOOL),
     (''writeback_conflict'', EC_PERMANENT), (''writeback_unsupported'', EC_PERMANENT),
     (''disposition_permission_denied'', EC_USER_INPUT),
     (''investigation_in_progress'', EC_PERMANENT),
     (''investigation_lease_lost'', EC_PERMANENT), (''lease_expired'', EC_TRANSIENT),
     (''storyline_not_ready'', EC_USER_INPUT), (''context_not_ready'', EC_USER_INPUT),
     (''evidence_not_ready'', EC_USER_INPUT), (''feature_disabled'', EC_USER_INPUT),
     (''full_loop_unavailable'', EC_USER_INPUT), (''qa_unavailable'', EC_TRANSIENT),
     (''memory_review_not_found'', EC_USER_INPUT),
     (''memory_review_conflict'', EC_PERMANENT),
     (''memory_governance_bypass_blocked'', EC_USER_INPUT),
     (''classification_conflict_active_investigation'', EC_PERMANENT),
     (''report_quality_incomplete'', EC_USER_INPUT),
     (''report_quality_conflict'', EC_PERMANENT),
     (''output_quality_evaluation_blocked'', EC_PERMANENT),
     (''report_prerequisites_missing'', EC_USER_INPUT),
     (''report_prerequisites_invalid'', EC_USER_INPUT),
     (''report_generation_failed'', EC_LLM), (''dependency_unavailable'', EC_TRANSIENT),
     (''task_unavailable'', EC_TRANSIENT), (''tool_execution_error'', EC_TOOL),
     (''llm_error'', EC_LLM), (''invalid_cursor'', EC_USER_INPUT),
     (''unauthorized_field'', EC_USER_INPUT), (''mock_validation_error'', EC_USER_INPUT),
     (''idempotency_key_reuse'', EC_USER_INPUT), (''disposition_id_reuse'', EC_USER_INPUT),
     (''adapter_not_found'', EC_USER_INPUT), (''adapter_validation_error'', EC_USER_INPUT),
     (''configuration_error'', EC_SYSTEM), (''embedding_provider_error'', EC_SYSTEM),
     (''embedding_compatibility_error'', EC_PERMANENT),
     (''embedding_provider_unavailable'', EC_TRANSIENT),
     (''embedding_prefilter_required'', EC_PERMANENT),
     (''embedding_dimension_mismatch'', EC_PERMANENT),
     (''embedding_release_mismatch'', EC_PERMANENT),
     (''embedding_metric_mismatch'', EC_PERMANENT),
     (''embedding_mode_conflict'', EC_SYSTEM), (''embedding_schema_drift'', EC_PERMANENT),
     (''replan_count_exceeded'', EC_PERMANENT),
     (''writeback_recovery_exhausted'', EC_PERMANENT),
     (''writeback_manual_resolution_required'', EC_PERMANENT),
     (''plan_step_not_executable'', EC_PERMANENT), (''agent_task_denied'', EC_GUARDRAIL),
     (''agent_task_unavailable'', EC_TRANSIENT), (''readback_failed'', EC_TOOL)]"

section \<open>Exceptions\<close>

text \<open>
  \<open>ShadowTraceError\<close> with the class attributes of its subclass: the default code, category
  and retryability.
\<close>

record error_class =
  ec_default_error_code :: string
  ec_default_category :: ErrorCategory
  ec_default_retryable :: "bool option"

record ShadowTraceError =
  ste_error_code :: string
  ste_category :: ErrorCategory
  ste_retryable :: bool

definition new_ShadowTraceError ::
  "error_class \<Rightarrow> string option \<Rightarrow> ErrorCategory option \<Rightarrow> bool option \<Rightarrow> ShadowTraceError" where
  "new_ShadowTraceError cls given_code category retryable =
     (let code = (case given_code of None \<Rightarrow> ec_default_error_code cls
                  | Some c \<Rightarrow> if c = [] then ec_default_error_code cls else c);
          cat = (case category of
                   Some c \<Rightarrow> c
                 | None \<Rightarrow> (case ERROR_CODE_REGISTRY code of
                              Some c \<Rightarrow> c | None \<Rightarrow> ec_default_category cls))
      in \<lparr> ste_error_code = code, ste_category = cat,
           ste_retryable =
             (case retryable of
                Some r \<Rightarrow> r
              | None \<Rightarrow>
                  (case (ec_default_retryable cls, given_code) of
                     (Some d, None) \<Rightarrow> retryable_for_code code d
                   | _ \<Rightarrow> retryable_for_code code (category_retryable_default cat))) \<rparr>)"

text \<open>
  An exception as the handlers distinguish it. \<open>Exc_coded\<close> is an exception of another
  hierarchy with an \<open>error_code\<close> attribute, its flag telling a \<open>ConnectionError\<close>;
  \<open>Exc_base\<close> is one that is not an \<open>Exception\<close>, such as a cancellation.
\<close>

datatype py_exc =
  Exc_shadow ShadowTraceError
  | Exc_budget_exceeded ShadowTraceError
  | Exc_wrong_execution_channel
  | Exc_soft_time_limit
  | Exc_timeout
  | Exc_connection
  | Exc_coded string bool
  | Exc_other
  | Exc_base

definition classify_exception :: "py_exc \<Rightarrow> ErrorCategory" where
  "classify_exception exc =
     (case exc of
        Exc_shadow e \<Rightarrow> ste_category e
      | Exc_budget_exceeded e \<Rightarrow> ste_category e
      | Exc_wrong_execution_channel \<Rightarrow> the (ERROR_CODE_REGISTRY ''wrong_execution_channel'')
      | Exc_coded code connection \<Rightarrow>
          (case ERROR_CODE_REGISTRY code of
             Some c \<Rightarrow> c
           | None \<Rightarrow> if connection then EC_TRANSIENT else EC_SYSTEM)
      | Exc_timeout \<Rightarrow> EC_TRANSIENT
      | Exc_connection \<Rightarrow> EC_TRANSIENT
      | _ \<Rightarrow> EC_SYSTEM)"

definition is_retryable :: "py_exc \<Rightarrow> bool" where
  "is_retryable exc \<longleftrightarrow>
     (case exc of
        Exc_shadow e \<Rightarrow> ste_retryable e
      | Exc_budget_exceeded e \<Rightarrow> ste_retryable e
      | Exc_wrong_execution_channel \<Rightarrow>
          retryable_for_code ''wrong_execution_channel''
            (category_retryable_default (classify_exception exc))
      | Exc_coded code _ \<Rightarrow>
          retryable_for_code code
            (category_retryable_default
               (case ERROR_CODE_REGISTRY code of Some c \<Rightarrow> c | None \<Rightarrow> classify_exception exc))
      | _ \<Rightarrow> category_retryable_default (classify_exception exc))"

text \<open>An error built without an explicit choice never auto-retries on a listed code.\<close>

lemma listed_codes_not_retried:
  "ste_error_code (new_ShadowTraceError cls code category None) \<in> NON_AUTO_RETRY_CODES \<Longrightarrow>
     \<not> ste_retryable (new_ShadowTraceError cls code category None)"
  by (auto simp: new_ShadowTraceError_def Let_def retryable_for_code_def
      split: option.splits if_splits)

end
