(* ===== verification/Tool_Executor.thy ===== *)
theory Tool_Executor
  imports Tool_Model Tool_Guards Error_Taxonomy Context_Store
begin

text \<open>
  The tool registry (\<open>tools/registry.py\<close>), the two job stores and the tool executor
  (\<open>tools/executor.py\<close>): validation of a call, the guarded retry loop, the classification
  of its outcome and the write-back of the execution job.

  The JSON-schema checks, the pydantic decoders, the provider behind a tool, the budget
  service and the clock are parameters. What other tasks do to the shared state while a
  call awaits is a parameter as well, so that a statement about a call holds under every
  interleaving. The call log and the event bus, whose failures are swallowed and which the
  executor never reads, are left out.
\<close>

section \<open>Registry\<close>

record RegisteredTool =
  rt_tool_meta :: ToolMeta
  rt_has_impl :: bool
  rt_bindings :: "ProviderToolBinding list"
  rt_call_count :: nat
  rt_error_count :: nat
  rt_healthy :: bool
  rt_submission_ready :: bool

type_synonym tool_registry = "string \<rightharpoonup> RegisteredTool"

type_synonym 'a exc_res = "py_exc + 'a"

abbreviation bind_exc :: "'a exc_res \<Rightarrow> ('a \<Rightarrow> 'b exc_res) \<Rightarrow> 'b exc_res" where
  "bind_exc r f \<equiv> (case r of Inl e \<Rightarrow> Inl e | Inr x \<Rightarrow> f x)"

abbreviation require :: "bool \<Rightarrow> py_exc \<Rightarrow> unit exc_res" where
  "require b e \<equiv> (if b then Inr () else Inl e)"

definition ToolAlreadyRegisteredError :: py_exc where
  "ToolAlreadyRegisteredError = Exc_shadow (new_ShadowTraceError
     \<lparr> ec_default_error_code = ''tool_already_registered'', ec_default_category = EC_USER_INPUT,
       ec_default_retryable = Some False \<rparr> None None None)"

definition ToolNotFoundError :: py_exc where
  "ToolNotFoundError = Exc_shadow (new_ShadowTraceError
     \<lparr> ec_default_error_code = ''tool_not_found'', ec_default_category = EC_USER_INPUT,
       ec_default_retryable = Some False \<rparr> None None None)"

definition ToolValidationError :: py_exc where
  "ToolValidationError = Exc_shadow (new_ShadowTraceError
     \<lparr> ec_default_error_code = ''tool_validation_error'', ec_default_category = EC_USER_INPUT,
       ec_default_retryable = Some False \<rparr> None None None)"

text \<open>A candidate implementation: whether it is an async callable and the metadata declared on it.\<close>

record tool_impl =
  ti_async_callable :: bool
  ti_declared_meta :: "ToolMeta option"

definition get_tool :: "tool_registry \<Rightarrow> string \<Rightarrow> RegisteredTool exc_res" where
  "get_tool reg tool_name =
     (case reg tool_name of None \<Rightarrow> Inl ToolNotFoundError | Some t \<Rightarrow> Inr t)"

definition register ::
  "(ToolMeta \<Rightarrow> bool) \<Rightarrow> ToolMeta \<Rightarrow> tool_impl option \<Rightarrow> tool_registry \<Rightarrow> tool_registry exc_res" where
  "register schemas_ok meta impl reg =
     (let is_virtual = (tm_routing_kind meta = DISPOSITION_ONLY \<or> \<not> tm_executable meta) in
      bind_exc (require (reg (tm_tool_name meta) = None) ToolAlreadyRegisteredError) (\<lambda>_.
      bind_exc (require (\<not> (is_virtual \<and> impl \<noteq> None)) ToolValidationError) (\<lambda>_.
      bind_exc (require (\<not> (\<not> is_virtual \<and> impl = None)) ToolValidationError) (\<lambda>_.
      bind_exc (case impl of
                  None \<Rightarrow> Inr ()
                | Some i \<Rightarrow>
                    bind_exc (require (ti_async_callable i) ToolValidationError) (\<lambda>_.
                    require (case ti_declared_meta i of None \<Rightarrow> True | Some d \<Rightarrow> d = meta)
                      ToolValidationError)) (\<lambda>_.
      bind_exc (require (schemas_ok meta) ToolValidationError) (\<lambda>_.
      Inr (reg(tm_tool_name meta \<mapsto>
             \<lparr> rt_tool_meta = meta, rt_has_impl = (impl \<noteq> None), rt_bindings = [],
               rt_call_count = 0, rt_error_count = 0, rt_healthy = True,
               rt_submission_ready = True \<rparr>))))))))"

definition binding_route_allowed :: "ToolMeta \<Rightarrow> ProviderToolBinding \<Rightarrow> bool" where
  "binding_route_allowed meta b \<longleftrightarrow>
     (if tm_routing_kind meta = TOOL_PROVIDER_ONLY
      then pt_execution_owner b = EO_DIRECT_TOOL \<and> pt_execution_channel b = TOOL_PROVIDER
      else pt_execution_owner b \<in> set (tm_supported_execution_owners meta))"

definition register_binding ::
  "ProviderToolBinding \<Rightarrow> tool_registry \<Rightarrow> tool_registry exc_res" where
  "register_binding b reg =
     bind_exc (get_tool reg (pt_tool_name b)) (\<lambda>t.
     bind_exc (require (binding_route_allowed (rt_tool_meta t) b) ToolValidationError) (\<lambda>_.
     bind_exc (require (\<not> list_ex (\<lambda>x. pt_execution_owner x = pt_execution_owner b) (rt_bindings t))
                 ToolAlreadyRegisteredError) (\<lambda>_.
     Inr (reg(pt_tool_name b \<mapsto> t\<lparr>rt_bindings := rt_bindings t @ [b]\<rparr>)))))"

definition resolve_binding ::
  "tool_registry \<Rightarrow> string \<Rightarrow> ExecutionOwner \<Rightarrow> string list \<Rightarrow> ProviderToolBinding exc_res" where
  "resolve_binding reg tool_name owner required_capabilities =
     bind_exc (get_tool reg tool_name) (\<lambda>t.
     let required = set (tm_required_capabilities (rt_tool_meta t)) \<union> set required_capabilities in
     (case List.find (\<lambda>b. pt_execution_owner b = owner \<and> required \<subseteq> set (pt_capabilities b))
             (rt_bindings t) of
        None \<Rightarrow> Inl ToolNotFoundError
      | Some b \<Rightarrow> Inr b))"

definition unregister :: "string \<Rightarrow> tool_registry \<Rightarrow> tool_registry exc_res" where
  "unregister tool_name reg = bind_exc (get_tool reg tool_name) (\<lambda>_. Inr (reg(tool_name := None)))"

section \<open>Results and jobs\<close>

record ToolResult =
  tr_call_id :: string
  tr_tool_name :: string
  tr_provider_name :: string
  tr_status :: ToolResultStatus
  tr_job_id :: "string option"
  tr_provider_job_id :: "string option"
  tr_data :: json
  tr_target_results :: "json list"
  tr_provider_code :: "string option"
  tr_provider_message :: "string option"
  tr_raw_result :: json
  tr_error_detail :: "string option"
  tr_execution_time_ms :: "int option"

record ActionExecutionJob =
  ej_job_id :: string
  ej_event_id :: string
  ej_action_id :: string
  ej_provider_name :: string
  ej_provider_job_id :: "string option"
  ej_status :: ExecutionJobStatus
  ej_target_results :: "json list"
  ej_provider_code :: "string option"
  ej_provider_message :: "string option"
  ej_raw_result :: json

type_synonym job_table = "string \<rightharpoonup> ActionExecutionJob"

definition InvalidTransition :: py_exc where
  "InvalidTransition = Exc_shadow (new_ShadowTraceError
     \<lparr> ec_default_error_code = ''invalid_state_transition'', ec_default_category = EC_PERMANENT,
       ec_default_retryable = Some False \<rparr> None None None)"

text \<open>\<open>InMemoryExecutionJobStore.cas_update_job\<close>.\<close>

definition memory_cas_update_job ::
  "string \<Rightarrow> ActionExecutionJob \<Rightarrow> ExecutionJobStatus \<Rightarrow> job_table \<Rightarrow> (bool \<times> job_table) exc_res"
where
  "memory_cas_update_job job_id updated expected_status jobs =
     (case jobs job_id of
        None \<Rightarrow> Inr (False, jobs)
      | Some current \<Rightarrow>
          if ej_status current \<noteq> expected_status then Inr (False, jobs)
          else if ej_status current = ej_status updated then Inr (True, jobs(job_id \<mapsto> updated))
          else
            (case validate_job_status_transition
                    \<lparr> ev_provider_confirmed_terminal = False, ev_job_lease_expired_reclaim = False \<rparr>
                    (ej_status current) (ej_status updated) of
               Inl _ \<Rightarrow> Inl InvalidTransition
             | Inr _ \<Rightarrow> Inr (True, jobs(job_id \<mapsto> updated))))"

text \<open>
  \<open>DbExecutionJobStore.cas_update_job\<close> on the row of the job; \<open>synced\<close> is the answer of the
  target-result synchronisation.
\<close>

definition db_cas_update_job ::
  "bool \<Rightarrow> string \<Rightarrow> ActionExecutionJob \<Rightarrow> ExecutionJobStatus \<Rightarrow> job_table
     \<Rightarrow> (bool \<times> job_table) exc_res" where
  "db_cas_update_job synced job_id updated expected_status jobs =
     (case jobs job_id of
        None \<Rightarrow> Inr (False, jobs)
      | Some row \<Rightarrow>
          if ej_status row \<noteq> expected_status then Inr (False, jobs)
          else if ej_target_results updated \<noteq> [] \<and> \<not> synced then Inr (False, jobs)
          else Inr (True, jobs(job_id \<mapsto>
                 row\<lparr>ej_status := ej_status updated, ej_provider_name := ej_provider_name updated,
                     ej_provider_job_id := ej_provider_job_id updated,
                     ej_target_results := (if ej_target_results updated = []
                                           then ej_target_results row else ej_target_results updated),
                     ej_provider_code := ej_provider_code updated,
                     ej_provider_message := ej_provider_message updated,
                     ej_raw_result := ej_raw_result updated\<rparr>)))"

section \<open>The executor\<close>

datatype CallNature = CN_QUERY | CN_VERIFICATION | CN_SIDE_EFFECT | CN_VIRTUAL

definition derive_call_nature :: "ToolMeta \<Rightarrow> CallNature" where
  "derive_call_nature meta =
     (if tm_routing_kind meta = DISPOSITION_ONLY \<or> \<not> tm_executable meta then CN_VIRTUAL
      else if tm_tool_category meta = TC_QUERY then CN_QUERY
      else if tm_tool_category meta = TC_VERIFICATION then CN_VERIFICATION
      else CN_SIDE_EFFECT)"

text \<open>What an awaited provider call does.\<close>

datatype provider_answer = Returns json | Raises py_exc | Times_out

datatype job_store = InMemoryExecutionJobStore | DbExecutionJobStore bool

text \<open>
  The shared state: the tools, the breakers, the guard, the jobs, and every provider
  invocation made so far with the id of the call that made it.
\<close>

record exec_state =
  xs_tools :: tool_registry
  xs_breakers :: CircuitBreakerRegistry
  xs_guard :: guard_states
  xs_jobs :: job_table
  xs_invocations :: "(string \<times> string \<times> json) list"

record call_request =
  rq_tool_name :: string
  rq_params :: json
  rq_event_id :: string
  rq_action_id :: "string option"
  rq_execution_job_id :: "string option"
  rq_idempotency_key :: "string option"
  rq_execution_owner :: "ExecutionOwner option"
  rq_max_retries :: nat

record exec_env =
  xe_call_id :: string
  xe_validate_input :: "string \<Rightarrow> json \<Rightarrow> bool"
  xe_validate_output :: "string \<Rightarrow> json \<Rightarrow> bool"
  xe_decode_result :: "json \<Rightarrow> ToolResult option"
  xe_decode_job :: "json \<Rightarrow> ActionExecutionJob option"
  xe_guard_env :: "guard_env option"
  xe_budget_check :: "py_exc option"
  xe_budget_charge :: "nat \<Rightarrow> py_exc option"
  xe_store :: "job_store option"
  xe_provider :: "nat \<Rightarrow> provider_answer"
  xe_ask_time :: "nat \<Rightarrow> int"
  xe_record_time :: "nat \<Rightarrow> int"
  xe_elapsed_ms :: "nat \<Rightarrow> int"
  xe_others_waiting :: "nat \<Rightarrow> exec_state \<Rightarrow> exec_state"
  xe_others_dispatching :: "nat \<Rightarrow> exec_state \<Rightarrow> exec_state"

definition update_breaker ::
  "string \<Rightarrow> (CircuitBreaker \<Rightarrow> CircuitBreaker) \<Rightarrow> exec_state \<Rightarrow> exec_state" where
  "update_breaker tool_name f st =
     (let (b, reg) = breaker_get tool_name (xs_breakers st)
      in st\<lparr>xs_breakers := reg\<lparr>br_breakers := (br_breakers reg)(tool_name \<mapsto> f b)\<rparr>\<rparr>)"

definition ask_breaker :: "int \<Rightarrow> string \<Rightarrow> exec_state \<Rightarrow> bool \<times> exec_state" where
  "ask_breaker now tool_name st =
     (let ok = fst (allow_request now (fst (breaker_get tool_name (xs_breakers st))))
      in (ok, update_breaker tool_name (\<lambda>b. snd (allow_request now b)) st))"

text \<open>A string argument that is present and not empty.\<close>

definition given :: "string option \<Rightarrow> bool" where
  "given x \<longleftrightarrow> (case x of None \<Rightarrow> False | Some s \<Rightarrow> s \<noteq> [])"

definition validate_side_effect_envelope :: "call_request \<Rightarrow> unit exc_res" where
  "validate_side_effect_envelope rq =
     require (given (rq_action_id rq) \<and> given (rq_execution_job_id rq)
              \<and> given (rq_idempotency_key rq) \<and> rq_execution_owner rq \<noteq> None) ToolValidationError"

definition assert_precreated_job ::
  "exec_env \<Rightarrow> string \<Rightarrow> string \<Rightarrow> string \<Rightarrow> exec_state \<Rightarrow> unit exc_res" where
  "assert_precreated_job env execution_job_id event_id action_id st =
     (case xe_store env of
        None \<Rightarrow> Inr ()
      | Some _ \<Rightarrow>
          (case xs_jobs st execution_job_id of
             None \<Rightarrow> Inl ToolValidationError
           | Some job \<Rightarrow> require (ej_event_id job = event_id \<and> ej_action_id job = action_id)
                           ToolValidationError))"

text \<open>\<open>RegisteredTool.execute\<close> under the timeout of the call.\<close>

definition dispatch ::
  "exec_env \<Rightarrow> RegisteredTool \<Rightarrow> call_request \<Rightarrow> nat \<Rightarrow> exec_state \<Rightarrow> exec_state \<times> json exc_res" where
  "dispatch env t rq n st =
     (if \<not> tool_provider_executable (rt_tool_meta t) \<or> \<not> rt_has_impl t
      then (st, Inl Exc_wrong_execution_channel)
      else
        let name = rq_tool_name rq;
            stats = (\<lambda>f s. s\<lparr>xs_tools := (xs_tools s)(name := map_option f (xs_tools s name))\<rparr>);
            st1 = stats (\<lambda>t. t\<lparr>rt_call_count := rt_call_count t + 1\<rparr>)
                    (st\<lparr>xs_invocations := xs_invocations st
                          @ [(xe_call_id env, name, rq_params rq)]\<rparr>);
            st2 = xe_others_dispatching env n st1
        in (case xe_provider env n of
              Returns raw \<Rightarrow> (stats (\<lambda>t. t\<lparr>rt_healthy := True\<rparr>) st2, Inr raw)
            | Raises e \<Rightarrow>
                (if e = Exc_base then st2
                 else stats (\<lambda>t. t\<lparr>rt_error_count := rt_error_count t + 1, rt_healthy := False\<rparr>) st2,
                 Inl e)
            | Times_out \<Rightarrow> (st2, Inl Exc_timeout)))"

subsection \<open>Coercion of a provider answer\<close>

definition setdefault :: "string \<Rightarrow> json \<Rightarrow> (string \<times> json) list \<Rightarrow> (string \<times> json) list" where
  "setdefault key value kvs = (if map_of kvs key = None then kvs @ [(key, value)] else kvs)"

definition MOCK_PROVIDERS :: "string set" where
  "MOCK_PROVIDERS = {''mock_tool_provider'', ''mock_xdr''}"

text \<open>\<open>{**(payload.get(key) or {}), "simulated": True}\<close>: \<open>None\<close> when the value is no mapping.\<close>

definition simulated_raw :: "(string \<times> json) list \<Rightarrow> (string \<times> json) list option" where
  "simulated_raw kvs =
     (let mark = (\<lambda>old. AList.update ''raw_result''
                   (JObj (AList.update ''simulated'' (JBool True) old)) kvs)
      in (case map_of kvs ''raw_result'' of
            None \<Rightarrow> Some (mark [])
          | Some (JObj old) \<Rightarrow> Some (mark old)
          | Some v \<Rightarrow> if json_truthy v then None else Some (mark [])))"

definition simulated_payload :: "(string \<times> json) list \<Rightarrow> (string \<times> json) list option" where
  "simulated_payload kvs =
     simulated_raw
       (case map_of kvs ''data'' of
          Some (JObj d) \<Rightarrow> AList.update ''data'' (JObj (AList.update ''simulated'' (JBool True) d)) kvs
        | _ \<Rightarrow> kvs)"

definition result_of_job ::
  "string \<Rightarrow> string \<Rightarrow> string option \<Rightarrow> int \<Rightarrow> ActionExecutionJob \<Rightarrow> ToolResult" where
  "result_of_job call_id tool_name forced_provider ms job =
     \<lparr> tr_call_id = call_id, tr_tool_name = tool_name,
       tr_provider_name = (case forced_provider of Some p \<Rightarrow> p | None \<Rightarrow> ej_provider_name job),
       tr_status = (case ej_status job of
                      JS_SUCCESS \<Rightarrow> TR_SUCCESS | JS_PARTIAL_SUCCESS \<Rightarrow> TR_PARTIAL_SUCCESS
                    | JS_FAILED \<Rightarrow> TR_FAILED | JS_UNKNOWN \<Rightarrow> TR_UNKNOWN
                    | JS_TIMED_OUT \<Rightarrow> TR_TIMEOUT | _ \<Rightarrow> TR_ACCEPTED),
       tr_job_id = Some (ej_job_id job), tr_provider_job_id = ej_provider_job_id job,
       tr_data = JObj [], tr_target_results = ej_target_results job,
       tr_provider_code = ej_provider_code job, tr_provider_message = ej_provider_message job,
       tr_raw_result = ej_raw_result job, tr_error_detail = None, tr_execution_time_ms = Some ms \<rparr>"

definition coerce_tool_result ::
  "exec_env \<Rightarrow> json \<Rightarrow> string \<Rightarrow> string \<Rightarrow> int \<Rightarrow> bool \<Rightarrow> ToolResult exc_res" where
  "coerce_tool_result env raw tool_name provider_name ms force_provider_name =
     (case raw of
        JObj kvs \<Rightarrow>
          (let payload = setdefault ''tool_name'' (JStr tool_name)
                           (setdefault ''call_id'' (JStr (xe_call_id env)) kvs);
               forced = AList.update ''provider_name'' (JStr provider_name);
               payload = (if force_provider_name
                          then (if provider_name \<in> MOCK_PROVIDERS
                                then simulated_payload (forced payload) else Some (forced payload))
                          else Some (setdefault ''provider_name'' (JStr provider_name) payload))
           in (case payload of
                 None \<Rightarrow> Inl Exc_other
               | Some payload \<Rightarrow>
                   (case xe_decode_result env (JObj (setdefault ''execution_time_ms'' (JNum ms) payload)) of
                      Some r \<Rightarrow> Inr r
                    | None \<Rightarrow>
                        (let job_payload =
                               (if force_provider_name
                                then (if provider_name \<in> MOCK_PROVIDERS
                                      then simulated_raw (forced kvs) else Some (forced kvs))
                                else Some kvs)
                         in (case job_payload of
                               None \<Rightarrow> Inl Exc_other
                             | Some kvs' \<Rightarrow>
                                 (case xe_decode_job env (JObj kvs') of
                                    None \<Rightarrow> Inl Exc_other
                                  | Some job \<Rightarrow>
                                      Inr (result_of_job (xe_call_id env) tool_name
                                             (if force_provider_name then Some provider_name
                                              else None) ms job)))))))
      | _ \<Rightarrow> Inl Exc_other)"

subsection \<open>One attempt\<close>

definition job_status_of_result :: "ToolResultStatus \<Rightarrow> ExecutionJobStatus \<Rightarrow> ExecutionJobStatus" where
  "job_status_of_result status current =
     (case status of
        TR_ACCEPTED \<Rightarrow> JS_QUEUED
      | TR_SUCCESS \<Rightarrow> JS_SUCCESS
      | TR_PARTIAL_SUCCESS \<Rightarrow> JS_PARTIAL_SUCCESS
      | TR_UNKNOWN \<Rightarrow> JS_UNKNOWN
      | TR_TIMEOUT \<Rightarrow> JS_TIMED_OUT
      | TR_FAILED \<Rightarrow> JS_FAILED
      | _ \<Rightarrow> current)"

definition cas_writeback_job ::
  "exec_env \<Rightarrow> string \<Rightarrow> ToolResult \<Rightarrow> string \<Rightarrow> exec_state \<Rightarrow> exec_state exc_res" where
  "cas_writeback_job env execution_job_id result provider_name st =
     (case xe_store env of
        None \<Rightarrow> Inr st
      | Some store \<Rightarrow>
          (case xs_jobs st execution_job_id of
             None \<Rightarrow> Inr st
           | Some current \<Rightarrow>
               (let updated = current\<lparr>
                      ej_provider_name := provider_name,
                      ej_provider_job_id :=
                        (if given (tr_provider_job_id result) then tr_provider_job_id result
                         else ej_provider_job_id current),
                      ej_target_results :=
                        (if tr_target_results result \<noteq> [] then tr_target_results result
                         else ej_target_results current),
                      ej_provider_code := tr_provider_code result,
                      ej_provider_message := tr_provider_message result,
                      ej_raw_result :=
                        (if json_truthy (tr_raw_result result) then tr_raw_result result
                         else ej_raw_result current),
                      ej_status := job_status_of_result (tr_status result) (ej_status current)\<rparr>;
                    cas = (case store of
                             InMemoryExecutionJobStore \<Rightarrow> memory_cas_update_job
                           | DbExecutionJobStore synced \<Rightarrow> db_cas_update_job synced)
                in bind_exc (cas execution_job_id updated (ej_status current) (xs_jobs st))
                     (\<lambda>(_, jobs). Inr (st\<lparr>xs_jobs := jobs\<rparr>)))))"

definition ACCEPTED_STATUSES :: "ToolResultStatus set" where
  "ACCEPTED_STATUSES = {TR_SUCCESS, TR_PARTIAL_SUCCESS, TR_ACCEPTED}"

definition FAILURE_STATUSES :: "ToolResultStatus set" where
  "FAILURE_STATUSES = {TR_FAILED, TR_REMOTE_ERROR, TR_RATE_LIMITED, TR_AUTH_ERROR, TR_VALIDATION_ERROR}"

definition report_to_breaker :: "int \<Rightarrow> string \<Rightarrow> ToolResultStatus \<Rightarrow> exec_state \<Rightarrow> exec_state" where
  "report_to_breaker now tool_name status st =
     (if status \<in> ACCEPTED_STATUSES then update_breaker tool_name record_success st
      else if status \<in> FAILURE_STATUSES then update_breaker tool_name (record_failure now) st
      else st)"

text \<open>The body of the \<open>try\<close>: the result, or the exception that reaches the handlers.\<close>

definition attempt_call ::
  "exec_env \<Rightarrow> RegisteredTool \<Rightarrow> call_request \<Rightarrow> CallNature \<Rightarrow> string \<Rightarrow> nat \<Rightarrow> exec_state
     \<Rightarrow> exec_state \<times> ToolResult exc_res" where
  "attempt_call env t rq nature provider n st =
     (case dispatch env t rq n st of
        (st1, Inl e) \<Rightarrow> (st1, Inl e)
      | (st1, Inr raw) \<Rightarrow>
          (let accepted = (case xe_decode_result env raw of
                             None \<Rightarrow> True | Some r \<Rightarrow> tr_status r \<in> ACCEPTED_STATUSES)
           in if accepted \<and> \<not> xe_validate_output env (rq_tool_name rq) raw
              then (st1, Inl ToolValidationError)
              else (case coerce_tool_result env raw (rq_tool_name rq) provider (xe_elapsed_ms env n)
                           (nature = CN_SIDE_EFFECT) of
                Inl e \<Rightarrow> (st1, Inl e)
              | Inr result \<Rightarrow>
                  (let st2 = report_to_breaker (xe_record_time env n) (rq_tool_name rq)
                               (tr_status result) st1
                   in (case (if nature = CN_SIDE_EFFECT \<and> tr_job_id result \<noteq> None
                             then (case rq_execution_job_id rq of
                                     None \<Rightarrow> Inr st2
                                   | Some k \<Rightarrow> cas_writeback_job env k result provider st2)
                             else Inr st2) of
                         Inl e \<Rightarrow> (st2, Inl e)
                       | Inr st3 \<Rightarrow>
                           (case (if tr_status result \<in> ACCEPTED_STATUSES
                                  then xe_budget_charge env n else None) of
                              Some e \<Rightarrow> (st3, Inl e)
                            | None \<Rightarrow> (st3, Inr result)))))))"

definition should_retry :: "CallNature \<Rightarrow> ToolMeta \<Rightarrow> py_exc \<Rightarrow> nat \<Rightarrow> nat \<Rightarrow> bool \<Rightarrow> bool" where
  "should_retry nature meta exc n max_retries side_effect_dispatched \<longleftrightarrow>
     (if n \<ge> max_retries then False
      else if nature = CN_SIDE_EFFECT
      then (if side_effect_dispatched then False
            else if \<not> tm_idempotency meta then False
            else exc = Exc_timeout \<and> tm_idempotency meta)
      else is_retryable exc)"

definition failure_result ::
  "exec_env \<Rightarrow> string \<Rightarrow> string \<Rightarrow> ToolResultStatus \<Rightarrow> string \<Rightarrow> int option \<Rightarrow> ToolResult" where
  "failure_result env tool_name provider status detail ms =
     \<lparr> tr_call_id = xe_call_id env, tr_tool_name = tool_name, tr_provider_name = provider,
       tr_status = status, tr_job_id = None, tr_provider_job_id = None, tr_data = JObj [],
       tr_target_results = [], tr_provider_code = None, tr_provider_message = None,
       tr_raw_result = JObj [], tr_error_detail = Some detail, tr_execution_time_ms = ms \<rparr>"

text \<open>The exceptions no handler turns into a result.\<close>

definition propagates :: "py_exc \<Rightarrow> bool" where
  "propagates exc \<longleftrightarrow>
     (case exc of
        Exc_wrong_execution_channel \<Rightarrow> True
      | Exc_budget_exceeded _ \<Rightarrow> True
      | Exc_soft_time_limit \<Rightarrow> True
      | Exc_base \<Rightarrow> True
      | _ \<Rightarrow> False)"

text \<open>The text of an exception in the result is not modelled beyond the timeout's own.\<close>

definition exception_result ::
  "exec_env \<Rightarrow> call_request \<Rightarrow> CallNature \<Rightarrow> string \<Rightarrow> nat \<Rightarrow> py_exc \<Rightarrow> ToolResult" where
  "exception_result env rq nature provider n exc =
     failure_result env (rq_tool_name rq) provider
       (if nature = CN_SIDE_EFFECT then TR_UNKNOWN
        else if exc = Exc_timeout then TR_TIMEOUT else TR_FAILED)
       (if exc = Exc_timeout then ''tool execution timed out'' else ''tool execution failed'')
       (Some (xe_elapsed_ms env n))"

subsection \<open>The retry loop\<close>

function call_loop ::
  "exec_env \<Rightarrow> RegisteredTool \<Rightarrow> call_request \<Rightarrow> CallNature \<Rightarrow> string \<Rightarrow> nat \<Rightarrow> exec_state
     \<Rightarrow> exec_state \<times> ToolResult exc_res" where
  "call_loop env t rq nature provider n st0 =
     (let name = rq_tool_name rq; event_id = rq_event_id rq in
      if (case xe_guard_env env of
            None \<Rightarrow> False
          | Some g \<Rightarrow> sd_stop (should_stop g event_id (xs_guard st0)))
      then (st0, Inr (failure_result env name provider TR_FAILED
                        ''convergence guard stopped execution'' (Some (xe_elapsed_ms env n))))
      else
        let st1 = xe_others_waiting env n st0;
            st2 = (case xe_guard_env env of
                     None \<Rightarrow> st1
                   | Some g \<Rightarrow> st1\<lparr>xs_guard := record_step g event_id ''tool_call'' (Some name)
                                      (Some (rq_params rq)) None (xs_guard st1)\<rparr>)
        in (case ask_breaker (xe_ask_time env n) name st2 of
              (False, st3) \<Rightarrow>
                (st3, Inr ((failure_result env name provider TR_CIRCUIT_OPEN
                              ''circuit breaker is open'' None)))
            | (True, st3) \<Rightarrow>
                (case attempt_call env t rq nature provider n st3 of
                   (st4, Inr result) \<Rightarrow> (st4, Inr result)
                 | (st4, Inl exc) \<Rightarrow>
                     if propagates exc then (st4, Inl exc)
                     else
                       let st5 = update_breaker name (record_failure (xe_record_time env n)) st4
                       in if should_retry nature (rt_tool_meta t) exc n (rq_max_retries rq) True
                          then call_loop env t rq nature provider (n + 1) st5
                          else (st5, Inr (exception_result env rq nature provider n exc)))))"
  by pat_completeness auto
termination
  by (relation "measure (\<lambda>(_, _, rq, _, _, n, _). rq_max_retries rq - n)")
     (auto simp: should_retry_def split: if_splits)

declare call_loop.simps [simp del]

text \<open>The checks of a side-effect call before it may be sent: the name of its provider.\<close>

definition admit_side_effect :: "exec_env \<Rightarrow> call_request \<Rightarrow> exec_state \<Rightarrow> string exc_res" where
  "admit_side_effect env rq st =
     bind_exc (validate_side_effect_envelope rq) (\<lambda>_.
     bind_exc (resolve_binding (xs_tools st) (rq_tool_name rq) (the (rq_execution_owner rq)) []) (\<lambda>b.
     bind_exc (require (pt_execution_channel b = TOOL_PROVIDER) Exc_wrong_execution_channel) (\<lambda>_.
     bind_exc (assert_precreated_job env (the (rq_execution_job_id rq)) (rq_event_id rq)
                 (the (rq_action_id rq)) st) (\<lambda>_.
     Inr (pt_provider_name b)))))"

definition call :: "exec_env \<Rightarrow> call_request \<Rightarrow> exec_state \<Rightarrow> exec_state \<times> ToolResult exc_res" where
  "call env rq st =
     (let name = rq_tool_name rq in
      case get_tool (xs_tools st) name of
        Inl e \<Rightarrow> (st, Inl e)
      | Inr t \<Rightarrow>
          (let nature = derive_call_nature (rt_tool_meta t) in
           if nature = CN_VIRTUAL then (st, Inl Exc_wrong_execution_channel)
           else
             (case (if nature = CN_SIDE_EFFECT then admit_side_effect env rq st
                    else Inr ''tool_provider'') of
                Inl e \<Rightarrow> (st, Inl e)
              | Inr provider \<Rightarrow>
                  (case xe_budget_check env of
                     Some e \<Rightarrow> (st, Inl e)
                   | None \<Rightarrow>
                       if \<not> xe_validate_input env name (rq_params rq)
                       then (st, Inl ToolValidationError)
                       else
                         let st1 = st\<lparr>xs_breakers := snd (breaker_get name (xs_breakers st))\<rparr>
                         in if \<not> rt_submission_ready t \<and> nature \<noteq> CN_QUERY
                            then (st1, Inr (failure_result env name provider TR_UNSUPPORTED
                                      ''configured Provider is unavailable; manual handling required''
                                      (Some 0)))
                            else call_loop env t rq nature provider 0 st1))))"

end
