(* ===== verification/Tool_Guards_Facts.thy ===== *)
theory Tool_Guards_Facts
  imports Tool_Guards
begin

text \<open>
  What the guards of a tool call promise: an open breaker refuses until its recovery time,
  a half-open one lets exactly two requests through, the windowed oscillation check agrees
  with the full history, and checked steps stay within the limits.
\<close>

section \<open>Histories of a breaker\<close>

text \<open>A concurrent history: requests asked for and outcomes reported, with clock readings.\<close>

datatype breaker_call = Ask int | Succeeded | Failed_at int

fun breaker_run :: "breaker_call list \<Rightarrow> CircuitBreaker \<Rightarrow> bool list \<times> CircuitBreaker" where
  "breaker_run [] b = ([], b)"
| "breaker_run (Ask t # cs) b =
     (fst (allow_request t b) # fst (breaker_run cs (snd (allow_request t b))),
      snd (breaker_run cs (snd (allow_request t b))))"
| "breaker_run (Succeeded # cs) b = breaker_run cs (record_success b)"
| "breaker_run (Failed_at t # cs) b = breaker_run cs (record_failure t b)"

definition breaker_wf :: "CircuitBreaker \<Rightarrow> bool" where
  "breaker_wf b \<longleftrightarrow>
     (if cb_state b = CB_CLOSED
      then 0 \<le> cb_failure_count b \<and> cb_failure_count b < cb_failure_threshold b
           \<and> cb_opened_at b = None \<and> \<not> cb_half_open_probe_in_flight b
      else cb_failure_count b \<ge> cb_failure_threshold b \<and> cb_failure_threshold b > 0
           \<and> cb_opened_at b \<noteq> None)"

lemma breaker_wf_new: "threshold > 0 \<Longrightarrow> breaker_wf (new_breaker threshold timeout)"
  by (simp add: breaker_wf_def new_breaker_def)

lemma breaker_wf_allow: "breaker_wf b \<Longrightarrow> breaker_wf (snd (allow_request t b))"
  by (auto simp: breaker_wf_def allow_request_def split: CircuitState.splits option.splits)

lemma breaker_wf_success: "breaker_wf b \<Longrightarrow> breaker_wf (record_success b)"
  by (auto simp: breaker_wf_def record_success_def split: if_splits)

lemma breaker_wf_failure: "breaker_wf b \<Longrightarrow> breaker_wf (record_failure t b)"
  by (auto simp: breaker_wf_def record_failure_def Let_def split: if_splits)

lemma breaker_wf_run: "breaker_wf b \<Longrightarrow> breaker_wf (snd (breaker_run cs b))"
  by (induction cs b rule: breaker_run.induct)
     (auto simp: Let_def split_beta breaker_wf_allow breaker_wf_success breaker_wf_failure)

text \<open>No call before \<open>deadline\<close>, no success, clock readings from \<open>t\<close> on.\<close>

fun early_call :: "int \<Rightarrow> int \<Rightarrow> breaker_call \<Rightarrow> bool" where
  "early_call t deadline (Ask u) = (u < deadline)"
| "early_call t deadline Succeeded = False"
| "early_call t deadline (Failed_at u) = (t \<le> u)"

lemma open_run_blocks:
  assumes "cb_state b = CB_OPEN" "cb_opened_at b = Some s" "t \<le> s"
    and "cb_failure_count b \<ge> cb_failure_threshold b"
    and "\<forall>c\<in>set cs. early_call t (t + cb_recovery_timeout b) c"
  shows "True \<notin> set (fst (breaker_run cs b))"
  using assms
proof (induction cs b arbitrary: s rule: breaker_run.induct)
  case (2 u cs b)
  then have "allow_request u b = (False, b)" by (auto simp: allow_request_def)
  with 2 show ?case by (auto simp: Let_def split_beta)
next
  case (4 u cs b)
  have "record_failure u b = b\<lparr>cb_failure_count := cb_failure_count b + 1, cb_opened_at := Some u,
      cb_half_open_probe_in_flight := False\<rparr>"
    using 4(2,5) by (simp add: record_failure_def Let_def)
  with 4 show ?case by auto
qed auto



lemma probing_run:
  assumes "cb_state b = CB_HALF_OPEN"
  shows "fst (breaker_run (map Ask ts) b)
    = map (\<lambda>i. i = 0 \<and> \<not> cb_half_open_probe_in_flight b) [0..<length ts]"
  using assms
proof (induction ts arbitrary: b)
  case (Cons t ts)
  have ask: "allow_request t b = (\<not> cb_half_open_probe_in_flight b,
      b\<lparr>cb_half_open_probe_in_flight := True\<rparr>)"
    using Cons.prems by (cases b) (auto simp: allow_request_def)
  have "fst (breaker_run (map Ask ts) (b\<lparr>cb_half_open_probe_in_flight := True\<rparr>))
      = map (\<lambda>i. False) [0..<length ts]"
    using Cons.IH [of "b\<lparr>cb_half_open_probe_in_flight := True\<rparr>"] Cons.prems by simp
  moreover have "map (\<lambda>i. i = 0 \<and> \<not> cb_half_open_probe_in_flight b) [0..<Suc (length ts)]
      = (\<not> cb_half_open_probe_in_flight b) # map (\<lambda>i. False) [0..<length ts]"
    by (simp add: upt_conv_Cons map_Suc_upt [symmetric] del: upt_Suc)
  ultimately show ?case by (simp add: ask Let_def split_beta del: upt_Suc)
qed simp

text \<open>Recovery admits two requests and then none. Once the recovery time of an open breaker
  has passed, a series of requests whose outcomes are never reported sees exactly its
  first two members let through, and every later one refused, whenever it is made.\<close>

theorem half_open_admits_two:
  assumes "cb_state b = CB_OPEN" and "cb_opened_at b = Some s" and "t - s \<ge> cb_recovery_timeout b"
  shows "fst (breaker_run (map Ask (t # ts)) b) = map (\<lambda>i. i < 2) [0..<Suc (length ts)]"
proof -
  have ask: "allow_request t b = (True, b\<lparr>cb_state := CB_HALF_OPEN, cb_half_open_probe_in_flight := False\<rparr>)"
    using assms by (simp add: allow_request_def)
  have "map (\<lambda>i. i < 2) [0..<Suc (length ts)] = True # map (\<lambda>i. i = 0) [0..<length ts]"
    by (simp add: upt_conv_Cons map_Suc_upt [symmetric] del: upt_Suc)
  then show ?thesis
    using probing_run [of "b\<lparr>cb_state := CB_HALF_OPEN, cb_half_open_probe_in_flight := False\<rparr>" ts]
    by (simp add: ask Let_def split_beta del: upt_Suc)
qed

theorem half_open_admits_two_witness:
  "fst (breaker_run (map Ask [62, 70, 1000000]) (snd (breaker_run [Failed_at 2] (new_breaker 1 60))))
     = [True, True, False]"
proof -
  let ?b = "snd (breaker_run [Failed_at 2] (new_breaker 1 60))"
  have "cb_state ?b = CB_OPEN" "cb_opened_at ?b = Some 2" "62 - 2 \<ge> cb_recovery_timeout ?b"
    by (simp_all add: new_breaker_def record_failure_def)
  from half_open_admits_two [OF this, of "[70, 1000000]"] show ?thesis by simp
qed

section \<open>The convergence guard\<close>

text \<open>The reference: the last four steps of the whole history alternate between two labels.\<close>

definition alternates :: "string list \<Rightarrow> (string \<times> string) option \<Rightarrow> bool" where
  "alternates labels answer \<longleftrightarrow>
     (case answer of
        Some (a, b) \<Rightarrow> a \<noteq> b \<and> (\<exists>old. labels = old @ [a, b, a, b])
      | None \<Rightarrow> \<not> (\<exists>old a b. a \<noteq> b \<and> labels = old @ [a, b, a, b]))"

lemma last_four:
  assumes "length xs \<ge> 4"
  obtains old a b c d where "xs = old @ [a, b, c, d]"
proof -
  have "\<exists>a b c d r. ys = d # c # b # a # r" if "4 \<le> length ys" for ys :: "'a list"
    using that by (auto simp: numeral_eq_Suc Suc_le_length_iff)
  from this [of "rev xs"] assms obtain a b c d r where "rev xs = d # c # b # a # r" by auto
  then have "xs = rev r @ [a, b, c, d]" by (simp add: rev_swap)
  then show thesis by (rule that)
qed

lemma upt_four: "[0..<4] = [0, 1, 2, 3::nat]"
  by code_simp

lemma detect_four:
  "detect_oscillation (old @ [a, b, c, d]) = (if a \<noteq> b \<and> c = a \<and> d = b then Some (a, b) else None)"
  by (auto simp: detect_oscillation_def MAX_OSCILLATION_def Let_def upt_four)

lemma detect_alternates: "alternates labels (detect_oscillation labels)"
proof (cases "length labels \<ge> 4")
  case True
  then obtain old a b c d where l: "labels = old @ [a, b, c, d]" by (rule last_four)
  show ?thesis unfolding l detect_four by (auto simp: alternates_def)
next
  case False
  then show ?thesis by (auto simp: alternates_def detect_oscillation_def MAX_OSCILLATION_def)
qed

text \<open>A recorded step of an event.\<close>

record guard_step =
  gs_step_type :: string
  gs_tool_name :: "string option"
  gs_params :: "json option"
  gs_signature :: "string option"

definition apply_step :: "guard_env \<Rightarrow> string \<Rightarrow> guard_step \<Rightarrow> guard_states \<Rightarrow> guard_states" where
  "apply_step env e g = record_step env e (gs_step_type g) (gs_tool_name g) (gs_params g) (gs_signature g)"

definition step_sig :: "guard_env \<Rightarrow> guard_step \<Rightarrow> string option" where
  "step_sig env g = effective_signature env (gs_tool_name g) (gs_params g) (gs_signature g)"

definition step_text :: "guard_env \<Rightarrow> guard_step \<Rightarrow> string" where
  "step_text env g = step_label (gs_step_type g) (step_sig env g)"

definition is_llm_call :: "guard_step \<Rightarrow> bool" where
  "is_llm_call g \<longleftrightarrow> gs_step_type g = ''llm_call''"

definition calls_tool :: "guard_env \<Rightarrow> string \<Rightarrow> guard_step \<Rightarrow> bool" where
  "calls_tool env sig g \<longleftrightarrow> gs_step_type g = ''tool_call'' \<and> step_sig env g = Some sig"

definition count_if :: "('a \<Rightarrow> bool) \<Rightarrow> 'a list \<Rightarrow> nat" where
  "count_if P xs = length (filter P xs)"

lemma count_if_simps [simp]:
  "count_if P [] = 0" "count_if P (xs @ [x]) = count_if P xs + (if P x then 1 else 0)"
  by (simp_all add: count_if_def)

definition sig_count :: "ConvergenceState \<Rightarrow> string \<Rightarrow> nat" where
  "sig_count s sig = (case map_of (cv_tool_call_signatures s) sig of None \<Rightarrow> 0 | Some n \<Rightarrow> n)"

text \<open>The state of the guard after a list of steps of the event.\<close>

definition tracks :: "guard_env \<Rightarrow> guard_step list \<Rightarrow> ConvergenceState \<Rightarrow> bool" where
  "tracks env gs s \<longleftrightarrow>
     cv_total_steps s = length gs
     \<and> cv_llm_calls s = count_if is_llm_call gs
     \<and> (\<forall>sig. sig \<noteq> [] \<longrightarrow> sig_count s sig = count_if (calls_tool env sig) gs)
     \<and> distinct (map fst (cv_tool_call_signatures s))
     \<and> cv_recent_actions s = (let labels = map (step_text env) gs
                               in drop (length labels - RECENT_ACTIONS_MAXLEN) labels)"

lemma tracks_new: "tracks env [] new_ConvergenceState"
  by (simp add: tracks_def sig_count_def new_ConvergenceState_def)

lemma window_snoc:
  "(let actions = drop (length xs - n) xs @ [x]
    in if length actions > n then drop (length actions - n) actions else actions)
   = drop (length (xs @ [x]) - n) (xs @ [x])"
  by (cases "length xs < n") (auto simp: Let_def drop_append not_less Suc_diff_le)

lemma count_step_fields [simp]:
  "cv_total_steps (count_step t sig s) = cv_total_steps s"
  "cv_recent_actions (count_step t sig s) = cv_recent_actions s"
  "cv_llm_calls (count_step t sig s) = cv_llm_calls s + (if t = ''llm_call'' then 1 else 0)"
  "cv_tool_call_signatures (count_step t sig s) =
     (case sig of
        Some x \<Rightarrow> if t = ''tool_call'' \<and> x \<noteq> []
                  then AList.update x (case map_of (cv_tool_call_signatures s) x of None \<Rightarrow> 1 | Some n \<Rightarrow> n + 1)
                         (cv_tool_call_signatures s)
                  else cv_tool_call_signatures s
      | None \<Rightarrow> cv_tool_call_signatures s)"
  by (simp_all add: count_step_def split: option.splits)

lemma sig_count_step:
  "sig_count (count_step t sig s) x =
     sig_count s x + (if t = ''tool_call'' \<and> sig = Some x \<and> x \<noteq> [] then 1 else 0)"
  by (auto simp: sig_count_def update_conv split: option.splits)

lemma tracks_step:
  assumes "tracks env gs (get_or_create_state states e)"
  shows "\<exists>s. apply_step env e g states e = Some s \<and> tracks env (gs @ [g]) s"
proof -
  let ?s = "get_or_create_state states e" and ?t = "gs_step_type g" and ?sig = "step_sig env g"
  let ?s1 = "?s\<lparr>cv_total_steps := cv_total_steps ?s + 1\<rparr>"
  let ?s2 = "if ?t \<in> VALID_STEP_TYPES then count_step ?t ?sig ?s1 else ?s1"
  let ?actions = "cv_recent_actions ?s2 @ [step_text env g]"
  let ?s3 = "?s2\<lparr>cv_recent_actions := (if length ?actions > RECENT_ACTIONS_MAXLEN
      then drop (length ?actions - RECENT_ACTIONS_MAXLEN) ?actions else ?actions)\<rparr>"
  note tr = assms [unfolded tracks_def]
  have win: "cv_recent_actions ?s = drop (length (map (step_text env) gs) - RECENT_ACTIONS_MAXLEN)
      (map (step_text env) gs)"
    using tr by (simp add: Let_def)
  have "cv_recent_actions ?s3 = (let actions = cv_recent_actions ?s @ [step_text env g]
      in if length actions > RECENT_ACTIONS_MAXLEN
         then drop (length actions - RECENT_ACTIONS_MAXLEN) actions else actions)"
    by (simp add: Let_def)
  then have "cv_recent_actions ?s3 = drop (length (map (step_text env) (gs @ [g])) - RECENT_ACTIONS_MAXLEN)
      (map (step_text env) (gs @ [g]))"
    unfolding win window_snoc by simp
  moreover have "cv_llm_calls ?s3 = count_if is_llm_call (gs @ [g])"
    using tr by (auto simp: is_llm_call_def VALID_STEP_TYPES_def)
  moreover have "sig_count ?s3 sig = count_if (calls_tool env sig) (gs @ [g])" if "sig \<noteq> []" for sig
  proof -
    have "sig_count (x\<lparr>cv_recent_actions := y\<rparr>) sig = sig_count x sig"
      "sig_count (x\<lparr>cv_total_steps := n\<rparr>) sig = sig_count x sig" for x :: ConvergenceState and y n
      by (simp_all add: sig_count_def)
    with tr that show ?thesis
      by (auto simp: sig_count_step calls_tool_def VALID_STEP_TYPES_def)
  qed
  moreover have "distinct (map fst (cv_tool_call_signatures ?s3))"
    using tr by (auto simp: distinct_update split: option.splits)
  ultimately have "tracks env (gs @ [g]) ?s3"
    using tr by (simp add: tracks_def Let_def)
  moreover have "apply_step env e g states e = Some ?s3"
    by (simp add: apply_step_def record_step_def Let_def step_text_def step_sig_def)
  ultimately show ?thesis by blast
qed

text \<open>Steps of several events, interleaved.\<close>

fun run_steps :: "guard_env \<Rightarrow> (string \<times> guard_step) list \<Rightarrow> guard_states \<Rightarrow> guard_states" where
  "run_steps env [] states = states"
| "run_steps env ((e, g) # xs) states = run_steps env xs (apply_step env e g states)"

text \<open>The same, every step preceded by a check of its event that does not order a stop.\<close>

fun checked_steps :: "guard_env \<Rightarrow> (string \<times> guard_step) list \<Rightarrow> guard_states \<Rightarrow> bool" where
  "checked_steps env [] states \<longleftrightarrow> True"
| "checked_steps env ((e, g) # xs) states \<longleftrightarrow>
     \<not> sd_stop (should_stop env e states) \<and> checked_steps env xs (apply_step env e g states)"

definition steps_of :: "string \<Rightarrow> (string \<times> guard_step) list \<Rightarrow> guard_step list" where
  "steps_of e xs = map snd (filter (\<lambda>x. fst x = e) xs)"

lemma apply_step_other: "e' \<noteq> e \<Longrightarrow> apply_step env e' g states e = states e"
  by (simp add: apply_step_def record_step_def Let_def)

lemma tracks_run:
  assumes "tracks env gs (get_or_create_state states e)"
  shows "tracks env (gs @ steps_of e xs) (get_or_create_state (run_steps env xs states) e)"
  using assms
proof (induction env xs states arbitrary: gs rule: run_steps.induct)
  case (2 env e' g xs states)
  show ?case
  proof (cases "e' = e")
    case True
    obtain s where "apply_step env e g states e = Some s" "tracks env (gs @ [g]) s"
      using tracks_step [OF 2(2)] by blast
    then have "tracks env (gs @ [g]) (get_or_create_state (apply_step env e g states) e)"
      by (simp add: get_or_create_state_def)
    from 2(1) [unfolded True, OF this] show ?thesis using True by (simp add: steps_of_def)
  next
    case False
    then have "get_or_create_state (apply_step env e' g states) e = get_or_create_state states e"
      by (simp add: get_or_create_state_def apply_step_other)
    with 2 False show ?thesis by (simp add: steps_of_def)
  qed
qed (simp add: steps_of_def)

lemma tracks_from_empty:
  "tracks env (steps_of e xs) (get_or_create_state (run_steps env xs Map.empty) e)"
  using tracks_run [of env "[]" Map.empty e xs] by (simp add: get_or_create_state_def tracks_new)

lemma detect_window:
  "detect_oscillation (drop (length labels - RECENT_ACTIONS_MAXLEN) labels) = detect_oscillation labels"
proof (cases "length labels \<ge> 4")
  case True
  then obtain old a b c d where l: "labels = old @ [a, b, c, d]" by (rule last_four)
  show ?thesis
    by (simp add: l detect_four RECENT_ACTIONS_MAXLEN_def MAX_OSCILLATION_def)
next
  case False
  then show ?thesis by (simp add: RECENT_ACTIONS_MAXLEN_def MAX_OSCILLATION_def)
qed

text \<open>C37: The sliding window loses nothing. After any interleaving of steps of any events, the
  oscillation check on the window kept for an event gives the answer defined on the whole
  history of its steps: the two labels when the last four alternate between two different
  ones, and nothing otherwise.\<close>

theorem oscillation_window_exact:
  "alternates (map (step_text env) (steps_of e xs))
     (detect_oscillation (cv_recent_actions (guard_get_state (run_steps env xs Map.empty) e)))"
proof -
  have "cv_recent_actions (guard_get_state (run_steps env xs Map.empty) e)
      = drop (length (map (step_text env) (steps_of e xs)) - RECENT_ACTIONS_MAXLEN)
          (map (step_text env) (steps_of e xs))"
    using tracks_from_empty [of env e xs]
    by (simp add: tracks_def guard_get_state_def get_or_create_state_def Let_def)
  then show ?thesis by (simp only: detect_window detect_alternates)
qed

text \<open>The working memory raises no foreign error.\<close>

definition persist_safe :: "guard_env \<Rightarrow> bool" where
  "persist_safe env \<longleftrightarrow>
     (\<forall>write. ge_working_memory env = Some write \<longrightarrow> (\<forall>e s r. write e s r \<noteq> Persist_other_error))"

lemma stop_decision_stops: "persist_safe env \<Longrightarrow> sd_stop (stop_decision env e s r)"
  by (auto simp: persist_safe_def stop_decision_def split: option.splits persist_result.splits)

definition within_limits :: "guard_env \<Rightarrow> guard_step list \<Rightarrow> bool" where
  "within_limits env gs \<longleftrightarrow>
     length gs \<le> GLOBAL_MAX_STEPS \<and> count_if is_llm_call gs \<le> MAX_TOTAL_LLM_CALLS
     \<and> (\<forall>sig. sig \<noteq> [] \<longrightarrow> count_if (calls_tool env sig) gs \<le> MAX_DUPLICATE_TOOL_CALLS + 1)"

lemma unstopped_within:
  assumes tr: "tracks env gs (get_or_create_state states e)" and "persist_safe env"
    and n: "\<not> sd_stop (should_stop env e states)"
  shows "within_limits env (gs @ [g])"
proof (cases "states e")
  case None
  with tr have "gs = []" by (simp add: get_or_create_state_def tracks_def new_ConvergenceState_def)
  then show ?thesis
    by (simp add: within_limits_def count_if_def GLOBAL_MAX_STEPS_def MAX_TOTAL_LLM_CALLS_def)
next
  case (Some s)
  have s: "tracks env gs s" using tr Some by (simp add: get_or_create_state_def)
  have c: "stop_condition s = None"
    using n Some stop_decision_stops [OF assms(2)] by (auto simp: should_stop_def split: option.splits)
  from c have tot: "cv_total_steps s < GLOBAL_MAX_STEPS" "cv_llm_calls s < MAX_TOTAL_LLM_CALLS"
    and dup: "\<not> list_ex (\<lambda>(_, count). count > MAX_DUPLICATE_TOOL_CALLS) (cv_tool_call_signatures s)"
    by (auto simp: stop_condition_def split: if_splits)
  have le: "sig_count s sig \<le> MAX_DUPLICATE_TOOL_CALLS" for sig
    using dup by (auto simp: sig_count_def list_ex_iff not_less split: option.splits dest!: map_of_SomeD)
  have sigs: "count_if (calls_tool env sig) gs \<le> MAX_DUPLICATE_TOOL_CALLS" if ne: "sig \<noteq> []" for sig
  proof -
    have "sig_count s sig = count_if (calls_tool env sig) gs" using s ne by (simp add: tracks_def)
    with le [of sig] show ?thesis by simp
  qed
  have "count_if (calls_tool env sig) (gs @ [g]) \<le> MAX_DUPLICATE_TOOL_CALLS + 1" if "sig \<noteq> []" for sig
    using sigs [OF that] by simp
  with tot s show ?thesis by (simp add: within_limits_def tracks_def)
qed

lemma checked_within:
  assumes "tracks env gs (get_or_create_state states e)" and "persist_safe env"
    and "checked_steps env xs states" and "within_limits env gs"
  shows "within_limits env (gs @ steps_of e xs)"
  using assms
proof (induction env xs states arbitrary: gs rule: run_steps.induct)
  case (2 env e' g xs states)
  show ?case
  proof (cases "e' = e")
    case True
    have w: "within_limits env (gs @ [g])"
      using unstopped_within [OF 2(2,3)] 2(4) True by simp
    obtain s where "apply_step env e g states e = Some s" "tracks env (gs @ [g]) s"
      using tracks_step [OF 2(2)] by blast
    then have "tracks env (gs @ [g]) (get_or_create_state (apply_step env e g states) e)"
      by (simp add: get_or_create_state_def)
    from 2(1) [unfolded True, OF this 2(3) _ w] 2(4) True show ?thesis by (simp add: steps_of_def)
  next
    case False
    then have "get_or_create_state (apply_step env e' g states) e = get_or_create_state states e"
      by (simp add: get_or_create_state_def apply_step_other)
    with 2 False show ?thesis by (simp add: steps_of_def)
  qed
qed (simp add: steps_of_def)


definition example_guard_env :: guard_env where
  "example_guard_env = \<lparr> ge_canonical = (\<lambda>_. []), ge_sha256 = id, ge_working_memory = None \<rparr>"

definition example_guard_step :: guard_step where
  "example_guard_step = \<lparr> gs_step_type = ''llm_call'', gs_tool_name = None, gs_params = None,
     gs_signature = None \<rparr>"


text \<open>A foreign error of the working memory turns every stop into a continue.\<close>

lemma persist_error_disables_guard:
  "ge_working_memory env = Some (\<lambda>_ _ _. Persist_other_error) \<Longrightarrow> \<not> sd_stop (should_stop env e states)"
  by (auto simp: should_stop_def stop_decision_def no_stop_def split: option.splits)

end
