(* ===== verification/Tool_Executor_Facts.thy ===== *)
theory Tool_Executor_Facts
  imports Tool_Executor Tool_Guards_Facts
begin

text \<open>
  What the tool executor guarantees for one call under every interleaving with other
  tasks: a side effect is sent at most once and never reported as failed once sent, only
  along the tool-provider channel; and how an unreported probe disables a tool.
\<close>

section \<open>Invocations of a call\<close>

definition own :: "exec_env \<Rightarrow> exec_state \<Rightarrow> (string \<times> string \<times> json) list" where
  "own env st = filter (\<lambda>x. fst x = xe_call_id env) (xs_invocations st)"

text \<open>Other tasks make no invocation in the name of this call.\<close>

definition others_quiet :: "exec_env \<Rightarrow> bool" where
  "others_quiet env \<longleftrightarrow>
     (\<forall>n st. own env (xe_others_waiting env n st) = own env st
           \<and> own env (xe_others_dispatching env n st) = own env st)"

definition invocation :: "exec_env \<Rightarrow> call_request \<Rightarrow> string \<times> string \<times> json" where
  "invocation env rq = (xe_call_id env, rq_tool_name rq, rq_params rq)"

lemma update_breaker_own [simp]:
  "xs_invocations (update_breaker name f st) = xs_invocations st"
  "xs_jobs (update_breaker name f st) = xs_jobs st"
  "xs_tools (update_breaker name f st) = xs_tools st"
  by (simp_all add: update_breaker_def split: prod.splits)

lemma own_cong: "xs_invocations st' = xs_invocations st \<Longrightarrow> own env st' = own env st"
  by (simp add: own_def)

lemma ask_breaker_own: "ask_breaker now name st = (ok, st') \<Longrightarrow> own env st' = own env st"
  by (auto simp: ask_breaker_def Let_def intro: own_cong)

lemma report_own: "own env (report_to_breaker now name s st) = own env st"
  by (rule own_cong) (simp add: report_to_breaker_def)

lemma cas_own: "cas_writeback_job env k r p st = Inr st' \<Longrightarrow> own env' st' = own env' st"
  by (auto simp: cas_writeback_job_def Let_def split: option.splits sum.splits prod.splits
      intro: own_cong)

lemma dispatch_own:
  assumes "others_quiet env" and "dispatch env t rq n st = (st', r)"
  shows "own env st' = own env st @ [invocation env rq]
    \<or> own env st' = own env st \<and> r = Inl Exc_wrong_execution_channel"
proof (cases "\<not> tool_provider_executable (rt_tool_meta t) \<or> \<not> rt_has_impl t")
  case True
  with assms(2) show ?thesis by (auto simp: dispatch_def)
next
  case False
  define st1 where "st1 = st\<lparr>xs_invocations := xs_invocations st
      @ [(xe_call_id env, rq_tool_name rq, rq_params rq)],
    xs_tools := (xs_tools st)(rq_tool_name rq := map_option (\<lambda>t. t\<lparr>rt_call_count := rt_call_count t + 1\<rparr>)
        (xs_tools st (rq_tool_name rq)))\<rparr>"
  have "own env st1 = own env st @ [invocation env rq]"
    by (simp add: st1_def own_def invocation_def)
  moreover have "own env (xe_others_dispatching env n st1) = own env st1"
    using assms(1) by (simp add: others_quiet_def)
  moreover have "own env st' = own env (xe_others_dispatching env n st1)"
    using assms(2) False
    by (auto simp: dispatch_def Let_def st1_def intro!: own_cong split: provider_answer.splits if_splits)
  ultimately show ?thesis by simp
qed

lemma attempt_own:
  assumes q: "others_quiet env" and a: "attempt_call env t rq nature provider n st = (st', r)"
  shows "own env st' = own env st @ [invocation env rq]
    \<or> own env st' = own env st \<and> r = Inl Exc_wrong_execution_channel"
proof -
  obtain st1 d where d: "dispatch env t rq n st = (st1, d)" by force
  have s: "own env st' = own env st1 \<and> (d = Inl Exc_wrong_execution_channel \<longrightarrow> r = Inl Exc_wrong_execution_channel)"
  proof (cases d)
    case (Inl e)
    with a d show ?thesis by (auto simp: attempt_call_def)
  next
    case (Inr raw)
    with a d show ?thesis
      by (auto simp: attempt_call_def Let_def report_own dest: cas_own
          split: if_splits sum.splits option.splits)
  qed
  with dispatch_own [OF q d] show ?thesis by auto
qed

text \<open>The unfolded loop, as one case distinction.\<close>

lemma call_loop_cases [consumes 1, case_names stopped refused returned raised retried]:
  assumes "call_loop env t rq nature provider n st = (st', r)"
  obtains
    "st' = st" "r = Inr (failure_result env (rq_tool_name rq) provider TR_FAILED
                      ''convergence guard stopped execution'' (Some (xe_elapsed_ms env n)))"
  | st2 where "xs_invocations st2 = xs_invocations (xe_others_waiting env n st)"
      "xs_breakers st2 = xs_breakers (xe_others_waiting env n st)"
      "ask_breaker (xe_ask_time env n) (rq_tool_name rq) st2 = (False, st')"
      "r = Inr (failure_result env (rq_tool_name rq) provider TR_CIRCUIT_OPEN
                  ''circuit breaker is open'' None)"
  | st2 st3 result where "xs_invocations st2 = xs_invocations (xe_others_waiting env n st)"
      "xs_breakers st2 = xs_breakers (xe_others_waiting env n st)"
      "ask_breaker (xe_ask_time env n) (rq_tool_name rq) st2 = (True, st3)"
      "attempt_call env t rq nature provider n st3 = (st', Inr result)" "r = Inr result"
  | st2 st3 st4 exc where "xs_invocations st2 = xs_invocations (xe_others_waiting env n st)"
      "xs_breakers st2 = xs_breakers (xe_others_waiting env n st)"
      "ask_breaker (xe_ask_time env n) (rq_tool_name rq) st2 = (True, st3)"
      "attempt_call env t rq nature provider n st3 = (st4, Inl exc)"
      "propagates exc \<and> st' = st4 \<and> r = Inl exc
       \<or> \<not> propagates exc
          \<and> st' = update_breaker (rq_tool_name rq) (record_failure (xe_record_time env n)) st4
          \<and> r = Inr (exception_result env rq nature provider n exc)"
  | st2 st3 st4 exc where "xs_invocations st2 = xs_invocations (xe_others_waiting env n st)"
      "xs_breakers st2 = xs_breakers (xe_others_waiting env n st)"
      "ask_breaker (xe_ask_time env n) (rq_tool_name rq) st2 = (True, st3)"
      "attempt_call env t rq nature provider n st3 = (st4, Inl exc)" "\<not> propagates exc"
      "should_retry nature (rt_tool_meta t) exc n (rq_max_retries rq) True"
      "call_loop env t rq nature provider (n + 1)
         (update_breaker (rq_tool_name rq) (record_failure (xe_record_time env n)) st4) = (st', r)"
proof (cases "case xe_guard_env env of None \<Rightarrow> False
    | Some g \<Rightarrow> sd_stop (should_stop g (rq_event_id rq) (xs_guard st))")
  case True
  with assms that(1) show thesis by (subst (asm) call_loop.simps) (auto simp: Let_def)
next
  case False
  define st2 where "st2 = (case xe_guard_env env of None \<Rightarrow> xe_others_waiting env n st
    | Some g \<Rightarrow> (xe_others_waiting env n st)\<lparr>xs_guard := record_step g (rq_event_id rq) ''tool_call''
        (Some (rq_tool_name rq)) (Some (rq_params rq)) None (xs_guard (xe_others_waiting env n st))\<rparr>)"
  have inv: "xs_invocations st2 = xs_invocations (xe_others_waiting env n st)"
    "xs_breakers st2 = xs_breakers (xe_others_waiting env n st)"
    by (simp_all add: st2_def split: option.splits)
  obtain ok st3 where ask: "ask_breaker (xe_ask_time env n) (rq_tool_name rq) st2 = (ok, st3)" by force
  have eq: "call_loop env t rq nature provider n st = (case ask_breaker (xe_ask_time env n) (rq_tool_name rq) st2 of
              (False, st3) \<Rightarrow>
                (st3, Inr ((failure_result env (rq_tool_name rq) provider TR_CIRCUIT_OPEN
                              ''circuit breaker is open'' None)))
            | (True, st3) \<Rightarrow>
                (case attempt_call env t rq nature provider n st3 of
                   (st4, Inr result) \<Rightarrow> (st4, Inr result)
                 | (st4, Inl exc) \<Rightarrow>
                     if propagates exc then (st4, Inl exc)
                     else
                       let st5 = update_breaker (rq_tool_name rq) (record_failure (xe_record_time env n)) st4
                       in if should_retry nature (rt_tool_meta t) exc n (rq_max_retries rq) True
                          then call_loop env t rq nature provider (n + 1) st5
                          else (st5, Inr (exception_result env rq nature provider n exc))))"
    using False by (subst call_loop.simps) (simp add: Let_def st2_def)
  show thesis
  proof (cases ok)
    case False
    with assms ask eq that(2) [OF inv] show thesis by simp
  next
    case True
    with ask have ask': "ask_breaker (xe_ask_time env n) (rq_tool_name rq) st2 = (True, st3)" by simp
    obtain st4 x where at: "attempt_call env t rq nature provider n st3 = (st4, x)" by force
    show thesis
    proof (cases x)
      case (Inr result)
      with assms eq ask' at have "st4 = st'" "r = Inr result" by simp_all
      with at Inr show thesis by (intro that(3) [OF inv ask', of result]) simp_all
    next
      case (Inl exc)
      note at' = at [unfolded Inl]
      let ?st5 = "update_breaker (rq_tool_name rq) (record_failure (xe_record_time env n)) st4"
      have r: "(st', r) = (if propagates exc then (st4, Inl exc)
          else if should_retry nature (rt_tool_meta t) exc n (rq_max_retries rq) True
          then call_loop env t rq nature provider (n + 1) ?st5
          else (?st5, Inr (exception_result env rq nature provider n exc)))"
        using assms [symmetric] eq ask' at' by (simp add: Let_def)
      show thesis
      proof (cases "\<not> propagates exc \<and> should_retry nature (rt_tool_meta t) exc n (rq_max_retries rq) True")
        case True
        with r have "call_loop env t rq nature provider (n + 1) ?st5 = (st', r)" by simp
        with True show thesis by (intro that(5) [OF inv ask' at']) simp_all
      next
        case False
        with r show thesis by (intro that(4) [OF inv ask' at']) (auto split: if_splits)
      qed
    qed
  qed
qed

section \<open>Bounds\<close>

lemma waiting_own: "others_quiet env \<Longrightarrow>
    xs_invocations st2 = xs_invocations (xe_others_waiting env n st) \<Longrightarrow> own env st2 = own env st"
  by (simp add: others_quiet_def own_def)

lemma attempt_once:
  assumes q: "others_quiet env" and i: "xs_invocations st2 = xs_invocations (xe_others_waiting env n st)"
    and a: "ask_breaker now name st2 = (ok, st3)"
    and c: "attempt_call env t rq nature provider n st3 = (st4, x)"
  shows "\<exists>k\<le>1. own env st4 = own env st @ replicate k (invocation env rq)"
  using attempt_own [OF q c] ask_breaker_own [OF a, of env] waiting_own [OF q i]
  by (auto intro: exI [of _ 0] exI [of _ "Suc 0"])

lemma loop_invocations:
  assumes "call_loop env t rq nature provider n st = (st', r)" and q: "others_quiet env"
  shows "\<exists>k. own env st' = own env st @ replicate k (invocation env rq)
    \<and> k \<le> (if nature = CN_SIDE_EFFECT then 1 else rq_max_retries rq - n + 1)"
  using assms(1)
proof (induction "rq_max_retries rq - n" arbitrary: n st rule: less_induct)
  case less
  from less.prems show ?case
  proof (cases rule: call_loop_cases)
    case stopped
    then show ?thesis by (intro exI [of _ 0]) simp
  next
    case (refused st2)
    with ask_breaker_own [OF refused(3), of env] waiting_own [OF q refused(1)] show ?thesis
      by (intro exI [of _ 0]) simp
  next
    case (returned st2 st3 result)
    from attempt_once [OF q returned(1,3,4)] show ?thesis by (auto intro: le_trans)
  next
    case (raised st2 st3 st4 exc)
    have "own env st' = own env st4" using raised(5) by (auto intro: own_cong)
    with attempt_once [OF q raised(1,3,4)] show ?thesis by (auto intro: le_trans)
  next
    case (retried st2 st3 st4 exc)
    note retry = retried(6) [unfolded should_retry_def]
    let ?st5 = "update_breaker (rq_tool_name rq) (record_failure (xe_record_time env n)) st4"
    obtain k where k: "k \<le> 1" "own env st4 = own env st @ replicate k (invocation env rq)"
      using attempt_once [OF q retried(1,3,4)] by blast
    have n: "nature \<noteq> CN_SIDE_EFFECT" "n < rq_max_retries rq"
      using retry by (auto split: if_splits)
    obtain j where j: "own env st' = own env ?st5 @ replicate j (invocation env rq)"
      "j \<le> rq_max_retries rq - (n + 1) + 1"
      using less.hyps [OF _ retried(7)] n by (auto simp: diff_less_mono2)
    have "own env ?st5 = own env st4" by (rule own_cong) simp
    with k j n show ?thesis
      by (intro exI [of _ "k + j"]) (auto simp: replicate_add)
  qed
qed

text \<open>A call either ends before the loop, or runs it.\<close>

lemma call_cases [consumes 1, case_names rejected unsupported looped]:
  assumes "call env rq st = (st', r)"
  obtains e where "st' = st" "r = Inl e"
  | res where "st' = st\<lparr>xs_breakers := snd (breaker_get (rq_tool_name rq) (xs_breakers st))\<rparr>"
      "r = Inr res"
      "tr_status res = TR_UNSUPPORTED"
  | t provider where "xs_tools st (rq_tool_name rq) = Some t"
      "derive_call_nature (rt_tool_meta t) \<noteq> CN_VIRTUAL"
      "derive_call_nature (rt_tool_meta t) = CN_SIDE_EFFECT \<Longrightarrow> admit_side_effect env rq st = Inr provider"
      "derive_call_nature (rt_tool_meta t) \<noteq> CN_SIDE_EFFECT \<Longrightarrow> provider = ''tool_provider''"
      "call_loop env t rq (derive_call_nature (rt_tool_meta t)) provider 0
         (st\<lparr>xs_breakers := snd (breaker_get (rq_tool_name rq) (xs_breakers st))\<rparr>) = (st', r)"
proof (cases "xs_tools st (rq_tool_name rq)")
  case None
  with assms that(1) show thesis by (auto simp: call_def get_tool_def)
next
  case (Some t)
  let ?nature = "derive_call_nature (rt_tool_meta t)"
  let ?st1 = "st\<lparr>xs_breakers := snd (breaker_get (rq_tool_name rq) (xs_breakers st))\<rparr>"
  define ad where "ad = (if ?nature = CN_SIDE_EFFECT then admit_side_effect env rq st else Inr ''tool_provider'')"
  have get: "get_tool (xs_tools st) (rq_tool_name rq) = Inr t" using Some by (simp add: get_tool_def)
  have r: "(st', r) = (if ?nature = CN_VIRTUAL then (st, Inl Exc_wrong_execution_channel)
      else case ad of Inl e \<Rightarrow> (st, Inl e)
        | Inr provider \<Rightarrow> (case xe_budget_check env of Some e \<Rightarrow> (st, Inl e)
           | None \<Rightarrow> if \<not> xe_validate_input env (rq_tool_name rq) (rq_params rq)
                     then (st, Inl ToolValidationError)
                     else if \<not> rt_submission_ready t \<and> ?nature \<noteq> CN_QUERY
                     then (?st1, Inr (failure_result env (rq_tool_name rq) provider TR_UNSUPPORTED
                            ''configured Provider is unavailable; manual handling required'' (Some 0)))
                     else call_loop env t rq ?nature provider 0 ?st1))"
    unfolding assms [symmetric] ad_def call_def Let_def get sum.case by (rule refl)
  show thesis
  proof (cases "?nature = CN_VIRTUAL \<or> (\<exists>e. ad = Inl e) \<or> xe_budget_check env \<noteq> None
      \<or> \<not> xe_validate_input env (rq_tool_name rq) (rq_params rq)")
    case True
    then have "\<exists>e. st' = st \<and> r = Inl e" using r by (auto split: if_splits sum.splits option.splits)
    with that(1) show thesis by blast
  next
    case False
    then obtain provider where p: "ad = Inr provider" by (cases ad) auto
    show thesis
    proof (cases "\<not> rt_submission_ready t \<and> ?nature \<noteq> CN_QUERY")
      case True
      with False p r that(2) show thesis by (simp add: failure_result_def)
    next
      case ready: False
      with False p r have l: "call_loop env t rq ?nature provider 0 ?st1 = (st', r)" by auto
      show thesis
        by (rule that(3) [OF Some _ _ _ l]) (use False p in \<open>auto simp: ad_def\<close>)
    qed
  qed
qed


text \<open>A one-attempt request on an example registry, with a provider that times out.\<close>

definition example_tool_meta :: ToolMeta where
  "example_tool_meta =
     \<lparr> tm_tool_name = ''isolate_host'', tm_tool_category = TC_RESPONSE,
       tm_action_category = Some AC_RESPONSE, tm_routing_kind = OWNER_ROUTED,
       tm_supported_execution_owners = [EO_DIRECT_TOOL],
       tm_required_disposition_intent_by_owner = [EO_DIRECT_TOOL \<mapsto> IK_EXECUTION_RESULT_RECORD],
       tm_required_capabilities = [], tm_side_effect_level = SE_HIGH, tm_action_level = L3,
       tm_idempotency = True, tm_async_mode = False, tm_execution_phase = AP_IMMEDIATE,
       tm_activation_condition = None, tm_executable = True \<rparr>"

definition example_binding :: ProviderToolBinding where
  "example_binding = \<lparr> pt_tool_name = ''isolate_host'', pt_provider_name = ''edr'',
     pt_execution_owner = EO_DIRECT_TOOL, pt_execution_channel = TOOL_PROVIDER, pt_capabilities = [] \<rparr>"

definition example_tool :: RegisteredTool where
  "example_tool = \<lparr> rt_tool_meta = example_tool_meta, rt_has_impl = True,
     rt_bindings = [example_binding], rt_call_count = 0, rt_error_count = 0, rt_healthy = True,
     rt_submission_ready = True \<rparr>"

definition example_exec_state :: exec_state where
  "example_exec_state =
     \<lparr> xs_tools = [''isolate_host'' \<mapsto> example_tool],
       xs_breakers = \<lparr> br_failure_threshold = 5, br_recovery_timeout = 60, br_breakers = Map.empty \<rparr>,
       xs_guard = Map.empty, xs_jobs = Map.empty, xs_invocations = [] \<rparr>"

definition example_exec_env :: "provider_answer \<Rightarrow> exec_env" where
  "example_exec_env answer =
     \<lparr> xe_call_id = ''call-1'', xe_validate_input = (\<lambda>_ _. True), xe_validate_output = (\<lambda>_ _. True),
       xe_decode_result = (\<lambda>_. None), xe_decode_job = (\<lambda>_. None), xe_guard_env = None,
       xe_budget_check = None, xe_budget_charge = (\<lambda>_. None), xe_store = None,
       xe_provider = (\<lambda>_. answer), xe_ask_time = int, xe_record_time = int, xe_elapsed_ms = int,
       xe_others_waiting = (\<lambda>_. id), xe_others_dispatching = (\<lambda>_. id) \<rparr>"

definition example_call :: call_request where
  "example_call = \<lparr> rq_tool_name = ''isolate_host'', rq_params = JObj [], rq_event_id = ''evt-1'',
     rq_action_id = Some ''act-1'', rq_execution_job_id = Some ''job-1'',
     rq_idempotency_key = Some ''key-1'', rq_execution_owner = Some EO_DIRECT_TOOL,
     rq_max_retries = 3 \<rparr>"

lemma example_quiet: "others_quiet (example_exec_env answer)"
  by (simp add: others_quiet_def example_exec_env_def)

lemma example_call_nature: "derive_call_nature (rt_tool_meta example_tool) = CN_SIDE_EFFECT"
  by (simp add: derive_call_nature_def example_tool_def example_tool_meta_def)

lemma example_admitted: "admit_side_effect (example_exec_env answer) example_call example_exec_state = Inr ''edr''"
  by (simp add: admit_side_effect_def validate_side_effect_envelope_def example_call_def given_def
      resolve_binding_def get_tool_def example_exec_state_def example_tool_def example_tool_meta_def
      example_binding_def assert_precreated_job_def example_exec_env_def)

lemma example_call_times_out:
  "\<exists>st' res. call (example_exec_env Times_out) example_call example_exec_state = (st', Inr res)
     \<and> own (example_exec_env Times_out) st' = [invocation (example_exec_env Times_out) example_call]
     \<and> tr_status res = TR_UNKNOWN"
proof -
  have "get_tool (xs_tools example_exec_state) (rq_tool_name example_call) = Inr example_tool"
    by (simp add: get_tool_def example_exec_state_def example_call_def)
  with example_call_nature example_admitted [of Times_out] show ?thesis
    apply (simp add: call_def Let_def)
    apply (simp add: example_exec_env_def call_loop.simps example_exec_state_def example_call_def
        example_tool_def ask_breaker_def breaker_get_def allow_request_def new_breaker_def
        update_breaker_def attempt_call_def dispatch_def tool_provider_executable_def
        example_tool_meta_def propagates_def should_retry_def exception_result_def failure_result_def
        own_def invocation_def Let_def)
    done
qed


section \<open>Side effects\<close>

text \<open>Registries as the composition root builds them, with calls counted on their tools.\<close>

inductive built_registry :: "tool_registry \<Rightarrow> bool" where
  empty: "built_registry Map.empty"
| registered: "built_registry reg \<Longrightarrow> register schemas_ok meta impl reg = Inr reg' \<Longrightarrow> built_registry reg'"
| bound: "built_registry reg \<Longrightarrow> channel_matches_owner b \<Longrightarrow> register_binding b reg = Inr reg' \<Longrightarrow>
    built_registry reg'"
| unregistered: "built_registry reg \<Longrightarrow> unregister name reg = Inr reg' \<Longrightarrow> built_registry reg'"
| used: "built_registry reg \<Longrightarrow> reg name = Some t \<Longrightarrow> rt_bindings t' = rt_bindings t \<Longrightarrow>
    built_registry (reg(name \<mapsto> t'))"

lemma built_bindings:
  "built_registry reg \<Longrightarrow> reg name = Some t \<Longrightarrow> b \<in> set (rt_bindings t) \<Longrightarrow> channel_matches_owner b"
proof (induction arbitrary: name t b rule: built_registry.induct)
  case (registered reg schemas_ok meta impl reg')
  then show ?case
    by (auto simp: register_def Let_def split: if_splits sum.splits option.splits)
next
  case (bound reg b' reg')
  then show ?case
    by (auto simp: register_binding_def get_tool_def split: if_splits option.splits)
next
  case (unregistered reg n reg')
  then show ?case by (auto simp: unregister_def get_tool_def split: option.splits if_splits)
next
  case (used reg n t0 t')
  then show ?case by (auto split: if_splits)
qed simp

text \<open>The provider was invoked and gave no answer.\<close>

definition left_unanswered :: "exec_env \<Rightarrow> bool" where
  "left_unanswered env \<longleftrightarrow>
     (case xe_provider env 0 of Times_out \<Rightarrow> True | Raises e \<Rightarrow> \<not> propagates e | Returns _ \<Rightarrow> False)"

lemma attempt_unanswered:
  assumes "left_unanswered env" and "attempt_call env t rq nature provider 0 st = (st', r)"
  shows "\<exists>exc. r = Inl exc \<and> (propagates exc \<longrightarrow> exc = Exc_wrong_execution_channel \<and> st' = st)"
  using assms
  by (auto simp: attempt_call_def dispatch_def left_unanswered_def Let_def propagates_def
      split: provider_answer.splits if_splits)

lemma side_effect_loop:
  assumes l: "call_loop env t rq CN_SIDE_EFFECT provider 0 st = (st', r)" and q: "others_quiet env"
  shows "own env st' = own env st
    \<or> own env st' = own env st @ [invocation env rq]
      \<and> (left_unanswered env \<longrightarrow> (\<exists>res. r = Inr res \<and> tr_status res = TR_UNKNOWN))"
  using l
proof (cases rule: call_loop_cases)
  case stopped
  then show ?thesis by simp
next
  case (refused st2)
  with ask_breaker_own [OF refused(3), of env] waiting_own [OF q refused(1)] show ?thesis by simp
next
  case (returned st2 st3 result)
  from attempt_own [OF q returned(4)] attempt_unanswered [OF _ returned(4)]
    ask_breaker_own [OF returned(3), of env] waiting_own [OF q returned(1)]
  show ?thesis by auto
next
  case (raised st2 st3 st4 exc)
  have o4: "own env st' = own env st4" using raised(5) by (auto intro: own_cong)
  have o3: "own env st3 = own env st"
    using ask_breaker_own [OF raised(3), of env] waiting_own [OF q raised(1)] by simp
  show ?thesis
  proof (cases "left_unanswered env")
    case False
    with attempt_own [OF q raised(4)] o3 o4 show ?thesis by auto
  next
    case True
    from attempt_unanswered [OF True raised(4)] have p: "propagates exc \<longrightarrow> st4 = st3" by auto
    show ?thesis
    proof (cases "propagates exc")
      case True
      with p o3 o4 show ?thesis by simp
    next
      case False
      with raised(5) have "r = Inr (exception_result env rq CN_SIDE_EFFECT provider 0 exc)" by simp
      then have "\<exists>res. r = Inr res \<and> tr_status res = TR_UNKNOWN"
        by (simp add: exception_result_def failure_result_def)
      with attempt_own [OF q raised(4)] o3 o4 show ?thesis by auto
    qed
  qed
next
  case (retried st2 st3 st4 exc)
  then show ?thesis by (simp add: should_retry_def split: if_splits)
qed

lemma admitted:
  assumes "admit_side_effect env rq st = Inr provider" and "built_registry (xs_tools st)"
  shows "rq_execution_owner rq = Some EO_DIRECT_TOOL"
    "given (rq_action_id rq) \<and> given (rq_execution_job_id rq) \<and> given (rq_idempotency_key rq)"
    "xe_store env \<noteq> None \<longrightarrow> (\<exists>job. xs_jobs st (the (rq_execution_job_id rq)) = Some job
       \<and> ej_event_id job = rq_event_id rq \<and> ej_action_id job = the (rq_action_id rq))"
proof -
  from assms(1) obtain b where
    b: "resolve_binding (xs_tools st) (rq_tool_name rq) (the (rq_execution_owner rq)) [] = Inr b"
      "pt_execution_channel b = TOOL_PROVIDER" "rq_execution_owner rq \<noteq> None"
    by (auto simp: admit_side_effect_def validate_side_effect_envelope_def split: sum.splits if_splits)
  then obtain t where t: "xs_tools st (rq_tool_name rq) = Some t" "b \<in> set (rt_bindings t)"
    "pt_execution_owner b = the (rq_execution_owner rq)"
    by (auto simp: resolve_binding_def get_tool_def Let_def find_Some_iff split: option.splits)
  have "channel_matches_owner b" using built_bindings [OF assms(2) t(1,2)] .
  with b(2) have "pt_execution_owner b \<noteq> EO_XDR_MANAGED" by (auto simp: channel_matches_owner_def)
  with t(3) b(3) show "rq_execution_owner rq = Some EO_DIRECT_TOOL"
    by (cases "pt_execution_owner b") auto
  show "given (rq_action_id rq) \<and> given (rq_execution_job_id rq) \<and> given (rq_idempotency_key rq)"
    using assms(1) by (auto simp: admit_side_effect_def validate_side_effect_envelope_def
        split: sum.splits if_splits)
  show "xe_store env \<noteq> None \<longrightarrow> (\<exists>job. xs_jobs st (the (rq_execution_job_id rq)) = Some job
       \<and> ej_event_id job = rq_event_id rq \<and> ej_action_id job = the (rq_action_id rq))"
    using assms(1) by (auto simp: admit_side_effect_def assert_precreated_job_def
        split: sum.splits if_splits option.splits)
qed


lemma example_built: "built_registry (xs_tools example_exec_state)"
proof -
  have 1: "register (\<lambda>_. True) example_tool_meta (Some \<lparr> ti_async_callable = True, ti_declared_meta = None \<rparr>)
      Map.empty = Inr [''isolate_host'' \<mapsto> example_tool\<lparr>rt_bindings := []\<rparr>]"
    by (simp add: register_def example_tool_meta_def example_tool_def)
  have 2: "register_binding example_binding [''isolate_host'' \<mapsto> example_tool\<lparr>rt_bindings := []\<rparr>]
      = Inr (xs_tools example_exec_state)"
    by (simp add: register_binding_def get_tool_def example_binding_def binding_route_allowed_def
        example_tool_def example_tool_meta_def example_exec_state_def)
  show ?thesis
    by (rule built_registry.bound [OF built_registry.registered [OF built_registry.empty 1] _ 2])
       (simp add: channel_matches_owner_def example_binding_def)
qed


section \<open>A probe nobody reports\<close>

definition breaker_of :: "string \<Rightarrow> exec_state \<Rightarrow> CircuitBreaker" where
  "breaker_of name st = fst (breaker_get name (xs_breakers st))"

definition breaker_untouched :: "exec_env \<Rightarrow> string \<Rightarrow> bool" where
  "breaker_untouched env name \<longleftrightarrow>
     (\<forall>n st. breaker_of name (xe_others_waiting env n st) = breaker_of name st
           \<and> breaker_of name (xe_others_dispatching env n st) = breaker_of name st)"

text \<open>The half-open breaker waits for the outcome of its probe.\<close>

definition awaiting_probe :: "string \<Rightarrow> exec_state \<Rightarrow> bool" where
  "awaiting_probe name st \<longleftrightarrow>
     cb_state (breaker_of name st) = CB_HALF_OPEN \<and> cb_half_open_probe_in_flight (breaker_of name st)"

lemma breaker_of_cong: "xs_breakers st' = xs_breakers st \<Longrightarrow> breaker_of name st' = breaker_of name st"
  by (simp add: breaker_of_def)

lemma breaker_of_get:
  "breaker_of name (st\<lparr>xs_breakers := snd (breaker_get name (xs_breakers st))\<rparr>) = breaker_of name st"
  by (simp add: breaker_of_def breaker_get_def Let_def split: option.splits)

lemma breaker_of_update: "breaker_of name (update_breaker name f st) = f (breaker_of name st)"
  by (simp add: breaker_of_def update_breaker_def breaker_get_def Let_def split: option.splits)

lemma ask_breaker_of:
  assumes "ask_breaker now name st = (ok, st')"
  shows "ok = fst (allow_request now (breaker_of name st))"
    "breaker_of name st' = snd (allow_request now (breaker_of name st))"
  using assms by (auto simp: ask_breaker_def breaker_of_def [symmetric] breaker_of_update Let_def)

lemma probing_refuses:
  "cb_state b = CB_HALF_OPEN \<Longrightarrow> cb_half_open_probe_in_flight b \<Longrightarrow> allow_request now b = (False, b)"
  by (simp add: allow_request_def)

lemma untouchedD:
  "breaker_untouched env name \<Longrightarrow> breaker_of name (xe_others_waiting env n st) = breaker_of name st"
  "breaker_untouched env name \<Longrightarrow> breaker_of name (xe_others_dispatching env n st) = breaker_of name st"
  by (simp_all add: breaker_untouched_def)

lemma loop_refused_while_probing:
  assumes c: "call_loop env t rq nature provider n st = (st', r)"
    and p: "awaiting_probe name st" and u: "breaker_untouched env name" and n: "rq_tool_name rq = name"
    and q: "others_quiet env"
  shows "awaiting_probe name st' \<and> own env st' = own env st
    \<and> (\<exists>res. r = Inr res \<and> tr_status res \<in> {TR_CIRCUIT_OPEN, TR_FAILED})"
proof -
  have asked: "ok = False \<and> awaiting_probe name st3"
    if "xs_breakers st2 = xs_breakers (xe_others_waiting env n st)"
      "ask_breaker (xe_ask_time env n) (rq_tool_name rq) st2 = (ok, st3)" for st2 st3 ok
  proof -
    have "breaker_of name st2 = breaker_of name st"
      using that(1) untouchedD(1) [OF u] by (metis breaker_of_cong)
    with p ask_breaker_of [OF that(2)] n show ?thesis
      by (simp add: awaiting_probe_def probing_refuses)
  qed
  from c show ?thesis
  proof (cases rule: call_loop_cases)
    case stopped
    with p show ?thesis by (simp add: failure_result_def)
  next
    case (refused st2)
    have "own env st' = own env st2" using ask_breaker_own refused(3) by blast
    also have "\<dots> = own env st" by (rule waiting_own [OF q refused(1)])
    finally show ?thesis using asked [OF refused(2,3)] refused(4) by (simp add: failure_result_def)
  next
    case (returned st2 st3 result)
    with asked show ?thesis by blast
  next
    case (raised st2 st3 st4 exc)
    with asked show ?thesis by blast
  next
    case (retried st2 st3 st4 exc)
    with asked show ?thesis by blast
  qed
qed

lemma refused_while_probing:
  assumes c: "call env rq st = (st', r)"
    and p: "awaiting_probe name st" and u: "breaker_untouched env name" and n: "rq_tool_name rq = name"
    and q: "others_quiet env"
  shows "awaiting_probe name st' \<and> own env st' = own env st
    \<and> (\<forall>res. r = Inr res \<longrightarrow> tr_status res \<in> {TR_CIRCUIT_OPEN, TR_UNSUPPORTED, TR_FAILED})"
proof -
  let ?st1 = "st\<lparr>xs_breakers := snd (breaker_get (rq_tool_name rq) (xs_breakers st))\<rparr>"
  have p1: "awaiting_probe name ?st1" and o1: "own env ?st1 = own env st"
    using p breaker_of_get [of name st] n by (auto simp: awaiting_probe_def intro: own_cong)
  from c show ?thesis
  proof (cases rule: call_cases)
    case (rejected e)
    with p show ?thesis by simp
  next
    case (unsupported res)
    with p1 o1 show ?thesis by simp
  next
    case (looped t provider)
    from loop_refused_while_probing [OF looped(5) p1 u n q] o1 show ?thesis by auto
  qed
qed

text \<open>The states the calls of one tool lead to, each call with its own parameters, guard, clock
  and provider.\<close>

inductive calls_lead_to :: "string \<Rightarrow> exec_state \<Rightarrow> exec_state \<Rightarrow> bool" for name st where
  none: "calls_lead_to name st st"
| one_more: "calls_lead_to name st s \<Longrightarrow> breaker_untouched env name \<Longrightarrow> others_quiet env \<Longrightarrow>
    rq_tool_name rq = name \<Longrightarrow> call env rq s = (s', r) \<Longrightarrow> calls_lead_to name st s'"

lemma still_awaiting:
  "calls_lead_to name st s \<Longrightarrow> awaiting_probe name st \<Longrightarrow> awaiting_probe name s"
  by (induction rule: calls_lead_to.induct) (auto dest: refused_while_probing)

lemma dispatch_breaker:
  assumes "dispatch env t rq n st = (st', r)" and "breaker_untouched env name"
  shows "breaker_of name st' = breaker_of name st"
proof (cases "\<not> tool_provider_executable (rt_tool_meta t) \<or> \<not> rt_has_impl t")
  case True
  with assms(1) show ?thesis by (simp add: dispatch_def)
next
  case False
  define st1 where "st1 = st\<lparr>xs_invocations := xs_invocations st
      @ [(xe_call_id env, rq_tool_name rq, rq_params rq)],
    xs_tools := (xs_tools st)(rq_tool_name rq := map_option (\<lambda>t. t\<lparr>rt_call_count := rt_call_count t + 1\<rparr>)
        (xs_tools st (rq_tool_name rq)))\<rparr>"
  have "breaker_of name st' = breaker_of name (xe_others_dispatching env n st1)"
    using assms(1) False
    by (auto simp: dispatch_def Let_def st1_def intro!: breaker_of_cong
        split: provider_answer.splits if_splits)
  also have "\<dots> = breaker_of name st1" using assms(2) by (rule untouchedD)
  also have "\<dots> = breaker_of name st" by (rule breaker_of_cong) (simp add: st1_def)
  finally show ?thesis .
qed

lemma attempt_unreported:
  assumes a: "attempt_call env t rq CN_QUERY provider n st = (st', r)"
    and u: "breaker_untouched env name" and own: "own env st' \<noteq> own env st"
    and q: "others_quiet env"
    and raw: "xe_provider env n = Returns raw" "xe_validate_output env (rq_tool_name rq) raw"
      "coerce_tool_result env raw (rq_tool_name rq) provider (xe_elapsed_ms env n) False = Inr res"
    and s: "tr_status res \<notin> ACCEPTED_STATUSES \<union> FAILURE_STATUSES"
  shows "r = Inr res \<and> breaker_of name st' = breaker_of name st"
proof -
  obtain st1 d where d: "dispatch env t rq n st = (st1, d)" by force
  show ?thesis
  proof (cases "\<not> tool_provider_executable (rt_tool_meta t) \<or> \<not> rt_has_impl t")
    case True
    with a own show ?thesis by (auto simp: attempt_call_def dispatch_def)
  next
    case False
    with d raw(1) have "d = Inr raw" by (auto simp: dispatch_def Let_def)
    with a d raw s have "st' = st1 \<and> r = Inr res"
      by (auto simp: attempt_call_def report_to_breaker_def Let_def split: if_splits)
    with dispatch_breaker [OF d u] show ?thesis by simp
  qed
qed

lemma probe_admitted:
  "cb_state b = CB_HALF_OPEN \<Longrightarrow> \<not> cb_half_open_probe_in_flight b \<Longrightarrow>
     allow_request now b = (True, b\<lparr>cb_half_open_probe_in_flight := True\<rparr>)"
  by (simp add: allow_request_def)

lemma loop_unreported:
  assumes c: "call_loop env t rq CN_QUERY provider n st = (st', r)"
    and u: "breaker_untouched env (rq_tool_name rq)" and q: "others_quiet env"
    and b: "cb_state (breaker_of (rq_tool_name rq) st) = CB_HALF_OPEN"
      "\<not> cb_half_open_probe_in_flight (breaker_of (rq_tool_name rq) st)"
    and own: "own env st' \<noteq> own env st"
    and raw: "xe_provider env n = Returns raw" "xe_validate_output env (rq_tool_name rq) raw"
      "coerce_tool_result env raw (rq_tool_name rq) provider (xe_elapsed_ms env n) False = Inr res"
    and s: "tr_status res \<notin> ACCEPTED_STATUSES \<union> FAILURE_STATUSES"
  shows "r = Inr res \<and> awaiting_probe (rq_tool_name rq) st'"
proof -
  have asked: "awaiting_probe (rq_tool_name rq) st3"
    if "xs_breakers st2 = xs_breakers (xe_others_waiting env n st)"
      "ask_breaker (xe_ask_time env n) (rq_tool_name rq) st2 = (ok, st3)" for st2 st3 ok
  proof -
    have "breaker_of (rq_tool_name rq) st2 = breaker_of (rq_tool_name rq) st"
      using that(1) untouchedD(1) [OF u] by (metis breaker_of_cong)
    with ask_breaker_of(2) [OF that(2)] b show ?thesis
      by (simp add: awaiting_probe_def probe_admitted)
  qed
  have dispatched: "x = Inr res \<and> awaiting_probe (rq_tool_name rq) st4"
    if "xs_invocations st2 = xs_invocations (xe_others_waiting env n st)"
      "xs_breakers st2 = xs_breakers (xe_others_waiting env n st)"
      "ask_breaker (xe_ask_time env n) (rq_tool_name rq) st2 = (ok, st3)"
      "attempt_call env t rq CN_QUERY provider n st3 = (st4, x)" "own env st4 \<noteq> own env st"
    for st2 st3 st4 x ok
  proof -
    have "own env st3 = own env st"
      using waiting_own [OF q that(1)] ask_breaker_own [OF that(3)] by simp
    with that(5) have "own env st4 \<noteq> own env st3" by simp
    from attempt_unreported [OF that(4) u this q raw s] asked [OF that(2,3)]
    show ?thesis by (simp add: awaiting_probe_def)
  qed
  have silent: "x = Inl Exc_wrong_execution_channel"
    if "xs_invocations st2 = xs_invocations (xe_others_waiting env n st)"
      "ask_breaker (xe_ask_time env n) (rq_tool_name rq) st2 = (ok, st3)"
      "attempt_call env t rq CN_QUERY provider n st3 = (st4, x)" "own env st4 = own env st"
    for st2 st3 st4 x ok
    using attempt_own [OF q that(3)] waiting_own [OF q that(1)] ask_breaker_own [OF that(2), of env] that(4)
    by auto
  from c show ?thesis
  proof (cases rule: call_loop_cases)
    case stopped
    with own show ?thesis by simp
  next
    case (refused st2)
    with own waiting_own [OF q refused(1)] ask_breaker_own [OF refused(3), of env] show ?thesis by simp
  next
    case (returned st2 st3 result)
    from dispatched [OF returned(1,2,3,4) own] returned(5) show ?thesis by simp
  next
    case (raised st2 st3 st4 exc)
    have "own env st' = own env st4" using raised(5) by (auto intro: own_cong)
    with dispatched [OF raised(1,2,3,4)] own show ?thesis by simp
  next
    case (retried st2 st3 st4 exc)
    have "own env st4 \<noteq> own env st"
      using silent [OF retried(1,3,4)] retried(5) by (auto simp: propagates_def)
    with dispatched [OF retried(1,2,3,4)] show ?thesis by simp
  qed
qed


definition probe_result :: ToolResult where
  "probe_result = failure_result (example_exec_env Times_out) ''lookup_ip'' ''ti'' TR_UNKNOWN ''no answer'' None"

definition probe_env :: exec_env where
  "probe_env = (example_exec_env (Returns (JObj [])))\<lparr>xe_decode_result := (\<lambda>_. Some probe_result)\<rparr>"

definition probe_call :: call_request where
  "probe_call = example_call\<lparr>rq_tool_name := ''lookup_ip''\<rparr>"

definition probe_tool :: RegisteredTool where
  "probe_tool = example_tool\<lparr>rt_tool_meta := example_tool_meta\<lparr>tm_tool_name := ''lookup_ip'',
     tm_tool_category := TC_QUERY, tm_routing_kind := TOOL_PROVIDER_ONLY\<rparr>\<rparr>"

definition probe_state :: exec_state where
  "probe_state =
     \<lparr> xs_tools = [''lookup_ip'' \<mapsto> probe_tool],
       xs_breakers = \<lparr> br_failure_threshold = 5, br_recovery_timeout = 60,
         br_breakers = [''lookup_ip'' \<mapsto> (new_breaker 5 60)\<lparr>cb_state := CB_HALF_OPEN\<rparr>] \<rparr>,
       xs_guard = Map.empty, xs_jobs = Map.empty, xs_invocations = [] \<rparr>"

lemma probe_env_quiet: "others_quiet probe_env" "breaker_untouched probe_env ''lookup_ip''"
  by (simp_all add: others_quiet_def breaker_untouched_def probe_env_def example_exec_env_def)

lemma probe_tool_nature: "derive_call_nature (rt_tool_meta probe_tool) = CN_QUERY"
  by (simp add: derive_call_nature_def probe_tool_def example_tool_meta_def)

lemma probe_sent:
  "\<exists>st' r. call probe_env probe_call probe_state = (st', r) \<and> own probe_env st' \<noteq> own probe_env probe_state"
proof -
  have "get_tool (xs_tools probe_state) (rq_tool_name probe_call) = Inr probe_tool"
    by (simp add: get_tool_def probe_state_def probe_call_def)
  with probe_tool_nature show ?thesis
    apply (simp add: call_def Let_def)
    apply (simp add: probe_env_def example_exec_env_def call_loop.simps probe_state_def probe_call_def
        example_call_def probe_tool_def example_tool_def ask_breaker_def breaker_get_def
        allow_request_def new_breaker_def update_breaker_def attempt_call_def dispatch_def
        tool_provider_executable_def example_tool_meta_def coerce_tool_result_def setdefault_def
        probe_result_def failure_result_def report_to_breaker_def ACCEPTED_STATUSES_def
        FAILURE_STATUSES_def own_def Let_def)
    done
qed


section \<open>The two job stores\<close>


definition running_job :: ActionExecutionJob where
  "running_job = \<lparr> ej_job_id = ''job-1'', ej_event_id = ''evt-1'', ej_action_id = ''act-1'',
     ej_provider_name = ''edr'', ej_provider_job_id = None, ej_status = JS_RUNNING,
     ej_target_results = [], ej_provider_code = None, ej_provider_message = None, ej_raw_result = JObj [] \<rparr>"


end
