(* ===== verification/Intent_Policy.thy ===== *)
theory Intent_Policy
  imports Config_Auth Store Complex_Main "HOL-Library.Char_ord" "HOL-Library.List_Lexorder"
    "HOL-Library.Product_Lexorder"
begin

text \<open>
  When an event is investigated without an operator and in which order:
  \<open>services/auto_investigate_policy.py\<close>, \<open>services/auto_response_policy.py\<close> and the
  aging scheduler \<open>services/cmu_scheduler.py\<close>. The columns of an event that no modelled
  service writes are a record of their own. Priorities are exact rationals where the
  source computes with floating-point numbers; times are microseconds.
\<close>

section \<open>Settings and immutable event columns\<close>

record IntentSettings = Settings +
  cfg_source_mode :: string
  cfg_tool_mode :: string
  cfg_orchestration_mode :: string
  cfg_task_mode_celery :: bool
  cfg_auto_investigate_enabled :: bool
  cfg_auto_investigate_min_severity :: string
  cfg_auto_investigate_event_types :: string
  cfg_auto_investigate_provisional_window_s :: int
  cfg_auto_investigate_claim_lease_s :: int
  cfg_auto_investigate_max_attempts :: int
  cfg_auto_investigate_materialize_batch_size :: nat
  cfg_auto_response_min_severity :: string
  cfg_auto_response_event_types :: string

record event_facts =
  ef_event_type :: string
  ef_source_type :: "string option"
  ef_creation_source_ref :: "json option"
  ef_created_at :: int

definition is_mock_source_mode :: "string \<Rightarrow> bool" where
  "is_mock_source_mode value \<longleftrightarrow> normalize_mode_value value \<in> {''mock_xdr''}"

definition is_mock_tool_mode :: "string \<Rightarrow> bool" where
  "is_mock_tool_mode value \<longleftrightarrow> normalize_mode_value value \<in> {''mock''}"

definition PROVISIONAL_LINK_ROLE :: string where "PROVISIONAL_LINK_ROLE = ''provisional''"
definition PRIMARY_LINK_ROLE :: string where "PRIMARY_LINK_ROLE = ''primary''"
definition UNKNOWN_LINK_ROLE :: string where "UNKNOWN_LINK_ROLE = ''unknown''"

text \<open>\<open>value or default\<close> on strings and \<open>raw.split(",")\<close>.\<close>

definition or_default :: "string \<Rightarrow> string \<Rightarrow> string" where
  "or_default value d = (if value = [] then d else value)"

fun split_commas :: "string \<Rightarrow> string list" where
  "split_commas [] = [[]]"
| "split_commas (c # cs) =
     (if c = CHR '','' then [] # split_commas cs
      else (case split_commas cs of [] \<Rightarrow> [[c]] | w # ws \<Rightarrow> (c # w) # ws))"

definition SEVERITY_RANK :: "Severity \<Rightarrow> nat" where
  "SEVERITY_RANK s = (case s of SEV_LOW \<Rightarrow> 0 | SEV_MEDIUM \<Rightarrow> 1 | SEV_HIGH \<Rightarrow> 2 | SEV_CRITICAL \<Rightarrow> 3)"

definition configured_severity :: "string \<Rightarrow> Severity \<Rightarrow> string \<Rightarrow> Severity" where
  "configured_severity d fallback raw =
     (case Severity_parse (map lower_char (strip (or_default raw d))) of
        Some s \<Rightarrow> s | None \<Rightarrow> fallback)"

definition event_type_allowlist :: "string \<Rightarrow> string set" where
  "event_type_allowlist raw =
     (if strip raw = [] then {}
      else set (map (\<lambda>item. map lower_char (strip item))
                 (filter (\<lambda>item. strip item \<noteq> []) (split_commas (strip raw)))))"

text \<open>The string under \<open>source_product\<close> of the creation reference.\<close>

definition creation_product :: "event_facts \<Rightarrow> string option" where
  "creation_product facts =
     (case ef_creation_source_ref facts of
        None \<Rightarrow> None
      | Some ref \<Rightarrow> (case json_get ref ''source_product'' of Some (JStr s) \<Rightarrow> Some s | _ \<Rightarrow> None))"

definition trusted_mock_provenance :: "event_facts \<Rightarrow> string option \<Rightarrow> bool" where
  "trusted_mock_provenance facts source_product \<longleftrightarrow>
     (let norm = (\<lambda>s. map lower_char (strip s));
          products =
            (case source_product of None \<Rightarrow> [] | Some p \<Rightarrow> if p = [] then [] else [norm p])
            @ (case creation_product facts of None \<Rightarrow> []
               | Some p \<Rightarrow> if strip p = [] then [] else [norm p])
            @ (case ef_source_type facts of None \<Rightarrow> [] | Some t \<Rightarrow> if t = [] then [] else [norm t])
      in products \<noteq> [] \<and> list_ex is_mock_source_mode products)"

section \<open>Auto-investigate policy\<close>

record PolicyDecision =
  pd_eligible :: bool
  pd_reason :: string

definition refuse :: "string \<Rightarrow> PolicyDecision" where
  "refuse reason = \<lparr> pd_eligible = False, pd_reason = reason \<rparr>"

definition auto_investigate_evaluate ::
  "IntentSettings \<Rightarrow> security_event_row \<Rightarrow> event_facts \<Rightarrow> string \<Rightarrow> string option \<Rightarrow> PolicyDecision" where
  "auto_investigate_evaluate cfg event facts link_role source_product =
     (if \<not> cfg_auto_investigate_enabled cfg then refuse ''disabled''
      else if \<not> is_mock_source_mode (cfg_source_mode cfg) then refuse ''source_mode_not_mock_xdr''
      else if link_role = PROVISIONAL_LINK_ROLE then refuse ''provisional_hold''
      else if se_status event \<noteq> EventStatus_value ES_NEW then refuse ''status_not_new''
      else if \<not> trusted_mock_provenance facts source_product then refuse ''untrusted_provenance''
      else
        case Severity_parse (map lower_char (se_severity event)) of
          None \<Rightarrow> refuse ''invalid_severity''
        | Some severity \<Rightarrow>
            let allowlist = event_type_allowlist (cfg_auto_investigate_event_types cfg)
            in if SEVERITY_RANK severity
                    < SEVERITY_RANK (configured_severity ''medium'' SEV_MEDIUM
                                       (cfg_auto_investigate_min_severity cfg))
               then refuse ''below_min_severity''
               else if allowlist \<noteq> {} \<and> map lower_char (ef_event_type facts) \<notin> allowlist
               then refuse ''event_type_not_allowed''
               else \<lparr> pd_eligible = True, pd_reason = ''auto_investigate:policy_match'' \<rparr>)"

section \<open>Auto-response policy\<close>

definition full_loop_available :: "string \<Rightarrow> bool" where
  "full_loop_available orchestration_mode \<longleftrightarrow>
     map lower_char (strip (or_default orchestration_mode ''graph'')) \<noteq> ''analysis_only''"

definition auto_response_max_level :: "IntentSettings \<Rightarrow> ActionLevel" where
  "auto_response_max_level cfg =
     (case parse_action_level_label (or_default (cfg_auto_response_max_auto_level cfg) ''L1'') of
        Some l \<Rightarrow> l | None \<Rightarrow> L1)"

definition auto_response_evaluate ::
  "IntentSettings \<Rightarrow> security_event_row \<Rightarrow> event_facts \<Rightarrow> string \<Rightarrow> string option \<Rightarrow> PolicyDecision" where
  "auto_response_evaluate cfg event facts link_role source_product =
     (if \<not> cfg_auto_response_enabled cfg then refuse ''disabled''
      else if \<not> full_loop_available (cfg_orchestration_mode cfg)
      then refuse ''orchestration_analysis_only''
      else if \<not> is_mock_source_mode (cfg_source_mode cfg) then refuse ''source_mode_not_mock_xdr''
      else if \<not> is_mock_tool_mode (cfg_tool_mode cfg) then refuse ''tool_mode_not_mock''
      else if \<not> is_mock_disposition_mode (cfg_disposition_mode cfg)
      then refuse ''disposition_mode_not_mock''
      else if link_role = PROVISIONAL_LINK_ROLE then refuse ''provisional_hold''
      else if link_role \<noteq> PRIMARY_LINK_ROLE then refuse ''link_role_not_primary''
      else if se_status event \<noteq> EventStatus_value ES_NEW then refuse ''status_not_new''
      else if \<not> trusted_mock_provenance facts source_product then refuse ''untrusted_provenance''
      else
        case Severity_parse (map lower_char (se_severity event)) of
          None \<Rightarrow> refuse ''invalid_severity''
        | Some severity \<Rightarrow>
            let allowlist = event_type_allowlist (cfg_auto_response_event_types cfg)
            in if SEVERITY_RANK severity
                    < SEVERITY_RANK (configured_severity ''high'' SEV_HIGH
                                       (cfg_auto_response_min_severity cfg))
               then refuse ''below_min_severity''
               else if allowlist \<noteq> {} \<and> map lower_char (ef_event_type facts) \<notin> allowlist
               then refuse ''event_type_not_allowed''
               else if auto_response_max_level cfg \<notin> AUTO_APPROVABLE_ACTION_LEVELS
               then refuse ''max_auto_level_not_auto_approvable''
               else \<lparr> pd_eligible = True, pd_reason = ''auto_response:policy_match'' \<rparr>)"

definition format_auto_response_audit_reason :: "PolicyDecision \<Rightarrow> string" where
  "format_auto_response_audit_reason decision =
     (if pd_eligible decision then pd_reason decision
      else ''auto_response:skipped_'' @ pd_reason decision)"

section \<open>The aging scheduler\<close>

definition HOLDING_COST :: "string \<rightharpoonup> rat" where
  "HOLDING_COST = [''low'' \<mapsto> 1, ''medium'' \<mapsto> 2, ''high'' \<mapsto> 4, ''critical'' \<mapsto> 8]"

definition DEFAULT_EXPECTED_S :: rat where "DEFAULT_EXPECTED_S = 600"
definition ANALYSIS_ONLY_EXPECTED_S :: rat where "ANALYSIS_ONLY_EXPECTED_S = 300"
definition AGING_HIGH_CATCHUP_S :: rat where "AGING_HIGH_CATCHUP_S = 1800"

definition expected_duration_s :: "bool \<Rightarrow> rat" where
  "expected_duration_s include_response_execution =
     (if include_response_execution then DEFAULT_EXPECTED_S else ANALYSIS_ONLY_EXPECTED_S)"

definition aging_gamma :: "rat \<Rightarrow> rat" where
  "aging_gamma expected_s = 3 / (max expected_s 1 * AGING_HIGH_CATCHUP_S)"

definition holding_cost :: "string option \<Rightarrow> rat" where
  "holding_cost severity =
     (let key = map lower_char (strip (case severity of None \<Rightarrow> ''low'' | Some s \<Rightarrow> or_default s ''low''))
      in (case HOLDING_COST key of Some c \<Rightarrow> c | None \<Rightarrow> 1))"

definition wait_seconds :: "int \<Rightarrow> int \<Rightarrow> rat" where
  "wait_seconds created_at now = max 0 (of_int (now - created_at) / 1000000)"

definition dispatch_priority :: "string option \<Rightarrow> int \<Rightarrow> int \<Rightarrow> rat option \<Rightarrow> bool \<Rightarrow> rat" where
  "dispatch_priority severity created_at now expected_s include_response_execution =
     (let duration = max (case expected_s of
                            Some d \<Rightarrow> d
                          | None \<Rightarrow> expected_duration_s include_response_execution) 1
      in holding_cost severity * (1 / duration) + aging_gamma duration * wait_seconds created_at now)"

definition rank_key ::
  "string option \<Rightarrow> int \<Rightarrow> string \<Rightarrow> int \<Rightarrow> rat option \<Rightarrow> bool \<Rightarrow> rat \<times> int \<times> string" where
  "rank_key severity created_at intent_id now expected_s include_response_execution =
     (- dispatch_priority severity created_at now expected_s include_response_execution,
      created_at, intent_id)"

text \<open>
  The database's expression: the severity column is lowered but not stripped, and a missing
  event (outer join) falls into the \<open>ELSE\<close> branch.
\<close>

definition priority_expression :: "string option \<Rightarrow> int \<Rightarrow> int \<Rightarrow> bool \<Rightarrow> rat" where
  "priority_expression severity created_at now include_response_execution =
     (let sev = map_option (map lower_char) severity;
          holding = (if sev = Some ''critical'' then 8 else if sev = Some ''high'' then 4
                     else if sev = Some ''medium'' then 2 else 1);
          duration = (if include_response_execution then DEFAULT_EXPECTED_S
                      else ANALYSIS_ONLY_EXPECTED_S);
          wait_s = max 0 (of_int (now - created_at) / 1000000)
      in holding / duration + 3 / (duration * AGING_HIGH_CATCHUP_S) * wait_s)"

definition priority_order_columns ::
  "string option \<Rightarrow> int \<Rightarrow> string \<Rightarrow> int \<Rightarrow> bool \<Rightarrow> rat \<times> int \<times> string" where
  "priority_order_columns severity created_at intent_id now include_response_execution =
     (- priority_expression severity created_at now include_response_execution, created_at, intent_id)"

end
