(* ===== verification/Intents.thy ===== *)
theory Intents
  imports Intent_Policy
begin

text \<open>
  The durable investigation intents: the status table of
  \<open>models/investigation_intent.py\<close>, the rows of \<open>db/models.py\<close> and every operation of
  \<open>services/investigation_intent_service.py\<close> that reads or writes them.

  A transaction is one atomic step on the state. The digest, the broker, the Redis task
  metadata, the degraded-flag service, random identifiers, row locks of other sessions and
  what other sessions commit during a request are parameters. \<open>updated_at\<close> is set to the
  time of the transaction by every write of a row.
\<close>

section \<open>Contract\<close>

definition INTENT_KIND_AUTO_INVESTIGATE :: string where
  "INTENT_KIND_AUTO_INVESTIGATE = ''auto_investigate''"
definition INTENT_VERSION_ISSUE108_V1 :: string where
  "INTENT_VERSION_ISSUE108_V1 = ''issue108_v1''"
definition INTENT_KIND_HTTP_INVESTIGATE :: string where
  "INTENT_KIND_HTTP_INVESTIGATE = ''http_investigate''"
definition INTENT_VERSION_ISSUE276_V1 :: string where
  "INTENT_VERSION_ISSUE276_V1 = ''issue276_v1''"

datatype IntentDeliveryAdmission = ACCEPTED | STALE_SUPERSEDED | ALREADY_TERMINAL | MISSING

primrec INTENT_TRANSITIONS :: "InvestigationIntentStatus \<Rightarrow> InvestigationIntentStatus set" where
  "INTENT_TRANSITIONS II_PENDING = {II_CLAIMED, II_SKIPPED}"
| "INTENT_TRANSITIONS II_CLAIMED = {II_ENQUEUED, II_RETRY, II_PENDING, II_SKIPPED, II_DEAD}"
| "INTENT_TRANSITIONS II_ENQUEUED = {II_STARTED, II_RETRY, II_SKIPPED, II_DEAD}"
| "INTENT_TRANSITIONS II_STARTED = {II_TERMINAL, II_SKIPPED, II_RETRY, II_DEAD}"
| "INTENT_TRANSITIONS II_RETRY = {II_CLAIMED, II_DEAD, II_SKIPPED}"
| "INTENT_TRANSITIONS II_TERMINAL = {}"
| "INTENT_TRANSITIONS II_SKIPPED = {II_RETRY}"
| "INTENT_TRANSITIONS II_DEAD = {II_RETRY}"

definition TERMINAL_INTENT_STATUSES :: "InvestigationIntentStatus set" where
  "TERMINAL_INTENT_STATUSES = {II_TERMINAL, II_SKIPPED, II_DEAD}"

definition validate_intent_transition ::
  "InvestigationIntentStatus \<Rightarrow> InvestigationIntentStatus \<Rightarrow> unit res" where
  "validate_intent_transition current target =
     ensure (target \<in> INTENT_TRANSITIONS current) (InvestigationIntentTransitionError current target)"

section \<open>Rows and state\<close>

record intent_row =
  ii_intent_id :: string
  ii_event_id :: string
  ii_intent_kind :: string
  ii_intent_version :: string
  ii_status :: string
  ii_revision :: int
  ii_request_idempotency_key :: "string option"
  ii_request_payload_sha256 :: "string option"
  ii_requested_by :: "string option"
  ii_orchestration_mode :: string
  ii_attempt :: int
  ii_claim_owner :: "string option"
  ii_claim_expires_at :: "int option"
  ii_broker_task_id :: "string option"
  ii_skip_reason :: "string option"
  ii_last_error :: "string option"
  ii_include_response_execution :: bool
  ii_generate_report :: bool
  ii_created_at :: int
  ii_updated_at :: int

record link_row =
  lk_event_id :: string
  lk_role :: string

record EnqueuedPublishTarget =
  pt_event_id :: string
  pt_task_id :: string
  pt_intent_id :: string
  pt_include_response_execution :: bool
  pt_generate_report :: bool
  pt_orchestration_mode :: string
  pt_resume_from_checkpoint :: bool

text \<open>
  The state: the shared tables, the immutable event columns, the intents, the source links
  and the tasks the broker has accepted, oldest first.
\<close>

record intent_db =
  in_db :: database
  in_facts :: "string \<Rightarrow> event_facts"
  in_intents :: "intent_row list"
  in_links :: "link_row list"
  in_published :: "EnqueuedPublishTarget list"

record intent_env =
  ie_cfg :: IntentSettings
  ie_sha256 :: "string \<Rightarrow> string"
  ie_worker_id :: string
  ie_degraded :: "bool option"

text \<open>The lookup and the write of a row by its primary key; a write touches \<open>updated_at\<close>.\<close>

definition get_intent :: "intent_db \<Rightarrow> string \<Rightarrow> intent_row option" where
  "get_intent db intent_id = find (\<lambda>r. ii_intent_id r = intent_id) (in_intents db)"

definition store_intent :: "intent_row \<Rightarrow> intent_db \<Rightarrow> intent_db" where
  "store_intent row db =
     db\<lparr>in_intents := update_where (\<lambda>r. ii_intent_id r = ii_intent_id row) (\<lambda>_. row) (in_intents db)\<rparr>"

definition put_intent :: "int \<Rightarrow> intent_row \<Rightarrow> intent_db \<Rightarrow> intent_db" where
  "put_intent now row db = store_intent (row\<lparr>ii_updated_at := now\<rparr>) db"

abbreviation status_of :: "intent_row \<Rightarrow> InvestigationIntentStatus res" where
  "status_of row \<equiv> parse_or_raise InvestigationIntentStatus_parse (ii_status row)"

abbreviation has_status :: "InvestigationIntentStatus \<Rightarrow> intent_row \<Rightarrow> bool" where
  "has_status s row \<equiv> ii_status row = InvestigationIntentStatus_value s"

text \<open>\<open>int(row.revision or 1)\<close>.\<close>

definition revision_of :: "intent_row \<Rightarrow> int" where
  "revision_of row = (if ii_revision row = 0 then 1 else ii_revision row)"

definition seconds :: "int \<Rightarrow> int" where "seconds n = n * 1000000"

definition deterministic_investigation_task_id :: "intent_env \<Rightarrow> string \<Rightarrow> int \<Rightarrow> string" where
  "deterministic_investigation_task_id env intent_id revision =
     ie_sha256 env (intent_id @ '':'' @ string_of_int revision)"

text \<open>The unique constraints of the table.\<close>

definition insert_violates_unique :: "intent_row \<Rightarrow> intent_row list \<Rightarrow> bool" where
  "insert_violates_unique row rows \<longleftrightarrow>
     list_ex (\<lambda>r. ii_intent_id r = ii_intent_id row
       \<or> ii_event_id r = ii_event_id row \<and> ii_intent_kind r = ii_intent_kind row
           \<and> ii_intent_version r = ii_intent_version row
       \<or> ii_broker_task_id row \<noteq> None \<and> ii_broker_task_id r = ii_broker_task_id row
       \<or> ii_request_idempotency_key row \<noteq> None \<and> ii_requested_by row \<noteq> None
           \<and> ii_requested_by r = ii_requested_by row
           \<and> ii_request_idempotency_key r = ii_request_idempotency_key row) rows"

definition insert_intent :: "intent_row \<Rightarrow> intent_db \<Rightarrow> intent_db res" where
  "insert_intent row db =
     (if insert_violates_unique row (in_intents db)
      then Inl (IntegrityError ''investigation_intent'')
      else Inr (db\<lparr>in_intents := in_intents db @ [row]\<rparr>))"

definition resolve_response_link_role :: "intent_db \<Rightarrow> string \<Rightarrow> string" where
  "resolve_response_link_role db event_id =
     (let role_set = lk_role ` {l \<in> set (in_links db). lk_event_id l = event_id
                        \<and> lk_role l \<in> {PROVISIONAL_LINK_ROLE, PRIMARY_LINK_ROLE}}
      in if PROVISIONAL_LINK_ROLE \<in> role_set then PROVISIONAL_LINK_ROLE
         else if PRIMARY_LINK_ROLE \<in> role_set then PRIMARY_LINK_ROLE
         else UNKNOWN_LINK_ROLE)"

section \<open>HTTP intake\<close>

record HttpInvestigationIntentResult =
  hr_intent_id :: string
  hr_event_id :: string
  hr_task_id :: string
  hr_revision :: int
  hr_status :: InvestigationIntentStatus
  hr_created :: bool

record http_request =
  hq_event_id :: string
  hq_requested_by :: string
  hq_request_idempotency_key :: string
  hq_request_payload_sha256 :: string
  hq_orchestration_mode :: string
  hq_include_response_execution :: bool
  hq_generate_report :: bool

definition http_intent_result ::
  "intent_env \<Rightarrow> intent_row \<Rightarrow> bool \<Rightarrow> HttpInvestigationIntentResult res" where
  "http_intent_result env row created =
     bind_res (status_of row) (\<lambda>status.
     Inr \<lparr> hr_intent_id = ii_intent_id row, hr_event_id = ii_event_id row,
           hr_task_id = deterministic_investigation_task_id env (ii_intent_id row) (revision_of row),
           hr_revision = revision_of row, hr_status = status, hr_created = created \<rparr>)"

text \<open>\<open>_rearm_http_intent\<close>; the request replaces the stored one when it is given.\<close>

definition rearm_row :: "intent_env \<Rightarrow> http_request option \<Rightarrow> intent_row \<Rightarrow> intent_row" where
  "rearm_row env request row =
     (let revision = revision_of row + 1;
          row = row\<lparr>ii_status := InvestigationIntentStatus_value II_RETRY, ii_revision := revision,
                  ii_attempt := 0,
                  ii_broker_task_id :=
                    Some (deterministic_investigation_task_id env (ii_intent_id row) revision),
                  ii_claim_owner := None, ii_claim_expires_at := None, ii_skip_reason := None,
                  ii_last_error := None\<rparr>
      in (case request of
            None \<Rightarrow> row
          | Some q \<Rightarrow>
              row\<lparr>ii_request_idempotency_key := Some (hq_request_idempotency_key q),
                  ii_request_payload_sha256 := Some (hq_request_payload_sha256 q),
                  ii_requested_by := Some (hq_requested_by q),
                  ii_orchestration_mode := hq_orchestration_mode q,
                  ii_include_response_execution := hq_include_response_execution q,
                  ii_generate_report := hq_generate_report q\<rparr>))"

definition rearm_http_intent ::
  "intent_env \<Rightarrow> int \<Rightarrow> http_request option \<Rightarrow> intent_row \<Rightarrow> intent_db
     \<Rightarrow> (HttpInvestigationIntentResult \<times> intent_db) res" where
  "rearm_http_intent env now request row db =
     bind_res (status_of row) (\<lambda>current.
     bind_res (validate_intent_transition current II_RETRY) (\<lambda>_.
     bind_res (http_intent_result env (rearm_row env request row) False) (\<lambda>result.
     Inr (result, put_intent now (rearm_row env request row) db))))"

definition replay_http_intent ::
  "intent_env \<Rightarrow> int \<Rightarrow> http_request \<Rightarrow> intent_row \<Rightarrow> intent_db
     \<Rightarrow> (HttpInvestigationIntentResult \<times> intent_db) res" where
  "replay_http_intent env now q row db =
     bind_res (ensure (ii_event_id row = hq_event_id q
                 \<and> ii_request_payload_sha256 row = Some (hq_request_payload_sha256 q))
                 IdempotencyKeyReuseError) (\<lambda>_.
     bind_res (status_of row) (\<lambda>status.
     if ii_intent_kind row = INTENT_KIND_HTTP_INVESTIGATE \<and> status \<in> {II_DEAD, II_SKIPPED}
     then rearm_http_intent env now None row db
     else bind_res (http_intent_result env row False) (\<lambda>result. Inr (result, db))))"

definition find_request :: "intent_db \<Rightarrow> http_request \<Rightarrow> intent_row option" where
  "find_request db q =
     scalar (\<lambda>r. ii_requested_by r = Some (hq_requested_by q)
               \<and> ii_request_idempotency_key r = Some (hq_request_idempotency_key q)) (in_intents db)"

definition find_http_intent :: "intent_db \<Rightarrow> string \<Rightarrow> intent_row option" where
  "find_http_intent db event_id =
     scalar (\<lambda>r. ii_event_id r = event_id \<and> ii_intent_kind r = INTENT_KIND_HTTP_INVESTIGATE
               \<and> ii_intent_version r = INTENT_VERSION_ISSUE276_V1) (in_intents db)"

text \<open>The intent the event already has: re-armed when it failed, refused otherwise.\<close>

definition take_over_http_intent ::
  "intent_env \<Rightarrow> int \<Rightarrow> http_request \<Rightarrow> intent_row \<Rightarrow> intent_db
     \<Rightarrow> (HttpInvestigationIntentResult \<times> intent_db) res" where
  "take_over_http_intent env now q active db =
     bind_res (status_of active) (\<lambda>status.
     if status \<in> {II_DEAD, II_SKIPPED} then rearm_http_intent env now (Some q) active db
     else Inl (InvestigationInProgressError (ii_intent_id active)))"

definition skip_row :: "string \<Rightarrow> intent_row \<Rightarrow> intent_row" where
  "skip_row reason row =
     row\<lparr>ii_status := InvestigationIntentStatus_value II_SKIPPED, ii_skip_reason := Some reason,
         ii_broker_task_id := None, ii_claim_owner := None, ii_claim_expires_at := None\<rparr>"

fun skip_rows :: "int \<Rightarrow> string \<Rightarrow> intent_row list \<Rightarrow> intent_db \<Rightarrow> (nat \<times> intent_db) res" where
  "skip_rows now reason [] db = Inr (0, db)"
| "skip_rows now reason (row # rows) db =
     bind_res (status_of row) (\<lambda>current.
     bind_res (validate_intent_transition current II_SKIPPED) (\<lambda>_.
     bind_res (skip_rows now reason rows (put_intent now (skip_row reason row) db)) (\<lambda>(n, db').
     Inr (n + 1, db'))))"

definition skip_active_intents_for_event_in_session ::
  "int \<Rightarrow> string \<Rightarrow> string \<Rightarrow> intent_db \<Rightarrow> (nat \<times> intent_db) res" where
  "skip_active_intents_for_event_in_session now event_id reason db =
     skip_rows now reason
       (filter (\<lambda>r. ii_event_id r = event_id
                  \<and> ii_intent_kind r = INTENT_KIND_AUTO_INVESTIGATE
                  \<and> ii_intent_version r = INTENT_VERSION_ISSUE108_V1
                  \<and> ii_status r \<notin> InvestigationIntentStatus_value ` TERMINAL_INTENT_STATUSES)
          (in_intents db)) db"

definition new_http_row :: "intent_env \<Rightarrow> int \<Rightarrow> string \<Rightarrow> http_request \<Rightarrow> intent_row" where
  "new_http_row env now intent_id q =
     \<lparr> ii_intent_id = intent_id, ii_event_id = hq_event_id q,
       ii_intent_kind = INTENT_KIND_HTTP_INVESTIGATE,
       ii_intent_version = INTENT_VERSION_ISSUE276_V1,
       ii_status = InvestigationIntentStatus_value II_PENDING, ii_revision = 1,
       ii_request_idempotency_key = Some (hq_request_idempotency_key q),
       ii_request_payload_sha256 = Some (hq_request_payload_sha256 q),
       ii_requested_by = Some (hq_requested_by q),
       ii_orchestration_mode = hq_orchestration_mode q, ii_attempt = 0, ii_claim_owner = None,
       ii_claim_expires_at = None,
       ii_broker_task_id = Some (deterministic_investigation_task_id env intent_id 1),
       ii_skip_reason = None, ii_last_error = None,
       ii_include_response_execution = hq_include_response_execution q,
       ii_generate_report = hq_generate_report q, ii_created_at = now, ii_updated_at = now \<rparr>"

text \<open>
  The first transaction. \<open>race\<close> is what other sessions commit between its lookups and its
  insert; the intent it creates has the random id \<open>intent_id\<close>.
\<close>

definition create_http_in_tx ::
  "intent_env \<Rightarrow> int \<Rightarrow> string \<Rightarrow> (intent_db \<Rightarrow> intent_db) \<Rightarrow> http_request \<Rightarrow> intent_db
     \<Rightarrow> intent_db \<times> HttpInvestigationIntentResult res" where
  "create_http_in_tx env now intent_id race q db =
     (case get_event (in_db db) (hq_event_id q) of
        None \<Rightarrow> (db, Inl (CodedValidationError ''event_not_found''))
      | Some event \<Rightarrow>
          (case find_request db q of
             Some existing \<Rightarrow> commit db (replay_http_intent env now q existing db)
           | None \<Rightarrow>
               if se_status event \<noteq> EventStatus_value ES_NEW
               then (db, bind_res (parse_or_raise EventStatus_parse (se_status event)) (\<lambda>current.
                           event_err (Illegal_transition current ES_TRIAGING)))
               else
                 (case find_http_intent db (hq_event_id q) of
                    Some active \<Rightarrow> commit db (take_over_http_intent env now q active db)
                  | None \<Rightarrow>
                      commit (race db)
                        (bind_res (skip_active_intents_for_event_in_session now (hq_event_id q)
                                     ''superseded_by_http_investigate'' (race db)) (\<lambda>(_, db1).
                         bind_res (insert_intent (new_http_row env now intent_id q) db1) (\<lambda>db2.
                         bind_res (http_intent_result env (new_http_row env now intent_id q) True) (\<lambda>result.
                         Inr (result, db2))))))))"

text \<open>The second transaction, after a unique constraint refused the insert.\<close>

definition recover_http_in_tx ::
  "intent_env \<Rightarrow> int \<Rightarrow> http_request \<Rightarrow> intent_db \<Rightarrow> (HttpInvestigationIntentResult \<times> intent_db) res" where
  "recover_http_in_tx env now q db =
     bind_res (of_opt (CodedValidationError ''event_not_found'') (get_event (in_db db) (hq_event_id q))) (\<lambda>_.
     case find_request db q of
       Some existing \<Rightarrow> replay_http_intent env now q existing db
     | None \<Rightarrow>
         (case find_http_intent db (hq_event_id q) of
            Some active \<Rightarrow> take_over_http_intent env now q active db
          | None \<Rightarrow> Inl (IntegrityError ''investigation_intent'')))"

definition create_or_replay_http_intent ::
  "intent_env \<Rightarrow> int \<Rightarrow> string \<Rightarrow> (intent_db \<Rightarrow> intent_db) \<Rightarrow> http_request \<Rightarrow> intent_db
     \<Rightarrow> intent_db \<times> HttpInvestigationIntentResult res" where
  "create_or_replay_http_intent env now intent_id race request db =
     (let q = request\<lparr>hq_request_idempotency_key := strip (hq_request_idempotency_key request),
                      hq_requested_by := strip (hq_requested_by request)\<rparr>
      in
      if hq_request_idempotency_key q = [] \<or> length (hq_request_idempotency_key q) > 200
      then (db, Inl (ValidationError ''Idempotency-Key must contain 1 to 200 characters''))
      else if hq_requested_by q = []
      then (db, Inl (ValidationError ''authenticated principal subject is required''))
      else
        (case create_http_in_tx env now intent_id race q db of
           (db1, Inl (IntegrityError _)) \<Rightarrow> commit db1 (recover_http_in_tx env now q db1)
         | (db1, r) \<Rightarrow> (db1, r)))"

section \<open>Creation by policy\<close>

text \<open>
  \<open>maybe_create_pending_in_session\<close>, in the transaction that creates or promotes the event.
  A unique constraint that refuses the flush has rolled that transaction back, so its
  caller's next statement or commit raises.
\<close>

definition new_auto_row :: "intent_env \<Rightarrow> int \<Rightarrow> string \<Rightarrow> string \<Rightarrow> intent_row" where
  "new_auto_row env now intent_id event_id =
     \<lparr> ii_intent_id = intent_id, ii_event_id = event_id,
       ii_intent_kind = INTENT_KIND_AUTO_INVESTIGATE,
       ii_intent_version = INTENT_VERSION_ISSUE108_V1,
       ii_status = InvestigationIntentStatus_value II_PENDING, ii_revision = 1,
       ii_request_idempotency_key = None, ii_request_payload_sha256 = None, ii_requested_by = None,
       ii_orchestration_mode =
         or_default (map lower_char (strip (or_default (cfg_orchestration_mode (ie_cfg env)) ''graph'')))
           ''graph'',
       ii_attempt = 0, ii_claim_owner = None, ii_claim_expires_at = None, ii_broker_task_id = None,
       ii_skip_reason = None, ii_last_error = None, ii_include_response_execution = False,
       ii_generate_report = False, ii_created_at = now, ii_updated_at = now \<rparr>"

definition find_auto_intent :: "intent_db \<Rightarrow> string \<Rightarrow> intent_row option" where
  "find_auto_intent db event_id =
     scalar (\<lambda>r. ii_event_id r = event_id \<and> ii_intent_kind r = INTENT_KIND_AUTO_INVESTIGATE
               \<and> ii_intent_version r = INTENT_VERSION_ISSUE108_V1) (in_intents db)"

definition maybe_create_pending_in_session ::
  "intent_env \<Rightarrow> int \<Rightarrow> string \<Rightarrow> security_event_row \<Rightarrow> string \<Rightarrow> string option \<Rightarrow> bool \<Rightarrow> intent_db
     \<Rightarrow> (string option \<times> intent_db) res" where
  "maybe_create_pending_in_session env now intent_id event link_role source_product
       created_or_promoted db =
     (if \<not> created_or_promoted \<or> \<not> cfg_auto_investigate_enabled (ie_cfg env) then Inr (None, db)
      else
        let decision = auto_investigate_evaluate (ie_cfg env) event
                         (in_facts db (se_event_id event)) link_role source_product
        in if \<not> pd_eligible decision then Inr (None, db)
           else if find_auto_intent db (se_event_id event) \<noteq> None then Inr (None, db)
           else
             (case insert_intent (new_auto_row env now intent_id (se_event_id event)) db of
                Inl e \<Rightarrow> Inl e
              | Inr db1 \<Rightarrow>
                  Inr (Some intent_id,
                   db1\<lparr>in_db := add_audit (se_event_id event) (Some (se_status event))
                          (Some (se_status event)) (Some ''AutoInvestigatePolicyService'')
                          (Some (pd_reason decision)) now (in_db db1)\<rparr>)))"

section \<open>Claims\<close>

definition claim_expired :: "int \<Rightarrow> intent_row \<Rightarrow> bool" where
  "claim_expired now row \<longleftrightarrow>
     (case ii_claim_expires_at row of None \<Rightarrow> False | Some t \<Rightarrow> t < now)"

text \<open>The body both claims share: an expired claim is retried first; \<open>None\<close> when not available.\<close>

definition claim_row :: "intent_env \<Rightarrow> int \<Rightarrow> intent_row \<Rightarrow> intent_row option res" where
  "claim_row env now row =
     bind_res (status_of row) (\<lambda>current.
     bind_res (if current = II_CLAIMED \<and> claim_expired now row
               then bind_res (validate_intent_transition current II_RETRY) (\<lambda>_.
                    Inr (II_RETRY, row\<lparr>ii_status := InvestigationIntentStatus_value II_RETRY,
                                       ii_attempt := ii_attempt row + 1\<rparr>))
               else Inr (current, row)) (\<lambda>(current, row).
     if current \<notin> {II_PENDING, II_RETRY} then Inr None
     else bind_res (validate_intent_transition current II_CLAIMED) (\<lambda>_.
          Inr (Some (row\<lparr>ii_status := InvestigationIntentStatus_value II_CLAIMED,
                         ii_claim_owner := Some (ie_worker_id env),
                         ii_claim_expires_at :=
                           Some (now + seconds (cfg_auto_investigate_claim_lease_s (ie_cfg env)))\<rparr>)))))"

definition claim_intent ::
  "intent_env \<Rightarrow> int \<Rightarrow> string \<Rightarrow> intent_db \<Rightarrow> intent_db \<times> string option res" where
  "claim_intent env now intent_id db =
     (case get_intent db intent_id of
        None \<Rightarrow> (db, Inr None)
      | Some row \<Rightarrow>
          commit db (bind_res (claim_row env now row) (\<lambda>claimed.
            case claimed of
              None \<Rightarrow> Inr (None, db)
            | Some row' \<Rightarrow> Inr (Some (ii_intent_id row), put_intent now row' db))))"

text \<open>
  The batch query: claimable rows no other session has locked, by the scheduler's order.
\<close>

definition claimable :: "int \<Rightarrow> intent_row \<Rightarrow> bool" where
  "claimable now row \<longleftrightarrow>
     has_status II_PENDING row \<or> has_status II_RETRY row
     \<or> has_status II_CLAIMED row \<and> claim_expired now row"

definition claim_order :: "int \<Rightarrow> intent_db \<Rightarrow> intent_row \<Rightarrow> rat \<times> int \<times> string" where
  "claim_order now db row =
     priority_order_columns (map_option se_severity (get_event (in_db db) (ii_event_id row)))
       (ii_created_at row) (ii_intent_id row) now (ii_include_response_execution row)"

definition claim_candidates ::
  "int \<Rightarrow> (string \<Rightarrow> bool) \<Rightarrow> nat \<Rightarrow> intent_db \<Rightarrow> intent_row list" where
  "claim_candidates now locked limit db =
     take limit (sort_key (claim_order now db)
       (filter (\<lambda>r. claimable now r \<and> \<not> locked (ii_intent_id r)) (in_intents db)))"

text \<open>A row the batch query returns is always available to \<open>claim_row\<close>.\<close>

fun claim_rows ::
  "intent_env \<Rightarrow> int \<Rightarrow> intent_row list \<Rightarrow> intent_db \<Rightarrow> (string list \<times> intent_db) res" where
  "claim_rows env now [] db = Inr ([], db)"
| "claim_rows env now (row # rows) db =
     bind_res (claim_row env now row) (\<lambda>claimed.
     case claimed of
       None \<Rightarrow> claim_rows env now rows db
     | Some row' \<Rightarrow>
         bind_res (claim_rows env now rows (put_intent now row' db)) (\<lambda>(ids, db').
         Inr (ii_intent_id row # ids, db')))"

definition claim_batch ::
  "intent_env \<Rightarrow> int \<Rightarrow> (string \<Rightarrow> bool) \<Rightarrow> nat \<Rightarrow> intent_db \<Rightarrow> intent_db \<times> string list res" where
  "claim_batch env now locked limit db =
     commit db (claim_rows env now (claim_candidates now locked limit db) db)"

section \<open>Status changes\<close>

text \<open>The counters a retry moves: the old broker task id is superseded by the new revision's.\<close>

definition bump_attempt :: "intent_env \<Rightarrow> InvestigationIntentStatus \<Rightarrow> intent_row \<Rightarrow> intent_row" where
  "bump_attempt env target row =
     (let revision = revision_of row + 1
      in row\<lparr>ii_attempt := ii_attempt row + 1, ii_revision := revision,
             ii_broker_task_id :=
               (if target = II_RETRY
                then Some (deterministic_investigation_task_id env (ii_intent_id row) revision)
                else None)\<rparr>)"

definition keep_or :: "'a option \<Rightarrow> 'a option \<Rightarrow> 'a option" where
  "keep_or new old = (case new of None \<Rightarrow> old | Some x \<Rightarrow> Some x)"

definition set_status_in_session ::
  "intent_env \<Rightarrow> InvestigationIntentStatus \<Rightarrow> string option \<Rightarrow> string option \<Rightarrow> bool \<Rightarrow> intent_row
     \<Rightarrow> intent_row res" where
  "set_status_in_session env target skip_reason last_error increment_attempt row =
     bind_res (status_of row) (\<lambda>current.
     bind_res (validate_intent_transition current target) (\<lambda>_.
     let row = row\<lparr>ii_status := InvestigationIntentStatus_value target,
                   ii_skip_reason := keep_or skip_reason (ii_skip_reason row),
                   ii_last_error := keep_or last_error (ii_last_error row)\<rparr>;
         row = (if increment_attempt then bump_attempt env target row else row)
     in Inr (row\<lparr>ii_claim_owner := None, ii_claim_expires_at := None\<rparr>)))"

text \<open>\<open>_transition\<close>, with the arguments its four callers pass (the claim is always cleared).\<close>

definition transition_intent ::
  "intent_env \<Rightarrow> int \<Rightarrow> string \<Rightarrow> InvestigationIntentStatus \<Rightarrow> string option \<Rightarrow> string option \<Rightarrow> bool
     \<Rightarrow> string option \<Rightarrow> intent_db \<Rightarrow> intent_db \<times> bool res" where
  "transition_intent env now intent_id target skip_reason last_error increment_attempt
       expected_broker_task_id db =
     (case get_intent db intent_id of
        None \<Rightarrow> (db, Inr False)
      | Some row \<Rightarrow>
          commit db (bind_res (status_of row) (\<lambda>current.
            if expected_broker_task_id \<noteq> None
                \<and> (current \<noteq> II_STARTED \<or> ii_broker_task_id row \<noteq> expected_broker_task_id)
            then Inr (False, db)
            else if current \<in> TERMINAL_INTENT_STATUSES then Inr (False, db)
            else
              bind_res (set_status_in_session env target skip_reason last_error increment_attempt row) (\<lambda>row'.
              Inr (True, put_intent now row' db)))))"

definition mark_terminal ::
  "intent_env \<Rightarrow> int \<Rightarrow> string \<Rightarrow> string option \<Rightarrow> intent_db \<Rightarrow> intent_db \<times> bool res" where
  "mark_terminal env now intent_id broker_task_id db =
     transition_intent env now intent_id II_TERMINAL None None False broker_task_id db"

definition mark_skipped ::
  "intent_env \<Rightarrow> int \<Rightarrow> string \<Rightarrow> string \<Rightarrow> string option \<Rightarrow> intent_db \<Rightarrow> intent_db \<times> bool res" where
  "mark_skipped env now intent_id reason broker_task_id db =
     transition_intent env now intent_id II_SKIPPED (Some reason) None False broker_task_id db"

definition mark_retry ::
  "intent_env \<Rightarrow> int \<Rightarrow> string \<Rightarrow> string \<Rightarrow> string option \<Rightarrow> intent_db \<Rightarrow> intent_db \<times> bool res" where
  "mark_retry env now intent_id error broker_task_id db =
     transition_intent env now intent_id II_RETRY None (Some error) True broker_task_id db"

definition mark_dead ::
  "intent_env \<Rightarrow> int \<Rightarrow> string \<Rightarrow> string \<Rightarrow> string option \<Rightarrow> intent_db \<Rightarrow> intent_db \<times> bool res" where
  "mark_dead env now intent_id error broker_task_id db =
     transition_intent env now intent_id II_DEAD None (Some error) False broker_task_id db"

text \<open>Admission of a delivered broker task.\<close>

definition mark_started ::
  "intent_env \<Rightarrow> int \<Rightarrow> string \<Rightarrow> string \<Rightarrow> intent_db \<Rightarrow> intent_db \<times> IntentDeliveryAdmission res" where
  "mark_started env now intent_id broker_task_id db =
     (case get_intent db intent_id of
        None \<Rightarrow> (db, Inr MISSING)
      | Some row \<Rightarrow>
          commit db (bind_res (status_of row) (\<lambda>current.
            if current \<in> TERMINAL_INTENT_STATUSES then Inr (ALREADY_TERMINAL, db)
            else if current = II_STARTED
            then (if ii_broker_task_id row = Some broker_task_id then Inr (ACCEPTED, db)
                  else if broker_task_id
                            = deterministic_investigation_task_id env (ii_intent_id row) (revision_of row)
                  then Inr (ACCEPTED, put_intent now (row\<lparr>ii_broker_task_id := Some broker_task_id\<rparr>) db)
                  else Inr (STALE_SUPERSEDED, db))
            else if current \<noteq> II_ENQUEUED then Inr (STALE_SUPERSEDED, db)
            else if ii_broker_task_id row \<notin> {None, Some [], Some broker_task_id}
            then Inr (STALE_SUPERSEDED, db)
            else
              bind_res (validate_intent_transition current II_STARTED) (\<lambda>_.
              Inr (ACCEPTED, put_intent now
                    (row\<lparr>ii_status := InvestigationIntentStatus_value II_STARTED,
                         ii_broker_task_id := Some broker_task_id, ii_claim_owner := None,
                         ii_claim_expires_at := None\<rparr>) db)))))"

text \<open>The inline worker of development mode walks the row through three statuses at once.\<close>

definition mark_inline_started ::
  "intent_env \<Rightarrow> int \<Rightarrow> string \<Rightarrow> intent_db \<Rightarrow> intent_db \<times> string res" where
  "mark_inline_started env now intent_id db =
     (case get_intent db intent_id of
        None \<Rightarrow> (db, Inl (ValidationError ''investigation intent not found''))
      | Some row \<Rightarrow>
          commit db (bind_res (status_of row) (\<lambda>current.
            bind_res (ensure (current \<in> {II_PENDING, II_RETRY}) (InvestigationInProgressError intent_id)) (\<lambda>_.
            bind_res (validate_intent_transition current II_CLAIMED) (\<lambda>_.
            bind_res (validate_intent_transition II_CLAIMED II_ENQUEUED) (\<lambda>_.
            bind_res (validate_intent_transition II_ENQUEUED II_STARTED) (\<lambda>_.
            let task_id = deterministic_investigation_task_id env (ii_intent_id row) (revision_of row)
            in Inr (task_id, put_intent now
                 (row\<lparr>ii_status := InvestigationIntentStatus_value II_STARTED,
                      ii_broker_task_id := Some task_id, ii_claim_owner := None,
                      ii_claim_expires_at := None\<rparr>) db))))))))"

section \<open>Publication\<close>

definition EVENT_INVESTIGATION_RESUMABLE :: "string set" where
  "EVENT_INVESTIGATION_RESUMABLE = EventStatus_value ` {ES_TRIAGING, ES_COLLECTING_EVIDENCE,
     ES_ANALYZING, ES_SCORING, ES_PLANNING_RESPONSE, ES_WAITING_APPROVAL, ES_EXECUTING_RESPONSE,
     ES_VERIFYING, ES_REPLANNING}"

definition EVENT_INVESTIGATION_COMPLETED :: "string set" where
  "EVENT_INVESTIGATION_COMPLETED = EventStatus_value ` {ES_CONTAINED, ES_REPORTING, ES_CLOSED}"

definition PURE_INVESTIGATION_DISPATCH_STATUSES :: "string set" where
  "PURE_INVESTIGATION_DISPATCH_STATUSES = EventStatus_value ` {ES_TRIAGING, ES_COLLECTING_EVIDENCE,
     ES_ANALYZING, ES_SCORING}"

text \<open>\<open>_set_status_in_session\<close> on a row of the session, kept by the commit.\<close>

definition set_and_put ::
  "intent_env \<Rightarrow> int \<Rightarrow> InvestigationIntentStatus \<Rightarrow> string option \<Rightarrow> string option \<Rightarrow> bool
     \<Rightarrow> intent_row \<Rightarrow> intent_db \<Rightarrow> intent_db res" where
  "set_and_put env now target skip_reason last_error increment_attempt row db =
     bind_res (set_status_in_session env target skip_reason last_error increment_attempt row) (\<lambda>row'.
     Inr (put_intent now row' db))"

definition sibling_blocking :: "intent_row \<Rightarrow> intent_db \<Rightarrow> bool" where
  "sibling_blocking row db \<longleftrightarrow>
     list_ex (\<lambda>r. ii_event_id r = ii_event_id row \<and> ii_intent_id r \<noteq> ii_intent_id row
       \<and> (has_status II_CLAIMED r \<or> has_status II_ENQUEUED r \<or> has_status II_STARTED r)) (in_intents db)"

text \<open>The response decision of an auto-investigate intent, with its audit row.\<close>

definition decide_response ::
  "intent_env \<Rightarrow> int \<Rightarrow> security_event_row \<Rightarrow> intent_row \<Rightarrow> intent_db \<Rightarrow> bool \<times> intent_db" where
  "decide_response env now event row db =
     (if ii_intent_kind row \<noteq> INTENT_KIND_AUTO_INVESTIGATE
      then (ii_include_response_execution row, db)
      else
        let facts = in_facts db (se_event_id event);
            decision = auto_response_evaluate (ie_cfg env) event facts
                         (resolve_response_link_role db (se_event_id event)) (creation_product facts)
        in (pd_eligible decision,
            if cfg_auto_response_enabled (ie_cfg env)
            then db\<lparr>in_db := add_audit (se_event_id event) (Some (se_status event))
                        (Some (se_status event)) (Some ''AutoResponsePolicyService'')
                        (Some (format_auto_response_audit_reason decision)) now (in_db db)\<rparr>
            else db))"

definition commit_enqueued_in_tx ::
  "intent_env \<Rightarrow> int \<Rightarrow> string \<Rightarrow> intent_db \<Rightarrow> (EnqueuedPublishTarget option \<times> intent_db) res" where
  "commit_enqueued_in_tx env now intent_id db =
     (case get_intent db intent_id of
        None \<Rightarrow> Inr (None, db)
      | Some row \<Rightarrow>
          bind_res (status_of row) (\<lambda>claimed_status.
          if claimed_status \<noteq> II_CLAIMED then Inr (None, db)
          else
            (case get_event (in_db db) (ii_event_id row) of
               None \<Rightarrow>
                 bind_res (set_and_put env now II_SKIPPED (Some ''event_missing'') None False row db)
                   (\<lambda>db'. Inr (None, db'))
             | Some event \<Rightarrow>
                 let resume_from_checkpoint =
                       (revision_of row > 1 \<and> se_status event \<in> EVENT_INVESTIGATION_RESUMABLE)
                 in if se_status event \<noteq> EventStatus_value ES_NEW \<and> \<not> resume_from_checkpoint
                    then bind_res (set_and_put env now II_SKIPPED (Some ''event_not_new'') None False row db)
                           (\<lambda>db'. Inr (None, db'))
                    else if sibling_blocking row db
                    then bind_res (set_and_put env now II_RETRY None (Some ''sibling_intent_active'') True row db)
                           (\<lambda>db'. Inr (None, db'))
                    else
                      (case decide_response env now event row db of
                         (include_response, db1) \<Rightarrow>
                           let task_id = deterministic_investigation_task_id env (ii_intent_id row)
                                           (ii_revision row)
                           in bind_res (validate_intent_transition II_CLAIMED II_ENQUEUED) (\<lambda>_.
                              Inr (Some \<lparr> pt_event_id = ii_event_id row, pt_task_id = task_id,
                                          pt_intent_id = ii_intent_id row,
                                          pt_include_response_execution = include_response,
                                          pt_generate_report = ii_generate_report row,
                                          pt_orchestration_mode =
                                            or_default (ii_orchestration_mode row) ''graph'',
                                          pt_resume_from_checkpoint = resume_from_checkpoint \<rparr>,
                                   put_intent now
                                     (row\<lparr>ii_include_response_execution := include_response,
                                          ii_status := InvestigationIntentStatus_value II_ENQUEUED,
                                          ii_broker_task_id := Some task_id, ii_claim_owner := None,
                                          ii_claim_expires_at := None, ii_last_error := None\<rparr>) db1))))))"

definition commit_enqueued_publish_target ::
  "intent_env \<Rightarrow> int \<Rightarrow> string \<Rightarrow> intent_db \<Rightarrow> intent_db \<times> EnqueuedPublishTarget option res" where
  "commit_enqueued_publish_target env now intent_id db =
     commit db (commit_enqueued_in_tx env now intent_id db)"

text \<open>The degraded-flag service, when configured, writes elsewhere or raises.\<close>

definition set_degraded :: "intent_env \<Rightarrow> unit res" where
  "set_degraded env =
     ensure (ie_degraded env \<noteq> Some True) (ValidationError ''degraded flag not written'')"

definition handle_publish_transient_failure ::
  "intent_env \<Rightarrow> int \<Rightarrow> string \<Rightarrow> bool \<Rightarrow> intent_row \<Rightarrow> intent_db \<Rightarrow> intent_db res" where
  "handle_publish_transient_failure env now safe_error conserve_retry_budget row db =
     bind_res
       (if conserve_retry_budget
        then bind_res (set_status_in_session env II_RETRY None (Some safe_error) False row) (\<lambda>row'.
             Inr (row'\<lparr>ii_broker_task_id := None\<rparr>))
        else if ii_attempt row + 1 \<ge> cfg_auto_investigate_max_attempts (ie_cfg env)
        then set_status_in_session env II_DEAD None (Some safe_error) False row
        else set_status_in_session env II_RETRY None (Some safe_error) True row) (\<lambda>row'.
     bind_res (set_degraded env) (\<lambda>_.
     Inr (put_intent now row' db)))"

definition revert_enqueued_after_publish_failure ::
  "intent_env \<Rightarrow> int \<Rightarrow> string \<Rightarrow> string \<Rightarrow> bool \<Rightarrow> intent_db \<Rightarrow> intent_db \<times> unit res" where
  "revert_enqueued_after_publish_failure env now intent_id safe_error conserve_retry_budget db =
     (case get_intent db intent_id of
        None \<Rightarrow> (db, Inr ())
      | Some row \<Rightarrow>
          commit db (bind_res (status_of row) (\<lambda>status.
            if status \<noteq> II_ENQUEUED then Inr ((), db)
            else
              bind_res (handle_publish_transient_failure env now safe_error conserve_retry_budget row db) (\<lambda>db'.
              Inr ((), db')))))"

definition revert_enqueued_after_unexpected_failure ::
  "intent_env \<Rightarrow> int \<Rightarrow> string \<Rightarrow> string \<Rightarrow> bool \<Rightarrow> intent_db \<Rightarrow> intent_db \<times> unit res" where
  "revert_enqueued_after_unexpected_failure env now intent_id safe_error conserve_retry_budget db =
     (case get_intent db intent_id of
        None \<Rightarrow> (db, Inr ())
      | Some row \<Rightarrow>
          commit db (bind_res (status_of row) (\<lambda>status.
            if status \<noteq> II_ENQUEUED then Inr ((), db)
            else
              bind_res (set_status_in_session env (if conserve_retry_budget then II_RETRY else II_DEAD)
                          None (Some safe_error) False row) (\<lambda>row'.
              Inr ((), put_intent now (row'\<lparr>ii_broker_task_id := None\<rparr>) db)))))"

text \<open>
  What the broker does with a task: it takes it, or the publication raises, in the last two
  cases possibly after the broker took the task.
\<close>

datatype publish_outcome =
    Published
  | Metadata_unavailable
  | Broker_error string bool
  | Publish_unexpected string bool

record publish_io =
  po_outcome :: publish_outcome
  po_commit_time :: int
  po_revert_time :: int
  po_others :: "intent_db \<Rightarrow> intent_db"

definition broker_took :: "publish_outcome \<Rightarrow> bool" where
  "broker_took outcome =
     (case outcome of Published \<Rightarrow> True | Metadata_unavailable \<Rightarrow> False
      | Broker_error _ took \<Rightarrow> took | Publish_unexpected _ took \<Rightarrow> took)"

definition broker_publish :: "publish_outcome \<Rightarrow> EnqueuedPublishTarget \<Rightarrow> intent_db \<Rightarrow> intent_db" where
  "broker_publish outcome target db =
     (if broker_took outcome then db\<lparr>in_published := in_published db @ [target]\<rparr> else db)"

definition set_auto_response_dispatch_degraded ::
  "intent_env \<Rightarrow> EnqueuedPublishTarget \<Rightarrow> unit res" where
  "set_auto_response_dispatch_degraded env target =
     (if pt_include_response_execution target then set_degraded env else Inr ())"

definition publish_claimed_intent ::
  "intent_env \<Rightarrow> publish_io \<Rightarrow> string \<Rightarrow> bool \<Rightarrow> bool \<Rightarrow> intent_db \<Rightarrow> intent_db \<times> bool res" where
  "publish_claimed_intent env io intent_id strict conserve_retry_budget db =
     then_do (commit_enqueued_publish_target env (po_commit_time io) intent_id db) (\<lambda>db1 published.
     case published of
       None \<Rightarrow> (db1, Inr False)
     | Some target \<Rightarrow>
         let db2 = broker_publish (po_outcome io) target (po_others io db1);
             failed = (\<lambda>revert raised.
               then_do (revert db2) (\<lambda>db3 _.
               (db3, bind_res (set_auto_response_dispatch_degraded env target) (\<lambda>_. raised))))
         in (case po_outcome io of
               Published \<Rightarrow> (db2, Inr True)
             | Metadata_unavailable \<Rightarrow>
                 failed (revert_enqueued_after_publish_failure env (po_revert_time io)
                           (pt_intent_id target) ''DependencyUnavailableError'' conserve_retry_budget)
                   (if strict then Inl (DependencyUnavailableError ''redis'') else Inr False)
             | Broker_error error _ \<Rightarrow>
                 failed (revert_enqueued_after_publish_failure env (po_revert_time io)
                           (pt_intent_id target) error conserve_retry_budget)
                   (if strict then Inl (DependencyUnavailableError ''celery_broker'') else Inr False)
             | Publish_unexpected error _ \<Rightarrow>
                 failed (revert_enqueued_after_unexpected_failure env (po_revert_time io)
                           (pt_intent_id target) error conserve_retry_budget)
                   (Inr False)))"

definition claim_and_publish_intent ::
  "intent_env \<Rightarrow> int \<Rightarrow> publish_io \<Rightarrow> string \<Rightarrow> bool \<Rightarrow> intent_db \<Rightarrow> intent_db \<times> bool res" where
  "claim_and_publish_intent env now io intent_id conserve_retry_budget db =
     then_do (claim_intent env now intent_id db) (\<lambda>db1 claimed.
     case claimed of
       None \<Rightarrow> (db1, Inr False)
     | Some claimed_id \<Rightarrow> publish_claimed_intent env io claimed_id False conserve_retry_budget db1)"

fun publish_all ::
  "intent_env \<Rightarrow> (string \<Rightarrow> publish_io) \<Rightarrow> string list \<Rightarrow> intent_db \<Rightarrow> intent_db \<times> nat res" where
  "publish_all env io [] db = (db, Inr 0)"
| "publish_all env io (i # ids) db =
     then_do (publish_claimed_intent env (io i) i False False db) (\<lambda>db1 ok.
     then_do (publish_all env io ids db1) (\<lambda>db2 n. (db2, Inr ((if ok then 1 else 0) + n))))"

definition claim_and_publish_batch ::
  "intent_env \<Rightarrow> int \<Rightarrow> (string \<Rightarrow> bool) \<Rightarrow> (string \<Rightarrow> publish_io) \<Rightarrow> nat \<Rightarrow> intent_db
     \<Rightarrow> intent_db \<times> nat res" where
  "claim_and_publish_batch env now locked io limit db =
     then_do (claim_batch env now locked limit db) (\<lambda>db1 claimed. publish_all env io claimed db1)"

text \<open>The management API: unavailable dependencies are counted, other exceptions propagate.\<close>

fun publish_all_strict ::
  "intent_env \<Rightarrow> (string \<Rightarrow> publish_io) \<Rightarrow> string list \<Rightarrow> intent_db
     \<Rightarrow> intent_db \<times> (nat \<times> bool) res" where
  "publish_all_strict env io [] db = (db, Inr (0, False))"
| "publish_all_strict env io (i # ids) db =
     (case publish_claimed_intent env (io i) i True False db of
        (db1, Inl (DependencyUnavailableError _)) \<Rightarrow>
          then_do (publish_all_strict env io ids db1) (\<lambda>db2 (n, _). (db2, Inr (n, True)))
      | (db1, Inl e) \<Rightarrow> (db1, Inl e)
      | (db1, Inr ok) \<Rightarrow>
          then_do (publish_all_strict env io ids db1) (\<lambda>db2 (n, failed).
          (db2, Inr ((if ok then 1 else 0) + n, failed))))"

definition dispatch_sync_batch ::
  "intent_env \<Rightarrow> int \<Rightarrow> (string \<Rightarrow> bool) \<Rightarrow> (string \<Rightarrow> publish_io) \<Rightarrow> nat \<Rightarrow> intent_db
     \<Rightarrow> intent_db \<times> (nat \<times> nat) res" where
  "dispatch_sync_batch env now locked io limit db =
     then_do (claim_batch env now locked limit db) (\<lambda>db1 claimed.
     then_do (publish_all_strict env io claimed db1) (\<lambda>db2 (published, transient_failure).
     (db2, if transient_failure \<and> published = 0
           then Inl (DependencyUnavailableError ''celery_broker'')
           else Inr (length claimed, published))))"

section \<open>The in-process fallback\<close>

definition is_safe_for_in_process_dispatch_fallback ::
  "string \<Rightarrow> string \<Rightarrow> intent_db \<Rightarrow> bool res" where
  "is_safe_for_in_process_dispatch_fallback event_id intent_id db =
     (case (get_intent db intent_id, get_event (in_db db) event_id) of
        (Some intent_row, Some event_row) \<Rightarrow>
          if ii_event_id intent_row \<noteq> event_id then Inr False
          else bind_res (status_of intent_row) (\<lambda>status.
            Inr (status \<in> {II_PENDING, II_RETRY} \<and> \<not> ii_include_response_execution intent_row
                 \<and> se_status event_row \<in> PURE_INVESTIGATION_DISPATCH_STATUSES
                 \<and> \<not> list_ex (\<lambda>ob. ob_event_id ob = event_id \<and> ob_superseded_by_disposition_id ob = None
                       \<and> ob_latest_writeback_status ob = Some (WritebackStatus_value WB_UNKNOWN))
                     (db_outboxes (in_db db))))
      | _ \<Rightarrow> Inr False)"

text \<open>Every exception is logged and answered with no publication; the state stays as reached.\<close>

definition run_in_process_dispatch_fallback ::
  "intent_env \<Rightarrow> int \<Rightarrow> publish_io \<Rightarrow> string option \<Rightarrow> string option \<Rightarrow> string \<Rightarrow> intent_db
     \<Rightarrow> intent_db \<times> nat" where
  "run_in_process_dispatch_fallback env now io event_id intent_id trigger db =
     (if trigger \<noteq> ''soft_time_limit_recovered'' then (db, 0)
      else
        (case (event_id, intent_id) of
           (Some event_id, Some intent_id) \<Rightarrow>
             (case is_safe_for_in_process_dispatch_fallback event_id intent_id db of
                Inr True \<Rightarrow>
                  (case claim_and_publish_intent env now io intent_id True db of
                     (db', Inr True) \<Rightarrow> (db', 1)
                   | (db', _) \<Rightarrow> (db', 0))
              | _ \<Rightarrow> (db, 0))
         | _ \<Rightarrow> (db, 0)))"

section \<open>Reconciliation\<close>

definition STARTED_STALE_MIN_S :: int where "STARTED_STALE_MIN_S = 660"

definition is_stale_intent_row ::
  "intent_row \<Rightarrow> InvestigationIntentStatus \<Rightarrow> int \<Rightarrow> int \<Rightarrow> int \<Rightarrow> bool" where
  "is_stale_intent_row row status now started_stale_s lease_seconds \<longleftrightarrow>
     (if claim_expired now row then True
      else if status = II_ENQUEUED
      then now - ii_updated_at row > seconds (max (lease_seconds * 4) 30)
      else if status = II_STARTED then now - ii_updated_at row > seconds started_stale_s
      else False)"

text \<open>The end of \<open>_reconcile_stale_row\<close>: one attempt more, or none left.\<close>

definition retry_or_bury ::
  "intent_env \<Rightarrow> intent_row \<Rightarrow> InvestigationIntentStatus \<Rightarrow> int \<Rightarrow> intent_row res" where
  "retry_or_bury env row status max_attempts =
     (let next_attempt = ii_attempt row + 1;
          error = (\<lambda>d. case ii_last_error row of None \<Rightarrow> Some d | Some e \<Rightarrow> Some (or_default e d));
          revision = revision_of row + 1
      in if next_attempt \<ge> max_attempts
         then bind_res (validate_intent_transition status II_DEAD) (\<lambda>_.
              Inr (row\<lparr>ii_status := InvestigationIntentStatus_value II_DEAD,
                       ii_last_error := error ''max_attempts_exceeded'', ii_claim_owner := None,
                       ii_claim_expires_at := None, ii_revision := revision,
                       ii_broker_task_id := None\<rparr>))
         else bind_res (validate_intent_transition status II_RETRY) (\<lambda>_.
              Inr (row\<lparr>ii_status := InvestigationIntentStatus_value II_RETRY,
                       ii_attempt := next_attempt,
                       ii_last_error := error ''stale_intent_reconciled'', ii_claim_owner := None,
                       ii_claim_expires_at := None, ii_revision := revision,
                       ii_broker_task_id :=
                         Some (deterministic_investigation_task_id env (ii_intent_id row) revision)\<rparr>)))"

definition reconcile_stale_row ::
  "intent_env \<Rightarrow> intent_row \<Rightarrow> InvestigationIntentStatus \<Rightarrow> security_event_row option \<Rightarrow> int
     \<Rightarrow> intent_row res" where
  "reconcile_stale_row env row status event max_attempts =
     (case event of
        Some e \<Rightarrow>
          if status = II_STARTED \<and> se_status e \<in> EVENT_INVESTIGATION_COMPLETED
          then bind_res (validate_intent_transition status II_TERMINAL) (\<lambda>_.
               Inr (row\<lparr>ii_status := InvestigationIntentStatus_value II_TERMINAL,
                        ii_claim_owner := None, ii_claim_expires_at := None\<rparr>))
          else if status = II_STARTED \<and> se_status e = EventStatus_value ES_FAILED
          then bind_res (validate_intent_transition status II_SKIPPED) (\<lambda>_.
               Inr (row\<lparr>ii_status := InvestigationIntentStatus_value II_SKIPPED,
                        ii_skip_reason := Some ''event_failed'',
                        ii_claim_owner := None, ii_claim_expires_at := None\<rparr>))
          else retry_or_bury env row status max_attempts
      | None \<Rightarrow> retry_or_bury env row status max_attempts)"

text \<open>
  The rows of one pass: the oldest unlocked ones in flight. A row's task metadata is deleted
  after the commit, best effort, when its task id changed.
\<close>

definition in_flight :: "intent_row \<Rightarrow> bool" where
  "in_flight row \<longleftrightarrow> has_status II_CLAIMED row \<or> has_status II_ENQUEUED row \<or> has_status II_STARTED row"

fun reconcile_rows ::
  "intent_env \<Rightarrow> int \<Rightarrow> intent_row list \<Rightarrow> intent_db \<Rightarrow> (nat \<times> intent_db) res" where
  "reconcile_rows env now [] db = Inr (0, db)"
| "reconcile_rows env now (row # rows) db =
     (let lease_seconds = cfg_auto_investigate_claim_lease_s (ie_cfg env) in
      bind_res (status_of row) (\<lambda>status.
      if \<not> is_stale_intent_row row status now (max (lease_seconds * 4) STARTED_STALE_MIN_S) lease_seconds
      then reconcile_rows env now rows db
      else
        bind_res (reconcile_stale_row env row status (get_event (in_db db) (ii_event_id row))
                    (cfg_auto_investigate_max_attempts (ie_cfg env))) (\<lambda>row'.
        bind_res (reconcile_rows env now rows (put_intent now row' db)) (\<lambda>(n, db').
        Inr (n + 1, db')))))"

definition reconcile_candidates :: "(string \<Rightarrow> bool) \<Rightarrow> nat \<Rightarrow> intent_db \<Rightarrow> intent_row list" where
  "reconcile_candidates locked limit db =
     take limit (sort_key ii_updated_at
       (filter (\<lambda>r. in_flight r \<and> \<not> locked (ii_intent_id r)) (in_intents db)))"

text \<open>\<open>_materialize_provisional_intents\<close>: aged NEW events whose only link is provisional.\<close>

definition provisional_links :: "intent_env \<Rightarrow> int \<Rightarrow> nat \<Rightarrow> intent_db \<Rightarrow> link_row list" where
  "provisional_links env now limit db =
     (let cutoff = now - seconds (cfg_auto_investigate_provisional_window_s (ie_cfg env))
      in take limit
        (sort_key (\<lambda>l. ef_created_at (in_facts db (lk_event_id l)))
          (filter (\<lambda>l. lk_role l = PROVISIONAL_LINK_ROLE
             \<and> (case get_event (in_db db) (lk_event_id l) of
                   None \<Rightarrow> False
                 | Some e \<Rightarrow> se_status e = EventStatus_value ES_NEW
                     \<and> ef_created_at (in_facts db (lk_event_id l)) \<le> cutoff)
             \<and> find_auto_intent db (lk_event_id l) = None) (in_links db))))"

fun materialize_links ::
  "intent_env \<Rightarrow> int \<Rightarrow> (nat \<Rightarrow> string) \<Rightarrow> link_row list \<Rightarrow> intent_db \<Rightarrow> (nat \<times> intent_db) res" where
  "materialize_links env now ids [] db = Inr (0, db)"
| "materialize_links env now ids (link # links) db =
     (case get_event (in_db db) (lk_event_id link) of
        None \<Rightarrow> materialize_links env now ids links db
      | Some event \<Rightarrow>
          bind_res (maybe_create_pending_in_session env now (ids (length links)) event PRIMARY_LINK_ROLE
                      (creation_product (in_facts db (se_event_id event))) True db) (\<lambda>(created, db1).
          bind_res (materialize_links env now ids links db1) (\<lambda>(n, db2).
          Inr ((if created = None then n else n + 1), db2))))"

definition materialize_provisional_intents ::
  "intent_env \<Rightarrow> int \<Rightarrow> (nat \<Rightarrow> string) \<Rightarrow> nat \<Rightarrow> intent_db \<Rightarrow> intent_db \<times> nat res" where
  "materialize_provisional_intents env now ids limit db =
     (if \<not> cfg_auto_investigate_enabled (ie_cfg env) then (db, Inr 0)
      else commit db (materialize_links env now ids (provisional_links env now limit db) db))"

definition reconcile_stale ::
  "intent_env \<Rightarrow> int \<Rightarrow> (nat \<Rightarrow> string) \<Rightarrow> (string \<Rightarrow> bool) \<Rightarrow> nat \<Rightarrow> intent_db \<Rightarrow> intent_db \<times> nat res" where
  "reconcile_stale env now ids locked limit db =
     then_do (commit db (reconcile_rows env now (reconcile_candidates locked limit db) db)) (\<lambda>db1 reconciled.
     then_do (materialize_provisional_intents env now ids
                (cfg_auto_investigate_materialize_batch_size (ie_cfg env)) db1) (\<lambda>db2 created.
     (db2, Inr (reconciled + created))))"

section \<open>Reads\<close>

definition lookup_by_broker_task_id :: "string \<Rightarrow> intent_db \<Rightarrow> intent_row option" where
  "lookup_by_broker_task_id task_id db =
     scalar (\<lambda>r. ii_broker_task_id r = Some task_id) (in_intents db)"

definition lookup_active_for_event :: "string \<Rightarrow> intent_db \<Rightarrow> intent_row option" where
  "lookup_active_for_event event_id db =
     max_by ii_created_at
       (filter (\<lambda>r. ii_event_id r = event_id \<and> ii_intent_kind r = INTENT_KIND_AUTO_INVESTIGATE
                  \<and> ii_intent_version r = INTENT_VERSION_ISSUE108_V1) (in_intents db))"

definition pending_dispatch_stats :: "int \<Rightarrow> intent_db \<Rightarrow> nat \<times> int option" where
  "pending_dispatch_stats now db =
     (let pending = filter (\<lambda>r. has_status II_PENDING r \<or> has_status II_RETRY r) (in_intents db)
      in (length pending,
          map_option (\<lambda>oldest. max 0 (now + oldest)) (max_of (\<lambda>r. - ii_created_at r) pending)))"

end
