(* ===== verification/Intents_Ledger.thy ===== *)
theory Intents_Ledger
  imports Intents
begin

text \<open>
  The intent table as a small transition system, the ledger: rows are written under a
  condition every write satisfies, or added as pending. Every operation of the service,
  whatever other sessions do in between, is a run of the ledger.
\<close>

section \<open>The ledger as a transition system\<close>

interpretation intents_table: keyed_table in_intents ii_intent_id get_intent store_intent
  by unfold_locales (simp_all add: get_intent_def store_intent_def)

definition active :: "intent_row \<Rightarrow> bool" where
  "active row \<longleftrightarrow> has_status II_ENQUEUED row \<or> has_status II_STARTED row"

definition fenced :: "intent_env \<Rightarrow> intent_row \<Rightarrow> bool" where
  "fenced env row \<longleftrightarrow> ii_revision row \<ge> 1
     \<and> (active row \<longrightarrow> ii_broker_task_id row
           = Some (deterministic_investigation_task_id env (ii_intent_id row) (ii_revision row)))"

definition sibling_active :: "intent_row \<Rightarrow> intent_db \<Rightarrow> bool" where
  "sibling_active row db \<longleftrightarrow> (\<exists>r\<in>set (in_intents db). ii_event_id r = ii_event_id row
     \<and> ii_intent_id r \<noteq> ii_intent_id row \<and> active r)"

definition same_identity :: "intent_row \<Rightarrow> intent_row \<Rightarrow> bool" where
  "same_identity row row' \<longleftrightarrow> ii_intent_id row' = ii_intent_id row \<and> ii_event_id row' = ii_event_id row
     \<and> ii_intent_kind row' = ii_intent_kind row \<and> ii_intent_version row' = ii_intent_version row"

text \<open>What any write of a row keeps.\<close>

definition row_step :: "intent_env \<Rightarrow> intent_db \<Rightarrow> intent_row \<Rightarrow> intent_row \<Rightarrow> bool" where
  "row_step env db row row' \<longleftrightarrow>
     same_identity row row' \<and> ii_status row' \<in> range InvestigationIntentStatus_value
     \<and> (fenced env row \<longrightarrow> fenced env row' \<and> ii_revision row \<le> ii_revision row')
     \<and> (active row' \<and> \<not> active row \<longrightarrow> \<not> sibling_active row db)
     \<and> (has_status II_CLAIMED row' \<longrightarrow> ii_claim_expires_at row' \<noteq> None)
     \<and> \<not> has_status II_TERMINAL row"

definition new_row :: "intent_row \<Rightarrow> intent_db \<Rightarrow> bool" where
  "new_row row db \<longleftrightarrow> has_status II_PENDING row \<and> ii_revision row = 1
     \<and> \<not> insert_violates_unique row (in_intents db)"

inductive ledger_step :: "intent_env \<Rightarrow> intent_db \<Rightarrow> intent_db \<Rightarrow> bool" for env where
  wrote: "get_intent db (ii_intent_id row) = Some row \<Longrightarrow> row_step env db row row' \<Longrightarrow>
    ledger_step env db (put_intent now row' db)"
| added: "new_row row db \<Longrightarrow> ledger_step env db (db\<lparr>in_intents := in_intents db @ [row]\<rparr>)"
| elsewhere: "in_intents db' = in_intents db \<Longrightarrow> ledger_step env db db'"

abbreviation ledger :: "intent_env \<Rightarrow> intent_db \<Rightarrow> intent_db \<Rightarrow> bool" where
  "ledger env \<equiv> (ledger_step env)\<^sup>*\<^sup>*"

text \<open>What the digest is relied on for: no collisions, never the empty string.\<close>

definition digest_ok :: "intent_env \<Rightarrow> bool" where
  "digest_ok env \<longleftrightarrow> inj (ie_sha256 env) \<and> (\<forall>x. ie_sha256 env x \<noteq> [])"

section \<open>Single rows\<close>

lemmas row_defs = row_step_def same_identity_def fenced_def active_def

lemma value_in_range [simp]: "InvestigationIntentStatus_value s \<in> range InvestigationIntentStatus_value"
  by simp

lemma fenced_revision: "fenced env row \<Longrightarrow> revision_of row = ii_revision row"
  by (simp add: fenced_def revision_of_def)

lemma ledger_refl_elsewhere: "in_intents db' = in_intents db \<Longrightarrow> ledger env db db'"
  by (rule r_into_rtranclp) (rule ledger_step.elsewhere)

lemma ledger_write:
  "get_intent db (ii_intent_id row) = Some row \<Longrightarrow> row_step env db row row' \<Longrightarrow>
     ledger env db (put_intent now row' db)"
  by (rule r_into_rtranclp) (rule ledger_step.wrote)

lemma validate_intent_transition_iff [simp]:
  "validate_intent_transition s t = Inr u \<longleftrightarrow> t \<in> INTENT_TRANSITIONS s"
  by (simp add: validate_intent_transition_def)

declare InvestigationIntentStatus_enum.parse_iff [simp]

lemma row_step_inactive:
  assumes "same_identity row row'" and s: "has_status s row'" "s \<notin> {II_ENQUEUED, II_STARTED, II_CLAIMED}"
    and t: "has_status s0 row" "s0 \<noteq> II_TERMINAL"
    and "fenced env row \<Longrightarrow> ii_revision row \<le> ii_revision row'"
  shows "row_step env db row row'"
proof -
  have "\<not> active row'" "\<not> has_status II_CLAIMED row'" using s by (auto simp: active_def)
  moreover have "fenced env row \<longrightarrow> fenced env row' \<and> ii_revision row \<le> ii_revision row'"
    using assms(6) \<open>\<not> active row'\<close> by (auto simp: fenced_def)
  moreover have "\<not> has_status II_TERMINAL row" "ii_status row' \<in> range InvestigationIntentStatus_value"
    using t s(1) by auto
  ultimately show ?thesis using assms(1) unfolding row_step_def by blast
qed

lemma revision_le: "fenced env row \<Longrightarrow> ii_revision row \<le> revision_of row"
  by (simp add: fenced_def revision_of_def)

lemma leaves_terminal: "t \<in> INTENT_TRANSITIONS s \<Longrightarrow> s \<noteq> II_TERMINAL"
  by auto

lemma set_status_row_step:
  assumes "set_status_in_session env target skip_reason last_error inc row = Inr row'"
    and "target \<notin> {II_ENQUEUED, II_STARTED, II_CLAIMED}"
  shows "row_step env db row row'"
proof -
  from assms(1) obtain s where s: "has_status s row" "target \<in> INTENT_TRANSITIONS s"
    by (auto simp: set_status_in_session_def)
  show ?thesis
  proof (rule row_step_inactive [OF _ _ assms(2) s(1) leaves_terminal [OF s(2)]])
    show "same_identity row row'" using assms(1)
      by (auto simp: set_status_in_session_def same_identity_def bump_attempt_def Let_def split: if_splits)
    show "has_status target row'" using assms(1)
      by (auto simp: set_status_in_session_def bump_attempt_def Let_def split: if_splits)
    show "ii_revision row \<le> ii_revision row'" if "fenced env row"
      using assms(1) revision_le [OF that]
      by (auto simp: set_status_in_session_def bump_attempt_def revision_of_def Let_def split: if_splits)
  qed
qed

lemma rearm_row_step:
  assumes "has_status s row" and "II_RETRY \<in> INTENT_TRANSITIONS s"
  shows "row_step env db row (rearm_row env request row)"
proof (rule row_step_inactive [OF _ _ _ assms(1) leaves_terminal [OF assms(2)]])
  show "same_identity row (rearm_row env request row)"
    by (simp add: same_identity_def rearm_row_def Let_def split: option.splits)
  show "has_status II_RETRY (rearm_row env request row)"
    by (simp add: rearm_row_def Let_def split: option.splits)
  show "ii_revision row \<le> ii_revision (rearm_row env request row)" if "fenced env row"
    using revision_le [OF that] by (simp add: rearm_row_def Let_def split: option.splits)
qed simp

lemma skip_row_step:
  assumes "has_status s row" and "II_SKIPPED \<in> INTENT_TRANSITIONS s"
  shows "row_step env db row (skip_row reason row)"
  by (rule row_step_inactive [OF _ _ _ assms(1) leaves_terminal [OF assms(2)], of _ II_SKIPPED])
     (simp_all add: same_identity_def skip_row_def)

lemma retry_or_bury_step:
  assumes "retry_or_bury env row status max_attempts = Inr row'" and "has_status status row"
  shows "row_step env db row row'"
proof -
  obtain s where s: "s \<in> {II_DEAD, II_RETRY}" "s \<in> INTENT_TRANSITIONS status" "has_status s row'"
    using assms(1) by (auto simp: retry_or_bury_def Let_def split: if_splits)
  show ?thesis
  proof (rule row_step_inactive [OF _ s(3) _ assms(2) leaves_terminal [OF s(2)]])
    show "same_identity row row'" using assms(1)
      by (auto simp: retry_or_bury_def same_identity_def Let_def split: if_splits)
    show "ii_revision row \<le> ii_revision row'" if "fenced env row"
      using assms(1) revision_le [OF that] by (auto simp: retry_or_bury_def Let_def split: if_splits)
  qed (use s(1) in auto)
qed

lemma reconcile_row_step:
  assumes r: "reconcile_stale_row env row status event max_attempts = Inr row'"
    and s: "has_status status row"
  shows "row_step env db row row'"
proof (cases "retry_or_bury env row status max_attempts = Inr row'")
  case True
  then show ?thesis using s by (rule retry_or_bury_step)
next
  case False
  with r have st: "status = II_STARTED" and row': "has_status II_TERMINAL row' \<or> has_status II_SKIPPED row'"
    and same: "same_identity row row'" "ii_revision row' = ii_revision row"
    by (auto simp: reconcile_stale_row_def same_identity_def split: option.splits if_splits)
  from row' obtain s' where "has_status s' row'" "s' \<in> {II_TERMINAL, II_SKIPPED}" by blast
  then show ?thesis
    using row_step_inactive [OF same(1) _ _ s, of s'] st same(2) by auto
qed

lemma claim_row_Some:
  assumes "claim_row env now row = Inr (Some row')"
  obtains s where "has_status s row" "s \<in> {II_PENDING, II_RETRY, II_CLAIMED}"
    "same_identity row row'" "has_status II_CLAIMED row'" "ii_revision row' = ii_revision row"
    "ii_claim_expires_at row' \<noteq> None"
proof -
  from assms obtain s where "has_status s row" by (auto simp: claim_row_def)
  then show thesis
    using assms by (intro that [of s])
      (auto simp: claim_row_def same_identity_def split: if_splits)
qed

lemma claim_row_step:
  assumes "claim_row env now row = Inr (Some row')"
  shows "row_step env db row row'"
  using assms
proof (cases rule: claim_row_Some)
  case (1 s)
  have "\<not> active row'" using 1(4) by (simp add: active_def)
  moreover have "\<not> has_status II_TERMINAL row" using 1(1,2) by auto
  ultimately show ?thesis
    using 1(3-6) by (auto simp: row_step_def fenced_def)
qed

section \<open>Loops over loaded rows\<close>

definition distinct_ids :: "intent_db \<Rightarrow> bool" where
  "distinct_ids db \<longleftrightarrow> distinct (map ii_intent_id (in_intents db))"

definition loaded :: "intent_row list \<Rightarrow> intent_db \<Rightarrow> bool" where
  "loaded rows db \<longleftrightarrow> distinct (map ii_intent_id rows)
     \<and> (\<forall>row\<in>set rows. get_intent db (ii_intent_id row) = Some row)"

lemma get_put_intent:
  "get_intent (put_intent now row db) k =
     (if k = ii_intent_id row
      then (if get_intent db k = None then None else Some (row\<lparr>ii_updated_at := now\<rparr>))
      else get_intent db k)"
proof (cases "k = ii_intent_id row")
  case True
  show ?thesis
  proof (cases "get_intent db k = None")
    case None: True
    then have "k \<notin> ii_intent_id ` set (in_intents db)" by (simp add: intents_table.get_None_iff)
    then have "get_intent (put_intent now row db) k = None"
      using intents_table.keys_put [of "row\<lparr>ii_updated_at := now\<rparr>" db]
      by (metis intents_table.get_None_iff list.set_map put_intent_def)
    with None True show ?thesis by simp
  next
    case False
    with True show ?thesis
      using intents_table.get_put_same [of db "row\<lparr>ii_updated_at := now\<rparr>"] by (simp add: put_intent_def)
  qed
next
  case False
  then show ?thesis
    using intents_table.get_put_other [of k "row\<lparr>ii_updated_at := now\<rparr>" db] by (simp add: put_intent_def)
qed

lemma put_intent_frames [simp]:
  "in_db (put_intent now row db) = in_db db" "in_facts (put_intent now row db) = in_facts db"
  "in_links (put_intent now row db) = in_links db"
  "in_published (put_intent now row db) = in_published db"
  by (simp_all add: put_intent_def store_intent_def)

lemma put_intent_ids: "map ii_intent_id (in_intents (put_intent now row db)) = map ii_intent_id (in_intents db)"
  using intents_table.keys_put [of "row\<lparr>ii_updated_at := now\<rparr>" db] by (simp add: put_intent_def)

lemma loaded_put:
  assumes "loaded (row # rows) db" and "ii_intent_id row' = ii_intent_id row"
  shows "loaded rows (put_intent now row' db)"
proof -
  have d: "distinct (map ii_intent_id rows)" "ii_intent_id row \<notin> ii_intent_id ` set rows"
    using assms(1) by (simp_all add: loaded_def)
  have "get_intent (put_intent now row' db) (ii_intent_id r) = Some r" if "r \<in> set rows" for r
  proof -
    have "ii_intent_id r \<noteq> ii_intent_id row'" using d(2) that assms(2) by (metis imageI)
    moreover have "get_intent db (ii_intent_id r) = Some r" using assms(1) that by (simp add: loaded_def)
    ultimately show ?thesis by (simp add: get_put_intent)
  qed
  with d(1) show ?thesis by (simp add: loaded_def)
qed

lemma find_distinct:
  "distinct (map f xs) \<Longrightarrow> x \<in> set xs \<Longrightarrow> find (\<lambda>y. f y = f x) xs = Some x"
  by (induction xs) (auto simp: image_iff)

lemma get_intent_mem: "distinct_ids db \<Longrightarrow> row \<in> set (in_intents db) \<Longrightarrow>
    get_intent db (ii_intent_id row) = Some row"
  by (simp add: get_intent_def distinct_ids_def find_distinct)

lemma loaded_filter: "distinct_ids db \<Longrightarrow> loaded (filter P (in_intents db)) db"
  by (auto simp: loaded_def get_intent_mem distinct_ids_def distinct_map_filter)

lemma loaded_sorted: "distinct_ids db \<Longrightarrow> loaded (take n (sort_key k (filter P (in_intents db)))) db"
proof -
  assume d: "distinct_ids db"
  have "distinct (map ii_intent_id (sort_key k (filter P (in_intents db))))"
  proof -
    have "distinct (map ii_intent_id (filter P (in_intents db)))"
      using d by (simp add: distinct_ids_def distinct_map_filter)
    then show ?thesis by (simp add: distinct_map)
  qed
  then have "distinct (map ii_intent_id (take n (sort_key k (filter P (in_intents db)))))"
    by (simp add: take_map [symmetric])
  moreover have "set (take n (sort_key k (filter P (in_intents db)))) \<subseteq> set (in_intents db)"
    using set_take_subset [of n "sort_key k (filter P (in_intents db))"] by auto
  ultimately show ?thesis using d by (auto simp: loaded_def intro: get_intent_mem)
qed

lemma ledger_put_loaded:
  "loaded (row # rows) db \<Longrightarrow> row_step env db row row' \<Longrightarrow> ledger env db (put_intent now row' db)"
  by (rule ledger_write [of _ row]) (simp_all add: loaded_def)

lemma row_step_id: "row_step env db row row' \<Longrightarrow> ii_intent_id row' = ii_intent_id row"
  by (simp add: row_step_def same_identity_def)

lemma skip_rows_ledger:
  "skip_rows now reason rows db = Inr (n, db') \<Longrightarrow> loaded rows db \<Longrightarrow> ledger env db db'"
proof (induction now reason rows db arbitrary: n db' rule: skip_rows.induct)
  case (2 now reason row rows db)
  from "2.prems"(1) obtain s m where s: "has_status s row" "II_SKIPPED \<in> INTENT_TRANSITIONS s"
    and rest: "skip_rows now reason rows (put_intent now (skip_row reason row) db) = Inr (m, db')"
    by auto
  have step: "row_step env db row (skip_row reason row)" using s by (rule skip_row_step)
  have "ledger env db (put_intent now (skip_row reason row) db)"
    using "2.prems"(2) step by (rule ledger_put_loaded)
  moreover have "ledger env (put_intent now (skip_row reason row) db) db'"
    by (rule "2.IH" [OF rest loaded_put [OF "2.prems"(2) row_step_id [OF step]]])
  ultimately show ?case by (rule rtranclp_trans)
qed simp

lemma claim_rows_ledger:
  "claim_rows env now rows db = Inr (ids, db') \<Longrightarrow> loaded rows db \<Longrightarrow> ledger env db db'"
proof (induction env now rows db arbitrary: ids db' rule: claim_rows.induct)
  case (2 env now row rows db)
  show ?case
  proof (cases "claim_row env now row = Inr None")
    case True
    with "2.prems" "2.IH"(1) show ?thesis by (auto simp: loaded_def)
  next
    case False
    with "2.prems"(1) obtain row' ids' where r: "claim_row env now row = Inr (Some row')"
      "claim_rows env now rows (put_intent now row' db) = Inr (ids', db')"
      by (auto split: option.splits)
    note step = claim_row_step [OF r(1), of db]
    have "ledger env db (put_intent now row' db)"
      using "2.prems"(2) step by (rule ledger_put_loaded)
    moreover have "ledger env (put_intent now row' db) db'"
      by (rule "2.IH"(2) [OF r(2) loaded_put [OF "2.prems"(2) row_step_id [OF step]]])
    ultimately show ?thesis by (rule rtranclp_trans)
  qed
qed simp

lemma reconcile_rows_ledger:
  "reconcile_rows env now rows db = Inr (n, db') \<Longrightarrow> loaded rows db \<Longrightarrow> ledger env db db'"
proof (induction env now rows db arbitrary: n db' rule: reconcile_rows.induct)
  case (2 env now row rows db)
  let ?lease = "cfg_auto_investigate_claim_lease_s (ie_cfg env)"
  from "2.prems"(1) obtain s where s: "has_status s row" by (auto simp: Let_def)
  show ?case
  proof (cases "is_stale_intent_row row s now (max (?lease * 4) STARTED_STALE_MIN_S) ?lease")
    case False
    with "2.prems" "2.IH"(1) s show ?thesis by (auto simp: Let_def loaded_def)
  next
    case True
    with "2.prems"(1) s obtain row' m where
      r: "reconcile_stale_row env row s (get_event (in_db db) (ii_event_id row))
            (cfg_auto_investigate_max_attempts (ie_cfg env)) = Inr row'"
      "reconcile_rows env now rows (put_intent now row' db) = Inr (m, db')"
      by (auto simp: Let_def)
    note step = reconcile_row_step [OF r(1) s, of db]
    have "ledger env db (put_intent now row' db)"
      using "2.prems"(2) step by (rule ledger_put_loaded)
    moreover have "ledger env (put_intent now row' db) db'"
      by (rule "2.IH"(2) [OF refl _ r(2) loaded_put [OF "2.prems"(2) row_step_id [OF step]]])
         (use True in simp)
    ultimately show ?thesis by (rule rtranclp_trans)
  qed
qed simp

section \<open>Every operation is a run of the ledger\<close>

lemma get_intent_id: "get_intent db k = Some row \<Longrightarrow> ii_intent_id row = k"
  by (rule intents_table.get_key)

lemma ledger_got:
  "get_intent db k = Some row \<Longrightarrow> row_step env db row row' \<Longrightarrow> ledger env db (put_intent now row' db)"
  using get_intent_id by (intro ledger_write [of _ row]) auto

lemma ledger_commit:
  assumes "commit db0 r = (db', x)" and "ledger env db db0"
    and "\<And>y db1. r = Inr (y, db1) \<Longrightarrow> ledger env db db1"
  shows "ledger env db db'"
  using commit_cases [OF assms(1)] assms(2,3) by auto

lemma rearm_ledger:
  assumes "rearm_http_intent env now request row db = Inr (x, db')"
    and "get_intent db (ii_intent_id row) = Some row"
  shows "ledger env db db'"
proof -
  from assms(1) obtain s where "has_status s row" "II_RETRY \<in> INTENT_TRANSITIONS s"
    and db': "db' = put_intent now (rearm_row env request row) db"
    by (auto simp: rearm_http_intent_def)
  then show ?thesis unfolding db' by (intro ledger_got [OF assms(2)] rearm_row_step)
qed

lemma replay_ledger:
  assumes "replay_http_intent env now q row db = Inr (x, db')"
    and "get_intent db (ii_intent_id row) = Some row"
  shows "ledger env db db'"
  using assms rearm_ledger [OF _ assms(2)]
  by (auto simp: replay_http_intent_def split: if_splits)

lemma take_over_ledger:
  assumes "take_over_http_intent env now q row db = Inr (x, db')"
    and "get_intent db (ii_intent_id row) = Some row"
  shows "ledger env db db'"
  using assms rearm_ledger [OF _ assms(2)]
  by (auto simp: take_over_http_intent_def split: if_splits)

lemma scalar_got: "distinct_ids db \<Longrightarrow> scalar P (in_intents db) = Some row \<Longrightarrow>
    get_intent db (ii_intent_id row) = Some row"
  using scalar_SomeD by (metis get_intent_mem)

lemma insert_ledger:
  assumes "insert_intent row db = Inr db'" and "has_status II_PENDING row" and "ii_revision row = 1"
  shows "ledger env db db'"
  using assms
  by (auto simp: insert_intent_def new_row_def split: if_splits
      intro!: r_into_rtranclp ledger_step.added)

lemma ledger_step_ids:
  assumes "ledger_step env db db'" and "distinct_ids db"
  shows "distinct_ids db'"
  using assms
proof (cases rule: ledger_step.cases)
  case (wrote row row' now)
  with assms(2) show ?thesis by (simp add: distinct_ids_def put_intent_ids)
next
  case (added row)
  then have "ii_intent_id row \<notin> ii_intent_id ` set (in_intents db)"
    by (auto simp: new_row_def insert_violates_unique_def list_ex_iff)
  with assms(2) added show ?thesis by (simp add: distinct_ids_def)
next
  case elsewhere
  with assms(2) show ?thesis by (simp add: distinct_ids_def)
qed

lemma ledger_ids: "ledger env db db' \<Longrightarrow> distinct_ids db \<Longrightarrow> distinct_ids db'"
  by (induction rule: rtranclp_induct) (auto dest: ledger_step_ids)

lemma recover_ledger:
  assumes "recover_http_in_tx env now q db = Inr (x, db')" and "distinct_ids db"
  shows "ledger env db db'"
  using assms replay_ledger take_over_ledger scalar_got
  by (auto simp: recover_http_in_tx_def find_request_def find_http_intent_def split: option.splits)

lemma create_http_ledger:
  assumes c: "create_http_in_tx env now intent_id race q db = (db', x)"
    and r: "ledger env db (race db)" and d: "distinct_ids db"
  shows "ledger env db db'"
proof (cases "get_event (in_db db) (hq_event_id q)")
  case None
  with c show ?thesis by (simp add: create_http_in_tx_def)
next
  case (Some event)
  note ev = Some
  show ?thesis
  proof (cases "find_request db q")
    case (Some existing)
    with c ev have r: "commit db (replay_http_intent env now q existing db) = (db', x)"
      by (simp add: create_http_in_tx_def)
    have "get_intent db (ii_intent_id existing) = Some existing"
      using scalar_got [OF d] Some by (simp add: find_request_def)
    then show ?thesis by (intro ledger_commit [OF r rtranclp.rtrancl_refl] replay_ledger)
  next
    case None
    note fresh = None
    show ?thesis
    proof (cases "find_http_intent db (hq_event_id q)")
      case (Some active_row)
      then have got: "get_intent db (ii_intent_id active_row) = Some active_row"
        using scalar_got [OF d] by (simp add: find_http_intent_def)
      from c ev fresh Some consider "db' = db"
        | "commit db (take_over_http_intent env now q active_row db) = (db', x)"
        by (auto simp: create_http_in_tx_def split: if_splits)
      then show ?thesis
        by cases (simp, rule ledger_commit, assumption, simp, rule take_over_ledger [OF _ got], simp)
    next
      case None
      from c ev fresh None consider "db' = db"
        | "commit (race db) (bind_res (skip_active_intents_for_event_in_session now (hq_event_id q)
             ''superseded_by_http_investigate'' (race db)) (\<lambda>(_, db1).
           bind_res (insert_intent (new_http_row env now intent_id q) db1) (\<lambda>db2.
           bind_res (http_intent_result env (new_http_row env now intent_id q) True) (\<lambda>result.
           Inr (result, db2))))) = (db', x)"
        by (auto simp: create_http_in_tx_def split: if_splits)
      then show ?thesis
      proof cases
        case 2
        show ?thesis
        proof (rule ledger_commit [OF 2 r])
          fix y db2
          assume "bind_res (skip_active_intents_for_event_in_session now (hq_event_id q)
             ''superseded_by_http_investigate'' (race db)) (\<lambda>(_, db1).
           bind_res (insert_intent (new_http_row env now intent_id q) db1) (\<lambda>db2.
           bind_res (http_intent_result env (new_http_row env now intent_id q) True) (\<lambda>result.
           Inr (result, db2)))) = Inr (y, db2)"
          then obtain n db1 where
            s: "skip_active_intents_for_event_in_session now (hq_event_id q)
                 ''superseded_by_http_investigate'' (race db) = Inr (n, db1)"
            and i: "insert_intent (new_http_row env now intent_id q) db1 = Inr db2"
            by auto
          have "ledger env (race db) db1"
            using s loaded_filter [OF ledger_ids [OF r d]]
            unfolding skip_active_intents_for_event_in_session_def by (rule skip_rows_ledger)
          moreover have "ledger env db1 db2" by (rule insert_ledger [OF i]) (simp_all add: new_http_row_def)
          ultimately show "ledger env db db2" using r by (meson rtranclp_trans)
        qed
      qed simp
    qed
  qed
qed

lemma create_or_replay_ledger:
  assumes c: "create_or_replay_http_intent env now intent_id race q db = (db', x)"
    and r: "ledger env db (race db)" and d: "distinct_ids db"
  shows "ledger env db db'"
proof -
  define q' where "q' = q\<lparr>hq_request_idempotency_key := strip (hq_request_idempotency_key q),
                      hq_requested_by := strip (hq_requested_by q)\<rparr>"
  obtain db1 y where y: "create_http_in_tx env now intent_id race q' db = (db1, y)" by force
  note l1 = create_http_ledger [OF y r d]
  from c consider "db' = db" | "db' = db1"
    | "commit db1 (recover_http_in_tx env now q' db1) = (db', x)"
    by (auto simp: create_or_replay_http_intent_def Let_def q'_def [symmetric] y
        split: if_splits sum.splits st_error.splits)
  then show ?thesis
  proof cases
    case 3
    show ?thesis
      by (rule ledger_commit [OF 3 l1])
         (rule rtranclp_trans [OF l1], rule recover_ledger [OF _ ledger_ids [OF l1 d]])
  qed (use l1 in simp_all)
qed

lemma maybe_create_ledger:
  assumes "maybe_create_pending_in_session env now intent_id event role product created db = Inr (x, db')"
  shows "ledger env db db'"
proof -
  from assms consider "db' = db" | db1 where
    "insert_intent (new_auto_row env now intent_id (se_event_id event)) db = Inr db1"
    "in_intents db' = in_intents db1"
    by (auto simp: maybe_create_pending_in_session_def Let_def split: if_splits sum.splits)
  then show ?thesis
  proof cases
    case 2
    have "ledger env db db1" by (rule insert_ledger [OF 2(1)]) (simp_all add: new_auto_row_def)
    then show ?thesis using ledger_refl_elsewhere [OF 2(2)] by (rule rtranclp_trans)
  qed simp
qed

lemma materialize_links_ledger:
  "materialize_links env now ids links db = Inr (n, db') \<Longrightarrow> ledger env db db'"
proof (induction env now ids links db arbitrary: n db' rule: materialize_links.induct)
  case (2 env now ids link links db)
  show ?case
  proof (cases "get_event (in_db db) (lk_event_id link)")
    case None
    with "2.prems" "2.IH"(1) show ?thesis by simp
  next
    case (Some event)
    with "2.prems" obtain created db1 m where
      c: "maybe_create_pending_in_session env now (ids (length links)) event PRIMARY_LINK_ROLE
            (creation_product (in_facts db (se_event_id event))) True db = Inr (created, db1)"
      and m: "materialize_links env now ids links db1 = Inr (m, db')"
      by auto
    show ?thesis
      using maybe_create_ledger [OF c] "2.IH"(2) [OF Some m] by (rule rtranclp_trans)
  qed
qed simp

lemma claim_intent_ledger:
  assumes "claim_intent env now intent_id db = (db', x)"
  shows "ledger env db db'"
proof (cases "get_intent db intent_id")
  case None
  with assms show ?thesis by (simp add: claim_intent_def)
next
  case (Some row)
  with assms have c: "commit db (bind_res (claim_row env now row) (\<lambda>claimed.
            case claimed of
              None \<Rightarrow> Inr (None, db)
            | Some row' \<Rightarrow> Inr (Some (ii_intent_id row), put_intent now row' db))) = (db', x)"
    by (simp add: claim_intent_def)
  show ?thesis
    by (rule ledger_commit [OF c])
       (auto intro!: ledger_got [OF Some] claim_row_step split: option.splits)
qed

lemma claim_batch_ledger:
  assumes "claim_batch env now locked limit db = (db', x)" and "distinct_ids db"
  shows "ledger env db db'"
  using assms(1) unfolding claim_batch_def
  by (rule ledger_commit)
     (auto intro: claim_rows_ledger loaded_sorted [OF assms(2)] simp: claim_candidates_def)

lemma transition_ledger:
  assumes t: "transition_intent env now intent_id target skip_reason last_error inc expected db = (db', x)"
    and target: "target \<notin> {II_ENQUEUED, II_STARTED, II_CLAIMED}"
  shows "ledger env db db'"
proof (cases "get_intent db intent_id")
  case None
  with t show ?thesis by (simp add: transition_intent_def)
next
  case (Some row)
  note c = t [unfolded transition_intent_def Some option.case]
  show ?thesis
    by (rule ledger_commit [OF c])
       (auto intro!: ledger_got [OF Some] set_status_row_step [OF _ target] split: if_splits)
qed

lemma started_row_step:
  assumes d: "digest_ok env" and s: "has_status s row" "s \<in> {II_ENQUEUED, II_STARTED}"
    and b: "s = II_STARTED \<and> task = deterministic_investigation_task_id env (ii_intent_id row) (revision_of row)
        \<or> s = II_ENQUEUED \<and> ii_broker_task_id row \<in> {None, Some [], Some task}"
    and row': "row' = row\<lparr>ii_broker_task_id := Some task\<rparr>
        \<or> row' = row\<lparr>ii_status := InvestigationIntentStatus_value II_STARTED,
             ii_broker_task_id := Some task, ii_claim_owner := None, ii_claim_expires_at := None\<rparr>"
  shows "row_step env db row row'"
proof -
  have act: "active row" using s by (auto simp: active_def)
  have task: "task = deterministic_investigation_task_id env (ii_intent_id row) (ii_revision row)"
    if f: "fenced env row"
  proof -
    let ?t = "deterministic_investigation_task_id env (ii_intent_id row) (ii_revision row)"
    have "?t \<noteq> []" using d by (simp add: digest_ok_def deterministic_investigation_task_id_def)
    moreover have "ii_broker_task_id row = Some ?t" using f act by (simp add: fenced_def)
    ultimately show ?thesis using b fenced_revision [OF f] by auto
  qed
  have same: "same_identity row row'" "ii_broker_task_id row' = Some task"
    "ii_revision row' = ii_revision row" "ii_intent_id row' = ii_intent_id row"
    using row' by (auto simp: same_identity_def)
  obtain s' where s': "has_status s' row'" "s' \<in> {II_ENQUEUED, II_STARTED}"
    using row' s by auto
  have "fenced env row' \<and> ii_revision row \<le> ii_revision row'" if f: "fenced env row"
    using f task [OF f] same by (simp add: fenced_def)
  moreover have "\<not> has_status II_CLAIMED row'" "\<not> has_status II_TERMINAL row"
    "ii_status row' \<in> range InvestigationIntentStatus_value"
    using s s' by auto
  ultimately show ?thesis using same(1) act unfolding row_step_def by blast
qed

lemma mark_started_cases:
  assumes "mark_started env now intent_id task db = (db', x)"
  obtains "db' = db" "x \<noteq> Inr ACCEPTED"
  | row where "get_intent db intent_id = Some row" "has_status II_STARTED row" "db' = db" "x = Inr ACCEPTED"
      "ii_broker_task_id row = Some task"
  | row where "get_intent db intent_id = Some row" "has_status II_STARTED row" "x = Inr ACCEPTED"
      "task = deterministic_investigation_task_id env (ii_intent_id row) (revision_of row)"
      "db' = put_intent now (row\<lparr>ii_broker_task_id := Some task\<rparr>) db"
  | row where "get_intent db intent_id = Some row" "has_status II_ENQUEUED row" "x = Inr ACCEPTED"
      "ii_broker_task_id row \<in> {None, Some [], Some task}"
      "db' = put_intent now (row\<lparr>ii_status := InvestigationIntentStatus_value II_STARTED,
                         ii_broker_task_id := Some task, ii_claim_owner := None,
                         ii_claim_expires_at := None\<rparr>) db"
proof (cases "get_intent db intent_id")
  case None
  with assms that(1) show thesis by (auto simp: mark_started_def)
next
  case (Some row)
  show thesis
  proof (cases "status_of row")
    case (Inl e)
    with assms Some that(1) show thesis by (auto simp: mark_started_def)
  next
    case (Inr s)
    then have s: "has_status s row" by simp
    note m = assms [unfolded mark_started_def Some option.case Inr bind_res.simps]
    show thesis
    proof (cases "s \<in> {II_ENQUEUED, II_STARTED}")
      case False
      with m that(1) show thesis by (auto split: if_splits)
    next
      case True
      with m s Some that show thesis
        by (cases "s = II_STARTED") (auto simp: TERMINAL_INTENT_STATUSES_def validate_intent_transition_def
            ensure_def split: if_splits)
    qed
  qed
qed

lemma mark_started_ledger:
  assumes m: "mark_started env now intent_id task db = (db', x)" and d: "digest_ok env"
  shows "ledger env db db'"
  using m
proof (cases rule: mark_started_cases)
  case (3 row)
  show ?thesis unfolding 3(5)
    by (rule ledger_got [OF 3(1)], rule started_row_step [OF d 3(2), of task]) (simp_all add: 3(4))
next
  case (4 row)
  show ?thesis unfolding 4(5)
    by (rule ledger_got [OF 4(1)], rule started_row_step [OF d 4(2), of task])
       (use 4(4) in simp_all)
qed simp_all

lemma set_and_put_ledger:
  assumes "set_and_put env now target skip_reason last_error inc row db = Inr db'"
    and "get_intent db k = Some row" and "target \<notin> {II_ENQUEUED, II_STARTED, II_CLAIMED}"
  shows "ledger env db db'"
  using assms(1) by (auto simp: set_and_put_def intro!: ledger_got [OF assms(2)]
      set_status_row_step [OF _ assms(3)])

lemma decide_response_frame:
  "decide_response env now event row db = (b, db1) \<Longrightarrow> in_intents db1 = in_intents db"
  by (auto simp: decide_response_def Let_def split: if_splits)

lemma in_intents_frame: "in_intents db1 = in_intents db \<Longrightarrow>
    get_intent db1 = get_intent db \<and> sibling_active row db1 = sibling_active row db"
  by (auto simp: get_intent_def sibling_active_def fun_eq_iff)

definition enqueued_row :: "intent_env \<Rightarrow> bool \<Rightarrow> intent_row \<Rightarrow> intent_row" where
  "enqueued_row env include_response row =
     row\<lparr>ii_include_response_execution := include_response,
         ii_status := InvestigationIntentStatus_value II_ENQUEUED,
         ii_broker_task_id := Some (deterministic_investigation_task_id env (ii_intent_id row) (ii_revision row)),
         ii_claim_owner := None, ii_claim_expires_at := None, ii_last_error := None\<rparr>"

lemma enqueued_row_step:
  assumes "has_status II_CLAIMED row" and "\<not> sibling_active row db"
  shows "row_step env db row (enqueued_row env b row)"
  using assms by (simp add: row_step_def same_identity_def fenced_def enqueued_row_def)

text \<open>The outcomes of the enqueueing transaction.\<close>

lemma commit_enqueued_cases:
  assumes "commit_enqueued_in_tx env now intent_id db = Inr (x, db')"
  obtains "x = None" "db' = db"
  | row target skip_reason last_error inc where "x = None" "get_intent db intent_id = Some row"
      "set_and_put env now target skip_reason last_error inc row db = Inr db'"
      "target \<notin> {II_ENQUEUED, II_STARTED, II_CLAIMED}"
  | row event t b db1 where "x = Some t" "get_intent db intent_id = Some row" "has_status II_CLAIMED row"
      "get_event (in_db db) (ii_event_id row) = Some event" "\<not> sibling_blocking row db"
      "decide_response env now event row db = (b, db1)"
      "db' = put_intent now (enqueued_row env b row) db1"
      "pt_intent_id t = intent_id" "pt_event_id t = ii_event_id row"
      "pt_task_id t = deterministic_investigation_task_id env intent_id (ii_revision row)"
proof (cases "get_intent db intent_id")
  case None
  with assms that(1) show thesis by (simp add: commit_enqueued_in_tx_def)
next
  case (Some row)
  note got = Some
  then have rid: "ii_intent_id row = intent_id" by (rule get_intent_id)
  show thesis
  proof (cases "has_status II_CLAIMED row")
    case False
    with assms got that(1) show thesis by (auto simp: commit_enqueued_in_tx_def split: if_splits)
  next
    case True
    note claimed = True
    show thesis
    proof (cases "get_event (in_db db) (ii_event_id row)")
      case None
      with assms got claimed that(2) show thesis by (auto simp: commit_enqueued_in_tx_def)
    next
      case (Some event)
      obtain b db1 where dr: "decide_response env now event row db = (b, db1)" by force
      from assms got claimed Some dr that(2) that(3) [OF _ got claimed Some _ dr] rid
      show thesis
        by (auto simp: commit_enqueued_in_tx_def Let_def enqueued_row_def split: if_splits)
    qed
  qed
qed

lemma not_blocking_not_active: "\<not> sibling_blocking row db \<Longrightarrow> \<not> sibling_active row db"
  by (auto simp: sibling_blocking_def sibling_active_def active_def list_ex_iff)

lemma commit_enqueued_ledger:
  assumes "commit_enqueued_in_tx env now intent_id db = Inr (x, db')"
  shows "ledger env db db'"
  using assms
proof (cases rule: commit_enqueued_cases)
  case (2 row target skip_reason last_error inc)
  then show ?thesis by (intro set_and_put_ledger)
next
  case (3 row event t b db1)
  have same: "in_intents db1 = in_intents db" using 3(6) by (rule decide_response_frame)
  have "row_step env db1 row (enqueued_row env b row)"
    using 3(3) not_blocking_not_active [OF 3(5)] in_intents_frame [OF same]
    by (intro enqueued_row_step) simp_all
  then have "ledger env db1 db'"
    unfolding 3(7) using 3(2) in_intents_frame [OF same] by (intro ledger_got [of _ intent_id row]) simp_all
  with ledger_refl_elsewhere [OF same] show ?thesis by (rule rtranclp_trans)
qed simp

lemma drop_task_step:
  "row_step env db row row' \<Longrightarrow> \<not> active row' \<Longrightarrow> row_step env db row (row'\<lparr>ii_broker_task_id := None\<rparr>)"
  by (simp add: row_step_def same_identity_def fenced_def active_def)

lemma set_status_status:
  "set_status_in_session env target skip_reason last_error inc row = Inr row' \<Longrightarrow> has_status target row'"
  by (auto simp: set_status_in_session_def bump_attempt_def Let_def split: if_splits)

lemma set_status_drop_step:
  assumes "set_status_in_session env target skip_reason last_error inc row = Inr row'"
    and "target \<notin> {II_ENQUEUED, II_STARTED, II_CLAIMED}"
  shows "row_step env db row (row'\<lparr>ii_broker_task_id := None\<rparr>)"
  using set_status_row_step [OF assms] set_status_status [OF assms(1)] assms(2)
  by (intro drop_task_step) (auto simp: active_def)

lemma handle_transient_ledger:
  assumes "handle_publish_transient_failure env now safe_error conserve row db = Inr db'"
    and "get_intent db k = Some row"
  shows "ledger env db db'"
proof -
  from assms(1) obtain row' where db': "db' = put_intent now row' db" and step: "row_step env db row row'"
    by (auto simp: handle_publish_transient_failure_def split: if_splits
        intro: set_status_row_step set_status_drop_step)
  show ?thesis unfolding db' using assms(2) step by (rule ledger_got)
qed

lemma revert_publish_ledger:
  assumes "revert_enqueued_after_publish_failure env now intent_id safe_error conserve db = (db', x)"
  shows "ledger env db db'"
proof (cases "get_intent db intent_id")
  case None
  with assms show ?thesis by (simp add: revert_enqueued_after_publish_failure_def)
next
  case (Some row)
  note c = assms [unfolded revert_enqueued_after_publish_failure_def Some option.case]
  show ?thesis
    by (rule ledger_commit [OF c]) (auto dest: handle_transient_ledger [OF _ Some] split: if_splits)
qed

lemma revert_unexpected_ledger:
  assumes "revert_enqueued_after_unexpected_failure env now intent_id safe_error conserve db = (db', x)"
  shows "ledger env db db'"
proof (cases "get_intent db intent_id")
  case None
  with assms show ?thesis by (simp add: revert_enqueued_after_unexpected_failure_def)
next
  case (Some row)
  note c = assms [unfolded revert_enqueued_after_unexpected_failure_def Some option.case]
  show ?thesis
    by (rule ledger_commit [OF c])
       (auto intro!: ledger_got [OF Some] set_status_drop_step split: if_splits)
qed

text \<open>What other sessions do while a task is being published is itself a run of the ledger.\<close>

definition io_ok :: "intent_env \<Rightarrow> publish_io \<Rightarrow> bool" where
  "io_ok env io \<longleftrightarrow> (\<forall>db. ledger env db (po_others io db))"

lemma ledger_then:
  assumes "then_do m f = (db', x)" and "ledger env db (fst m)"
    and "\<And>db1 y db'' z. m = (db1, Inr y) \<Longrightarrow> f db1 y = (db'', z) \<Longrightarrow> ledger env db1 db''"
  shows "ledger env db db'"
  using then_do_cases [OF assms(1)] assms(2,3) by (fastforce intro: rtranclp_trans)

lemma ledger_unfinished:
  "then_do m (\<lambda>db1 _. (db1, z)) = (db', x) \<Longrightarrow> ledger env db (fst m) \<Longrightarrow> ledger env db db'"
  by (erule ledger_then) simp_all

lemma commit_publish_ledger: "ledger env db (fst (commit_enqueued_publish_target env now intent_id db))"
proof -
  obtain db1 y where c: "commit db (commit_enqueued_in_tx env now intent_id db) = (db1, y)" by force
  have "ledger env db db1" by (rule ledger_commit [OF c]) (auto dest: commit_enqueued_ledger)
  with c show ?thesis by (simp add: commit_enqueued_publish_target_def)
qed

lemma publish_ledger:
  assumes p: "publish_claimed_intent env io intent_id strict conserve db = (db', x)" and io: "io_ok env io"
  shows "ledger env db db'"
  using p unfolding publish_claimed_intent_def
proof (rule ledger_then [OF _ commit_publish_ledger])
  fix db1 published db'' z
  assume f: "(case published of
       None \<Rightarrow> (db1, Inr False)
     | Some target \<Rightarrow>
         let db2 = broker_publish (po_outcome io) target (po_others io db1);
             failed = (\<lambda>revert raised.
               then_do (revert db2) (\<lambda>db3 _.
               (db3, bind_res (set_auto_response_dispatch_degraded env target) (\<lambda>_. raised))))
         in (case po_outcome io of
               Published \<Rightarrow> (db2, Inr True)
             | Metadata_unavailable \<Rightarrow>
                 failed (revert_enqueued_after_publish_failure env (po_revert_time io)
                           (pt_intent_id target) ''DependencyUnavailableError'' conserve)
                   (if strict then Inl (DependencyUnavailableError ''redis'') else Inr False)
             | Broker_error error _ \<Rightarrow>
                 failed (revert_enqueued_after_publish_failure env (po_revert_time io)
                           (pt_intent_id target) error conserve)
                   (if strict then Inl (DependencyUnavailableError ''celery_broker'') else Inr False)
             | Publish_unexpected error _ \<Rightarrow>
                 failed (revert_enqueued_after_unexpected_failure env (po_revert_time io)
                           (pt_intent_id target) error conserve)
                   (Inr False))) = (db'', z)"
  show "ledger env db1 db''"
  proof (cases published)
    case None
    with f show ?thesis by simp
  next
    case (Some target)
    define db2 where "db2 = broker_publish (po_outcome io) target (po_others io db1)"
    have "in_intents db2 = in_intents (po_others io db1)" by (simp add: db2_def broker_publish_def)
    then have l2: "ledger env db1 db2"
      using io ledger_refl_elsewhere unfolding io_ok_def by (metis rtranclp_trans)
    have rev: "ledger env db2 (fst (revert_enqueued_after_publish_failure env n i e c db2))"
      "ledger env db2 (fst (revert_enqueued_after_unexpected_failure env n i e c db2))" for n i e c
      using revert_publish_ledger revert_unexpected_ledger by (metis prod.collapse)+
    note f' = f [unfolded Some option.case, folded db2_def]
    have "ledger env db2 db''"
      by (cases "po_outcome io")
         (use f' rev in \<open>auto simp: Let_def intro: ledger_unfinished\<close>)
    with l2 show ?thesis by (rule rtranclp_trans)
  qed
qed

lemma claim_and_publish_ledger:
  assumes "claim_and_publish_intent env now io intent_id conserve db = (db', x)" and "io_ok env io"
  shows "ledger env db db'"
  using assms(1) unfolding claim_and_publish_intent_def
proof (rule ledger_then)
  show "ledger env db (fst (claim_intent env now intent_id db))"
    using claim_intent_ledger by (metis prod.collapse)
qed (use publish_ledger [OF _ assms(2)] in \<open>auto split: option.splits\<close>)

lemma publish_all_ledger:
  "publish_all env io ids db = (db', x) \<Longrightarrow> (\<And>i. io_ok env (io i)) \<Longrightarrow> ledger env db db'"
proof (induction ids arbitrary: db db' x)
  case (Cons i ids)
  obtain db1 y where p: "publish_claimed_intent env (io i) i False False db = (db1, y)" by force
  note l1 = publish_ledger [OF p Cons.prems(2)]
  show ?case
  proof (cases y)
    case (Inl e)
    with Cons.prems(1) p l1 show ?thesis by simp
  next
    case (Inr ok)
    have "ledger env db1 db'"
      using Cons.prems(1) unfolding publish_all.simps p Inr then_do.simps
      by (rule ledger_then) (use Cons.IH Cons.prems(2) in \<open>auto simp: prod_eq_iff\<close>)
    with l1 show ?thesis by (rule rtranclp_trans)
  qed
qed simp

lemma publish_all_strict_ledger:
  "publish_all_strict env io ids db = (db', x) \<Longrightarrow> (\<And>i. io_ok env (io i)) \<Longrightarrow> ledger env db db'"
proof (induction ids arbitrary: db db' x)
  case (Cons i ids)
  obtain db1 y where p: "publish_claimed_intent env (io i) i True False db = (db1, y)" by force
  note l1 = publish_ledger [OF p Cons.prems(2)]
  have rest: "ledger env db1 (fst (publish_all_strict env io ids db1))"
    using Cons.IH Cons.prems(2) by (metis prod.collapse)
  from Cons.prems(1) p consider "db' = db1"
    | f where "then_do (publish_all_strict env io ids db1) f = (db', x)" "\<And>d y. fst (f d y) = d"
    by (cases y) (auto split: st_error.splits prod.splits)
  then show ?case
  proof cases
    case 2
    have "ledger env db1 db'" by (rule ledger_then [OF 2(1) rest]) (metis 2(2) fst_conv rtranclp.rtrancl_refl)
    with l1 show ?thesis by (rule rtranclp_trans)
  qed (use l1 in simp)
qed simp

lemma batch_ledger:
  assumes "claim_and_publish_batch env now locked io limit db = (db', x)"
    and "\<And>i. io_ok env (io i)" and "distinct_ids db"
  shows "ledger env db db'"
  using assms(1) unfolding claim_and_publish_batch_def
proof (rule ledger_then)
  show "ledger env db (fst (claim_batch env now locked limit db))"
    using claim_batch_ledger [OF _ assms(3)] by (metis prod.collapse)
qed (use publish_all_ledger assms(2) in blast)

lemma sync_batch_ledger:
  assumes "dispatch_sync_batch env now locked io limit db = (db', x)"
    and "\<And>i. io_ok env (io i)" and "distinct_ids db"
  shows "ledger env db db'"
  using assms(1) unfolding dispatch_sync_batch_def
proof (rule ledger_then)
  show "ledger env db (fst (claim_batch env now locked limit db))"
    using claim_batch_ledger [OF _ assms(3)] by (metis prod.collapse)
  fix db1 claimed db'' z
  assume "then_do (publish_all_strict env io claimed db1) (\<lambda>db2 (published, transient_failure).
     (db2, if transient_failure \<and> published = 0
           then Inl (DependencyUnavailableError ''celery_broker'')
           else Inr (length claimed, published))) = (db'', z)"
  then show "ledger env db1 db''"
  proof (rule ledger_then)
    show "ledger env db1 (fst (publish_all_strict env io claimed db1))"
      using publish_all_strict_ledger assms(2) by (metis prod.collapse)
  qed (auto split: prod.splits)
qed

lemma fallback_ledger:
  assumes "run_in_process_dispatch_fallback env now io event_id intent_id trigger db = (db', x)"
    and "io_ok env io"
  shows "ledger env db db'"
proof -
  from assms(1) consider "db' = db"
    | i y where "claim_and_publish_intent env now io i True db = (db', y)"
    by (auto simp: run_in_process_dispatch_fallback_def split: if_splits option.splits sum.splits
        prod.splits bool.splits)
  then show ?thesis using claim_and_publish_ledger [OF _ assms(2)] by cases auto
qed

lemma reconcile_ledger:
  assumes "reconcile_stale env now ids locked limit db = (db', x)" and "distinct_ids db"
  shows "ledger env db db'"
  using assms(1) unfolding reconcile_stale_def
proof (rule ledger_then)
  obtain db1 y where c: "commit db (reconcile_rows env now (reconcile_candidates locked limit db) db) = (db1, y)"
    by force
  have "ledger env db db1"
    by (rule ledger_commit [OF c])
       (auto intro: reconcile_rows_ledger loaded_sorted [OF assms(2)] simp: reconcile_candidates_def)
  with c show "ledger env db (fst (commit db (reconcile_rows env now (reconcile_candidates locked limit db) db)))"
    by simp
  fix db1 reconciled db'' z
  assume "then_do (materialize_provisional_intents env now ids
                (cfg_auto_investigate_materialize_batch_size (ie_cfg env)) db1) (\<lambda>db2 created.
     (db2, Inr (reconciled + created))) = (db'', z)"
  then show "ledger env db1 db''"
  proof (rule ledger_then)
    let ?limit = "cfg_auto_investigate_materialize_batch_size (ie_cfg env)"
    obtain db2 y where m: "commit db1 (materialize_links env now ids
        (provisional_links env now ?limit db1) db1) = (db2, y)"
      by force
    have "ledger env db1 db2" by (rule ledger_commit [OF m]) (auto dest: materialize_links_ledger)
    with m show "ledger env db1 (fst (materialize_provisional_intents env now ids ?limit db1))"
      by (simp add: materialize_provisional_intents_def)
  qed simp
qed

end
