(* ===== verification/Intents_Facts.thy ===== *)
theory Intents_Facts
  imports Intents_Ledger
begin

text \<open>
  What the intent ledger guarantees under every interleaving of its operations: a broker
  task is fenced by the revision it was published for, one investigation of an event is in
  flight at a time, the HTTP intake is idempotent, and reconciliation settles what is stale.
\<close>

section \<open>Runs\<close>

text \<open>
  One operation of the service as the broker deployment runs it, or a change outside the
  table. What other sessions do inside an operation is a run of the ledger too.
\<close>

inductive intent_op :: "intent_env \<Rightarrow> intent_db \<Rightarrow> intent_db \<Rightarrow> bool" for env where
  http: "create_or_replay_http_intent env now intent_id race q db = (db', x) \<Longrightarrow>
    (\<And>d. ledger env d (race d)) \<Longrightarrow> intent_op env db db'"
| by_policy: "maybe_create_pending_in_session env now intent_id event role product created db = Inr (y, db') \<Longrightarrow>
    intent_op env db db'"
| superseded: "skip_active_intents_for_event_in_session now event_id reason db = Inr (n, db') \<Longrightarrow>
    intent_op env db db'"
| dispatched: "claim_and_publish_intent env now io intent_id conserve db = (db', b) \<Longrightarrow> io_ok env io \<Longrightarrow>
    intent_op env db db'"
| batch: "claim_and_publish_batch env now locked ios limit db = (db', m) \<Longrightarrow> (\<And>i. io_ok env (ios i)) \<Longrightarrow>
    intent_op env db db'"
| sync_batch: "dispatch_sync_batch env now locked ios limit db = (db', p) \<Longrightarrow> (\<And>i. io_ok env (ios i)) \<Longrightarrow>
    intent_op env db db'"
| fallback: "run_in_process_dispatch_fallback env now io event_opt intent_opt trigger db = (db', k) \<Longrightarrow>
    io_ok env io \<Longrightarrow> intent_op env db db'"
| delivered: "mark_started env now intent_id task db = (db', a) \<Longrightarrow> intent_op env db db'"
| finished: "mark_terminal env now intent_id expected db = (db', b) \<Longrightarrow> intent_op env db db'"
| skipped: "mark_skipped env now intent_id reason expected db = (db', b) \<Longrightarrow> intent_op env db db'"
| retried: "mark_retry env now intent_id error expected db = (db', b) \<Longrightarrow> intent_op env db db'"
| buried: "mark_dead env now intent_id error expected db = (db', b) \<Longrightarrow> intent_op env db db'"
| reconciled: "reconcile_stale env now ids locked limit db = (db', m) \<Longrightarrow> intent_op env db db'"
| outside: "in_intents db' = in_intents db \<Longrightarrow> intent_op env db db'"

abbreviation intent_run :: "intent_env \<Rightarrow> intent_db \<Rightarrow> intent_db \<Rightarrow> bool" where
  "intent_run env \<equiv> (intent_op env)\<^sup>*\<^sup>*"

lemma skip_active_ledger:
  "skip_active_intents_for_event_in_session now event_id reason db = Inr (n, db') \<Longrightarrow> distinct_ids db \<Longrightarrow>
     ledger env db db'"
  unfolding skip_active_intents_for_event_in_session_def by (rule skip_rows_ledger [OF _ loaded_filter])

lemma op_ledger:
  assumes "intent_op env db db'" and d: "digest_ok env" and ids: "distinct_ids db"
  shows "ledger env db db'"
  using assms(1)
proof (cases rule: intent_op.cases)
  case http
  then show ?thesis using create_or_replay_ledger [OF _ _ ids] by blast
next
  case by_policy
  then show ?thesis using maybe_create_ledger by blast
next
  case superseded
  then show ?thesis using skip_active_ledger [OF _ ids] by blast
next
  case dispatched
  then show ?thesis using claim_and_publish_ledger by blast
next
  case batch
  then show ?thesis using batch_ledger [OF _ _ ids] by blast
next
  case sync_batch
  then show ?thesis using sync_batch_ledger [OF _ _ ids] by blast
next
  case fallback
  then show ?thesis using fallback_ledger by blast
next
  case delivered
  then show ?thesis using mark_started_ledger [OF _ d] by blast
next
  case reconciled
  then show ?thesis using reconcile_ledger [OF _ ids] by blast
next
  case outside
  then show ?thesis by (rule ledger_refl_elsewhere)
qed (auto simp: mark_terminal_def mark_skipped_def mark_retry_def mark_dead_def
    intro: transition_ledger)

lemma run_ledger:
  assumes "intent_run env db db'" and d: "digest_ok env" and ids: "distinct_ids db"
  shows "ledger env db db'"
  using assms(1)
proof (induction rule: rtranclp_induct)
  case (step db1 db2)
  from ledger_ids [OF step.IH ids] have "ledger env db1 db2" using op_ledger [OF step.hyps(2) d] by blast
  with step.IH show ?case by (rule rtranclp_trans)
qed simp

section \<open>The invariant\<close>

definition ledger_inv :: "intent_env \<Rightarrow> intent_db \<Rightarrow> bool" where
  "ledger_inv env db \<longleftrightarrow> distinct_ids db
     \<and> (\<forall>row\<in>set (in_intents db). fenced env row \<and> ii_status row \<in> range InvestigationIntentStatus_value
          \<and> (has_status II_CLAIMED row \<longrightarrow> ii_claim_expires_at row \<noteq> None))
     \<and> (\<forall>row\<in>set (in_intents db). active row \<longrightarrow> \<not> sibling_active row db)"

lemma touched [simp]:
  "active (row\<lparr>ii_updated_at := now\<rparr>) = active row" "fenced env (row\<lparr>ii_updated_at := now\<rparr>) = fenced env row"
  by (simp_all add: active_def fenced_def)

lemma put_intent_rows:
  "r \<in> set (in_intents (put_intent now row db)) \<Longrightarrow>
     r = row\<lparr>ii_updated_at := now\<rparr> \<or> r \<in> set (in_intents db) \<and> ii_intent_id r \<noteq> ii_intent_id row"
  using intents_table.rows_put_cases [of r "row\<lparr>ii_updated_at := now\<rparr>" db] by (simp add: put_intent_def)

lemma inv_write:
  assumes inv: "ledger_inv env db" and got: "get_intent db (ii_intent_id row) = Some row"
    and step: "row_step env db row row'"
  shows "ledger_inv env (put_intent now row' db)"
proof -
  let ?new = "row'\<lparr>ii_updated_at := now\<rparr>"
  have mem: "row \<in> set (in_intents db)" using got by (rule intents_table.get_mem)
  have same: "ii_intent_id row' = ii_intent_id row" "ii_event_id row' = ii_event_id row"
    using step by (simp_all add: row_step_def same_identity_def)
  have old: "fenced env row" "\<forall>r\<in>set (in_intents db). active r \<longrightarrow> \<not> sibling_active r db"
    using inv mem by (auto simp: ledger_inv_def)
  have new: "fenced env row'" "ii_status row' \<in> range InvestigationIntentStatus_value"
    "has_status II_CLAIMED row' \<longrightarrow> ii_claim_expires_at row' \<noteq> None"
    using step old(1) by (simp_all add: row_step_def)
  have alone: "\<not> sibling_active row db" if "active row'"
    using that step old(2) mem by (auto simp: row_step_def)
  have excl: "ii_intent_id r1 = ii_intent_id r2"
    if r: "r1 \<in> set (in_intents (put_intent now row' db))" "r2 \<in> set (in_intents (put_intent now row' db))"
      "active r1" "active r2" "ii_event_id r1 = ii_event_id r2" for r1 r2
  proof (rule ccontr)
    assume ne: "ii_intent_id r1 \<noteq> ii_intent_id r2"
    consider "r1 = ?new" "r2 \<in> set (in_intents db)" | "r2 = ?new" "r1 \<in> set (in_intents db)"
      | "r1 \<in> set (in_intents db)" "r2 \<in> set (in_intents db)"
      using put_intent_rows [OF r(1)] put_intent_rows [OF r(2)] ne by auto
    then show False
    proof cases
      case 1
      with alone r same ne show False by (auto simp: sibling_active_def)
    next
      case 2
      with alone r same ne show False by (auto simp: sibling_active_def)
    next
      case 3
      with old(2) r ne show False by (auto simp: sibling_active_def)
    qed
  qed
  have "fenced env r \<and> ii_status r \<in> range InvestigationIntentStatus_value
      \<and> (has_status II_CLAIMED r \<longrightarrow> ii_claim_expires_at r \<noteq> None)"
    if "r \<in> set (in_intents (put_intent now row' db))" for r
    using put_intent_rows [OF that]
  proof
    assume "r = ?new"
    with new show ?thesis by simp
  next
    assume "r \<in> set (in_intents db) \<and> ii_intent_id r \<noteq> ii_intent_id row'"
    with inv show ?thesis by (simp add: ledger_inv_def)
  qed
  moreover have "distinct_ids (put_intent now row' db)"
    using inv by (simp add: ledger_inv_def distinct_ids_def put_intent_ids)
  ultimately show ?thesis
    using excl unfolding ledger_inv_def sibling_active_def by metis
qed

lemma inv_add:
  assumes inv: "ledger_inv env db" and "new_row row db"
  shows "ledger_inv env (db\<lparr>in_intents := in_intents db @ [row]\<rparr>)"
proof -
  let ?db = "db\<lparr>in_intents := in_intents db @ [row]\<rparr>"
  have row: "\<not> active row" "fenced env row" "has_status II_PENDING row"
    using assms(2) by (simp_all add: new_row_def active_def fenced_def)
  have "distinct_ids ?db"
    using ledger_step_ids [OF ledger_step.added [OF assms(2)]] inv by (simp add: ledger_inv_def)
  moreover have "sibling_active r ?db = sibling_active r db" for r
    using row(1) by (auto simp: sibling_active_def)
  ultimately show ?thesis
    using inv row by (auto simp: ledger_inv_def)
qed

lemma inv_step:
  assumes "ledger_step env db db'" and "ledger_inv env db"
  shows "ledger_inv env db'"
  using assms(1)
proof (cases rule: ledger_step.cases)
  case (wrote row row' now)
  show ?thesis unfolding wrote(1) using assms(2) wrote(2,3) by (rule inv_write)
next
  case (added row)
  show ?thesis unfolding added(1) using assms(2) added(2) by (rule inv_add)
next
  case elsewhere
  with assms(2) show ?thesis by (simp add: ledger_inv_def distinct_ids_def sibling_active_def)
qed

lemma inv_ledger: "ledger env db db' \<Longrightarrow> ledger_inv env db \<Longrightarrow> ledger_inv env db'"
proof (induction rule: rtranclp_induct)
  case (step db1 db2)
  from step.hyps(2) step.IH [OF step.prems] show ?case by (rule inv_step)
qed

lemma inv_run:
  assumes "intent_run env db db'" and "digest_ok env" and "ledger_inv env db"
  shows "ledger_inv env db'"
proof -
  have "distinct_ids db" using assms(3) by (simp add: ledger_inv_def)
  from run_ledger [OF assms(1,2) this] assms(3) show ?thesis by (rule inv_ledger)
qed

lemma inv_empty: "in_intents db = [] \<Longrightarrow> ledger_inv env db"
  by (simp add: ledger_inv_def distinct_ids_def)

lemma inv_got: "ledger_inv env db \<Longrightarrow> get_intent db k = Some row \<Longrightarrow>
    fenced env row \<and> (\<exists>s. has_status s row)"
  using intents_table.get_mem [of db k row] by (auto simp: ledger_inv_def)

text \<open>Revisions only grow.\<close>

lemma step_revision:
  assumes "ledger_step env db db'" and inv: "ledger_inv env db" and got: "get_intent db k = Some row"
  shows "\<exists>row'. get_intent db' k = Some row' \<and> ii_revision row \<le> ii_revision row'"
  using assms(1)
proof (cases rule: ledger_step.cases)
  case (wrote old new now)
  have "ii_intent_id new = ii_intent_id old" using row_step_id [OF wrote(3)] .
  moreover have "ii_revision old \<le> ii_revision new"
    using wrote(3) inv_got [OF inv wrote(2)] by (simp add: row_step_def)
  ultimately show ?thesis
    using wrote(1,2) got by (cases "k = ii_intent_id old") (auto simp: get_put_intent)
next
  case (added new)
  then show ?thesis using got by (simp add: get_intent_def find_append)
next
  case elsewhere
  then show ?thesis using got by (simp add: get_intent_def)
qed

lemma ledger_revision:
  assumes "ledger env db db'" and "ledger_inv env db" and "get_intent db k = Some row"
  shows "\<exists>row'. get_intent db' k = Some row' \<and> ii_revision row \<le> ii_revision row'"
  using assms
proof (induction rule: rtranclp_induct)
  case (step db1 db2)
  then obtain row1 where row1: "get_intent db1 k = Some row1" "ii_revision row \<le> ii_revision row1" by blast
  from step_revision [OF step.hyps(2) inv_ledger [OF step.hyps(1) step.prems(1)] row1(1)] row1(2)
  show ?case by (meson order_trans)
qed blast

lemma task_id_inject:
  assumes "digest_ok env"
    and "deterministic_investigation_task_id env i v = deterministic_investigation_task_id env i w"
  shows "v = w"
  using assms
  by (intro string_of_int_inject) (simp add: deterministic_investigation_task_id_def digest_ok_def inj_eq)

section \<open>The fence\<close>

lemma parse_status [simp]:
  "parse_or_raise InvestigationIntentStatus_parse (InvestigationIntentStatus_value s) = Inr s"
  by simp

lemma mark_started_answers:
  assumes "get_intent db k = Some row" and "has_status s row"
  shows "\<exists>a. snd (mark_started env now k task db) = Inr a"
  unfolding mark_started_def assms option.case parse_status bind_res.simps
  by (auto simp: validate_intent_transition_def ensure_def)

lemma stale_delivery:
  assumes d: "digest_ok env" and inv: "ledger_inv env db" and got: "get_intent db i = Some row"
    and v: "v < ii_revision row"
  shows "\<exists>a. mark_started env now i (deterministic_investigation_task_id env i v) db = (db, Inr a) \<and> a \<noteq> ACCEPTED"
proof -
  let ?task = "deterministic_investigation_task_id env i v"
  obtain s where f: "fenced env row" and s: "has_status s row" using inv_got [OF inv got] by blast
  have i: "ii_intent_id row = i" using got by (rule get_intent_id)
  have ne: "?task \<noteq> deterministic_investigation_task_id env i (ii_revision row)"
    using task_id_inject [OF d] v by blast
  have nonempty: "deterministic_investigation_task_id env i (ii_revision row) \<noteq> []"
    using d by (simp add: digest_ok_def deterministic_investigation_task_id_def)
  obtain db' x where m: "mark_started env now i ?task db = (db', x)" by force
  from mark_started_answers [OF got s, of env now ?task] m obtain a where "x = Inr a" by auto
  moreover from m have "db' = db \<and> x \<noteq> Inr ACCEPTED"
  proof (cases rule: mark_started_cases)
    case 1
    then show ?thesis by simp
  next
    case (2 r)
    with got f i ne show ?thesis by (simp add: fenced_def active_def)
  next
    case (3 r)
    with got fenced_revision [OF f] i ne show ?thesis by simp
  next
    case (4 r)
    with got f i ne nonempty show ?thesis by (auto simp: fenced_def active_def)
  qed
  ultimately show ?thesis using m by blast
qed

lemma stale_completion:
  assumes d: "digest_ok env" and inv: "ledger_inv env db" and got: "get_intent db i = Some row"
    and v: "v < ii_revision row"
  shows "transition_intent env now i target skip_reason last_error inc
     (Some (deterministic_investigation_task_id env i v)) db = (db, Inr False)"
proof -
  obtain s where f: "fenced env row" and s: "has_status s row" using inv_got [OF inv got] by blast
  have "ii_broker_task_id row \<noteq> Some (deterministic_investigation_task_id env i v)" if "s = II_STARTED"
    using f s that task_id_inject [OF d] v get_intent_id [OF got] by (auto simp: fenced_def active_def)
  then show ?thesis using got s by (auto simp: transition_intent_def)
qed

text \<open>C8: A superseded task is fenced off. Once the revision of an intent has moved past the one a
  broker task was published for, that task is never admitted again and never completes the
  intent: whatever operations, interleavings, broker failures and redeliveries follow, its
  delivery is answered with a refusal and its terminal, skip, retry and dead reports return
  false, and none of them changes the state. The digest is relied on to have no collisions
  and no empty value.\<close>

theorem superseded_task_fenced:
  assumes "digest_ok env" and "in_intents start = []" and "intent_run env start db"
    and "get_intent db i = Some row" and "v < ii_revision row"
    and "intent_run env db later" and "task = deterministic_investigation_task_id env i v"
  shows "(\<exists>a. mark_started env now i task later = (later, Inr a) \<and> a \<noteq> ACCEPTED)
    \<and> mark_terminal env now i (Some task) later = (later, Inr False)
    \<and> mark_skipped env now i reason (Some task) later = (later, Inr False)
    \<and> mark_retry env now i error (Some task) later = (later, Inr False)
    \<and> mark_dead env now i error (Some task) later = (later, Inr False)"
proof -
  have inv: "ledger_inv env db" by (rule inv_run [OF assms(3,1) inv_empty [OF assms(2)]])
  then have ids: "distinct_ids db" by (simp add: ledger_inv_def)
  obtain row' where row': "get_intent later i = Some row'" "ii_revision row \<le> ii_revision row'"
    using ledger_revision [OF run_ledger [OF assms(6,1) ids] inv assms(4)] by blast
  with assms(5) have v: "v < ii_revision row'" by simp
  note inv' = inv_run [OF assms(6,1) inv]
  show ?thesis
    unfolding assms(7) mark_terminal_def mark_skipped_def mark_retry_def mark_dead_def
    by (intro conjI stale_delivery [OF assms(1) inv' row'(1) v] stale_completion [OF assms(1) inv' row'(1) v])
qed

text \<open>C11: One investigation of an event at a time. In every state the broker deployment can reach,
  whatever intents policies and operators create for an event, at most one of them is
  enqueued or started, and it carries the task id of its current revision.\<close>

theorem one_investigation_in_flight:
  assumes "digest_ok env" and "in_intents start = []" and "intent_run env start db"
    and "r1 \<in> set (in_intents db)" and "r2 \<in> set (in_intents db)" and "ii_event_id r1 = ii_event_id r2"
    and "has_status II_ENQUEUED r1 \<or> has_status II_STARTED r1"
    and "has_status II_ENQUEUED r2 \<or> has_status II_STARTED r2"
  shows "r1 = r2 \<and> ii_broker_task_id r1
    = Some (deterministic_investigation_task_id env (ii_intent_id r1) (ii_revision r1))"
proof -
  have inv: "ledger_inv env db" by (rule inv_run [OF assms(3,1) inv_empty [OF assms(2)]])
  have act: "active r1" "active r2" using assms(7,8) unfolding active_def .
  have alone: "\<not> sibling_active r1 db" and f: "fenced env r1" and ids: "distinct_ids db"
    using inv act(1) assms(4) unfolding ledger_inv_def by blast+
  have same: "ii_intent_id r1 = ii_intent_id r2"
  proof (rule ccontr)
    assume "ii_intent_id r1 \<noteq> ii_intent_id r2"
    then have "sibling_active r1 db"
      unfolding sibling_active_def using act(2) assms(5,6) by (intro bexI [of _ r2]) simp_all
    with alone show False by contradiction
  qed
  have "Some r1 = Some r2"
    using get_intent_mem [OF ids assms(4)] get_intent_mem [OF ids assms(5)] unfolding same by simp
  then have "r1 = r2" by (rule option.inject [THEN iffD1])
  moreover have "ii_broker_task_id r1
    = Some (deterministic_investigation_task_id env (ii_intent_id r1) (ii_revision r1))"
    using f act(1) unfolding fenced_def by blast
  ultimately show ?thesis by (rule conjI)
qed

section \<open>A concrete run\<close>

definition intent_example_env :: intent_env where
  "intent_example_env =
     \<lparr> ie_cfg =
         \<lparr> cfg_disposition_mode = ''mock_xdr'', cfg_allow_xdr_writeback = False,
           cfg_block_live_action_execution = False, cfg_action_execution_lease_us = 60000000,
           cfg_action_execution_max_attempts = 3, cfg_action_execution_reconcile_enabled = True,
           cfg_approval_timeout_minutes = 30, cfg_auto_response_enabled = False,
           cfg_auto_response_max_auto_level = ''L1'', cfg_source_mode = ''mock_xdr'',
           cfg_tool_mode = ''mock'', cfg_orchestration_mode = ''graph'', cfg_task_mode_celery = True,
           cfg_auto_investigate_enabled = False, cfg_auto_investigate_min_severity = ''medium'',
           cfg_auto_investigate_event_types = [], cfg_auto_investigate_provisional_window_s = 300,
           cfg_auto_investigate_claim_lease_s = 60, cfg_auto_investigate_max_attempts = 5,
           cfg_auto_investigate_materialize_batch_size = 10,
           cfg_auto_response_min_severity = ''high'', cfg_auto_response_event_types = [] \<rparr>,
       ie_sha256 = (\<lambda>x. CHR ''#'' # x), ie_worker_id = ''w1'', ie_degraded = None \<rparr>"

definition intent_example_db :: "intent_row list \<Rightarrow> intent_db" where
  "intent_example_db rows =
     \<lparr> in_db = empty_database\<lparr>db_events := [example_event\<lparr>se_status := EventStatus_value ES_NEW\<rparr>]\<rparr>,
       in_facts = (\<lambda>_. \<lparr> ef_event_type = [], ef_source_type = None, ef_creation_source_ref = None,
                        ef_created_at = 0 \<rparr>),
       in_intents = rows, in_links = [], in_published = [] \<rparr>"

definition intent_example_request :: http_request where
  "intent_example_request = \<lparr> hq_event_id = ''evt-1'', hq_requested_by = ''alice'',
     hq_request_idempotency_key = ''k1'', hq_request_payload_sha256 = ''p1'',
     hq_orchestration_mode = ''graph'', hq_include_response_execution = False, hq_generate_report = True \<rparr>"

definition intent_example_row :: intent_row where
  "intent_example_row = new_http_row intent_example_env 0 ''iin-1'' intent_example_request"

lemma intent_example_digest: "digest_ok intent_example_env"
  by (simp add: digest_ok_def intent_example_env_def inj_def)

lemmas intent_example_defs = intent_example_env_def intent_example_db_def intent_example_request_def
  intent_example_row_def new_http_row_def

lemma intent_example_event:
  "get_event (in_db (intent_example_db rows)) ''evt-1'' = Some (example_event\<lparr>se_status := EventStatus_value ES_NEW\<rparr>)"
  by (simp add: intent_example_db_def get_event_def example_event_def)

lemma intent_example_db_simps [simp]:
  "in_intents (intent_example_db rows) = rows"
  "(intent_example_db rows)\<lparr>in_intents := rows'\<rparr> = intent_example_db rows'"
  by (simp_all add: intent_example_db_def)

lemma intent_example_put:
  "put_intent now row (intent_example_db rows)
     = intent_example_db (update_where (\<lambda>r. ii_intent_id r = ii_intent_id row) (\<lambda>_. row\<lparr>ii_updated_at := now\<rparr>) rows)"
  by (simp add: put_intent_def store_intent_def)

lemma intent_example_request_stripped:
  "intent_example_request\<lparr>hq_request_idempotency_key := strip (hq_request_idempotency_key intent_example_request),
     hq_requested_by := strip (hq_requested_by intent_example_request)\<rparr> = intent_example_request"
  by (simp add: intent_example_request_def strip_def is_blank_def)

lemma intent_example_row_simps [simp]:
  "ii_intent_id intent_example_row = ''iin-1''" "ii_event_id intent_example_row = ''evt-1''"
  "ii_status intent_example_row = InvestigationIntentStatus_value II_PENDING"
  "ii_revision intent_example_row = 1" "ii_requested_by intent_example_row = Some ''alice''"
  "ii_request_idempotency_key intent_example_row = Some ''k1''"
  "ii_request_payload_sha256 intent_example_row = Some ''p1''"
  "ii_intent_kind intent_example_row = INTENT_KIND_HTTP_INVESTIGATE"
  "ii_claim_expires_at intent_example_row = None"
  by (simp_all add: intent_example_row_def new_http_row_def intent_example_request_def)

lemma intent_example_created:
  "\<exists>x. create_or_replay_http_intent intent_example_env 0 ''iin-1'' (\<lambda>db. db) intent_example_request
     (intent_example_db []) = (intent_example_db [intent_example_row], Inr x)"
proof -
  let ?q = intent_example_request
  have ev: "get_event (in_db (intent_example_db [])) (hq_event_id ?q)
      = Some (example_event\<lparr>se_status := EventStatus_value ES_NEW\<rparr>)"
    by (simp add: intent_example_request_def intent_example_event)
  have none: "find_request (intent_example_db []) ?q = None"
    "find_http_intent (intent_example_db []) (hq_event_id ?q) = None"
    by (simp_all add: find_request_def find_http_intent_def scalar_def)
  have "insert_intent (new_http_row intent_example_env 0 ''iin-1'' ?q) (intent_example_db [])
      = Inr (intent_example_db [intent_example_row])"
    by (simp add: insert_intent_def insert_violates_unique_def intent_example_row_def)
  then have tx: "create_http_in_tx intent_example_env 0 ''iin-1'' (\<lambda>db. db) ?q (intent_example_db [])
      = (intent_example_db [intent_example_row],
         http_intent_result intent_example_env intent_example_row True)"
    by (simp add: create_http_in_tx_def ev none skip_active_intents_for_event_in_session_def
        http_intent_result_def intent_example_row_def [symmetric])
  have "hq_request_idempotency_key ?q = ''k1''" "hq_requested_by ?q = ''alice''"
    by (simp_all add: intent_example_request_def)
  then show ?thesis
    unfolding create_or_replay_http_intent_def intent_example_request_stripped
    by (simp add: Let_def tx http_intent_result_def)
qed

definition intent_example_skip :: intent_row where
  "intent_example_skip =
     intent_example_row\<lparr>ii_status := InvestigationIntentStatus_value II_SKIPPED,
       ii_skip_reason := Some ''merged'', ii_claim_owner := None, ii_claim_expires_at := None,
       ii_updated_at := 0\<rparr>"

lemma intent_example_skipped:
  "mark_skipped intent_example_env 0 ''iin-1'' ''merged'' None (intent_example_db [intent_example_row])
     = (intent_example_db [intent_example_skip], Inr True)"
  by (simp add: mark_skipped_def transition_intent_def get_intent_def set_status_in_session_def
      validate_intent_transition_def ensure_def TERMINAL_INTENT_STATUSES_def keep_or_def Let_def
      intent_example_put update_where_def intent_example_skip_def)

lemma intent_example_rearmed:
  "\<exists>row x. create_or_replay_http_intent intent_example_env 0 ''iin-2'' (\<lambda>db. db) intent_example_request
     (intent_example_db [intent_example_skip]) = (intent_example_db [row], Inr x)
     \<and> ii_intent_id row = ''iin-1'' \<and> ii_revision row = 2"
proof -
  let ?q = intent_example_request
  let ?row = intent_example_skip
  let ?new = "rearm_row intent_example_env None ?row"
  have q: "hq_request_idempotency_key ?q = ''k1''" "hq_requested_by ?q = ''alice''"
    "hq_event_id ?q = ''evt-1''" "hq_request_payload_sha256 ?q = ''p1''"
    by (simp_all add: intent_example_request_def)
  have found: "find_request (intent_example_db [?row]) ?q = Some ?row"
    by (simp add: find_request_def scalar_def q intent_example_skip_def)
  have new: "ii_intent_id ?new = ''iin-1''" "has_status II_RETRY ?new" "ii_revision ?new = 2"
    by (simp_all add: rearm_row_def Let_def revision_of_def intent_example_skip_def)
  have row: "ii_event_id ?row = ''evt-1''" "ii_request_payload_sha256 ?row = Some ''p1''"
    "has_status II_SKIPPED ?row" "ii_intent_kind ?row = INTENT_KIND_HTTP_INVESTIGATE" "ii_intent_id ?row = ''iin-1''"
    by (simp_all add: intent_example_skip_def)
  have "replay_http_intent intent_example_env 0 ?q ?row (intent_example_db [?row])
      = bind_res (http_intent_result intent_example_env ?new False) (\<lambda>result.
          Inr (result, intent_example_db [?new\<lparr>ii_updated_at := 0\<rparr>]))"
    by (simp add: replay_http_intent_def q row rearm_http_intent_def validate_intent_transition_def
        ensure_def intent_example_put update_where_def new(1))
  then have tx: "\<exists>x. create_http_in_tx intent_example_env 0 ''iin-2'' (\<lambda>db. db) ?q (intent_example_db [?row])
      = (intent_example_db [?new\<lparr>ii_updated_at := 0\<rparr>], Inr x)"
    by (simp add: create_http_in_tx_def q(3) intent_example_event found http_intent_result_def new(2))
  then show ?thesis
    unfolding create_or_replay_http_intent_def intent_example_request_stripped
    using new by (auto simp: Let_def q)
qed

lemma intent_example_run:
  "\<exists>row. intent_run intent_example_env (intent_example_db []) (intent_example_db [row])
     \<and> ii_intent_id row = ''iin-1'' \<and> ii_revision row = 2"
proof -
  have race: "ledger intent_example_env d d" for d by simp
  obtain x where 1: "create_or_replay_http_intent intent_example_env 0 ''iin-1'' (\<lambda>db. db)
      intent_example_request (intent_example_db []) = (intent_example_db [intent_example_row], Inr x)"
    using intent_example_created by blast
  obtain row y where 3: "create_or_replay_http_intent intent_example_env 0 ''iin-2'' (\<lambda>db. db)
      intent_example_request (intent_example_db [intent_example_skip]) = (intent_example_db [row], Inr y)"
    and row: "ii_intent_id row = ''iin-1''" "ii_revision row = 2"
    using intent_example_rearmed by blast
  have "intent_run intent_example_env (intent_example_db []) (intent_example_db [row])"
    using intent_op.http [OF 1 race] intent_op.skipped [OF intent_example_skipped] intent_op.http [OF 3 race]
    by (meson converse_rtranclp_into_rtranclp rtranclp.rtrancl_refl)
  with row show ?thesis by blast
qed

theorem superseded_task_fenced_witness:
  "\<exists>row. intent_run intent_example_env (intent_example_db []) (intent_example_db [row])
     \<and> mark_terminal intent_example_env 5 ''iin-1''
         (Some (deterministic_investigation_task_id intent_example_env ''iin-1'' 1)) (intent_example_db [row])
       = (intent_example_db [row], Inr False)"
proof -
  obtain row where r: "intent_run intent_example_env (intent_example_db []) (intent_example_db [row])"
    "ii_intent_id row = ''iin-1''" "ii_revision row = 2"
    using intent_example_run by blast
  have got: "get_intent (intent_example_db [row]) ''iin-1'' = Some row" by (simp add: get_intent_def r(2))
  have "1 < ii_revision row" by (simp add: r(3))
  from superseded_task_fenced [OF intent_example_digest _ r(1) got this rtranclp.rtrancl_refl refl, of 5] r(1)
  show ?thesis by auto
qed

definition intent_example_io :: publish_io where
  "intent_example_io = \<lparr> po_outcome = Published, po_commit_time = 0, po_revert_time = 0, po_others = (\<lambda>db. db) \<rparr>"

lemma intent_example_published:
  "\<exists>db row. claim_and_publish_intent intent_example_env 0 intent_example_io ''iin-1'' False
       (intent_example_db [intent_example_row]) = (db, Inr True)
     \<and> in_intents db = [row] \<and> has_status II_ENQUEUED row \<and> ii_event_id row = ''evt-1''"
proof -
  define claimed where "claimed = intent_example_row\<lparr>ii_status := InvestigationIntentStatus_value II_CLAIMED,
    ii_claim_owner := Some ''w1'', ii_claim_expires_at := Some 60000000, ii_updated_at := 0\<rparr>"
  have claim: "claim_intent intent_example_env 0 ''iin-1'' (intent_example_db [intent_example_row])
      = (intent_example_db [claimed], Inr (Some ''iin-1''))"
    by (simp add: claim_intent_def get_intent_def claim_row_def validate_intent_transition_def ensure_def
        intent_example_put update_where_def claimed_def intent_example_env_def seconds_def)
  have row: "ii_event_id claimed = ''evt-1''" "has_status II_CLAIMED claimed" "ii_intent_id claimed = ''iin-1''"
    "ii_intent_kind claimed = INTENT_KIND_HTTP_INVESTIGATE"
    by (simp_all add: claimed_def)
  have got: "get_intent (intent_example_db [claimed]) ''iin-1'' = Some claimed"
    by (simp add: get_intent_def row)
  have "\<exists>t. commit_enqueued_publish_target intent_example_env 0 ''iin-1'' (intent_example_db [claimed])
      = (intent_example_db [(enqueued_row intent_example_env (ii_include_response_execution claimed) claimed)
           \<lparr>ii_updated_at := 0\<rparr>], Inr (Some t))"
    by (simp add: commit_enqueued_publish_target_def commit_enqueued_in_tx_def got row intent_example_event
        Let_def sibling_blocking_def decide_response_def INTENT_KIND_HTTP_INVESTIGATE_def
        INTENT_KIND_AUTO_INVESTIGATE_def validate_intent_transition_def ensure_def intent_example_put
        update_where_def enqueued_row_def)
  then show ?thesis
    by (auto simp: claim_and_publish_intent_def claim publish_claimed_intent_def intent_example_io_def Let_def
        broker_publish_def broker_took_def enqueued_row_def row)
qed

theorem one_investigation_in_flight_witness:
  "\<exists>db row. intent_run intent_example_env (intent_example_db []) db \<and> in_intents db = [row]
     \<and> has_status II_ENQUEUED row
     \<and> ii_broker_task_id row = Some (deterministic_investigation_task_id intent_example_env
          (ii_intent_id row) (ii_revision row))"
proof -
  obtain x where 1: "create_or_replay_http_intent intent_example_env 0 ''iin-1'' (\<lambda>db. db)
      intent_example_request (intent_example_db []) = (intent_example_db [intent_example_row], Inr x)"
    using intent_example_created by blast
  obtain db row where 2: "claim_and_publish_intent intent_example_env 0 intent_example_io ''iin-1'' False
       (intent_example_db [intent_example_row]) = (db, Inr True)"
    and row: "in_intents db = [row]" "has_status II_ENQUEUED row"
    using intent_example_published by blast
  have "io_ok intent_example_env intent_example_io" by (simp add: io_ok_def intent_example_io_def)
  then have run: "intent_run intent_example_env (intent_example_db []) db"
    using intent_op.http [OF 1] intent_op.dispatched [OF 2]
    by (meson converse_rtranclp_into_rtranclp rtranclp.rtrancl_refl)
  have "row \<in> set (in_intents db)" by (simp add: row(1))
  from one_investigation_in_flight [OF intent_example_digest _ run this this refl] row
  have "ii_broker_task_id row = Some (deterministic_investigation_task_id intent_example_env
          (ii_intent_id row) (ii_revision row))"
    by auto
  with run row show ?thesis by blast
qed

section \<open>The HTTP intake\<close>

lemma find_map_same: "(\<And>x. x \<in> set xs \<Longrightarrow> P (f x) = P x) \<Longrightarrow> find P (map f xs) = map_option f (find P xs)"
  by (induction xs) auto

lemma find_request_put:
  assumes ids: "distinct_ids db" and got: "get_intent db (ii_intent_id row) = Some row"
    and same: "ii_intent_id row' = ii_intent_id row" "ii_requested_by row' = ii_requested_by row"
      "ii_request_idempotency_key row' = ii_request_idempotency_key row"
    and found: "find_request db q = Some row"
  shows "find_request (put_intent now row' db) q = Some (row'\<lparr>ii_updated_at := now\<rparr>)"
proof -
  let ?P = "\<lambda>r. ii_requested_by r = Some (hq_requested_by q)
               \<and> ii_request_idempotency_key r = Some (hq_request_idempotency_key q)"
  let ?f = "\<lambda>r. if ii_intent_id r = ii_intent_id row' then row'\<lparr>ii_updated_at := now\<rparr> else r"
  have rows: "in_intents (put_intent now row' db) = map ?f (in_intents db)"
    by (simp add: put_intent_def store_intent_def update_where_def)
  have "?P (?f r) = ?P r" if "r \<in> set (in_intents db)" for r
  proof (cases "ii_intent_id r = ii_intent_id row'")
    case True
    have "Some r = Some row"
      using get_intent_mem [OF ids that] got unfolding True same(1) by (rule trans [OF sym])
    then have "r = row" by (rule option.inject [THEN iffD1])
    then show ?thesis using same unfolding True by simp
  qed simp
  then have "find ?P (map ?f (in_intents db)) = map_option ?f (find ?P (in_intents db))"
    by (rule find_map_same)
  with found show ?thesis by (simp add: find_request_def scalar_def rows same(1))
qed

lemma find_request_put_new:
  assumes got: "get_intent db (ii_intent_id row) = Some row"
    and same: "ii_intent_id row' = ii_intent_id row"
    and row': "ii_requested_by row' = Some (hq_requested_by q)"
      "ii_request_idempotency_key row' = Some (hq_request_idempotency_key q)"
    and none: "find_request db q = None"
  shows "find_request (put_intent now row' db) q = Some (row'\<lparr>ii_updated_at := now\<rparr>)"
proof -
  let ?P = "\<lambda>r. ii_requested_by r = Some (hq_requested_by q)
               \<and> ii_request_idempotency_key r = Some (hq_request_idempotency_key q)"
  let ?f = "\<lambda>r. if ii_intent_id r = ii_intent_id row' then row'\<lparr>ii_updated_at := now\<rparr> else r"
  have "find ?P (map ?f xs) = Some (row'\<lparr>ii_updated_at := now\<rparr>)"
    if "find ?P xs = None" "ii_intent_id row' \<in> ii_intent_id ` set xs" for xs
    using that row' by (induction xs) (auto split: if_splits)
  moreover have "ii_intent_id row' \<in> ii_intent_id ` set (in_intents db)"
    using intents_table.get_mem [OF got] same by auto
  ultimately show ?thesis
    using none by (simp add: find_request_def scalar_def put_intent_def store_intent_def update_where_def)
qed

text \<open>The request is answered from a row of its own that a replay leaves alone.\<close>

definition settled :: "intent_env \<Rightarrow> http_request \<Rightarrow> intent_db \<Rightarrow> HttpInvestigationIntentResult \<Rightarrow> bool" where
  "settled env q db res \<longleftrightarrow> (\<exists>row s. find_request db q = Some row \<and> ii_event_id row = hq_event_id q
     \<and> ii_request_payload_sha256 row = Some (hq_request_payload_sha256 q) \<and> has_status s row
     \<and> (ii_intent_kind row = INTENT_KIND_HTTP_INVESTIGATE \<longrightarrow> s \<notin> {II_DEAD, II_SKIPPED})
     \<and> http_intent_result env row False = Inr (res\<lparr>hr_created := False\<rparr>))"

lemma http_intent_result_touch: "http_intent_result env (row\<lparr>ii_updated_at := now\<rparr>) b = http_intent_result env row b"
  by (simp add: http_intent_result_def revision_of_def)

lemma http_intent_result_created:
  "http_intent_result env row b = Inr res \<Longrightarrow> http_intent_result env row False = Inr (res\<lparr>hr_created := False\<rparr>)"
  by (auto simp: http_intent_result_def)

lemma rearm_settled:
  assumes r: "rearm_http_intent env now request row db = Inr (res, db')"
    and found: "find_request db' q = Some ((rearm_row env request row)\<lparr>ii_updated_at := now\<rparr>)"
    and row': "ii_event_id row = hq_event_id q"
      "ii_request_payload_sha256 (rearm_row env request row) = Some (hq_request_payload_sha256 q)"
  shows "settled env q db' res"
proof -
  let ?row = "(rearm_row env request row)\<lparr>ii_updated_at := now\<rparr>"
  have "http_intent_result env ?row False = Inr (res\<lparr>hr_created := False\<rparr>)"
    using r http_intent_result_created [of env "rearm_row env request row" False res]
    by (auto simp: rearm_http_intent_def http_intent_result_touch)
  moreover have "has_status II_RETRY ?row" "ii_event_id ?row = hq_event_id q"
    using row'(1) by (simp_all add: rearm_row_def Let_def split: option.splits)
  ultimately show ?thesis
    unfolding settled_def using found row'(2) by (intro exI [of _ ?row] exI [of _ II_RETRY]) simp
qed

lemma replay_settled:
  assumes r: "replay_http_intent env now q row db = Inr (res, db')"
    and found: "find_request db q = Some row" and ids: "distinct_ids db"
  shows "settled env q db' res"
proof -
  from r have row: "ii_event_id row = hq_event_id q"
    "ii_request_payload_sha256 row = Some (hq_request_payload_sha256 q)"
    by (simp_all add: replay_http_intent_def)
  from r obtain s where s: "has_status s row" by (auto simp: replay_http_intent_def)
  have got: "get_intent db (ii_intent_id row) = Some row"
    using scalar_got [OF ids] found by (simp add: find_request_def)
  show ?thesis
  proof (cases "ii_intent_kind row = INTENT_KIND_HTTP_INVESTIGATE \<and> s \<in> {II_DEAD, II_SKIPPED}")
    case True
    then have rearm: "rearm_http_intent env now None row db = Inr (res, db')"
      using r row s by (simp add: replay_http_intent_def ensure_def)
    then have db': "db' = put_intent now (rearm_row env None row) db" by (auto simp: rearm_http_intent_def)
    have "find_request db' q = Some ((rearm_row env None row)\<lparr>ii_updated_at := now\<rparr>)"
      unfolding db'
      by (rule find_request_put [OF ids got _ _ _ found]) (simp_all add: rearm_row_def Let_def)
    then show ?thesis
      by (rule rearm_settled [OF rearm]) (simp_all add: row rearm_row_def Let_def)
  next
    case False
    then have same: "db' = db" and res: "http_intent_result env row False = Inr res"
      using r row s by (auto simp: replay_http_intent_def ensure_def split: if_splits)
    show ?thesis
      unfolding settled_def same using found row s False http_intent_result_created [OF res]
      by (intro exI [of _ row] exI [of _ s]) simp
  qed
qed

lemma take_over_settled:
  assumes r: "take_over_http_intent env now q row db = Inr (res, db')"
    and got: "get_intent db (ii_intent_id row) = Some row" and none: "find_request db q = None"
    and ev: "ii_event_id row = hq_event_id q"
  shows "settled env q db' res"
proof -
  have rearm: "rearm_http_intent env now (Some q) row db = Inr (res, db')"
    using r by (auto simp: take_over_http_intent_def split: if_splits)
  then have db': "db' = put_intent now (rearm_row env (Some q) row) db" by (auto simp: rearm_http_intent_def)
  have "find_request db' q = Some ((rearm_row env (Some q) row)\<lparr>ii_updated_at := now\<rparr>)"
    unfolding db' by (rule find_request_put_new [OF got _ _ _ none]) (simp_all add: rearm_row_def Let_def)
  then show ?thesis
    by (rule rearm_settled [OF rearm]) (simp_all add: ev rearm_row_def Let_def)
qed

lemma insert_settled:
  assumes i: "insert_intent (new_http_row env now intent_id q) db = Inr db'"
    and r: "http_intent_result env (new_http_row env now intent_id q) True = Inr res"
  shows "settled env q db' res"
proof -
  let ?row = "new_http_row env now intent_id q"
  from i have fresh: "\<not> insert_violates_unique ?row (in_intents db)"
    and rows: "in_intents db' = in_intents db @ [?row]"
    by (auto simp: insert_intent_def split: if_splits)
  have "find_request db q = None"
    using fresh by (auto simp: find_request_def scalar_None_iff insert_violates_unique_def list_ex_iff
        new_http_row_def)
  then have "find_request db' q = Some ?row"
    by (simp add: find_request_def scalar_def rows find_append new_http_row_def)
  then show ?thesis
    unfolding settled_def using http_intent_result_created [OF r]
    by (intro exI [of _ ?row] exI [of _ II_PENDING]) (simp add: new_http_row_def)
qed

lemma commit_eq_Inr [simp]: "commit s r = (s', Inr x) \<longleftrightarrow> r = Inr (x, s')"
  by (cases "(s, r)" rule: commit.cases) auto

lemma recover_settled:
  assumes r: "recover_http_in_tx env now q db = Inr (res, db')" and ids: "distinct_ids db"
  shows "settled env q db' res"
proof (cases "find_request db q")
  case (Some row)
  with r have "replay_http_intent env now q row db = Inr (res, db')"
    by (auto simp: recover_http_in_tx_def)
  then show ?thesis by (rule replay_settled [OF _ Some ids])
next
  case None
  with r obtain row where row: "find_http_intent db (hq_event_id q) = Some row"
    and t: "take_over_http_intent env now q row db = Inr (res, db')"
    by (auto simp: recover_http_in_tx_def split: option.splits)
  have "get_intent db (ii_intent_id row) = Some row" "ii_event_id row = hq_event_id q"
    using scalar_got [OF ids] scalar_SomeD [OF row [unfolded find_http_intent_def]] row
    by (simp_all add: find_http_intent_def)
  then show ?thesis by (rule take_over_settled [OF t _ None])
qed

lemma create_http_settled:
  assumes c: "create_http_in_tx env now i race q db = (db', Inr res)" and ids: "distinct_ids db"
  shows "settled env q db' res"
proof -
  from c obtain event where ev: "get_event (in_db db) (hq_event_id q) = Some event"
    by (auto simp: create_http_in_tx_def split: option.splits)
  show ?thesis
  proof (cases "find_request db q")
    case (Some row)
    with c ev have "replay_http_intent env now q row db = Inr (res, db')"
      by (auto simp: create_http_in_tx_def split: sum.splits)
    then show ?thesis by (rule replay_settled [OF _ Some ids])
  next
    case None
    note fresh = None
    show ?thesis
    proof (cases "find_http_intent db (hq_event_id q)")
      case (Some row)
      with c ev fresh have t: "take_over_http_intent env now q row db = Inr (res, db')"
        by (auto simp: create_http_in_tx_def split: sum.splits if_splits)
      have "get_intent db (ii_intent_id row) = Some row" "ii_event_id row = hq_event_id q"
        using scalar_got [OF ids] scalar_SomeD [OF Some [unfolded find_http_intent_def]] Some
        by (simp_all add: find_http_intent_def)
      then show ?thesis by (rule take_over_settled [OF t _ fresh])
    next
      case None
      with c ev fresh obtain db1 where "insert_intent (new_http_row env now i q) db1 = Inr db'"
        "http_intent_result env (new_http_row env now i q) True = Inr res"
        by (auto simp: create_http_in_tx_def split: sum.splits if_splits)
      then show ?thesis by (rule insert_settled)
    qed
  qed
qed

definition stripped :: "http_request \<Rightarrow> http_request" where
  "stripped q = q\<lparr>hq_request_idempotency_key := strip (hq_request_idempotency_key q),
                  hq_requested_by := strip (hq_requested_by q)\<rparr>"

lemma create_or_replay_settled:
  assumes c: "create_or_replay_http_intent env now i race q db = (db', Inr res)"
    and r: "ledger env db (race db)" and ids: "distinct_ids db"
  shows "settled env (stripped q) db' res"
proof -
  obtain db1 y where y: "create_http_in_tx env now i race (stripped q) db = (db1, y)" by force
  note l1 = create_http_ledger [OF y r ids]
  from c consider "db' = db1" "y = Inr res"
    | "commit db1 (recover_http_in_tx env now (stripped q) db1) = (db', Inr res)"
    by (auto simp: create_or_replay_http_intent_def Let_def stripped_def [symmetric] y
        split: if_splits sum.splits st_error.splits)
  then show ?thesis
  proof cases
    case 1
    with y show ?thesis by (auto intro: create_http_settled ids)
  next
    case 2
    then have "recover_http_in_tx env now (stripped q) db1 = Inr (res, db')"
      by (auto simp: split: sum.splits)
    then show ?thesis by (rule recover_settled [OF _ ledger_ids [OF l1 ids]])
  qed
qed

lemma create_or_replay_admitted:
  assumes "create_or_replay_http_intent env now i race q db = (db', Inr res)"
  shows "strip (hq_request_idempotency_key q) \<noteq> []" "length (strip (hq_request_idempotency_key q)) \<le> 200"
    "strip (hq_requested_by q) \<noteq> []"
  using assms by (auto simp: create_or_replay_http_intent_def Let_def split: if_splits)

lemma settled_replay:
  assumes "settled env q db res"
  obtains row where "find_request db q = Some row"
    "\<And>now. replay_http_intent env now q row db = Inr (res\<lparr>hr_created := False\<rparr>, db)"
    "ii_event_id row = hq_event_id q" "ii_request_payload_sha256 row = Some (hq_request_payload_sha256 q)"
proof -
  from assms obtain row s where row: "find_request db q = Some row" "ii_event_id row = hq_event_id q"
    "ii_request_payload_sha256 row = Some (hq_request_payload_sha256 q)" "has_status s row"
    "ii_intent_kind row = INTENT_KIND_HTTP_INVESTIGATE \<longrightarrow> s \<notin> {II_DEAD, II_SKIPPED}"
    "http_intent_result env row False = Inr (res\<lparr>hr_created := False\<rparr>)"
    unfolding settled_def by blast
  then have "replay_http_intent env now q row db = Inr (res\<lparr>hr_created := False\<rparr>, db)" for now
    by (auto simp: replay_http_intent_def ensure_def)
  with that row show ?thesis by blast
qed

text \<open>
  C12: the intake of an investigation request over HTTP is idempotent. Whatever way a request
  was accepted (a new intent, a replay, a re-armed intent or one taken over after losing the
  race to the unique index), sending it again returns the same intent, revision and task id,
  marked as not created, and leaves the store unchanged; and the same caller using the same
  key for another event or another payload is refused without a change.
\<close>

theorem http_intake_idempotent:
  assumes digest: "digest_ok env" and start: "in_intents start = []" and run: "intent_run env start db"
    and race: "ledger env db (race db)"
    and accepted: "create_or_replay_http_intent env now i race q db = (db1, Inr res)"
    and event: "get_event (in_db db1) (hq_event_id q) \<noteq> None"
    and same: "strip (hq_request_idempotency_key q') = strip (hq_request_idempotency_key q)"
      "strip (hq_requested_by q') = strip (hq_requested_by q)"
    and other: "hq_event_id q' \<noteq> hq_event_id q \<or> hq_request_payload_sha256 q' \<noteq> hq_request_payload_sha256 q"
    and event': "get_event (in_db db1) (hq_event_id q') \<noteq> None"
  shows "create_or_replay_http_intent env now' i' race' q db1 = (db1, Inr (res\<lparr>hr_created := False\<rparr>))
    \<and> create_or_replay_http_intent env now' i' race' q' db1 = (db1, Inl IdempotencyKeyReuseError)"
proof
  have "distinct_ids db"
    using ledger_ids [OF run_ledger [OF run digest]] start by (simp add: distinct_ids_def)
  then have "settled env (stripped q) db1 res" by (rule create_or_replay_settled [OF accepted race])
  then obtain row where row: "find_request db1 (stripped q) = Some row"
    "replay_http_intent env now' (stripped q) row db1 = Inr (res\<lparr>hr_created := False\<rparr>, db1)"
    "ii_event_id row = hq_event_id q" "ii_request_payload_sha256 row = Some (hq_request_payload_sha256 q)"
    by (rule settled_replay) (simp add: stripped_def)
  note adm = create_or_replay_admitted [OF accepted]
  have "create_http_in_tx env now' i' race' (stripped q) db1 = (db1, Inr (res\<lparr>hr_created := False\<rparr>))"
    using event row(1,2) by (auto simp: create_http_in_tx_def stripped_def)
  then show "create_or_replay_http_intent env now' i' race' q db1 = (db1, Inr (res\<lparr>hr_created := False\<rparr>))"
    using adm by (simp add: create_or_replay_http_intent_def Let_def stripped_def)
  have "find_request db1 (stripped q') = Some row"
    using row(1) same by (simp add: find_request_def stripped_def)
  moreover have "replay_http_intent env now' (stripped q') row db1 = Inl IdempotencyKeyReuseError"
    using row(3,4) other by (auto simp: replay_http_intent_def ensure_def stripped_def)
  ultimately have "create_http_in_tx env now' i' race' (stripped q') db1 = (db1, Inl IdempotencyKeyReuseError)"
    using event' by (auto simp: create_http_in_tx_def stripped_def)
  then show "create_or_replay_http_intent env now' i' race' q' db1 = (db1, Inl IdempotencyKeyReuseError)"
    using adm same by (simp add: create_or_replay_http_intent_def Let_def stripped_def)
qed

theorem http_intake_idempotent_witness:
  "\<exists>res. create_or_replay_http_intent intent_example_env 0 ''iin-1'' (\<lambda>db. db) intent_example_request
       (intent_example_db []) = (intent_example_db [intent_example_row], Inr res)
     \<and> create_or_replay_http_intent intent_example_env 9 ''iin-9'' (\<lambda>db. db) intent_example_request
       (intent_example_db [intent_example_row])
       = (intent_example_db [intent_example_row], Inr (res\<lparr>hr_created := False\<rparr>))
     \<and> create_or_replay_http_intent intent_example_env 9 ''iin-9'' (\<lambda>db. db)
         (intent_example_request\<lparr>hq_request_payload_sha256 := ''p2''\<rparr>) (intent_example_db [intent_example_row])
       = (intent_example_db [intent_example_row], Inl IdempotencyKeyReuseError)"
proof -
  let ?q = "intent_example_request\<lparr>hq_request_payload_sha256 := ''p2''\<rparr>"
  obtain res where 1: "create_or_replay_http_intent intent_example_env 0 ''iin-1'' (\<lambda>db. db)
      intent_example_request (intent_example_db []) = (intent_example_db [intent_example_row], Inr res)"
    using intent_example_created by blast
  have ev: "get_event (in_db (intent_example_db [intent_example_row])) (hq_event_id intent_example_request) \<noteq> None"
    "get_event (in_db (intent_example_db [intent_example_row])) (hq_event_id ?q) \<noteq> None"
    by (simp_all add: intent_example_request_def intent_example_event)
  have q: "strip (hq_request_idempotency_key ?q) = strip (hq_request_idempotency_key intent_example_request)"
    "strip (hq_requested_by ?q) = strip (hq_requested_by intent_example_request)"
    "hq_event_id ?q \<noteq> hq_event_id intent_example_request
       \<or> hq_request_payload_sha256 ?q \<noteq> hq_request_payload_sha256 intent_example_request"
    by (simp_all add: intent_example_request_def)
  have "in_intents (intent_example_db []) = []" by simp
  from http_intake_idempotent [OF intent_example_digest this rtranclp.rtrancl_refl _ 1 ev(1) q ev(2),
      of 9 "''iin-9''" "\<lambda>db. db"] 1
  show ?thesis by auto
qed

end
