(* ===== verification/Intents_Reconcile.thy ===== *)
theory Intents_Reconcile
  imports Intents_Facts
begin

text \<open>
  The reconcile pass of the intent ledger: no row it may touch can make it fail, and none of
  them is left stale and in flight.
\<close>

section \<open>One pass\<close>

definition stale :: "intent_env \<Rightarrow> int \<Rightarrow> intent_row \<Rightarrow> bool" where
  "stale env now row \<longleftrightarrow>
     (let lease = cfg_auto_investigate_claim_lease_s (ie_cfg env)
      in \<exists>s. has_status s row \<and> is_stale_intent_row row s now (max (lease * 4) STARTED_STALE_MIN_S) lease)"

lemma in_flight_status:
  assumes "in_flight row"
  obtains s where "has_status s row" "s \<in> {II_CLAIMED, II_ENQUEUED, II_STARTED}"
  using assms by (auto simp: in_flight_def)

lemma stale_iff: "has_status s row \<Longrightarrow> stale env now row \<longleftrightarrow>
    is_stale_intent_row row s now (max (cfg_auto_investigate_claim_lease_s (ie_cfg env) * 4) STARTED_STALE_MIN_S)
      (cfg_auto_investigate_claim_lease_s (ie_cfg env))"
  by (auto simp: stale_def Let_def)

lemma retry_or_bury_settles:
  assumes "s \<in> {II_CLAIMED, II_ENQUEUED, II_STARTED}"
  shows "\<exists>row'. retry_or_bury env row s m = Inr row' \<and> ii_intent_id row' = ii_intent_id row \<and> \<not> in_flight row'"
  using assms by (auto simp: retry_or_bury_def Let_def validate_intent_transition_def ensure_def in_flight_def)

lemma reconcile_row_settles:
  assumes "s \<in> {II_CLAIMED, II_ENQUEUED, II_STARTED}"
  shows "\<exists>row'. reconcile_stale_row env row s event m = Inr row' \<and> ii_intent_id row' = ii_intent_id row
           \<and> \<not> in_flight row'"
proof (cases event)
  case None
  then show ?thesis using retry_or_bury_settles [OF assms] by (simp add: reconcile_stale_row_def)
next
  case (Some e)
  show ?thesis
    using retry_or_bury_settles [OF assms, of env row m] assms
    by (auto simp: Some reconcile_stale_row_def validate_intent_transition_def ensure_def in_flight_def)
qed

lemma in_flight_touch [simp]: "in_flight (row\<lparr>ii_updated_at := t\<rparr>) = in_flight row"
  by (simp add: in_flight_def)

lemma put_intent_members:
  "r \<in> set (in_intents (put_intent now row db)) \<Longrightarrow>
     r = row\<lparr>ii_updated_at := now\<rparr> \<or> (r \<in> set (in_intents db) \<and> ii_intent_id r \<noteq> ii_intent_id row)"
  by (auto simp: put_intent_def store_intent_def update_where_def split: if_splits)

lemma reconcile_rows_settle:
  "\<forall>r\<in>set rows. in_flight r \<Longrightarrow>
     \<exists>n db'. reconcile_rows env now rows db = Inr (n, db')
       \<and> (\<forall>r\<in>set (in_intents db'). in_flight r \<longrightarrow>
            r \<in> set (in_intents db) \<and> (\<forall>q\<in>set rows. ii_intent_id q = ii_intent_id r \<longrightarrow> \<not> stale env now q))"
proof (induction rows arbitrary: db)
  case (Cons row rows)
  then have rest: "\<forall>r\<in>set rows. in_flight r" by simp
  from Cons.prems obtain s where s: "has_status s row" "s \<in> {II_CLAIMED, II_ENQUEUED, II_STARTED}"
    using in_flight_status [of row] by auto
  show ?case
  proof (cases "stale env now row")
    case False
    from Cons.IH [OF rest, of db] obtain n db' where r: "reconcile_rows env now rows db = Inr (n, db')"
      and out: "\<forall>r\<in>set (in_intents db'). in_flight r \<longrightarrow>
            r \<in> set (in_intents db) \<and> (\<forall>q\<in>set rows. ii_intent_id q = ii_intent_id r \<longrightarrow> \<not> stale env now q)"
      by blast
    have "reconcile_rows env now (row # rows) db = Inr (n, db')"
      using False r s by (simp add: stale_iff Let_def)
    then show ?thesis using out False by auto
  next
    case True
    obtain row' where row': "reconcile_stale_row env row s (get_event (in_db db) (ii_event_id row))
        (cfg_auto_investigate_max_attempts (ie_cfg env)) = Inr row'"
      "ii_intent_id row' = ii_intent_id row" "\<not> in_flight row'"
      using reconcile_row_settles [OF s(2)] by blast
    let ?db = "put_intent now row' db"
    from Cons.IH [OF rest, of ?db] obtain n db' where r: "reconcile_rows env now rows ?db = Inr (n, db')"
      and out: "\<forall>r\<in>set (in_intents db'). in_flight r \<longrightarrow>
            r \<in> set (in_intents ?db) \<and> (\<forall>q\<in>set rows. ii_intent_id q = ii_intent_id r \<longrightarrow> \<not> stale env now q)"
      by blast
    have run: "reconcile_rows env now (row # rows) db = Inr (n + 1, db')"
      using True r s row'(1) by (simp add: stale_iff Let_def)
    have "r \<in> set (in_intents db) \<and> (\<forall>q\<in>set (row # rows). ii_intent_id q = ii_intent_id r \<longrightarrow> \<not> stale env now q)"
      if "r \<in> set (in_intents db')" "in_flight r" for r
    proof -
      have mem: "r \<in> set (in_intents ?db)" "\<forall>q\<in>set rows. ii_intent_id q = ii_intent_id r \<longrightarrow> \<not> stale env now q"
        using out that by blast+
      from put_intent_members [OF mem(1)] have "r \<in> set (in_intents db)" "ii_intent_id r \<noteq> ii_intent_id row"
        using row'(2,3) that(2) by auto
      with mem(2) show ?thesis by auto
    qed
    with run show ?thesis by blast
  qed
qed simp

lemma maybe_create_in_flight:
  assumes "maybe_create_pending_in_session env now i event role product created db = Inr (x, db')"
    and "r \<in> set (in_intents db')" "in_flight r"
  shows "r \<in> set (in_intents db)"
proof -
  have "\<not> in_flight (new_auto_row env now i e)" for e by (simp add: in_flight_def new_auto_row_def)
  then show ?thesis
    using assms by (auto simp: maybe_create_pending_in_session_def insert_intent_def Let_def
        split: if_splits sum.splits)
qed

lemma materialize_in_flight:
  "materialize_links env now ids links db = Inr (n, db') \<Longrightarrow> r \<in> set (in_intents db') \<Longrightarrow> in_flight r \<Longrightarrow>
     r \<in> set (in_intents db)"
proof (induction env now ids links db arbitrary: n db' rule: materialize_links.induct)
  case (2 env now ids link links db)
  show ?case
  proof (cases "get_event (in_db db) (lk_event_id link)")
    case None
    with "2.prems" "2.IH"(1) show ?thesis by simp
  next
    case (Some event)
    with "2.prems"(1) obtain created db1 m where
      c: "maybe_create_pending_in_session env now (ids (length links)) event PRIMARY_LINK_ROLE
            (creation_product (in_facts db (se_event_id event))) True db = Inr (created, db1)"
      and m: "materialize_links env now ids links db1 = Inr (m, db')"
      by auto
    show ?thesis
      by (rule maybe_create_in_flight [OF c "2.IH"(2) [OF Some m "2.prems"(2,3)] "2.prems"(3)])
  qed
qed simp

text \<open>
  C19: a reconcile pass never gets stuck on a stale intent. With a limit that covers the
  ledger, after the pass no unlocked intent is both in flight (CLAIMED, ENQUEUED or STARTED)
  and stale: each was ended, skipped, buried or put back for another attempt. This holds
  whatever the events' states are and even when the materialisation that follows fails.
\<close>

theorem reconcile_clears_stale:
  assumes pass: "reconcile_stale env now ids locked limit db = (db', x)"
    and limit: "length (in_intents db) \<le> limit"
    and row: "row \<in> set (in_intents db')" "in_flight row" "\<not> locked (ii_intent_id row)"
  shows "row \<in> set (in_intents db) \<and> \<not> stale env now row"
proof -
  let ?rows = "reconcile_candidates locked limit db"
  have rows: "set ?rows = {r \<in> set (in_intents db). in_flight r \<and> \<not> locked (ii_intent_id r)}"
    using limit le_trans [OF length_filter_le limit] by (auto simp: reconcile_candidates_def)
  then have "\<forall>r\<in>set ?rows. in_flight r" by simp
  from reconcile_rows_settle [OF this, of env now db] obtain n db1
    where r: "reconcile_rows env now ?rows db = Inr (n, db1)"
    and out: "\<And>r. r \<in> set (in_intents db1) \<Longrightarrow> in_flight r \<Longrightarrow>
       r \<in> set (in_intents db) \<and> (\<forall>q\<in>set ?rows. ii_intent_id q = ii_intent_id r \<longrightarrow> \<not> stale env now q)"
    by blast
  have "row \<in> set (in_intents db1)"
  proof (cases "cfg_auto_investigate_enabled (ie_cfg env)")
    case True
    let ?m = "materialize_links env now ids
      (provisional_links env now (cfg_auto_investigate_materialize_batch_size (ie_cfg env)) db1) db1"
    show ?thesis
    proof (cases ?m)
      case (Inl e)
      with pass r True row(1) show ?thesis
        by (simp add: reconcile_stale_def materialize_provisional_intents_def)
    next
      case (Inr m)
      then obtain k db2 where m: "?m = Inr (k, db2)" by (cases m) auto
      with pass r True have "db' = db2"
        by (simp add: reconcile_stale_def materialize_provisional_intents_def)
      with materialize_in_flight [OF m] row(1,2) show ?thesis by simp
    qed
  next
    case False
    with pass r row(1) show ?thesis
      by (simp add: reconcile_stale_def materialize_provisional_intents_def)
  qed
  from out [OF this row(2)] rows row(2,3) show ?thesis by blast
qed

definition intent_example_lost :: intent_row where
  "intent_example_lost = intent_example_row\<lparr>ii_status := InvestigationIntentStatus_value II_CLAIMED,
     ii_claim_owner := Some ''w1'', ii_claim_expires_at := Some 60000000\<rparr>"

theorem reconcile_clears_stale_witness:
  "\<exists>db' x. reconcile_stale intent_example_env 60000001 (\<lambda>_. ''iin-9'') (\<lambda>_. False) 1
       (intent_example_db [intent_example_lost]) = (db', x)
     \<and> in_flight intent_example_lost \<and> stale intent_example_env 60000001 intent_example_lost
     \<and> intent_example_lost \<notin> set (in_intents db')"
proof -
  obtain db' x where pass: "reconcile_stale intent_example_env 60000001 (\<lambda>_. ''iin-9'') (\<lambda>_. False) 1
       (intent_example_db [intent_example_lost]) = (db', x)"
    by force
  have fl: "in_flight intent_example_lost" by (simp add: in_flight_def intent_example_lost_def)
  have "has_status II_CLAIMED intent_example_lost" by (simp add: intent_example_lost_def)
  then have st: "stale intent_example_env 60000001 intent_example_lost"
    by (simp add: stale_iff is_stale_intent_row_def claim_expired_def) (simp add: intent_example_lost_def)
  have "intent_example_lost \<notin> set (in_intents db')"
    using reconcile_clears_stale [OF pass _ _ fl] st by auto
  with pass fl st show ?thesis by blast
qed

end
