(* ===== verification/Claim_Order_Facts.thy ===== *)
theory Claim_Order_Facts
  imports Intents_Facts
begin

text \<open>
  The claim order of investigation intents: the database's expression computes the
  scheduler's priority, and how far one intent can be passed over for another.
\<close>

section \<open>The priority\<close>


text \<open>
  C40: the ORDER BY expression the claim query sends to the database computes the
  scheduler's priority, for every severity column without surrounding blanks (a NULL from
  the outer join included), so both rank intents alike.
\<close>

theorem priority_expression_agrees:
  assumes "\<And>s. severity = Some s \<Longrightarrow> strip s = s"
  shows "priority_order_columns severity created_at i now r = rank_key severity created_at i now None r"
proof -
  have low: "strip ''low'' = ''low''" by (simp add: strip_def is_blank_def)
  have "holding_cost severity = (let sev = map_option (map lower_char) severity in
      if sev = Some ''critical'' then 8 else if sev = Some ''high'' then 4
      else if sev = Some ''medium'' then 2 else 1)"
    using assms low
    by (cases severity) (auto simp: holding_cost_def HOLDING_COST_def or_default_def Let_def)
  moreover have "max (expected_duration_s r) 1 = (if r then DEFAULT_EXPECTED_S else ANALYSIS_ONLY_EXPECTED_S)"
    by (simp add: expected_duration_s_def DEFAULT_EXPECTED_S_def ANALYSIS_ONLY_EXPECTED_S_def)
  ultimately show ?thesis
    by (simp add: priority_order_columns_def rank_key_def priority_expression_def dispatch_priority_def
        aging_gamma_def wait_seconds_def Let_def)
qed

theorem priority_expression_agrees_witness:
  "priority_order_columns (Some ''High'') 0 ''iin-1'' 90000000 True
     = rank_key (Some ''High'') 0 ''iin-1'' 90000000 None True"
  by (rule priority_expression_agrees) (auto simp: strip_def is_blank_def)

text \<open>The cost of an intent as the query reads it, and the time it has waited in seconds.\<close>

definition sql_cost :: "string option \<Rightarrow> rat" where
  "sql_cost severity =
     (let sev = map_option (map lower_char) severity
      in if sev = Some ''critical'' then 8 else if sev = Some ''high'' then 4
         else if sev = Some ''medium'' then 2 else 1)"

lemma sql_cost_bounds: "1 \<le> sql_cost s" "sql_cost s \<le> 8"
  by (simp_all add: sql_cost_def Let_def)

lemma priority_expression_eq:
  assumes "created_at \<le> now"
  shows "priority_expression severity created_at now r
    = (600 * sql_cost severity + of_int (now - created_at) / 1000000) / (if r then 360000 else 180000)"
  using assms
  by (simp add: priority_expression_def sql_cost_def Let_def DEFAULT_EXPECTED_S_def ANALYSIS_ONLY_EXPECTED_S_def
      AGING_HIGH_CATCHUP_S_def max_def divide_simps)

lemma aging_catchup: "dispatch_priority (Some ''low'') 0 (1800 * 1000000) (Some d) r
    = dispatch_priority (Some ''high'') 0 0 (Some d) r"
proof -
  have "strip ''low'' = ''low''" "strip ''high'' = ''high''" "map lower_char ''low'' = ''low''"
    "map lower_char ''high'' = ''high''"
    by (simp_all add: strip_def is_blank_def lower_char_def)
  moreover have "max d 1 > 0" by (simp add: less_max_iff_disj)
  ultimately show ?thesis
    by (simp add: dispatch_priority_def Let_def holding_cost_def HOLDING_COST_def or_default_def
        aging_gamma_def wait_seconds_def AGING_HIGH_CATCHUP_S_def divide_simps)
qed

section \<open>Overtaking\<close>

lemma take_sort_key_le:
  assumes "x \<in> set (take n (sort_key f xs))" and "y \<in> set xs" "y \<notin> set (take n (sort_key f xs))"
  shows "f x \<le> (f y :: 'b :: linorder)"
proof -
  have "sorted (map f (take n (sort_key f xs) @ drop n (sort_key f xs)))" by simp
  moreover have "y \<in> set (take n (sort_key f xs) @ drop n (sort_key f xs))" using assms(2) by simp
  then have "y \<in> set (drop n (sort_key f xs))" using assms(3) by (simp only: set_append Un_iff) simp
  ultimately show ?thesis using assms(1) by (auto simp: sorted_append simp del: append_take_drop_id)
qed

definition age :: "int \<Rightarrow> intent_row \<Rightarrow> rat" where
  "age now row = of_int (now - ii_created_at row) / 1000000"

text \<open>
  C20: how far the claim order can hold an intent back. When a claimable, unlocked intent is
  passed over by a batch, every intent taken instead has waited at least half as long less
  4500 seconds, and at least as long less 4200 seconds when both expect the same duration;
  with the same severity cost as well, it was created no later. So an intent that has waited
  9000 seconds is never passed over for a fresh one.
\<close>

theorem claim_overtaking_bounded:
  assumes row: "row \<in> set (in_intents db)" "claimable now row" "\<not> locked (ii_intent_id row)"
    and passed: "row \<notin> set (claim_candidates now locked limit db)"
    and taken: "other \<in> set (claim_candidates now locked limit db)"
    and clock: "ii_created_at row \<le> now" "ii_created_at other \<le> now"
  shows "age now other \<ge> age now row / 2 - 4500
    \<and> (ii_include_response_execution other = ii_include_response_execution row \<longrightarrow>
         age now other \<ge> age now row - 4200
         \<and> (sql_cost (map_option se_severity (get_event (in_db db) (ii_event_id other)))
              = sql_cost (map_option se_severity (get_event (in_db db) (ii_event_id row))) \<longrightarrow>
            ii_created_at other \<le> ii_created_at row))"
proof -
  define c where "c r = sql_cost (map_option se_severity (get_event (in_db db) (ii_event_id r)))" for r :: intent_row
  define d :: "intent_row \<Rightarrow> rat" where "d r = (if ii_include_response_execution r then 360000 else 180000)" for r
  have "claim_order now db other \<le> claim_order now db row"
    using take_sort_key_le [OF taken [unfolded claim_candidates_def], of row] row passed
    by (simp add: claim_candidates_def)
  then have "fst (claim_order now db other) \<le> fst (claim_order now db row)" by (auto simp: less_eq_prod_def)
  then have le: "(600 * c row + age now row) / d row \<le> (600 * c other + age now other) / d other"
    using clock by (simp add: claim_order_def priority_order_columns_def priority_expression_eq c_def d_def age_def)
  have c: "1 \<le> c row" "c other \<le> 8" by (simp_all add: c_def sql_cost_bounds)
  have nonneg: "0 \<le> age now row" "0 \<le> age now other" using clock by (simp_all add: age_def)
  have "age now other \<ge> age now row / 2 - 4500"
    using le c nonneg by (cases "ii_include_response_execution row"; cases "ii_include_response_execution other")
      (simp_all add: d_def)
  moreover have "age now other \<ge> age now row - 4200 \<and> (c other = c row \<longrightarrow> ii_created_at other \<le> ii_created_at row)"
    if "ii_include_response_execution other = ii_include_response_execution row"
  proof -
    have "600 * c row + age now row \<le> 600 * c other + age now other"
      using le that by (simp add: d_def divide_right_mono split: if_splits)
    then have "age now other \<ge> age now row - 4200" "c other = c row \<longrightarrow> age now other \<ge> age now row"
      using c by linarith+
    moreover have "ii_created_at other \<le> ii_created_at row" if "age now other \<ge> age now row"
      using that by (simp add: age_def divide_le_cancel)
    ultimately show ?thesis by blast
  qed
  ultimately show ?thesis by (simp add: c_def)
qed

definition intent_example_younger :: intent_row where
  "intent_example_younger = intent_example_row\<lparr>ii_intent_id := ''iin-2'', ii_created_at := 5000000\<rparr>"

lemma intent_example_first:
  "claim_candidates 9000000 (\<lambda>_. False) 1 (intent_example_db [intent_example_younger, intent_example_row])
     = [intent_example_row]"
proof -
  let ?db = "intent_example_db [intent_example_younger, intent_example_row]"
  have row: "ii_created_at intent_example_row = 0" "ii_created_at intent_example_younger = 5000000"
    "ii_event_id intent_example_younger = ii_event_id intent_example_row"
    "ii_include_response_execution intent_example_younger = ii_include_response_execution intent_example_row"
    "claimable 9000000 intent_example_row" "claimable 9000000 intent_example_younger"
    by (simp_all add: intent_example_younger_def claimable_def) (simp add: intent_example_row_def new_http_row_def)
  have "claim_order 9000000 ?db intent_example_row < claim_order 9000000 ?db intent_example_younger"
    by (simp add: claim_order_def priority_order_columns_def priority_expression_eq row less_prod_def divide_strict_right_mono)
  then show ?thesis by (simp add: claim_candidates_def row)
qed

theorem claim_overtaking_bounded_witness:
  "claim_candidates 9000000 (\<lambda>_. False) 1 (intent_example_db [intent_example_younger, intent_example_row])
     = [intent_example_row]
   \<and> age 9000000 intent_example_younger / 2 - 4500 \<le> age 9000000 intent_example_row"
proof -
  let ?db = "intent_example_db [intent_example_younger, intent_example_row]"
  have row: "intent_example_younger \<noteq> intent_example_row" "ii_created_at intent_example_row = 0"
    "ii_created_at intent_example_younger = 5000000" "claimable 9000000 intent_example_younger"
  proof -
    have "ii_intent_id intent_example_younger \<noteq> ii_intent_id intent_example_row"
      by (simp add: intent_example_younger_def)
    then show "intent_example_younger \<noteq> intent_example_row" by metis
  qed (simp_all add: intent_example_younger_def claimable_def, simp add: intent_example_row_def new_http_row_def)
  have "age 9000000 intent_example_younger / 2 - 4500 \<le> age 9000000 intent_example_row"
    using claim_overtaking_bounded [of intent_example_younger ?db 9000000 "\<lambda>_. False" 1 intent_example_row] row
    unfolding intent_example_first by simp
  then show ?thesis using intent_example_first by blast
qed

end
