(* ===== verification/Outbox.thy ===== *)
theory Outbox
  imports Disposition_Model Config_Auth Context_Store "HOL-Library.Sublist"
begin

text \<open>
  \<open>DispositionSyncService\<close> and \<open>OutboxWorker\<close> of
  \<open>backend/app/services/disposition_sync_service.py\<close>: the durable outbox that delivers
  disposition commands to the source product. A transaction is a function on the database
  that returns its result or raises (and then leaves the database as it was); what a delivery
  sends to the provider is not undone by a rollback, so it is recorded in a log beside the
  database. Metrics, tracing, published events, the resume hook and the refresh of the
  writeback summary after a commit are left out.
\<close>

section \<open>Environment\<close>

text \<open>
  The settings, the worker's identity, the registered adapters, and as parameters the JSON
  decoder and encoder of the models, the digests, the text redaction and the content rules
  of the guard. Durations are in microseconds.
\<close>

record outbox_env =
  oe_settings :: Settings
  oe_max_attempts :: int
  oe_backoff_us :: int
  oe_backoff_max_us :: int
  oe_worker_id :: string
  oe_adapters :: adapter_registry
  oe_decode_command :: "json \<Rightarrow> DispositionCommand option"
  oe_dump_command :: "DispositionCommand \<Rightarrow> json"
  oe_dump_receipt :: "DispositionReceipt \<Rightarrow> json"
  oe_payload_sha256 :: "json \<Rightarrow> string"
  oe_sha256 :: "string \<Rightarrow> string"
  oe_locator_hash :: "SourceObjectLocator \<Rightarrow> string"
  oe_redact :: "string \<Rightarrow> string"
  oe_sanitize_raw :: "(string \<times> json) list \<Rightarrow> (string \<times> json) list"
  oe_content_ok :: "DispositionCommand \<Rightarrow> bool"

definition DEFAULT_LEASE_US :: int where "DEFAULT_LEASE_US = 30000000"
definition ERROR_DETAIL_MAX_LEN :: nat where "ERROR_DETAIL_MAX_LEN = 500"

definition OUTBOX_SUPERSEDED_ERROR_CODE :: string where
  "OUTBOX_SUPERSEDED_ERROR_CODE = ''superseded_by_new_head''"

definition WRITEBACK_FENCE_BLOCKED_ERROR_CODE :: string where
  "WRITEBACK_FENCE_BLOCKED_ERROR_CODE = ''writeback_fence_blocked''"

section \<open>Rows\<close>

definition get_outbox :: "database \<Rightarrow> string \<Rightarrow> outbox_row option" where
  "get_outbox db outbox_id = find (\<lambda>r. ob_outbox_id r = outbox_id) (db_outboxes db)"

definition store_outbox :: "outbox_row \<Rightarrow> database \<Rightarrow> database" where
  "store_outbox row db =
     db\<lparr>db_outboxes := update_where (\<lambda>r. ob_outbox_id r = ob_outbox_id row) (\<lambda>_. row)
                        (db_outboxes db)\<rparr>"

text \<open>Every update of a row refreshes \<open>updated_at\<close>, explicitly or by the column's \<open>onupdate\<close>.\<close>

definition put_outbox :: "int \<Rightarrow> outbox_row \<Rightarrow> database \<Rightarrow> database" where
  "put_outbox now row db = store_outbox (row\<lparr>ob_updated_at := now\<rparr>) db"

definition find_writeback :: "database \<Rightarrow> string \<Rightarrow> outbox_row option" where
  "find_writeback db writeback_id = scalar (\<lambda>r. ob_writeback_id r = writeback_id) (db_outboxes db)"

abbreviation delivery :: "OutboxDeliveryStatus \<Rightarrow> outbox_row \<Rightarrow> bool" where
  "delivery s row \<equiv> ob_delivery_status row = OutboxDeliveryStatus_value s"

definition delivery_of :: "outbox_row \<Rightarrow> OutboxDeliveryStatus res" where
  "delivery_of row = parse_or_raise OutboxDeliveryStatus_parse (ob_delivery_status row)"

text \<open>\<open>WritebackStatus(x) if x else None\<close>.\<close>

definition latest_of :: "outbox_row \<Rightarrow> WritebackStatus option res" where
  "latest_of row =
     (case ob_latest_writeback_status row of
        None \<Rightarrow> Inr None
      | Some raw \<Rightarrow> (if raw = [] then Inr None
                     else bind_res (parse_or_raise WritebackStatus_parse raw) (\<lambda>s. Inr (Some s))))"

definition unlocked :: "outbox_row \<Rightarrow> outbox_row" where
  "unlocked row = row\<lparr>ob_locked_by := None, ob_locked_at := None, ob_lease_expires_at := None\<rparr>"

definition truncate_error_detail :: "string \<Rightarrow> string" where
  "truncate_error_detail detail =
     (if length detail \<le> ERROR_DETAIL_MAX_LEN then detail
      else take (ERROR_DETAIL_MAX_LEN - 3) detail @ ''...'')"

definition lease_over :: "int \<Rightarrow> outbox_row \<Rightarrow> bool" where
  "lease_over now row \<longleftrightarrow> (case ob_lease_expires_at row of None \<Rightarrow> True | Some t \<Rightarrow> t \<le> now)"

text \<open>The action mirror, skipped for an action whose writeback is not applicable.\<close>

definition mirror_writeback_status_to_action ::
  "int \<Rightarrow> string \<Rightarrow> WritebackStatus \<Rightarrow> database \<Rightarrow> database" where
  "mirror_writeback_status_to_action now action_id status db =
     (case get_action db action_id of
        None \<Rightarrow> db
      | Some a \<Rightarrow>
          if act_writeback_applicable a
          then put_action (a\<lparr>act_writeback_status := Some (WritebackStatus_value status),
                             act_updated_at := now\<rparr>) db
          else db)"

section \<open>Changes of the delivery status\<close>

definition outbox_retry_backoff_us :: "outbox_env \<Rightarrow> int \<Rightarrow> int" where
  "outbox_retry_backoff_us env attempt = min (oe_backoff_us env * attempt) (oe_backoff_max_us env)"

definition str_opt :: "string option \<Rightarrow> string" where
  "str_opt s = (case s of None \<Rightarrow> ''None'' | Some x \<Rightarrow> x)"

definition release_leased_outbox_after_lease_expiry ::
  "outbox_env \<Rightarrow> int \<Rightarrow> outbox_row \<Rightarrow> outbox_row res" where
  "release_leased_outbox_after_lease_expiry env now row =
     bind_res (delivery_of row) (\<lambda>current.
     if current \<noteq> OD_LEASED then Inr row
     else
       bind_res (validate_outbox_delivery_transition
                   (default_outbox_evidence\<lparr>ev_lease_expired_resend := True\<rparr>) current OD_PAUSED) (\<lambda>_.
       Inr ((unlocked row)\<lparr>
         ob_last_error_code := Some ''lease_expired'',
         ob_last_error_detail := Some (truncate_error_detail
           (''idempotency_key_sha256='' @ oe_sha256 env (ob_idempotency_key row)
            @ ''; locked_by='' @ str_opt (ob_locked_by row)
            @ ''; attempt='' @ string_of_int (ob_attempt row))),
         ob_next_retry_at := None, ob_updated_at := now,
         ob_latest_writeback_status := Some (WritebackStatus_value WB_UNKNOWN),
         ob_delivery_status := OutboxDeliveryStatus_value OD_PAUSED\<rparr>)))"

definition set_error_detail :: "string option \<Rightarrow> outbox_row \<Rightarrow> outbox_row" where
  "set_error_detail detail row =
     (case detail of
        None \<Rightarrow> row
      | Some d \<Rightarrow> row\<lparr>ob_last_error_detail := Some (truncate_error_detail d)\<rparr>)"

definition release_leased_outbox_after_failure ::
  "outbox_env \<Rightarrow> int \<Rightarrow> string \<Rightarrow> string option \<Rightarrow> outbox_row \<Rightarrow> outbox_row res" where
  "release_leased_outbox_after_failure env now code detail row =
     bind_res (delivery_of row) (\<lambda>current.
     if current \<noteq> OD_LEASED then Inr row
     else if lease_over now row then release_leased_outbox_after_lease_expiry env now row
     else
       let attempt = ob_attempt row + 1;
           row = set_error_detail detail
                   ((unlocked row)\<lparr>ob_attempt := attempt, ob_last_error_code := Some code,
                                 ob_updated_at := now\<rparr>)
       in if attempt \<ge> oe_max_attempts env
          then bind_res (validate_outbox_delivery_transition default_outbox_evidence current
                           OD_DEAD_LETTER) (\<lambda>_.
               Inr (row\<lparr>ob_delivery_status := OutboxDeliveryStatus_value OD_DEAD_LETTER,
                        ob_next_retry_at := None\<rparr>))
          else bind_res (validate_outbox_delivery_transition
                           (default_outbox_evidence\<lparr>ev_known_pre_egress_failure := True\<rparr>) current
                           OD_WAITING_RETRY) (\<lambda>_.
               Inr (row\<lparr>ob_delivery_status := OutboxDeliveryStatus_value OD_WAITING_RETRY,
                        ob_next_retry_at := Some (now + outbox_retry_backoff_us env attempt)\<rparr>)))"

definition pause_outbox_after_unknown_submission ::
  "int \<Rightarrow> string \<Rightarrow> string \<Rightarrow> outbox_row \<Rightarrow> outbox_row res" where
  "pause_outbox_after_unknown_submission now code detail row =
     bind_res (delivery_of row) (\<lambda>current.
     if current \<notin> {OD_READY, OD_LEASED, OD_WAITING_RETRY} then Inr row
     else
       bind_res (validate_outbox_delivery_transition default_outbox_evidence current OD_PAUSED) (\<lambda>_.
       Inr ((unlocked row)\<lparr>
         ob_last_error_code := Some code,
         ob_last_error_detail := Some (truncate_error_detail detail),
         ob_next_retry_at := None, ob_updated_at := now,
         ob_delivery_status := OutboxDeliveryStatus_value OD_PAUSED\<rparr>)))"

definition release_leased_outbox_to_dead_letter ::
  "int \<Rightarrow> string \<Rightarrow> string option \<Rightarrow> outbox_row \<Rightarrow> outbox_row res" where
  "release_leased_outbox_to_dead_letter now code detail row =
     bind_res (delivery_of row) (\<lambda>current.
     if current \<noteq> OD_LEASED then Inr row
     else
       bind_res (validate_outbox_delivery_transition default_outbox_evidence current OD_DEAD_LETTER) (\<lambda>_.
       Inr (set_error_detail detail
         ((unlocked row)\<lparr>ob_last_error_code := Some code, ob_updated_at := now,
                       ob_delivery_status := OutboxDeliveryStatus_value OD_DEAD_LETTER,
                       ob_next_retry_at := None\<rparr>))))"

definition block_outbox_for_writeback_fence :: "int \<Rightarrow> string \<Rightarrow> outbox_row \<Rightarrow> outbox_row res" where
  "block_outbox_for_writeback_fence now detail row =
     bind_res (delivery_of row) (\<lambda>current.
     if current = OD_LEASED
     then release_leased_outbox_to_dead_letter now WRITEBACK_FENCE_BLOCKED_ERROR_CODE
            (Some detail) row
     else
       bind_res (validate_outbox_delivery_transition default_outbox_evidence current OD_DEAD_LETTER) (\<lambda>_.
       Inr (row\<lparr>ob_last_error_code := Some WRITEBACK_FENCE_BLOCKED_ERROR_CODE,
                ob_last_error_detail := Some (truncate_error_detail detail),
                ob_updated_at := now, ob_next_retry_at := None,
                ob_delivery_status := OutboxDeliveryStatus_value OD_DEAD_LETTER\<rparr>)))"

definition finalize_superseded_head :: "int \<Rightarrow> string \<Rightarrow> outbox_row \<Rightarrow> outbox_row res" where
  "finalize_superseded_head now superseded_by row =
     (let row = row\<lparr>ob_superseded_by_disposition_id := Some superseded_by\<rparr>;
          raw_status = (if ob_delivery_status row = [] then OutboxDeliveryStatus_value OD_READY
                        else ob_delivery_status row)
      in bind_res (parse_or_raise OutboxDeliveryStatus_parse raw_status) (\<lambda>current.
         if current \<in> {OD_DELIVERED, OD_DEAD_LETTER} then Inr row
         else
           bind_res (validate_outbox_delivery_transition default_outbox_evidence current
                       OD_DEAD_LETTER) (\<lambda>_.
           Inr ((unlocked row)\<lparr>
             ob_last_error_code := Some OUTBOX_SUPERSEDED_ERROR_CODE,
             ob_last_error_detail := Some (truncate_error_detail
               (''superseded by disposition '' @ superseded_by)),
             ob_next_retry_at := None, ob_updated_at := now,
             ob_delivery_status := OutboxDeliveryStatus_value OD_DEAD_LETTER\<rparr>))))"

definition SUPERSEDED_DETAIL :: string where
  "SUPERSEDED_DETAIL = ''superseded outbox head cannot egress''"

definition block_superseded_outbox :: "int \<Rightarrow> outbox_row \<Rightarrow> outbox_row res" where
  "block_superseded_outbox now row =
     bind_res (delivery_of row) (\<lambda>current.
     if current = OD_LEASED
     then release_leased_outbox_to_dead_letter now OUTBOX_SUPERSEDED_ERROR_CODE
            (Some SUPERSEDED_DETAIL) row
     else
       bind_res (if current = OD_DEAD_LETTER then Inr ()
                 else validate_outbox_delivery_transition default_outbox_evidence current
                        OD_DEAD_LETTER) (\<lambda>_.
       Inr (row\<lparr>ob_last_error_code := Some OUTBOX_SUPERSEDED_ERROR_CODE,
                ob_last_error_detail := Some (truncate_error_detail SUPERSEDED_DETAIL),
                ob_updated_at := now, ob_next_retry_at := None,
                ob_delivery_status := OutboxDeliveryStatus_value OD_DEAD_LETTER\<rparr>)))"

section \<open>Receipts\<close>

text \<open>A receipt from the provider, or one the service makes itself.\<close>

datatype receipt_source =
    Provided DispositionReceipt
  | Made WritebackStatus "ConfirmationEvidence option" "string option"

definition sanitize_disposition_receipt :: "outbox_env \<Rightarrow> DispositionReceipt \<Rightarrow> DispositionReceipt" where
  "sanitize_disposition_receipt env r =
     r\<lparr>dr_provider_message := map_option (oe_redact env) (dr_provider_message r),
       dr_raw_result := oe_sanitize_raw env (dr_raw_result r)\<rparr>"

definition receipts_of :: "database \<Rightarrow> string \<Rightarrow> receipt_row list" where
  "receipts_of db writeback_id = filter (\<lambda>r. rc_writeback_id r = writeback_id) (db_receipts db)"

definition next_sequence :: "database \<Rightarrow> string \<Rightarrow> int" where
  "next_sequence db writeback_id =
     (case max_of rc_sequence (receipts_of db writeback_id) of None \<Rightarrow> 1 | Some n \<Rightarrow> n + 1)"

definition parse_receipt ::
  "int \<Rightarrow> outbox_row \<Rightarrow> int \<Rightarrow> receipt_source \<Rightarrow> DispositionReceipt res" where
  "parse_receipt now outbox sequence source =
     (case source of
        Provided r \<Rightarrow>
          Inr (r\<lparr>dr_sequence := sequence, dr_writeback_id := ob_writeback_id outbox,
                 dr_disposition_id := ob_disposition_id outbox,
                 dr_action_id := ob_action_id outbox,
                 dr_source_record_id := ob_source_record_id outbox,
                 dr_raw_result := AList.update ''provider_writeback_id'' (JStr (dr_writeback_id r))
                                    (dr_raw_result r)\<rparr>)
      | Made status evidence message \<Rightarrow>
          (let r = \<lparr> dr_writeback_id = ob_writeback_id outbox, dr_sequence = sequence,
                     dr_disposition_id = ob_disposition_id outbox,
                     dr_action_id = ob_action_id outbox,
                     dr_source_record_id = ob_source_record_id outbox, dr_status = status,
                     dr_confirmation_evidence = evidence, dr_provider_record_id = None,
                     dr_provider_job_id = None, dr_provider_message = message,
                     dr_observed_at = Some now, dr_submitted_at = Some now,
                     dr_confirmed_at = (if status = WB_CONFIRMED then Some now else None),
                     dr_raw_result = [], dr_simulated = False \<rparr>
           in bind_res (ensure (confirmed_requires_evidence r)
                          (PydanticValidationError ''DispositionReceipt'')) (\<lambda>_. Inr r)))"

definition receipt_row_of :: "DispositionReceipt \<Rightarrow> receipt_row" where
  "receipt_row_of r =
     \<lparr> rc_writeback_id = dr_writeback_id r, rc_sequence = dr_sequence r,
       rc_disposition_id = dr_disposition_id r, rc_action_id = dr_action_id r,
       rc_source_record_id = dr_source_record_id r, rc_status = WritebackStatus_value (dr_status r),
       rc_confirmation_evidence = map_option ConfirmationEvidence_value (dr_confirmation_evidence r),
       rc_provider_record_id = dr_provider_record_id r, rc_provider_job_id = dr_provider_job_id r,
       rc_provider_message = dr_provider_message r, rc_observed_at = dr_observed_at r,
       rc_submitted_at = dr_submitted_at r, rc_confirmed_at = dr_confirmed_at r,
       rc_raw_result = JObj (dr_raw_result r), rc_simulated = dr_simulated r \<rparr>"

definition append_receipt ::
  "outbox_env \<Rightarrow> int \<Rightarrow> outbox_row \<Rightarrow> receipt_source \<Rightarrow> database \<Rightarrow> (DispositionReceipt \<times> database) res" where
  "append_receipt env now outbox source db =
     bind_res (parse_receipt now outbox (next_sequence db (ob_writeback_id outbox)) source) (\<lambda>r.
     let parsed = sanitize_disposition_receipt env r
     in bind_res (append_list_context_journal_in_session (ob_event_id outbox) ''disposition_receipts''
                    (oe_dump_receipt env parsed)
                    (db\<lparr>db_receipts := db_receipts db @ [receipt_row_of parsed]\<rparr>)) (\<lambda>(_, db').
        Inr (parsed, db')))"

section \<open>Projection of a receipt onto the action and its job\<close>

definition action_status_of_receipt :: "WritebackStatus \<Rightarrow> ActionStatus" where
  "action_status_of_receipt status =
     (if status = WB_CONFIRMED then AS_SUCCESS
      else if status = WB_PARTIAL then AS_PARTIAL_SUCCESS
      else if status = WB_UNKNOWN then AS_UNKNOWN
      else AS_FAILED)"

definition apply_action_terminal_from_receipt ::
  "int \<Rightarrow> action_row \<Rightarrow> DispositionReceipt \<Rightarrow> database \<Rightarrow> database res" where
  "apply_action_terminal_from_receipt now action receipt db =
     bind_res (parse_or_raise ActionStatus_parse (act_status action)) (\<lambda>current.
     if current \<noteq> AS_EXECUTING \<or> dr_status receipt = WB_ACCEPTED then Inr db
     else
       bind_res (parse_or_raise ActionCategory_parse (act_action_category action)) (\<lambda>category.
       let target = action_status_of_receipt (dr_status receipt)
       in bind_res (validate_action_status_transition category default_action_evidence current target) (\<lambda>_.
          Inr (put_action (action\<lparr>act_status := ActionStatus_value target,
                                 act_executed_at := Some now, act_updated_at := now\<rparr>) db))))"

definition PROVIDER_TERMINAL_JOB_STATUSES :: "ExecutionJobStatus set" where
  "PROVIDER_TERMINAL_JOB_STATUSES =
     {JS_PARTIAL_SUCCESS, JS_SUCCESS, JS_FAILED, JS_TIMED_OUT, JS_CANCELLED}"

primrec job_status_map :: "WritebackStatus \<Rightarrow> ExecutionJobStatus" where
  "job_status_map WB_PENDING = JS_QUEUED"
| "job_status_map WB_SENDING = JS_RUNNING"
| "job_status_map WB_ACCEPTED = JS_RUNNING"
| "job_status_map WB_CONFIRMED = JS_SUCCESS"
| "job_status_map WB_PARTIAL = JS_PARTIAL_SUCCESS"
| "job_status_map WB_FAILED = JS_FAILED"
| "job_status_map WB_CONFLICT = JS_FAILED"
| "job_status_map WB_UNKNOWN = JS_UNKNOWN"

definition map_disposition_receipt_status :: "DispositionReceipt \<Rightarrow> ExecutionJobStatus" where
  "map_disposition_receipt_status receipt =
     (if dr_status receipt = WB_ACCEPTED \<and> dr_provider_job_id receipt \<noteq> None then JS_QUEUED
      else job_status_map (dr_status receipt))"

text \<open>
  The job row keeps its lease, attempt and claim; of the columns it takes over from the
  receipt the model has the status, the message and the end time. The rows of the single
  targets, which are only logged when they cannot be written, are left out.
\<close>

definition persist_execution_job_from_receipt ::
  "outbox_env \<Rightarrow> int \<Rightarrow> action_row \<Rightarrow> DispositionReceipt \<Rightarrow> database \<Rightarrow> database res" where
  "persist_execution_job_from_receipt env now action receipt db =
     (case act_execution_owner action of
        None \<Rightarrow> Inr db
      | Some raw_owner \<Rightarrow>
          bind_res (parse_or_raise ExecutionOwner_parse raw_owner) (\<lambda>owner.
          if owner \<noteq> EO_XDR_MANAGED then Inr db
          else
            (case act_execution_job_id action of
               None \<Rightarrow> Inr db
             | Some job_id \<Rightarrow>
                 if job_id = [] then Inr db
                 else
                   (case get_job db job_id of
                      None \<Rightarrow> Inr db
                    | Some row \<Rightarrow>
                        bind_res (parse_or_raise ExecutionJobStatus_parse (job_status row)) (\<lambda>current.
                        let mapped = map_disposition_receipt_status receipt;
                            status = (if current = JS_RUNNING \<and> dr_status receipt = WB_ACCEPTED
                                         \<and> mapped = JS_QUEUED then JS_RUNNING else mapped)
                        in bind_res
                             (if status = current then Inr ()
                              else validate_job_status_transition
                                     \<lparr> ev_provider_confirmed_terminal = (dr_status receipt = WB_CONFIRMED),
                                       ev_job_lease_expired_reclaim = False \<rparr> current status) (\<lambda>_.
                           Inr (put_job (row\<lparr>job_status := ExecutionJobStatus_value status,
                                  job_provider_message :=
                                    map_option (oe_redact env) (dr_provider_message receipt),
                                  job_updated_at := now,
                                  job_finished_at :=
                                    (if mapped \<in> PROVIDER_TERMINAL_JOB_STATUSES
                                     then (case dr_confirmed_at receipt of
                                             Some t \<Rightarrow> Some t
                                           | None \<Rightarrow> dr_observed_at receipt)
                                     else None)\<rparr>) db)))))))"

definition apply_receipt_execution_projection ::
  "outbox_env \<Rightarrow> int \<Rightarrow> string \<Rightarrow> DispositionCommand \<Rightarrow> DispositionReceipt \<Rightarrow> database \<Rightarrow> database res" where
  "apply_receipt_execution_projection env now action_id command receipt db =
     (case get_action db action_id of
        None \<Rightarrow> Inr db
      | Some action \<Rightarrow>
          let entity_effect_pending =
                dc_intent_kind command = IK_ENTITY_ACTION_SUBMIT \<and> dr_status receipt = WB_ACCEPTED
                \<and> act_execution_job_id action \<notin> {None, Some []}
          in bind_res (if entity_effect_pending then Inr db
                       else apply_action_terminal_from_receipt now action receipt db)
               (persist_execution_job_from_receipt env now action receipt))"

section \<open>Enqueueing\<close>

definition get_source :: "database \<Rightarrow> string \<Rightarrow> source_object_row option" where
  "get_source db source_record_id =
     find (\<lambda>r. so_source_record_id r = source_record_id) (db_sources db)"

definition put_source :: "source_object_row \<Rightarrow> database \<Rightarrow> database" where
  "put_source row db =
     db\<lparr>db_sources := update_where (\<lambda>r. so_source_record_id r = so_source_record_id row) (\<lambda>_. row)
                       (db_sources db)\<rparr>"

text \<open>The key and the unique constraints of the outbox table.\<close>

definition outbox_violates_unique :: "outbox_row \<Rightarrow> outbox_row list \<Rightarrow> bool" where
  "outbox_violates_unique row rows \<longleftrightarrow>
     list_ex (\<lambda>r. ob_outbox_id r = ob_outbox_id row
        \<or> ob_idempotency_key r = ob_idempotency_key row
        \<or> ob_source_record_id r = ob_source_record_id row
          \<and> ob_source_sequence r = ob_source_sequence row
        \<or> ob_event_id r = ob_event_id row \<and> ob_closure_cycle r = ob_closure_cycle row
          \<and> ob_intent_kind r = ob_intent_kind row \<and> ob_logical_slot r = ob_logical_slot row
          \<and> ob_intent_kind row = DispositionIntentKind_value IK_EVENT_STATUS_UPDATE
          \<and> ob_superseded_by_disposition_id r = None
          \<and> ob_superseded_by_disposition_id row = None) rows"

definition insert_outbox :: "outbox_row \<Rightarrow> database \<Rightarrow> database res" where
  "insert_outbox row db =
     bind_res (ensure (\<not> outbox_violates_unique row (db_outboxes db))
                 (IntegrityError ''disposition_outbox'')) (\<lambda>_.
     Inr (db\<lparr>db_outboxes := db_outboxes db @ [row]\<rparr>))"

text \<open>The keys of \<open>guard_context\<close> a caller may pass.\<close>

record guard_context =
  gx_source_locator :: "SourceObjectLocator option"
  gx_approved_action_ids :: "string list option"

definition active_head :: "database \<Rightarrow> string \<Rightarrow> int \<Rightarrow> string \<Rightarrow> outbox_row option" where
  "active_head db event_id closure_cycle logical_slot =
     scalar (\<lambda>r. ob_event_id r = event_id \<and> ob_closure_cycle r = closure_cycle
               \<and> ob_intent_kind r = DispositionIntentKind_value IK_EVENT_STATUS_UPDATE
               \<and> ob_logical_slot r = logical_slot
               \<and> ob_superseded_by_disposition_id r = None) (db_outboxes db)"

definition new_outbox ::
  "outbox_env \<Rightarrow> int \<Rightarrow> string \<Rightarrow> string \<Rightarrow> DispositionCommand \<Rightarrow> string \<Rightarrow> string \<Rightarrow> int \<Rightarrow> string \<Rightarrow> outbox_row" where
  "new_outbox env now outbox_id writeback_id c event_id source_record_id source_sequence slot =
     \<lparr> ob_outbox_id = outbox_id, ob_writeback_id = writeback_id,
       ob_disposition_id = dc_disposition_id c, ob_action_id = dc_action_id c,
       ob_event_id = event_id, ob_closure_cycle = dc_closure_cycle c,
       ob_source_record_id = source_record_id,
       ob_source_locator_hash = oe_locator_hash env (dc_source_locator c),
       ob_source_sequence = source_sequence,
       ob_intent_kind = DispositionIntentKind_value (dc_intent_kind c), ob_logical_slot = slot,
       ob_supersedes_disposition_id = dc_supersedes_disposition_id c,
       ob_superseded_by_disposition_id = None, ob_idempotency_key = dc_idempotency_key c,
       ob_command_payload = oe_dump_command env c,
       ob_command_payload_sha256 = oe_payload_sha256 env (oe_dump_command env c),
       ob_delivery_status = OutboxDeliveryStatus_value OD_READY, ob_latest_writeback_status = None,
       ob_attempt = 0, ob_next_retry_at = None, ob_locked_by = None, ob_locked_at = None,
       ob_lease_expires_at = None, ob_last_error_code = None, ob_last_error_detail = None,
       ob_created_at = now, ob_updated_at = now, ob_delivered_at = None \<rparr>"

text \<open>The end of \<open>enqueue_command\<close>: the old head is closed, the new row inserted and journalled.\<close>

definition add_outbox ::
  "outbox_env \<Rightarrow> int \<Rightarrow> outbox_row option \<Rightarrow> outbox_row \<Rightarrow> database \<Rightarrow> (outbox_row \<times> database) res" where
  "add_outbox env now prior_head row db =
     bind_res (case prior_head of
                 None \<Rightarrow> Inr db
               | Some head \<Rightarrow>
                   bind_res (finalize_superseded_head now (ob_disposition_id row) head) (\<lambda>head'.
                   Inr (put_outbox now head' db))) (\<lambda>db1.
     bind_res (insert_outbox row db1) (\<lambda>db2.
     bind_res (append_list_context_journal_in_session (ob_event_id row) ''disposition_commands''
                 (ob_command_payload row) db2) (\<lambda>(_, db3).
     Inr (row, db3))))"

definition enqueue_command ::
  "outbox_env \<Rightarrow> int \<Rightarrow> string \<Rightarrow> string \<Rightarrow> DispositionCommand \<Rightarrow> string \<Rightarrow> string \<Rightarrow> string
     \<Rightarrow> guard_context \<Rightarrow> database \<Rightarrow> (outbox_row \<times> database) res" where
  "enqueue_command env now outbox_id writeback_id c event_id source_record_id slot gx db =
     (let trusted = (case gx_source_locator gx of Some l \<Rightarrow> l | None \<Rightarrow> dc_source_locator c);
          approved = (case gx_approved_action_ids gx of
                        Some ids \<Rightarrow> ids
                      | None \<Rightarrow> resolve_approved_action_ids db event_id (dc_closure_cycle c))
      in bind_res (guard_validate (oe_content_ok env) trusted (Some approved) c) (\<lambda>_.
         bind_res (of_opt (ValidationError ''security_event not found for outbox enqueue'')
                     (get_event db event_id)) (\<lambda>_.
         bind_res (of_opt (ValidationError ''source_record not found for outbox enqueue'')
                     (get_source db source_record_id)) (\<lambda>source.
         let sequence = so_next_outbox_sequence source + 1;
             db1 = put_source (source\<lparr>so_next_outbox_sequence := sequence\<rparr>) db;
             prior_head = (if dc_intent_kind c = IK_EVENT_STATUS_UPDATE
                           then active_head db1 event_id (dc_closure_cycle c) slot else None)
         in (case prior_head of
               None \<Rightarrow>
                 add_outbox env now None
                   (new_outbox env now outbox_id writeback_id c event_id source_record_id sequence slot)
                   db1
             | Some head \<Rightarrow>
                 if ob_idempotency_key head = dc_idempotency_key c
                    \<and> ob_command_payload_sha256 head
                        = oe_payload_sha256 env (oe_dump_command env c)
                 then Inr (head, db1)
                 else
                   add_outbox env now (Some head)
                     (new_outbox env now outbox_id writeback_id
                        (c\<lparr>dc_supersedes_disposition_id := Some (ob_disposition_id head)\<rparr>)
                        event_id source_record_id sequence slot) db1)))))"

section \<open>Delivery\<close>

definition DELIVERY_APPROVAL_RECHECK_INTENTS :: "DispositionIntentKind set" where
  "DELIVERY_APPROVAL_RECHECK_INTENTS =
     {IK_ENTITY_ACTION_SUBMIT, IK_EXECUTION_RESULT_RECORD, IK_EVENT_STATUS_UPDATE,
      IK_COMPENSATION_RECORD}"

definition action_still_approved_for_delivery :: "action_row \<Rightarrow> bool" where
  "action_still_approved_for_delivery action \<longleftrightarrow>
     act_status action \<in> ActionStatus_value ` {AS_APPROVED, AS_EXECUTING, AS_SUCCESS, AS_PARTIAL_SUCCESS}
     \<and> act_superseded_by_revision action = None"

definition assert_active_head_for_delivery ::
  "database \<Rightarrow> outbox_row \<Rightarrow> DispositionCommand \<Rightarrow> bool" where
  "assert_active_head_for_delivery db outbox command \<longleftrightarrow>
     (if dc_intent_kind command \<noteq> IK_EVENT_STATUS_UPDATE then True
      else map_option ob_disposition_id
             (max_by ob_created_at
                (filter (\<lambda>r. ob_event_id r = ob_event_id outbox
                           \<and> ob_closure_cycle r = ob_closure_cycle outbox
                           \<and> ob_intent_kind r = DispositionIntentKind_value (dc_intent_kind command)
                           \<and> ob_logical_slot r = ob_logical_slot outbox
                           \<and> ob_superseded_by_disposition_id r = None) (db_outboxes db)))
           = Some (ob_disposition_id outbox))"

text \<open>What precedes the submission: an early return that commits, or the submission.\<close>

datatype gate =
    Stop database
  | Go outbox_row action_row DispositionCommand BaseDispositionAdapter

definition stop_with :: "int \<Rightarrow> database \<Rightarrow> outbox_row res \<Rightarrow> gate res" where
  "stop_with now db r = bind_res r (\<lambda>row. Inr (Stop (put_outbox now row db)))"

definition SKIP_STATUSES :: "WritebackStatus set" where
  "SKIP_STATUSES = {WB_ACCEPTED, WB_CONFIRMED, WB_FAILED, WB_CONFLICT, WB_UNKNOWN}"

definition egress_gate ::
  "outbox_env \<Rightarrow> int \<Rightarrow> outbox_row \<Rightarrow> action_row \<Rightarrow> DispositionCommand \<Rightarrow> database \<Rightarrow> gate res" where
  "egress_gate env now outbox action command db =
     (if \<not> assert_active_head_for_delivery db outbox command
      then stop_with now db (block_superseded_outbox now outbox)
      else if dc_intent_kind command \<in> DELIVERY_APPROVAL_RECHECK_INTENTS
              \<and> \<not> action_still_approved_for_delivery action
      then stop_with now db (block_outbox_for_writeback_fence now
             (''approval revoked before delivery: action status='' @ act_status action) outbox)
      else
        bind_res (guard_validate (oe_content_ok env) (dc_source_locator command) None command) (\<lambda>_.
        bind_res (resolve_adapter (oe_adapters env) outbox) (\<lambda>adapter.
        bind_res (da_validate_command adapter command) (\<lambda>_.
        bind_res (latest_of outbox) (\<lambda>existing_status.
        if existing_status \<in> Some ` SKIP_STATUSES then Inr (Stop db)
        else if receipts_of db (ob_writeback_id outbox) \<noteq> [] then Inr (Stop db)
        else Inr (Go outbox action command adapter))))))"

definition delivery_gate :: "outbox_env \<Rightarrow> int \<Rightarrow> string \<Rightarrow> database \<Rightarrow> gate res" where
  "delivery_gate env now outbox_id db =
     (case get_outbox db outbox_id of
        None \<Rightarrow> Inr (Stop db)
      | Some outbox \<Rightarrow>
          if ob_superseded_by_disposition_id outbox \<noteq> None
          then stop_with now db (block_superseded_outbox now outbox)
          else
            bind_res (delivery_of outbox) (\<lambda>status.
            if status \<notin> {OD_READY, OD_LEASED, OD_WAITING_RETRY} then Inr (Stop db)
            else if status = OD_LEASED \<and> ob_locked_by outbox \<noteq> Some (oe_worker_id env)
            then Inr (Stop db)
            else if status = OD_LEASED \<and> lease_over now outbox
            then stop_with now db (release_leased_outbox_after_lease_expiry env now outbox)
            else
              (case get_action db (ob_action_id outbox) of
                 None \<Rightarrow>
                   stop_with now db (block_outbox_for_writeback_fence now
                     (''action row not found for writeback fence: '' @ ob_action_id outbox) outbox)
               | Some action \<Rightarrow>
                   (case act_execution_owner action of
                      None \<Rightarrow>
                        stop_with now db (block_outbox_for_writeback_fence now
                          (''action missing execution_owner for writeback fence: ''
                           @ ob_action_id outbox) outbox)
                    | Some raw_owner \<Rightarrow>
                        bind_res (parse_or_raise ExecutionOwner_parse raw_owner) (\<lambda>owner.
                        case assert_writeback_side_effects_allowed (oe_settings env) (Some owner) of
                          Inl (ValidationError m) \<Rightarrow>
                            stop_with now db (block_outbox_for_writeback_fence now m outbox)
                        | Inl e \<Rightarrow> Inl e
                        | Inr _ \<Rightarrow>
                            bind_res (of_opt (PydanticValidationError ''DispositionCommand'')
                                        (oe_decode_command env (ob_command_payload outbox))) (\<lambda>command.
                            egress_gate env now outbox action command db))))))"

text \<open>The provider's answers during one delivery, and the time after the submission.\<close>

record delivery_io =
  di_submit :: "DispositionReceipt res"
  di_readback :: "DispositionReceipt option res"
  di_done_at :: int

definition readback_confirmation ::
  "outbox_env \<Rightarrow> delivery_io \<Rightarrow> outbox_row \<Rightarrow> DispositionCommand \<Rightarrow> BaseDispositionAdapter
     \<Rightarrow> DispositionReceipt \<Rightarrow> database \<Rightarrow> DispositionReceipt \<times> database" where
  "readback_confirmation env io outbox command adapter receipt db =
     (if dc_intent_kind command = IK_EVENT_STATUS_UPDATE
         \<and> cap_supports_readback_confirmation (da_capabilities adapter)
      then (case di_readback io of
              Inr (Some confirmed) \<Rightarrow>
                (case append_receipt env (di_done_at io) outbox (Provided confirmed) db of
                   Inr (receipt', db') \<Rightarrow> (receipt', db')
                 | Inl _ \<Rightarrow> (receipt, db))
            | _ \<Rightarrow> (receipt, db))
      else (receipt, db))"

text \<open>From the provider's receipt to the commit.\<close>

definition record_submission ::
  "outbox_env \<Rightarrow> delivery_io \<Rightarrow> outbox_row \<Rightarrow> DispositionCommand \<Rightarrow> BaseDispositionAdapter
     \<Rightarrow> DispositionReceipt \<Rightarrow> database \<Rightarrow> database res" where
  "record_submission env io outbox command adapter submitted db =
     bind_res (append_receipt env (di_done_at io) outbox (Provided submitted) db) (\<lambda>(parsed, db1).
     let (receipt, db2) = readback_confirmation env io outbox command adapter parsed db1;
         now = di_done_at io;
         row = outbox\<lparr>ob_latest_writeback_status := Some (WritebackStatus_value (dr_status receipt))\<rparr>
     in bind_res
          (if dr_status receipt = WB_UNKNOWN
           then pause_outbox_after_unknown_submission now ''submission_unknown''
                  ''provider submission result unknown; lookup required before retry'' row
           else Inr (row\<lparr>ob_delivery_status := OutboxDeliveryStatus_value OD_DELIVERED,
                         ob_delivered_at := Some now\<rparr>)) (\<lambda>row'.
        apply_receipt_execution_projection env now (ob_action_id outbox) command receipt
          (mirror_writeback_status_to_action now (ob_action_id outbox) (dr_status receipt)
             (put_outbox now row' db2))))"

text \<open>
  One delivery: whether the command was submitted, and what the transaction did. A failure
  after the submission rolls the database back, not the submission.
\<close>

definition deliver_outbox_in_tx ::
  "outbox_env \<Rightarrow> int \<Rightarrow> delivery_io \<Rightarrow> string \<Rightarrow> database \<Rightarrow> bool \<times> database res" where
  "deliver_outbox_in_tx env now io outbox_id db =
     (case delivery_gate env now outbox_id db of
        Inl e \<Rightarrow> (False, Inl e)
      | Inr (Stop db') \<Rightarrow> (False, Inr db')
      | Inr (Go outbox action command adapter) \<Rightarrow>
          (True, bind_res (di_submit io) (\<lambda>receipt.
                 record_submission env io outbox command adapter receipt db)))"

text \<open>
  The state of the component: the database, and beside it what left for the provider and
  what a lookup cleared for another submission.
\<close>

datatype egress = Submitted string | Cleared string

record outbox_state =
  os_db :: database
  os_log :: "egress list"

definition deliver_outbox ::
  "outbox_env \<Rightarrow> int \<Rightarrow> delivery_io \<Rightarrow> string \<Rightarrow> outbox_state \<Rightarrow> outbox_state \<times> unit res" where
  "deliver_outbox env now io outbox_id st =
     (let (sent, r) = deliver_outbox_in_tx env now io outbox_id (os_db st);
          st = (if sent then st\<lparr>os_log := os_log st @ [Submitted outbox_id]\<rparr> else st)
      in case r of
           Inl e \<Rightarrow> (st, Inl e)
         | Inr db \<Rightarrow> (st\<lparr>os_db := db\<rparr>, Inr ()))"

section \<open>Outcomes of a failed delivery\<close>

definition apply_deterministic_rejection_terminal_state ::
  "outbox_env \<Rightarrow> int \<Rightarrow> outbox_row \<Rightarrow> OutboxDeliveryStatus \<Rightarrow> string \<Rightarrow> string \<Rightarrow> database \<Rightarrow> database res" where
  "apply_deterministic_rejection_terminal_state env now outbox from_status code error_text db =
     (let detail = truncate_error_detail error_text;
          row = (unlocked outbox)\<lparr>
                  ob_last_error_code := Some code, ob_last_error_detail := Some detail,
                  ob_latest_writeback_status := Some (WritebackStatus_value WB_FAILED),
                  ob_next_retry_at := None, ob_updated_at := now,
                  ob_delivery_status := OutboxDeliveryStatus_value OD_DEAD_LETTER\<rparr>
      in bind_res (validate_outbox_delivery_transition default_outbox_evidence from_status
                     OD_DEAD_LETTER) (\<lambda>_.
         bind_res (append_receipt env now row (Made WB_FAILED None (Some detail))
                     (put_outbox now row db)) (\<lambda>(receipt, db1).
         let db2 = mirror_writeback_status_to_action now (ob_action_id row) WB_FAILED db1
         in (case get_action db2 (ob_action_id row) of
               None \<Rightarrow> Inr db2
             | Some action \<Rightarrow>
                 bind_res (apply_action_terminal_from_receipt now action receipt db2) (\<lambda>db3.
                 bind_res (of_opt (PydanticValidationError ''DispositionCommand'')
                             (oe_decode_command env (ob_command_payload row))) (\<lambda>_.
                 persist_execution_job_from_receipt env now action receipt db3))))))"

text \<open>The four handlers act on a row that is still leased and on no other.\<close>

definition on_leased ::
  "string \<Rightarrow> (outbox_row \<Rightarrow> database \<Rightarrow> database res) \<Rightarrow> database \<Rightarrow> database res" where
  "on_leased outbox_id f db =
     (case get_outbox db outbox_id of
        None \<Rightarrow> Inr db
      | Some outbox \<Rightarrow>
          bind_res (delivery_of outbox) (\<lambda>current. if current \<noteq> OD_LEASED then Inr db else f outbox db))"

definition mark_delivery_deterministic_rejection ::
  "outbox_env \<Rightarrow> int \<Rightarrow> string \<Rightarrow> string \<Rightarrow> string \<Rightarrow> database \<Rightarrow> database res" where
  "mark_delivery_deterministic_rejection env now outbox_id code detail =
     on_leased outbox_id (\<lambda>outbox.
       apply_deterministic_rejection_terminal_state env now outbox OD_LEASED code
         (truncate_error_detail detail))"

definition mark_delivery_conflict ::
  "outbox_env \<Rightarrow> int \<Rightarrow> string \<Rightarrow> string \<Rightarrow> string \<Rightarrow> database \<Rightarrow> database res" where
  "mark_delivery_conflict env now outbox_id code error_text =
     on_leased outbox_id (\<lambda>outbox db.
       let detail = truncate_error_detail error_text;
           row = (unlocked outbox)\<lparr>
                   ob_last_error_code := Some code, ob_last_error_detail := Some detail,
                   ob_latest_writeback_status := Some (WritebackStatus_value WB_CONFLICT),
                   ob_next_retry_at := None, ob_updated_at := now\<rparr>
       in bind_res (append_receipt env now row (Made WB_CONFLICT None (Some detail)) db) (\<lambda>(receipt, db1).
          bind_res (validate_outbox_delivery_transition default_outbox_evidence OD_LEASED OD_DELIVERED) (\<lambda>_.
          let db2 = mirror_writeback_status_to_action now (ob_action_id row) WB_CONFLICT
                      (put_outbox now (row\<lparr>ob_delivery_status := OutboxDeliveryStatus_value OD_DELIVERED,
                                          ob_delivered_at := Some now\<rparr>) db1)
          in (case get_action db2 (ob_action_id row) of
                None \<Rightarrow> Inr db2
              | Some action \<Rightarrow>
                  bind_res (apply_action_terminal_from_receipt now action receipt db2) (\<lambda>db3.
                  bind_res (of_opt (PydanticValidationError ''DispositionCommand'')
                              (oe_decode_command env (ob_command_payload row))) (\<lambda>_.
                  persist_execution_job_from_receipt env now action receipt db3))))))"

definition mark_delivery_paused_unknown ::
  "outbox_env \<Rightarrow> int \<Rightarrow> string \<Rightarrow> string \<Rightarrow> string \<Rightarrow> database \<Rightarrow> database res" where
  "mark_delivery_paused_unknown env now outbox_id code error_text =
     on_leased outbox_id (\<lambda>outbox db.
       let detail = truncate_error_detail error_text
       in bind_res (pause_outbox_after_unknown_submission now code detail
                      (outbox\<lparr>ob_latest_writeback_status := Some (WritebackStatus_value WB_UNKNOWN)\<rparr>)) (\<lambda>row.
          bind_res (append_receipt env now row (Made WB_UNKNOWN None (Some detail))
                      (put_outbox now row db)) (\<lambda>(_, db1).
          Inr (mirror_writeback_status_to_action now (ob_action_id row) WB_UNKNOWN db1))))"

definition mark_delivery_waiting_retry ::
  "outbox_env \<Rightarrow> int \<Rightarrow> string \<Rightarrow> string \<Rightarrow> string option \<Rightarrow> database \<Rightarrow> database res" where
  "mark_delivery_waiting_retry env now outbox_id code detail db =
     (case get_outbox db outbox_id of
        None \<Rightarrow> Inr db
      | Some outbox \<Rightarrow>
          bind_res (release_leased_outbox_after_failure env now code detail outbox) (\<lambda>row.
          Inr (if row = outbox then db else put_outbox now row db)))"

definition mark_delivery_dead_letter ::
  "int \<Rightarrow> string \<Rightarrow> string \<Rightarrow> string option \<Rightarrow> database \<Rightarrow> database res" where
  "mark_delivery_dead_letter now outbox_id code detail db =
     (case get_outbox db outbox_id of
        None \<Rightarrow> Inr db
      | Some outbox \<Rightarrow>
          bind_res (release_leased_outbox_to_dead_letter now code detail outbox) (\<lambda>row.
          Inr (if row = outbox then db else put_outbox now row db)))"

text \<open>The \<open>except\<close> clauses of the worker's loop; \<open>text\<close> renders the exception.\<close>

definition or_code :: "string option \<Rightarrow> string \<Rightarrow> string" where
  "or_code code default_code = (case code of None \<Rightarrow> default_code | Some c \<Rightarrow> if c = [] then default_code else c)"

definition handle_delivery_error ::
  "outbox_env \<Rightarrow> int \<Rightarrow> (st_error \<Rightarrow> string) \<Rightarrow> string \<Rightarrow> st_error \<Rightarrow> database \<Rightarrow> database res" where
  "handle_delivery_error env now render outbox_id exc =
     (case classify_disposition_delivery_error exc of
        (GUARDRAIL, _) \<Rightarrow>
          mark_delivery_dead_letter now outbox_id ''guardrail_blocked'' (Some (render exc))
      | (CONFLICT, code) \<Rightarrow>
          mark_delivery_conflict env now outbox_id (or_code code ''version_conflict'') (render exc)
      | (DETERMINISTIC_REJECTION, code) \<Rightarrow>
          mark_delivery_deterministic_rejection env now outbox_id
            (or_code code ''adapter_validation_error'') (render exc)
      | (AMBIGUOUS_OUTCOME, _) \<Rightarrow>
          mark_delivery_paused_unknown env now outbox_id ''delivery_outcome_unknown'' (render exc))"

section \<open>The claim of a batch\<close>

definition claimable_outbox :: "int \<Rightarrow> outbox_row \<Rightarrow> bool" where
  "claimable_outbox now row \<longleftrightarrow>
     ob_superseded_by_disposition_id row = None
     \<and> (delivery OD_READY row \<and> (case ob_next_retry_at row of None \<Rightarrow> True | Some t \<Rightarrow> t \<le> now)
        \<or> delivery OD_WAITING_RETRY row \<and> (case ob_next_retry_at row of None \<Rightarrow> True | Some t \<Rightarrow> t \<le> now)
        \<or> delivery OD_LEASED row \<and> lease_over now row)"

text \<open>One row of the batch: what becomes of it, and whether it was claimed.\<close>

definition claim_outbox ::
  "outbox_env \<Rightarrow> int \<Rightarrow> outbox_row \<Rightarrow> database \<Rightarrow> (bool \<times> database) res" where
  "claim_outbox env now row db =
     bind_res (delivery_of row) (\<lambda>current.
     if current = OD_WAITING_RETRY \<and> ob_next_retry_at row = None
     then Inr (False, put_outbox now (row\<lparr>ob_next_retry_at :=
                 Some (now + outbox_retry_backoff_us env (max 1 (ob_attempt row + 1)))\<rparr>) db)
     else if current = OD_LEASED \<and> lease_over now row
     then bind_res (release_leased_outbox_after_lease_expiry env now row) (\<lambda>row'.
          Inr (False, mirror_writeback_status_to_action now (ob_action_id row) WB_UNKNOWN
                        (put_outbox now row' db)))
     else
       bind_res (validate_outbox_delivery_transition default_outbox_evidence current OD_LEASED) (\<lambda>_.
       Inr (True, put_outbox now (row\<lparr>ob_delivery_status := OutboxDeliveryStatus_value OD_LEASED,
                    ob_locked_by := Some (oe_worker_id env), ob_locked_at := Some now,
                    ob_lease_expires_at := Some (now + DEFAULT_LEASE_US)\<rparr>) db)))"

fun claim_outboxes ::
  "outbox_env \<Rightarrow> int \<Rightarrow> outbox_row list \<Rightarrow> database \<Rightarrow> (string list \<times> database) res" where
  "claim_outboxes env now [] db = Inr ([], db)"
| "claim_outboxes env now (row # rows) db =
     bind_res (claim_outbox env now row db) (\<lambda>(claimed, db1).
     bind_res (claim_outboxes env now rows db1) (\<lambda>(ids, db2).
     Inr (if claimed then ob_outbox_id row # ids else ids, db2)))"

definition outbox_claim_batch ::
  "outbox_env \<Rightarrow> int \<Rightarrow> (string \<Rightarrow> bool) \<Rightarrow> nat \<Rightarrow> database \<Rightarrow> (string list \<times> database) res" where
  "outbox_claim_batch env now locked limit db =
     claim_outboxes env now
       (take limit (sort_key ob_created_at
          (filter (\<lambda>r. claimable_outbox now r \<and> \<not> locked (ob_outbox_id r)) (db_outboxes db)))) db"

section \<open>Lookups of paused outboxes\<close>

text \<open>The provider's answers to a lookup by idempotency key and to a status query.\<close>

record lookup_io =
  li_lookup_submission :: "DispositionReceipt option res"
  li_get_status :: "DispositionReceipt option res"

definition can_look_up :: "BaseDispositionAdapter \<Rightarrow> bool" where
  "can_look_up adapter \<longleftrightarrow>
     cap_supports_lookup_by_idempotency (da_capabilities adapter)
     \<or> cap_supports_status_query (da_capabilities adapter)"

text \<open>The two calls in their order; the second needs a provider job id.\<close>

definition provider_lookup ::
  "BaseDispositionAdapter \<Rightarrow> string option \<Rightarrow> lookup_io \<Rightarrow> DispositionReceipt option res" where
  "provider_lookup adapter provider_job_id io =
     bind_res (if cap_supports_lookup_by_idempotency (da_capabilities adapter)
               then li_lookup_submission io else Inr None) (\<lambda>receipt.
     case receipt of
       Some r \<Rightarrow> Inr (Some r)
     | None \<Rightarrow>
         if cap_supports_status_query (da_capabilities adapter) \<and> provider_job_id \<notin> {None, Some []}
         then li_get_status io else Inr None)"

definition latest_provider_job_id :: "database \<Rightarrow> string \<Rightarrow> string option" where
  "latest_provider_job_id db writeback_id =
     Option.bind (max_by rc_sequence (receipts_of db writeback_id)) rc_provider_job_id"

record PausedLookupClaim =
  plc_outbox_id :: string
  plc_token :: string
  plc_event_id :: string
  plc_idempotency_key :: string
  plc_command_payload_sha256 :: string
  plc_command :: DispositionCommand
  plc_adapter :: BaseDispositionAdapter
  plc_provider_job_id :: "string option"

datatype PausedLookupOutcome =
    FOUND DispositionReceipt
  | NOT_FOUND
  | DEGRADED string string

definition paused_claimable :: "int \<Rightarrow> outbox_row \<Rightarrow> bool" where
  "paused_claimable now row \<longleftrightarrow>
     delivery OD_PAUSED row \<and> ob_superseded_by_disposition_id row = None
     \<and> (ob_locked_by row = None \<or> lease_over now row)"

text \<open>\<open>token\<close> is the random reconciliation token of a row; \<open>reason\<close> renders an exception.\<close>

definition claim_paused_outbox ::
  "outbox_env \<Rightarrow> int \<Rightarrow> (string \<Rightarrow> string) \<Rightarrow> (st_error \<Rightarrow> string) \<Rightarrow> outbox_row \<Rightarrow> database
     \<Rightarrow> PausedLookupClaim option \<times> database" where
  "claim_paused_outbox env now token render row db =
     (case bind_res (of_opt (PydanticValidationError ''DispositionCommand'')
                       (oe_decode_command env (ob_command_payload row))) (\<lambda>command.
           bind_res (resolve_adapter (oe_adapters env) row) (\<lambda>adapter. Inr (command, adapter))) of
        Inl e \<Rightarrow>
          (None, put_outbox now (row\<lparr>ob_last_error_code := Some ''lookup_claim_invalid'',
                   ob_last_error_detail := Some (truncate_error_detail (render e))\<rparr>) db)
      | Inr (command, adapter) \<Rightarrow>
          (Some \<lparr> plc_outbox_id = ob_outbox_id row, plc_token = token (ob_outbox_id row),
                  plc_event_id = ob_event_id row, plc_idempotency_key = ob_idempotency_key row,
                  plc_command_payload_sha256 = ob_command_payload_sha256 row,
                  plc_command = command, plc_adapter = adapter,
                  plc_provider_job_id = latest_provider_job_id db (ob_writeback_id row) \<rparr>,
           mirror_writeback_status_to_action now (ob_action_id row) WB_UNKNOWN
             (put_outbox now (row\<lparr>ob_locked_by := Some (token (ob_outbox_id row)),
                ob_locked_at := Some now, ob_lease_expires_at := Some (now + DEFAULT_LEASE_US)\<rparr>) db)))"

fun claim_paused_rows ::
  "outbox_env \<Rightarrow> int \<Rightarrow> (string \<Rightarrow> string) \<Rightarrow> (st_error \<Rightarrow> string) \<Rightarrow> outbox_row list \<Rightarrow> database
     \<Rightarrow> PausedLookupClaim list \<times> database" where
  "claim_paused_rows env now token render [] db = ([], db)"
| "claim_paused_rows env now token render (row # rows) db =
     (let (c, db1) = claim_paused_outbox env now token render row db;
          (cs, db2) = claim_paused_rows env now token render rows db1
      in ((case c of None \<Rightarrow> cs | Some x \<Rightarrow> x # cs), db2))"

definition claim_paused_outboxes ::
  "outbox_env \<Rightarrow> int \<Rightarrow> (string \<Rightarrow> string) \<Rightarrow> (st_error \<Rightarrow> string) \<Rightarrow> (string \<Rightarrow> bool) \<Rightarrow> nat \<Rightarrow> database
     \<Rightarrow> PausedLookupClaim list \<times> database" where
  "claim_paused_outboxes env now token render locked limit db =
     claim_paused_rows env now token render
       (take limit (sort_key ob_updated_at
          (filter (\<lambda>r. paused_claimable now r \<and> \<not> locked (ob_outbox_id r)) (db_outboxes db)))) db"

definition lookup_paused_outbox ::
  "(st_error \<Rightarrow> string) \<Rightarrow> lookup_io \<Rightarrow> PausedLookupClaim \<Rightarrow> PausedLookupOutcome" where
  "lookup_paused_outbox render io claim =
     (if \<not> can_look_up (plc_adapter claim)
      then DEGRADED ''lookup_unsupported''
             ''adapter lacks lookup/status capability; manual adjudication required''
      else (case provider_lookup (plc_adapter claim) (plc_provider_job_id claim) io of
              Inl e \<Rightarrow> DEGRADED ''lookup_degraded'' (render e)
            | Inr (Some receipt) \<Rightarrow> FOUND receipt
            | Inr None \<Rightarrow>
                if cap_supports_lookup_by_idempotency (da_capabilities (plc_adapter claim))
                then NOT_FOUND
                else DEGRADED ''lookup_inconclusive''
                       ''status query unavailable without a provider job id''))"

text \<open>A lookup that decides nothing: the row stays paused, its writeback unknown.\<close>

definition keep_paused ::
  "int \<Rightarrow> outbox_row \<Rightarrow> string \<Rightarrow> string \<Rightarrow> database \<Rightarrow> (bool \<times> WritebackStatus option) \<times> database" where
  "keep_paused now row code detail db =
     ((False, Some WB_UNKNOWN),
      mirror_writeback_status_to_action now (ob_action_id row) WB_UNKNOWN
        (put_outbox now (row\<lparr>ob_latest_writeback_status := Some (WritebackStatus_value WB_UNKNOWN),
           ob_last_error_code := Some code,
           ob_last_error_detail := Some (truncate_error_detail detail)\<rparr>) db))"

definition latest_or_unknown :: "outbox_row \<Rightarrow> WritebackStatus res" where
  "latest_or_unknown row =
     bind_res (latest_of row) (\<lambda>s. Inr (case s of None \<Rightarrow> WB_UNKNOWN | Some x \<Rightarrow> x))"

definition apply_not_found ::
  "outbox_env \<Rightarrow> int \<Rightarrow> PausedLookupClaim \<Rightarrow> outbox_row \<Rightarrow> database
     \<Rightarrow> ((bool \<times> WritebackStatus option) \<times> database) res" where
  "apply_not_found env now claim row db =
     (if is_deterministic_adapter_rejection_code (ob_last_error_code row)
      then bind_res (apply_deterministic_rejection_terminal_state env now row OD_PAUSED
                       (or_code (ob_last_error_code row) ''adapter_validation_error'')
                       ''pre-submit deterministic rejection; lookup retry blocked'' db) (\<lambda>db'.
           Inr ((True, Some WB_FAILED), db'))
      else if \<not> allows_safe_retry (plc_adapter claim)
      then Inr (keep_paused now row ''lookup_not_found''
                  ''lookup found no submission and adapter does not allow safe retry'' db)
      else
        bind_res (latest_or_unknown row) (\<lambda>current.
        bind_res (validate_writeback_status_transition
                    \<lparr> ev_lookup_never_accepted = True, ev_adapter_allows_safe_retry = True,
                      ev_evidence_adjudication = False \<rparr> current WB_PENDING) (\<lambda>_.
        bind_res (validate_outbox_delivery_transition default_outbox_evidence OD_PAUSED OD_READY) (\<lambda>_.
        Inr ((True, Some WB_PENDING),
             mirror_writeback_status_to_action now (ob_action_id row) WB_PENDING
               (put_outbox now (row\<lparr>
                  ob_latest_writeback_status := Some (WritebackStatus_value WB_PENDING),
                  ob_last_error_code := Some ''lookup_never_accepted'',
                  ob_last_error_detail := Some (truncate_error_detail
                    ''lookup confirmed never-accepted; safe-retry re-enqueued''),
                  ob_delivery_status := OutboxDeliveryStatus_value OD_READY\<rparr>) db))))))"

definition apply_found ::
  "outbox_env \<Rightarrow> int \<Rightarrow> PausedLookupClaim \<Rightarrow> DispositionReceipt \<Rightarrow> outbox_row \<Rightarrow> database
     \<Rightarrow> ((bool \<times> WritebackStatus option) \<times> database) res" where
  "apply_found env now claim receipt row db =
     (if dr_status receipt = WB_UNKNOWN
      then Inr (keep_paused now row ''lookup_unknown'' ''lookup inconclusive; outbox remains paused'' db)
      else
        bind_res (latest_or_unknown row) (\<lambda>current.
        bind_res (validate_writeback_status_transition
                    (default_writeback_evidence\<lparr>ev_evidence_adjudication := True\<rparr>) current
                    (dr_status receipt)) (\<lambda>_.
        bind_res (append_receipt env now row (Provided receipt) db) (\<lambda>(parsed, db1).
        bind_res (validate_outbox_delivery_transition
                    (default_outbox_evidence\<lparr>ev_lookup_confirmed_submission := True\<rparr>) OD_PAUSED
                    OD_DELIVERED) (\<lambda>_.
        let db2 = put_outbox now (row\<lparr>
                    ob_latest_writeback_status := Some (WritebackStatus_value (dr_status parsed)),
                    ob_delivery_status := OutboxDeliveryStatus_value OD_DELIVERED,
                    ob_delivered_at := Some now, ob_last_error_code := None,
                    ob_last_error_detail := None\<rparr>) db1
        in bind_res (apply_receipt_execution_projection env now (ob_action_id row) (plc_command claim)
                       parsed
                       (mirror_writeback_status_to_action now (ob_action_id row) (dr_status parsed) db2)) (\<lambda>db3.
           Inr ((True, Some (dr_status parsed)), db3)))))))"

definition claim_still_holds :: "PausedLookupClaim \<Rightarrow> OutboxDeliveryStatus \<Rightarrow> outbox_row \<Rightarrow> bool" where
  "claim_still_holds claim status outbox \<longleftrightarrow>
     status = OD_PAUSED \<and> ob_locked_by outbox = Some (plc_token claim)
     \<and> ob_superseded_by_disposition_id outbox = None
     \<and> ob_idempotency_key outbox = plc_idempotency_key claim
     \<and> ob_command_payload_sha256 outbox = plc_command_payload_sha256 claim"

definition apply_paused_lookup_outcome ::
  "outbox_env \<Rightarrow> int \<Rightarrow> PausedLookupClaim \<Rightarrow> PausedLookupOutcome \<Rightarrow> database
     \<Rightarrow> ((bool \<times> WritebackStatus option) \<times> database) res" where
  "apply_paused_lookup_outcome env now claim outcome db =
     (case get_outbox db (plc_outbox_id claim) of
        None \<Rightarrow> Inr ((False, None), db)
      | Some outbox \<Rightarrow>
          bind_res (delivery_of outbox) (\<lambda>status.
          if \<not> claim_still_holds claim status outbox then Inr ((False, None), db)
          else
            let row = (unlocked outbox)\<lparr>ob_next_retry_at := None, ob_updated_at := now\<rparr>
            in (case outcome of
                  DEGRADED code detail \<Rightarrow>
                    Inr (keep_paused now row (or_code (Some code) ''lookup_degraded'')
                           (or_code (Some detail) ''lookup inconclusive; outbox remains paused'') db)
                | NOT_FOUND \<Rightarrow> apply_not_found env now claim row db
                | FOUND receipt \<Rightarrow> apply_found env now claim receipt row db)))"

definition release_paused_lookup_claim ::
  "int \<Rightarrow> PausedLookupClaim \<Rightarrow> string \<Rightarrow> string \<Rightarrow> database \<Rightarrow> database res" where
  "release_paused_lookup_claim now claim code detail db =
     (case get_outbox db (plc_outbox_id claim) of
        None \<Rightarrow> Inr db
      | Some outbox \<Rightarrow>
          bind_res (delivery_of outbox) (\<lambda>status.
          if status \<noteq> OD_PAUSED \<or> ob_locked_by outbox \<noteq> Some (plc_token claim) then Inr db
          else Inr (put_outbox now ((unlocked outbox)\<lparr>ob_last_error_code := Some code,
                      ob_last_error_detail := Some (truncate_error_detail detail)\<rparr>) db)))"

section \<open>The operator's retry\<close>

datatype OperatorRetryDecision =
    RE_ENQUEUE bool
  | RECONCILE_TERMINAL DispositionReceipt
  | BLOCKED string

text \<open>\<open>RE_ENQUEUE\<close> carries whether the lookup proved that nothing was ever accepted.\<close>

definition evaluate_operator_retry_lookup ::
  "outbox_env \<Rightarrow> lookup_io \<Rightarrow> outbox_row \<Rightarrow> database \<Rightarrow> OperatorRetryDecision res" where
  "evaluate_operator_retry_lookup env io outbox db =
     bind_res (resolve_adapter (oe_adapters env) outbox) (\<lambda>adapter.
     if \<not> can_look_up adapter
     then Inr (BLOCKED ''lookup capability unavailable; cannot prove safe retry'')
     else if is_deterministic_adapter_rejection_code (ob_last_error_code outbox)
     then Inr (BLOCKED (''deterministic adapter rejection is not safely retryable; error_code=''
                        @ str_opt (ob_last_error_code outbox)))
     else
       bind_res (of_opt (PydanticValidationError ''DispositionCommand'')
                   (oe_decode_command env (ob_command_payload outbox))) (\<lambda>_.
       Inr (case provider_lookup adapter (latest_provider_job_id db (ob_writeback_id outbox)) io of
              Inl _ \<Rightarrow> BLOCKED ''lookup degraded; outbox remains PAUSED''
            | Inr (Some receipt) \<Rightarrow>
                if is_operator_retry_terminal_success (dr_status receipt)
                then RECONCILE_TERMINAL receipt
                else if dr_status receipt = WB_UNKNOWN
                then BLOCKED ''lookup still UNKNOWN; manual adjudication required''
                else if dr_status receipt \<in> {WB_FAILED, WB_PARTIAL}
                then if allows_safe_retry adapter then RE_ENQUEUE False
                     else BLOCKED ''adapter does not allow safe retry after failed lookup''
                else BLOCKED (''lookup returned non-retryable status ''
                              @ WritebackStatus_value (dr_status receipt))
            | Inr None \<Rightarrow>
                if cap_supports_lookup_by_idempotency (da_capabilities adapter)
                then if allows_safe_retry adapter then RE_ENQUEUE True
                     else BLOCKED ''lookup proves never-accepted but adapter lacks safe-retry''
                else BLOCKED ''cannot prove never-accepted without idempotency lookup'')))"

definition replay_prefix :: "string \<Rightarrow> string \<Rightarrow> string" where
  "replay_prefix writeback_id operation_id =
     ''operator_retry:replay:'' @ writeback_id @ '':'' @ operation_id @ '':''"

text \<open>
  \<open>reason LIKE 'prefix%'\<close>: an underscore of the prefix matches any character (a percent sign
  cannot occur in it).
\<close>

fun like_prefix :: "string \<Rightarrow> string \<Rightarrow> bool" where
  "like_prefix [] s = True"
| "like_prefix (p # ps) [] = False"
| "like_prefix (p # ps) (c # cs) = ((p = CHR ''_'' \<or> p = c) \<and> like_prefix ps cs)"

definition find_operator_retry_replay ::
  "database \<Rightarrow> string \<Rightarrow> string \<Rightarrow> string \<Rightarrow> WritebackStatus option" where
  "find_operator_retry_replay db event_id writeback_id operation_id =
     (case max_by au_id (filter (\<lambda>a. au_event_id a = event_id
             \<and> (case au_reason a of
                   None \<Rightarrow> False
                 | Some reason \<Rightarrow> like_prefix (replay_prefix writeback_id operation_id) reason))
             (db_audits db)) of
        None \<Rightarrow> None
      | Some a \<Rightarrow> Option.bind (au_to_status a) WritebackStatus_parse)"

definition stripped_note :: "string option \<Rightarrow> string" where
  "stripped_note reason = strip (case reason of None \<Rightarrow> [] | Some r \<Rightarrow> r)"

definition record_operator_retry_audit ::
  "int \<Rightarrow> outbox_row \<Rightarrow> string \<Rightarrow> string option \<Rightarrow> string option \<Rightarrow> string \<Rightarrow> string \<Rightarrow> WritebackStatus
     \<Rightarrow> database \<Rightarrow> database" where
  "record_operator_retry_audit now outbox operator operation_id reason audit_reason from_delivery
       result_status db =
     (let note = stripped_note reason;
          replay_reason =
            (case operation_id of
               Some op \<Rightarrow>
                 (let r = replay_prefix (ob_writeback_id outbox) op @ WritebackStatus_value result_status
                  in if note = [] then r else r @ ''|note:'' @ note)
             | None \<Rightarrow>
                 if note \<noteq> [] \<and> \<not> sublist note audit_reason then audit_reason @ ''|note:'' @ note
                 else audit_reason)
      in add_audit (ob_event_id outbox) (Some from_delivery)
           (Some (WritebackStatus_value result_status)) (Some operator) (Some replay_reason) now db)"

definition operation_id_ok :: "string \<Rightarrow> bool" where
  "operation_id_ok op \<longleftrightarrow>
     op \<noteq> [] \<and> length op \<le> 128
     \<and> list_all (\<lambda>c. of_char c \<in> {48..57::nat} \<or> of_char c \<in> {65..90::nat}
                   \<or> of_char c \<in> {97..122::nat} \<or> c \<in> set ''._:-'') op"

definition operator_retry_pause_reason :: "string option \<Rightarrow> string" where
  "operator_retry_pause_reason reason =
     ''operator_retry:pause:''
     @ strip (case reason of
                None \<Rightarrow> ''operator-initiated''
              | Some r \<Rightarrow> if r = [] then ''operator-initiated'' else r)"

text \<open>\<open>DEAD_LETTER\<close> and \<open>DELIVERED\<close> rows are paused first, with an audit row.\<close>

definition pause_for_retry ::
  "int \<Rightarrow> string \<Rightarrow> string option \<Rightarrow> OutboxDeliveryStatus \<Rightarrow> outbox_row \<Rightarrow> database
     \<Rightarrow> (outbox_row \<times> database) res" where
  "pause_for_retry now operator reason status outbox db =
     (if status \<in> {OD_DEAD_LETTER, OD_DELIVERED}
      then bind_res (validate_outbox_delivery_transition
                       (default_outbox_evidence\<lparr>ev_operator_retry_pause := True\<rparr>) status OD_PAUSED) (\<lambda>_.
           let row = (unlocked outbox)\<lparr>ob_delivery_status := OutboxDeliveryStatus_value OD_PAUSED,
                       ob_next_retry_at := None, ob_updated_at := now\<rparr>
           in Inr (row, add_audit (ob_event_id row) (Some (OutboxDeliveryStatus_value status))
                     (Some (OutboxDeliveryStatus_value OD_PAUSED)) (Some operator)
                     (Some (operator_retry_pause_reason reason)) now (put_outbox now row db)))
      else Inr (outbox, db))"

definition or_failed :: "WritebackStatus option \<Rightarrow> WritebackStatus" where
  "or_failed latest = (case latest of None \<Rightarrow> WB_FAILED | Some s \<Rightarrow> s)"

text \<open>What the decision does to the paused row: the answer, or the refusal raised after the commit.\<close>

definition apply_retry_decision ::
  "outbox_env \<Rightarrow> int \<Rightarrow> string \<Rightarrow> string option \<Rightarrow> string option \<Rightarrow> WritebackStatus option
     \<Rightarrow> outbox_row \<Rightarrow> OperatorRetryDecision \<Rightarrow> database \<Rightarrow> (WritebackStatus res \<times> database) res" where
  "apply_retry_decision env now operator operation_id reason latest row decision db =
     (case decision of
        RECONCILE_TERMINAL receipt \<Rightarrow>
          bind_res (validate_outbox_delivery_transition
                      (default_outbox_evidence\<lparr>ev_lookup_confirmed_submission := True\<rparr>) OD_PAUSED
                      OD_DELIVERED) (\<lambda>_.
          bind_res (append_receipt env now row (Provided receipt) db) (\<lambda>(_, db1).
          let target = dr_status receipt;
              row' = row\<lparr>ob_latest_writeback_status := Some (WritebackStatus_value target),
                        ob_delivery_status := OutboxDeliveryStatus_value OD_DELIVERED,
                        ob_delivered_at := (case ob_delivered_at row of
                                              None \<Rightarrow> Some now | Some t \<Rightarrow> Some t)\<rparr>
          in Inr (Inr target,
                  record_operator_retry_audit now row' operator operation_id reason
                    (''operator_retry:reconcile:'' @ WritebackStatus_value target)
                    (OutboxDeliveryStatus_value OD_PAUSED) target
                    (mirror_writeback_status_to_action now (ob_action_id row) target
                       (put_outbox now row' db1)))))
      | BLOCKED why \<Rightarrow>
          Inr (Inl (WritebackConflictError ''writeback_conflict''),
               record_operator_retry_audit now row operator None reason
                 (''operator_retry:blocked:'' @ why) (OutboxDeliveryStatus_value OD_PAUSED)
                 (or_failed latest) db)
      | RE_ENQUEUE never_accepted \<Rightarrow>
          bind_res (validate_writeback_status_transition
                      \<lparr> ev_lookup_never_accepted = never_accepted,
                        ev_adapter_allows_safe_retry = True, ev_evidence_adjudication = False \<rparr>
                      (or_failed latest) WB_PENDING) (\<lambda>_.
          bind_res (validate_outbox_delivery_transition default_outbox_evidence OD_PAUSED OD_READY) (\<lambda>_.
          let row' = (unlocked row)\<lparr>ob_delivery_status := OutboxDeliveryStatus_value OD_READY,
                       ob_latest_writeback_status := Some (WritebackStatus_value WB_PENDING),
                       ob_attempt := 0, ob_next_retry_at := None\<rparr>
          in Inr (Inr WB_PENDING,
                  record_operator_retry_audit now row' operator operation_id reason
                    ''operator_retry:re-enqueued'' (OutboxDeliveryStatus_value OD_PAUSED) WB_PENDING
                    (mirror_writeback_status_to_action now (ob_action_id row) WB_PENDING
                       (put_outbox now row' db))))))"

definition conflict :: "'a res" where
  "conflict = Inl (WritebackConflictError ''writeback_conflict'')"

text \<open>The transaction returns the answer and the decision a lookup led to, if it came to one.\<close>

definition retry_in_tx ::
  "outbox_env \<Rightarrow> int \<Rightarrow> lookup_io \<Rightarrow> string \<Rightarrow> string \<Rightarrow> string option \<Rightarrow> string option \<Rightarrow> database
     \<Rightarrow> ((WritebackStatus res \<times> OperatorRetryDecision option) \<times> database) res" where
  "retry_in_tx env now io writeback_id operator operation_id reason db =
     bind_res (of_opt (EventNotFoundError writeback_id) (find_writeback db writeback_id)) (\<lambda>outbox.
     bind_res (delivery_of outbox) (\<lambda>status.
     bind_res (latest_of outbox) (\<lambda>latest.
     if operator_retry_writeback_status_blocked latest then conflict
     else if ob_superseded_by_disposition_id outbox \<noteq> None then conflict
     else
       (case Option.bind operation_id (find_operator_retry_replay db (ob_event_id outbox) writeback_id) of
          Some replayed \<Rightarrow> Inr ((Inr replayed, None), db)
        | None \<Rightarrow>
            if latest = Some WB_UNKNOWN \<and> status = OD_DELIVERED then conflict
            else if status \<in> {OD_LEASED, OD_WAITING_RETRY} then conflict
            else if status = OD_READY
            then Inr ((Inr WB_PENDING, None),
                      record_operator_retry_audit now outbox operator operation_id reason
                        ''operator_retry:idempotent-ready'' (OutboxDeliveryStatus_value status)
                        WB_PENDING db)
            else if \<not> delivery_status_eligible_for_operator_retry_pause status latest then conflict
            else
              bind_res (pause_for_retry now operator reason status outbox db) (\<lambda>(row, db1).
              bind_res (evaluate_operator_retry_lookup env io row db1) (\<lambda>decision.
              bind_res (apply_retry_decision env now operator operation_id reason latest row decision
                          db1) (\<lambda>(answer, db2).
              Inr ((answer, Some decision), db2))))))))"

definition retry_writeback ::
  "outbox_env \<Rightarrow> int \<Rightarrow> lookup_io \<Rightarrow> string \<Rightarrow> string \<Rightarrow> string option \<Rightarrow> string option \<Rightarrow> outbox_state
     \<Rightarrow> outbox_state \<times> WritebackStatus res" where
  "retry_writeback env now io writeback_id operator operation_id reason st =
     (if \<not> (case operation_id of None \<Rightarrow> True | Some op \<Rightarrow> operation_id_ok op)
      then (st, Inl (ValidationError ''operation_id must be 1-128 chars of [A-Za-z0-9._:-]''))
      else
        (case retry_in_tx env now io writeback_id operator operation_id reason (os_db st) of
           Inl e \<Rightarrow> (st, Inl e)
         | Inr ((answer, decision), db) \<Rightarrow>
             (st\<lparr>os_db := db,
                 os_log := os_log st @
                   (case (decision, find_writeback (os_db st) writeback_id) of
                      (Some (RE_ENQUEUE _), Some outbox) \<Rightarrow> [Cleared (ob_outbox_id outbox)]
                    | _ \<Rightarrow> [])\<rparr>, answer)))"

definition activate_deferred_disposition ::
  "outbox_env \<Rightarrow> int \<Rightarrow> lookup_io \<Rightarrow> string \<Rightarrow> string \<Rightarrow> outbox_state \<Rightarrow> outbox_state \<times> WritebackStatus res" where
  "activate_deferred_disposition env now io event_id operator st =
     (case max_by ob_created_at
             (filter (\<lambda>r. ob_event_id r = event_id
                        \<and> ob_intent_kind r = DispositionIntentKind_value IK_EVENT_STATUS_UPDATE)
                (db_outboxes (os_db st))) of
        None \<Rightarrow> (st, Inl (EventNotFoundError event_id))
      | Some outbox \<Rightarrow> retry_writeback env now io (ob_writeback_id outbox) operator None None st)"

section \<open>Provider queries and manual resolution\<close>

definition lookup_writeback_status ::
  "outbox_env \<Rightarrow> lookup_io \<Rightarrow> string \<Rightarrow> database \<Rightarrow> WritebackStatus option res" where
  "lookup_writeback_status env io writeback_id db =
     (case find_writeback db writeback_id of
        None \<Rightarrow> Inr None
      | Some outbox \<Rightarrow>
          bind_res (resolve_adapter (oe_adapters env) outbox) (\<lambda>adapter.
          bind_res (if can_look_up adapter
                    then bind_res (of_opt (PydanticValidationError ''DispositionCommand'')
                                     (oe_decode_command env (ob_command_payload outbox))) (\<lambda>_.
                         provider_lookup adapter (latest_provider_job_id db writeback_id) io)
                    else Inr None) (\<lambda>receipt.
          case receipt of
            Some r \<Rightarrow> Inr (Some (dr_status r))
          | None \<Rightarrow>
              (case ob_latest_writeback_status outbox of
                 None \<Rightarrow> Inr None
               | Some raw \<Rightarrow>
                   if raw = [] then Inr None
                   else (case WritebackStatus_parse raw of
                           None \<Rightarrow> Inr (Some WB_UNKNOWN)
                         | Some s \<Rightarrow> Inr (Some s))))))"

definition delivered_by_lookup :: "int \<Rightarrow> outbox_row \<Rightarrow> outbox_row" where
  "delivered_by_lookup now row =
     (unlocked row)\<lparr>ob_delivery_status := OutboxDeliveryStatus_value OD_DELIVERED,
       ob_delivered_at := (case ob_delivered_at row of None \<Rightarrow> Some now | Some t \<Rightarrow> Some t),
       ob_next_retry_at := None\<rparr>"

definition update_writeback_status_from_lookup ::
  "int \<Rightarrow> string \<Rightarrow> WritebackStatus \<Rightarrow> database \<Rightarrow> database res" where
  "update_writeback_status_from_lookup now writeback_id status db =
     (case find_writeback db writeback_id of
        None \<Rightarrow> Inr db
      | Some outbox \<Rightarrow>
          bind_res (latest_of outbox) (\<lambda>latest.
          bind_res (validate_writeback_status_transition
                      (default_writeback_evidence\<lparr>ev_evidence_adjudication := True\<rparr>)
                      (case latest of None \<Rightarrow> WB_PENDING | Some s \<Rightarrow> s) status) (\<lambda>_.
          let row = outbox\<lparr>ob_latest_writeback_status := Some (WritebackStatus_value status)\<rparr>
          in bind_res
               (if \<not> is_operator_retry_terminal_success status then Inr row
                else
                  bind_res (delivery_of row) (\<lambda>current.
                  if current \<in> {OD_READY, OD_PAUSED, OD_WAITING_RETRY}
                  then bind_res (validate_outbox_delivery_transition
                         (default_outbox_evidence\<lparr>ev_lookup_confirmed_submission := True\<rparr>)
                         current OD_DELIVERED) (\<lambda>_. Inr (delivered_by_lookup now row))
                  else if current = OD_LEASED
                  then bind_res (validate_outbox_delivery_transition default_outbox_evidence current
                                   OD_DELIVERED) (\<lambda>_. Inr (delivered_by_lookup now row))
                  else Inr row)) (\<lambda>row'.
             Inr (mirror_writeback_status_to_action now (ob_action_id row) status
                    (put_outbox now row' db))))))"

text \<open>
  \<open>manual\<close> is the answer of the manual-resolution service, when one is wired, to the request
  for a resume intent, which it stores in a table of its own; a \<open>ValidationError\<close> of its
  own is caught, any other exception propagates.
\<close>

definition manual_resume :: "unit res option \<Rightarrow> unit res" where
  "manual_resume manual =
     (case manual of
        Some (Inl (ValidationError _)) \<Rightarrow> Inr ()
      | Some (Inl (CodedValidationError _)) \<Rightarrow> Inr ()
      | Some (Inl e) \<Rightarrow> Inl e
      | _ \<Rightarrow> Inr ())"

definition resolve_writeback ::
  "outbox_env \<Rightarrow> int \<Rightarrow> unit res option \<Rightarrow> string \<Rightarrow> string \<Rightarrow> string \<Rightarrow> string option \<Rightarrow> database
     \<Rightarrow> (WritebackStatus \<times> database) res" where
  "resolve_writeback env now manual writeback_id resolution comment evidence_ref db =
     (if resolution \<notin> {''manual_confirmed'', ''mark_failed'', ''abandon''}
      then Inl (ValidationError ''unsupported writeback resolution'')
      else if resolution = ''manual_confirmed'' \<and> evidence_ref \<in> {None, Some []}
      then Inl (ValidationError ''manual_confirmed requires evidence_ref'')
      else
        let target = (if resolution = ''manual_confirmed'' then WB_CONFIRMED else WB_FAILED)
        in bind_res (of_opt (EventNotFoundError writeback_id) (find_writeback db writeback_id)) (\<lambda>outbox.
           bind_res (latest_or_unknown outbox) (\<lambda>current.
           if current = target
           then bind_res (manual_resume manual) (\<lambda>_. Inr (target, db))
           else
             bind_res (validate_writeback_status_transition
                         (default_writeback_evidence\<lparr>ev_evidence_adjudication := True\<rparr>) current target) (\<lambda>_.
             bind_res (append_receipt env now outbox
                         (Made target (if target = WB_CONFIRMED then Some CE_MANUAL_CONFIRMED else None)
                            (Some comment)) db) (\<lambda>(_, db1).
             let db2 = mirror_writeback_status_to_action now (ob_action_id outbox) target
                         (put_outbox now (outbox\<lparr>
                            ob_latest_writeback_status := Some (WritebackStatus_value target),
                            ob_delivery_status := OutboxDeliveryStatus_value OD_DELIVERED\<rparr>) db1)
             in bind_res (manual_resume manual) (\<lambda>_. Inr (target, db2)))))))"

section \<open>Reads\<close>

definition command_and_status ::
  "outbox_env \<Rightarrow> outbox_row \<Rightarrow> (DispositionCommand \<times> WritebackStatus option) res" where
  "command_and_status env row =
     bind_res (of_opt (PydanticValidationError ''DispositionCommand'')
                 (oe_decode_command env (ob_command_payload row))) (\<lambda>command.
     bind_res (latest_of row) (\<lambda>status. Inr (command, status)))"

text \<open>\<open>DispositionReceipt.model_validate\<close> of a stored row.\<close>

definition receipt_of_row :: "receipt_row \<Rightarrow> DispositionReceipt res" where
  "receipt_of_row row =
     (let invalid = PydanticValidationError ''DispositionReceipt''
      in bind_res (of_opt invalid (WritebackStatus_parse (rc_status row))) (\<lambda>status.
         bind_res (case rc_confirmation_evidence row of
                     None \<Rightarrow> Inr None
                   | Some raw \<Rightarrow> bind_res (of_opt invalid (ConfirmationEvidence_parse raw)) (\<lambda>e. Inr (Some e)))
           (\<lambda>evidence.
         bind_res (case rc_raw_result row of JObj kvs \<Rightarrow> Inr kvs | JNull \<Rightarrow> Inr [] | _ \<Rightarrow> Inl invalid) (\<lambda>raw.
         let r = \<lparr> dr_writeback_id = rc_writeback_id row, dr_sequence = rc_sequence row,
                   dr_disposition_id = rc_disposition_id row, dr_action_id = rc_action_id row,
                   dr_source_record_id = rc_source_record_id row, dr_status = status,
                   dr_confirmation_evidence = evidence,
                   dr_provider_record_id = rc_provider_record_id row,
                   dr_provider_job_id = rc_provider_job_id row,
                   dr_provider_message = rc_provider_message row,
                   dr_observed_at = rc_observed_at row, dr_submitted_at = rc_submitted_at row,
                   dr_confirmed_at = rc_confirmed_at row, dr_raw_result = raw,
                   dr_simulated = rc_simulated row \<rparr>
         in bind_res (ensure (confirmed_requires_evidence r) invalid) (\<lambda>_. Inr r)))))"

text \<open>\<open>DispositionOutboxRecord.model_validate\<close>: the columns that are enumerations must parse.\<close>

definition outbox_record_ok :: "outbox_row \<Rightarrow> bool" where
  "outbox_record_ok row \<longleftrightarrow>
     DispositionIntentKind_parse (ob_intent_kind row) \<noteq> None
     \<and> OutboxDeliveryStatus_parse (ob_delivery_status row) \<noteq> None
     \<and> (case ob_latest_writeback_status row of None \<Rightarrow> True | Some raw \<Rightarrow> WritebackStatus_parse raw \<noteq> None)"

definition get_writeback ::
  "string \<Rightarrow> database \<Rightarrow> (outbox_row \<times> DispositionReceipt option) res" where
  "get_writeback writeback_id db =
     bind_res (of_opt (EventNotFoundError writeback_id) (find_writeback db writeback_id)) (\<lambda>outbox.
     bind_res (ensure (outbox_record_ok outbox) (PydanticValidationError ''DispositionOutboxRecord'')) (\<lambda>_.
     case max_by rc_sequence (receipts_of db writeback_id) of
       None \<Rightarrow> Inr (outbox, None)
     | Some row \<Rightarrow> bind_res (receipt_of_row row) (\<lambda>receipt. Inr (outbox, Some receipt))))"

definition list_event_dispositions ::
  "outbox_env \<Rightarrow> string \<Rightarrow> database \<Rightarrow> (DispositionCommand \<times> WritebackStatus option) list res" where
  "list_event_dispositions env event_id db =
     map_res (command_and_status env)
       (sort_key ob_created_at (filter (\<lambda>r. ob_event_id r = event_id) (db_outboxes db)))"

definition get_disposition ::
  "outbox_env \<Rightarrow> string \<Rightarrow> database \<Rightarrow> (DispositionCommand \<times> WritebackStatus option) res" where
  "get_disposition env disposition_id db =
     bind_res (of_opt (EventNotFoundError disposition_id)
                 (scalar (\<lambda>r. ob_disposition_id r = disposition_id) (db_outboxes db)))
       (command_and_status env)"

section \<open>The worker\<close>

text \<open>
  Everything one pass of the worker meets outside the database: the clock, the random tokens,
  the rows other sessions have locked, and the provider's answers for each outbox.
\<close>

record worker_io =
  wi_now :: int
  wi_token :: "string \<Rightarrow> string"
  wi_render :: "st_error \<Rightarrow> string"
  wi_locked :: "string \<Rightarrow> bool"
  wi_lookup :: "string \<Rightarrow> lookup_io"
  wi_delivery :: "string \<Rightarrow> delivery_io"

definition apply_outcome ::
  "outbox_env \<Rightarrow> int \<Rightarrow> (st_error \<Rightarrow> string) \<Rightarrow> PausedLookupClaim \<Rightarrow> PausedLookupOutcome
     \<Rightarrow> outbox_state \<Rightarrow> outbox_state \<times> bool res" where
  "apply_outcome env now render claim outcome st =
     (case apply_paused_lookup_outcome env now claim outcome (os_db st) of
        Inr ((applied, status), db) \<Rightarrow>
          (st\<lparr>os_db := db,
              os_log := os_log st @
                (if outcome = NOT_FOUND \<and> status = Some WB_PENDING
                 then [Cleared (plc_outbox_id claim)] else [])\<rparr>, Inr applied)
      | Inl e \<Rightarrow>
          (case release_paused_lookup_claim now claim ''lookup_apply_failed'' (render e) (os_db st) of
             Inr db \<Rightarrow> (st\<lparr>os_db := db\<rparr>, Inr False)
           | Inl e' \<Rightarrow> (st, Inl e')))"

fun apply_claims ::
  "outbox_env \<Rightarrow> worker_io \<Rightarrow> PausedLookupClaim list \<Rightarrow> outbox_state \<Rightarrow> outbox_state \<times> nat res" where
  "apply_claims env io [] st = (st, Inr 0)"
| "apply_claims env io (claim # claims) st =
     then_do (apply_outcome env (wi_now io) (wi_render io) claim
                (lookup_paused_outbox (wi_render io) (wi_lookup io (plc_outbox_id claim)) claim) st)
       (\<lambda>st1 applied.
     then_do (apply_claims env io claims st1) (\<lambda>st2 n.
     (st2, Inr (if applied then n + 1 else n))))"

definition reconcile_paused_outboxes ::
  "outbox_env \<Rightarrow> worker_io \<Rightarrow> nat \<Rightarrow> outbox_state \<Rightarrow> outbox_state \<times> nat res" where
  "reconcile_paused_outboxes env io limit st =
     (let (claims, db) = claim_paused_outboxes env (wi_now io) (wi_token io) (wi_render io)
                           (wi_locked io) limit (os_db st)
      in apply_claims env io claims (st\<lparr>os_db := db\<rparr>))"

fun deliver_claimed ::
  "outbox_env \<Rightarrow> worker_io \<Rightarrow> string list \<Rightarrow> outbox_state \<Rightarrow> outbox_state \<times> unit res" where
  "deliver_claimed env io [] st = (st, Inr ())"
| "deliver_claimed env io (outbox_id # ids) st =
     (case deliver_outbox env (wi_now io) (wi_delivery io outbox_id) outbox_id st of
        (st1, Inr _) \<Rightarrow> deliver_claimed env io ids st1
      | (st1, Inl e) \<Rightarrow>
          (case handle_delivery_error env (wi_now io) (wi_render io) outbox_id e (os_db st1) of
             Inl e' \<Rightarrow> (st1, Inl e')
           | Inr db \<Rightarrow> deliver_claimed env io ids (st1\<lparr>os_db := db\<rparr>)))"

definition run_once ::
  "outbox_env \<Rightarrow> worker_io \<Rightarrow> nat \<Rightarrow> outbox_state \<Rightarrow> outbox_state \<times> nat res" where
  "run_once env io limit st =
     then_do (reconcile_paused_outboxes env io limit st) (\<lambda>st1 _.
     case outbox_claim_batch env (wi_now io) (wi_locked io) limit (os_db st1) of
       Inl e \<Rightarrow> (st1, Inl e)
     | Inr (claimed, db) \<Rightarrow>
         then_do (deliver_claimed env io claimed (st1\<lparr>os_db := db\<rparr>)) (\<lambda>st2 _.
         (st2, Inr (length claimed))))"

end
