(* ===== verification/Outbox_Facts.thy ===== *)
theory Outbox_Facts
  imports Outbox "HOL-Library.Multiset"
begin

text \<open>
  What the operations of the outbox keep: no operation changes the command of a row, removes a
  receipt or revives a superseded row, and none makes a row deliverable or leased but those
  that say so. From this, over every interleaving of the operations, when a command may still
  leave for the provider.
\<close>

interpretation outboxes_table: keyed_table db_outboxes ob_outbox_id get_outbox store_outbox
  by unfold_locales (simp_all add: get_outbox_def store_outbox_def)

section \<open>Evolution of the table\<close>

definition same_command :: "outbox_row \<Rightarrow> outbox_row \<Rightarrow> bool" where
  "same_command r r' \<longleftrightarrow>
     ob_outbox_id r' = ob_outbox_id r \<and> ob_writeback_id r' = ob_writeback_id r
     \<and> ob_disposition_id r' = ob_disposition_id r \<and> ob_action_id r' = ob_action_id r
     \<and> ob_event_id r' = ob_event_id r \<and> ob_closure_cycle r' = ob_closure_cycle r
     \<and> ob_source_record_id r' = ob_source_record_id r
     \<and> ob_source_sequence r' = ob_source_sequence r
     \<and> ob_intent_kind r' = ob_intent_kind r \<and> ob_logical_slot r' = ob_logical_slot r
     \<and> ob_idempotency_key r' = ob_idempotency_key r
     \<and> ob_command_payload r' = ob_command_payload r
     \<and> ob_command_payload_sha256 r' = ob_command_payload_sha256 r
     \<and> (ob_superseded_by_disposition_id r \<noteq> None \<longrightarrow> ob_superseded_by_disposition_id r' \<noteq> None)"

text \<open>A row the worker may claim: ready or waiting for a retry.\<close>

definition waiting :: "outbox_row \<Rightarrow> bool" where
  "waiting r \<longleftrightarrow> delivery OD_READY r \<or> delivery OD_WAITING_RETRY r"

definition quiet :: "outbox_row \<Rightarrow> outbox_row \<Rightarrow> bool" where
  "quiet r r' \<longleftrightarrow>
     same_command r r' \<and> (waiting r' \<longrightarrow> waiting r)
     \<and> (delivery OD_LEASED r' \<longrightarrow> delivery OD_LEASED r \<and> ob_locked_by r' = ob_locked_by r)"

text \<open>A claim by \<open>w\<close> may also lease a waiting row, to \<open>w\<close>.\<close>

definition claims_for :: "string \<Rightarrow> outbox_row \<Rightarrow> outbox_row \<Rightarrow> bool" where
  "claims_for w r r' \<longleftrightarrow>
     same_command r r' \<and> (waiting r' \<longrightarrow> waiting r)
     \<and> (delivery OD_LEASED r' \<longrightarrow>
          delivery OD_LEASED r \<and> ob_locked_by r' = ob_locked_by r
          \<or> waiting r \<and> ob_locked_by r' = Some w)"

text \<open>A re-enqueue of the outbox \<open>i\<close> may also make that row ready.\<close>

definition clears :: "string \<Rightarrow> outbox_row \<Rightarrow> outbox_row \<Rightarrow> bool" where
  "clears i r r' \<longleftrightarrow>
     same_command r r' \<and> (waiting r' \<longrightarrow> waiting r \<or> ob_outbox_id r = i)
     \<and> (delivery OD_LEASED r' \<longrightarrow> delivery OD_LEASED r \<and> ob_locked_by r' = ob_locked_by r)"

abbreviation distinct_outboxes :: "database \<Rightarrow> bool" where
  "distinct_outboxes db \<equiv> distinct (map ob_outbox_id (db_outboxes db))"

definition evolves :: "(outbox_row \<Rightarrow> outbox_row \<Rightarrow> bool) \<Rightarrow> database \<Rightarrow> database \<Rightarrow> bool" where
  "evolves P db db' \<longleftrightarrow>
     (distinct_outboxes db \<longrightarrow> distinct_outboxes db')
     \<and> prefix (db_receipts db) (db_receipts db')
     \<and> (\<forall>oid r. get_outbox db oid = Some r \<longrightarrow> (\<exists>r'. get_outbox db' oid = Some r' \<and> P r r'))"

lemmas row_relations = quiet_def claims_for_def clears_def same_command_def waiting_def

lemma row_reflp [simp]: "reflp same_command" "reflp quiet" "reflp (claims_for w)" "reflp (clears i)"
  by (auto simp: reflp_def row_relations)

lemma same_trans: "same_command a b \<Longrightarrow> same_command b c \<Longrightarrow> same_command a c"
  unfolding same_command_def by presburger

lemma row_transp [simp]:
  "transp same_command" "transp quiet" "transp (claims_for w)" "transp (clears i)"
proof -
  show "transp same_command" by (rule transpI) (rule same_trans)
  show "transp quiet" by (rule transpI) (auto simp only: quiet_def intro: same_trans)
  show "transp (claims_for w)" by (rule transpI) (auto simp only: claims_for_def intro: same_trans)
  show "transp (clears i)"
  proof (rule transpI)
    fix a b c assume ab: "clears i a b" and bc: "clears i b c"
    then have "same_command a c" unfolding clears_def by (blast intro: same_trans)
    moreover have "ob_outbox_id b = ob_outbox_id a"
      using ab by (simp add: clears_def same_command_def)
    ultimately show "clears i a c" using ab bc unfolding clears_def by metis
  qed
qed

lemma evolves_mono: "evolves P db db' \<Longrightarrow> (\<And>r r'. P r r' \<Longrightarrow> Q r r') \<Longrightarrow> evolves Q db db'"
  unfolding evolves_def by blast

lemma quiet_same: "quiet r r' \<Longrightarrow> same_command r r'"
  and claims_same: "claims_for w r r' \<Longrightarrow> same_command r r'"
  and clears_same: "clears i r r' \<Longrightarrow> same_command r r'"
  and quiet_claims: "quiet r r' \<Longrightarrow> claims_for w r r'"
  and quiet_clears: "quiet r r' \<Longrightarrow> clears i r r'"
  by (auto simp: quiet_def claims_for_def clears_def)

lemma evolves_refl [simp]: "reflp P \<Longrightarrow> evolves P db db"
  by (simp add: evolves_def reflp_def)

lemma evolves_trans [trans]:
  assumes "evolves P a b" and "evolves P b c" and "transp P"
  shows "evolves P a c"
  using assms unfolding evolves_def by (metis prefix_order.trans transpE)

lemma evolves_frame:
  assumes "reflp P" "db_outboxes db' = db_outboxes db" "prefix (db_receipts db) (db_receipts db')"
  shows "evolves P db db'"
  using assms by (simp add: evolves_def get_outbox_def reflp_def)

lemma evolves_store:
  assumes "get_outbox db (ob_outbox_id row) = Some r" and "P r row" and "reflp P"
  shows "evolves P db (store_outbox row db)"
proof -
  have "\<exists>r'. get_outbox (store_outbox row db) oid = Some r' \<and> P r0 r'"
    if "get_outbox db oid = Some r0" for oid r0
  proof (cases "oid = ob_outbox_id row")
    case True
    with that assms have "r0 = r" by simp
    have "get_outbox (store_outbox row db) (ob_outbox_id row) = Some row"
      by (rule outboxes_table.get_put_same) (simp add: assms(1))
    with True \<open>r0 = r\<close> assms(2) show ?thesis by blast
  next
    case False
    then have "get_outbox (store_outbox row db) oid = get_outbox db oid"
      by (rule outboxes_table.get_put_other)
    with that reflpD [OF assms(3), of r0] show ?thesis by simp
  qed
  moreover have "db_receipts (store_outbox row db) = db_receipts db" by (simp add: store_outbox_def)
  ultimately show ?thesis unfolding evolves_def outboxes_table.keys_put by auto
qed

lemma evolves_put:
  assumes "get_outbox db (ob_outbox_id row) = Some r" and "P r (row\<lparr>ob_updated_at := now\<rparr>)"
    and "reflp P"
  shows "evolves P db (put_outbox now row db)"
  unfolding put_outbox_def
  by (rule evolves_store [where r = r]) (simp_all add: assms)

lemma delivery_of_iff [simp]: "delivery_of row = Inr s \<longleftrightarrow> delivery s row"
  by (simp add: delivery_of_def OutboxDeliveryStatus_enum.parse_iff)

lemma delivery_iff [simp]:
  "(OutboxDeliveryStatus_value s = OutboxDeliveryStatus_value t) = (s = t)"
  by (rule OutboxDeliveryStatus_enum.value_eq_iff)

declare OutboxDeliveryStatus_value.simps [simp del]

section \<open>Frames\<close>

definition same_outboxes :: "database \<Rightarrow> database \<Rightarrow> bool" where
  "same_outboxes db db' \<longleftrightarrow> db_outboxes db' = db_outboxes db \<and> db_receipts db' = db_receipts db"

lemma mirror_frame [simp]:
  "same_outboxes db (mirror_writeback_status_to_action now a w db)"
  "db_outboxes (mirror_writeback_status_to_action now a w db) = db_outboxes db"
  "db_receipts (mirror_writeback_status_to_action now a w db) = db_receipts db"
  by (simp_all add: mirror_writeback_status_to_action_def put_action_def same_outboxes_def
      split: option.splits)

lemma audit_frame [simp]:
  "db_outboxes (add_audit e f t op reason now db) = db_outboxes db"
  "db_receipts (add_audit e f t op reason now db) = db_receipts db"
  by (simp_all add: add_audit_def)

lemma retry_audit_frame [simp]:
  "db_outboxes (record_operator_retry_audit now r op oi re ar fd rs db) = db_outboxes db"
  "db_receipts (record_operator_retry_audit now r op oi re ar fd rs db) = db_receipts db"
  by (simp_all add: record_operator_retry_audit_def Let_def)

lemma journal_frame:
  assumes "append_list_context_journal_in_session e f v db = Inr (n, db')"
  shows "db_outboxes db' = db_outboxes db" and "db_receipts db' = db_receipts db"
  using assms
  by (auto simp: append_list_context_journal_in_session_def append_context_journal_in_session_def
        insert_journal_def upsert_version_def Let_def split: option.splits prod.splits)

lemma put_same [simp]: "same_outboxes db (put_action a db)" "same_outboxes db (put_job j db)"
  "same_outboxes db db"
  by (simp_all add: same_outboxes_def put_action_def put_job_def)

lemma action_terminal_same:
  "returns (same_outboxes db) (apply_action_terminal_from_receipt now a r db)"
  unfolding apply_action_terminal_from_receipt_def by (intro returns_rules put_same)

lemma persist_job_same:
  "returns (same_outboxes db) (persist_execution_job_from_receipt env now a r db)"
  unfolding persist_execution_job_from_receipt_def by (intro returns_rules put_same)

lemma same_outboxes_trans: "same_outboxes a b \<Longrightarrow> same_outboxes b c \<Longrightarrow> same_outboxes a c"
  by (simp add: same_outboxes_def)

lemma persist_job_after:
  "same_outboxes db0 db \<Longrightarrow> returns (same_outboxes db0) (persist_execution_job_from_receipt env now a r db)"
  using persist_job_same unfolding returns_def by (blast intro: same_outboxes_trans)

lemma projection_same:
  "returns (same_outboxes db) (apply_receipt_execution_projection env now a c r db)"
  unfolding apply_receipt_execution_projection_def
  by (intro returns_rules put_same persist_job_after)
    (auto split: if_splits dest: returnsD [OF action_terminal_same])

lemma append_receipt_db:
  assumes "append_receipt env now row src db = Inr (r, db')"
  shows "db_outboxes db' = db_outboxes db" and "db_receipts db' = db_receipts db @ [receipt_row_of r]"
    and "dr_writeback_id r = ob_writeback_id row"
proof -
  from assms obtain r0 n where r0: "parse_receipt now row (next_sequence db (ob_writeback_id row)) src = Inr r0"
    and r: "r = sanitize_disposition_receipt env r0"
    and j: "append_list_context_journal_in_session (ob_event_id row) ''disposition_receipts''
              (oe_dump_receipt env r) (db\<lparr>db_receipts := db_receipts db @ [receipt_row_of r]\<rparr>) = Inr (n, db')"
    by (auto simp: append_receipt_def Let_def)
  show "db_outboxes db' = db_outboxes db" "db_receipts db' = db_receipts db @ [receipt_row_of r]"
    using journal_frame [OF j] by simp_all
  show "dr_writeback_id r = ob_writeback_id row"
    using r0 by (auto simp: r sanitize_disposition_receipt_def parse_receipt_def Let_def
        split: receipt_source.splits)
qed

lemma append_receipt_evolves:
  "append_receipt env now row src db = Inr (r, db') \<Longrightarrow> reflp P \<Longrightarrow> evolves P db db'"
  by (rule evolves_frame) (simp_all add: append_receipt_db)

lemma receipts_of_append:
  assumes "append_receipt env now row src db = Inr (r, db')"
  shows "receipts_of db' (ob_writeback_id row) \<noteq> []"
  using append_receipt_db [OF assms] by (simp add: receipts_of_def receipt_row_of_def)

lemma receipts_of_mono:
  assumes "prefix (db_receipts db) (db_receipts db')" and "receipts_of db w \<noteq> []"
  shows "receipts_of db' w \<noteq> []"
  using assms by (auto simp: receipts_of_def prefix_def)

section \<open>Rows\<close>

lemma set_error_detail_simps [simp]:
  "same_command r (set_error_detail d r') = same_command r r'"
  "ob_delivery_status (set_error_detail d r) = ob_delivery_status r"
  by (simp_all add: set_error_detail_def same_command_def split: option.splits)

lemma unlocked_simps [simp]:
  "same_command r (unlocked r') = same_command r r'"
  "ob_delivery_status (unlocked r) = ob_delivery_status r"
  by (simp_all add: unlocked_def same_command_def)

lemma same_refl [simp]: "same_command r r"
  by (simp add: same_command_def)

lemma same_updates [simp]:
  "same_command r (r'\<lparr>ob_delivery_status := d\<rparr>) = same_command r r'"
  "same_command r (r'\<lparr>ob_latest_writeback_status := l\<rparr>) = same_command r r'"
  "same_command r (r'\<lparr>ob_attempt := n\<rparr>) = same_command r r'"
  "same_command r (r'\<lparr>ob_next_retry_at := t\<rparr>) = same_command r r'"
  "same_command r (r'\<lparr>ob_locked_by := s\<rparr>) = same_command r r'"
  "same_command r (r'\<lparr>ob_locked_at := t\<rparr>) = same_command r r'"
  "same_command r (r'\<lparr>ob_lease_expires_at := t\<rparr>) = same_command r r'"
  "same_command r (r'\<lparr>ob_last_error_code := s\<rparr>) = same_command r r'"
  "same_command r (r'\<lparr>ob_last_error_detail := s\<rparr>) = same_command r r'"
  "same_command r (r'\<lparr>ob_updated_at := u\<rparr>) = same_command r r'"
  "same_command r (r'\<lparr>ob_delivered_at := t\<rparr>) = same_command r r'"
  by (simp_all add: same_command_def)

lemma quiet_refl [simp]: "quiet r r"
  by (simp add: quiet_def)

lemma quiet_settled:
  "same_command r r' \<Longrightarrow> \<not> waiting r' \<Longrightarrow> \<not> delivery OD_LEASED r' \<Longrightarrow> quiet r r'"
  by (simp add: quiet_def)

lemma quiet_touch [simp]: "quiet r (r'\<lparr>ob_updated_at := u\<rparr>) = quiet r r'"
  by (simp add: quiet_def waiting_def)

lemma lease_expiry_row: "returns (quiet row) (release_leased_outbox_after_lease_expiry env now row)"
  unfolding release_leased_outbox_after_lease_expiry_def
  by (intro returns_rules quiet_settled quiet_refl) (simp_all add: waiting_def)

lemma pause_unknown_row:
  "same_command r0 row \<Longrightarrow> quiet r0 row \<Longrightarrow>
     returns (quiet r0) (pause_outbox_after_unknown_submission now code detail row)"
  unfolding pause_outbox_after_unknown_submission_def
  by (intro returns_rules) (simp_all add: quiet_def waiting_def)

lemma dead_letter_row: "returns (quiet row) (release_leased_outbox_to_dead_letter now code detail row)"
  unfolding release_leased_outbox_to_dead_letter_def
  by (intro returns_rules quiet_settled quiet_refl) (simp_all add: waiting_def)

lemma fence_row: "returns (quiet row) (block_outbox_for_writeback_fence now detail row)"
  unfolding block_outbox_for_writeback_fence_def
  by (intro returns_rules dead_letter_row quiet_settled) (simp_all add: waiting_def)

lemma superseded_row: "returns (quiet row) (block_superseded_outbox now row)"
  unfolding block_superseded_outbox_def
  by (intro returns_rules dead_letter_row quiet_settled) (simp_all add: waiting_def)

lemma finalize_row: "returns (quiet row) (finalize_superseded_head now d row)"
  unfolding finalize_superseded_head_def
  by (intro returns_rules)
    (auto simp: quiet_def same_command_def waiting_def OutboxDeliveryStatus_enum.parse_iff unlocked_def
      split: if_splits)

section \<open>Operations on one row\<close>

lemma same_id: "same_command r r' \<Longrightarrow> ob_outbox_id r' = ob_outbox_id r"
  and same_writeback: "same_command r r' \<Longrightarrow> ob_writeback_id r' = ob_writeback_id r"
  by (simp_all add: same_command_def)

lemma evolves_put_row:
  assumes "get_outbox db oid = Some r" and "same_command r row"
    and "P r (row\<lparr>ob_updated_at := now\<rparr>)" and "reflp P"
  shows "evolves P db (put_outbox now row db)"
proof (rule evolves_put [where r = r])
  have "ob_outbox_id row = oid"
    using same_id [OF assms(2)] outboxes_table.get_key [OF assms(1)] by simp
  with assms(1) show "get_outbox db (ob_outbox_id row) = Some r" by simp
qed (use assms in simp_all)

lemma put_quiet:
  "get_outbox db oid = Some r \<Longrightarrow> quiet r row \<Longrightarrow> evolves quiet db (put_outbox now row db)"
  by (rule evolves_put_row [where r = r]) (simp_all add: quiet_same)

lemma evolves_then_same: "evolves P db db' \<Longrightarrow> same_outboxes db' db'' \<Longrightarrow> evolves P db db''"
  by (simp add: evolves_def same_outboxes_def get_outbox_def)

lemma evolves_same: "reflp P \<Longrightarrow> same_outboxes db db' \<Longrightarrow> evolves P db db'"
  by (rule evolves_then_same [OF evolves_refl])

lemma evolves_then_receipt:
  assumes "evolves P db db'" and "append_receipt env now row src db' = Inr (r, db'')"
  shows "evolves P db db''"
proof -
  have "prefix (db_receipts db') (db_receipts db'')" by (simp add: append_receipt_db(2) [OF assms(2)])
  then show ?thesis using assms(1) append_receipt_db(1) [OF assms(2)]
    by (auto simp: evolves_def get_outbox_def intro: prefix_order.trans)
qed

lemma get_after_receipt:
  "append_receipt env now row src db = Inr (r, db') \<Longrightarrow> get_outbox db' = get_outbox db"
  by (rule ext) (simp add: get_outbox_def append_receipt_db)

lemma evolves_receipts: "evolves P db db' \<Longrightarrow> receipts_of db w \<noteq> [] \<Longrightarrow> receipts_of db' w \<noteq> []"
  by (rule receipts_of_mono) (simp_all add: evolves_def)

text \<open>A receipt, then the new row, then the mirror and the projection.\<close>

lemma projection_evolves:
  assumes "evolves P db0 db"
  shows "returns (evolves P db0) (apply_receipt_execution_projection env now a c r db)"
  unfolding returns_def
  using returnsD [OF projection_same [of db env now a c r]] evolves_then_same [OF assms] by blast

lemma persist_evolves:
  assumes "evolves P db0 db"
  shows "returns (evolves P db0) (persist_execution_job_from_receipt env now a r db)"
  unfolding returns_def
  using returnsD [OF persist_job_same [of db env now a r]] evolves_then_same [OF assms] by blast

lemma mirror_evolves:
  "evolves P db0 db \<Longrightarrow> evolves P db0 (mirror_writeback_status_to_action now a w db)"
  by (erule evolves_then_same) simp

lemma terminal_evolves:
  assumes "evolves P db0 db" and "apply_action_terminal_from_receipt now a r db = Inr db'"
  shows "evolves P db0 db'"
  using evolves_then_same [OF assms(1)] returnsD [OF action_terminal_same assms(2)] by blast

section \<open>Delivery\<close>

text \<open>What the gate has checked when it lets a command through.\<close>

definition deliverable :: "string \<Rightarrow> database \<Rightarrow> string \<Rightarrow> outbox_row \<Rightarrow> bool" where
  "deliverable w db oid row \<longleftrightarrow>
     get_outbox db oid = Some row \<and> ob_superseded_by_disposition_id row = None
     \<and> receipts_of db (ob_writeback_id row) = []
     \<and> (waiting row \<or> delivery OD_LEASED row \<and> ob_locked_by row = Some w)"

fun gate_post :: "string \<Rightarrow> database \<Rightarrow> string \<Rightarrow> gate \<Rightarrow> bool" where
  "gate_post w db oid (Stop db') = evolves quiet db db'"
| "gate_post w db oid (Go row action command adapter) = deliverable w db oid row"

lemma stop_with_post:
  assumes "get_outbox db oid = Some row" and "returns (quiet row) m"
  shows "returns (gate_post w db oid) (stop_with now db m)"
  unfolding stop_with_def
  by (intro returns_rules)
    (simp add: put_quiet [OF assms(1)] returnsD [OF assms(2)])

lemma egress_gate_post:
  assumes "get_outbox db oid = Some row" and "ob_superseded_by_disposition_id row = None"
    and "waiting row \<or> delivery OD_LEASED row \<and> ob_locked_by row = Some w"
  shows "returns (gate_post w db oid) (egress_gate env now row action command db)"
  unfolding egress_gate_def
  by (intro returns_rules stop_with_post [OF assms(1)] superseded_row fence_row)
    (use assms in \<open>simp_all add: deliverable_def\<close>)

lemma delivery_gate_post:
  "returns (gate_post (oe_worker_id env) db oid) (delivery_gate env now oid db)"
proof (cases "get_outbox db oid")
  case None
  then show ?thesis by (simp add: delivery_gate_def returns_def)
next
  case (Some row)
  show ?thesis
    unfolding delivery_gate_def Some option.case
    apply (intro returns_rules stop_with_post [OF Some] superseded_row fence_row lease_expiry_row)
    apply simp_all
    apply (split sum.split, intro conjI allI impI)
     apply (rename_tac e, case_tac e; simp add: returns_Inl stop_with_post [OF Some fence_row])
    apply (intro returns_rules egress_gate_post [OF Some])
     apply (auto simp: waiting_def)
    done
qed

lemma readback_post:
  assumes "readback_confirmation env io row c ad r db = (r', db')"
  shows "(r' = r \<and> db' = db) \<or> (\<exists>src. append_receipt env (di_done_at io) row src db = Inr (r', db'))"
  using assms unfolding readback_confirmation_def
  by (auto split: if_splits sum.splits option.splits prod.splits)

lemma record_submission_post:
  assumes got: "get_outbox db oid = Some row"
  shows "returns (\<lambda>db'. evolves quiet db db' \<and> receipts_of db' (ob_writeback_id row) \<noteq> [])
           (record_submission env io row c ad sub db)"
  unfolding record_submission_def
proof (intro returns_bind returns_pair returns_let)
  fix z parsed db1 x receipt db2 now row1 row2
  assume "append_receipt env (di_done_at io) row (Provided sub) db = Inr z" "z = (parsed, db1)"
  then have app: "append_receipt env (di_done_at io) row (Provided sub) db = Inr (parsed, db1)" by simp
  assume "x = readback_confirmation env io row c ad parsed db1" "x = (receipt, db2)"
  then have rb: "readback_confirmation env io row c ad parsed db1 = (receipt, db2)" by simp
  assume row1: "row1 = row\<lparr>ob_latest_writeback_status := Some (WritebackStatus_value (dr_status receipt))\<rparr>"
    and row2: "(if dr_status receipt = WB_UNKNOWN
      then pause_outbox_after_unknown_submission now ''submission_unknown''
             ''provider submission result unknown; lookup required before retry'' row1
      else Inr (row1\<lparr>ob_delivery_status := OutboxDeliveryStatus_value OD_DELIVERED,
                     ob_delivered_at := Some now\<rparr>)) = Inr row2"
  have "quiet row row1" by (simp add: row1 quiet_def waiting_def)
  then have "returns (quiet row) (pause_outbox_after_unknown_submission now ''submission_unknown''
             ''provider submission result unknown; lookup required before retry'' row1)"
    by (intro pause_unknown_row) (simp_all add: row1)
  with row2 have quiet: "quiet row row2"
    by (auto simp: returns_def row1 split: if_splits intro!: quiet_settled) (simp_all add: waiting_def)
  have "evolves quiet db1 db2" and got2: "get_outbox db2 oid = Some row"
    using readback_post [OF rb] got get_after_receipt [OF app]
    by (auto simp: get_after_receipt intro: append_receipt_evolves)
  then have "evolves quiet db1 (put_outbox now row2 db2)"
    using put_quiet [OF got2 quiet] evolves_trans row_transp(2) by blast
  then have "returns (evolves quiet db1)
     (apply_receipt_execution_projection env now (ob_action_id row) c receipt
       (mirror_writeback_status_to_action now (ob_action_id row) (dr_status receipt)
         (put_outbox now row2 db2)))"
    by (intro projection_evolves mirror_evolves)
  then show "returns (\<lambda>db'. evolves quiet db db' \<and> receipts_of db' (ob_writeback_id row) \<noteq> [])
     (apply_receipt_execution_projection env now (ob_action_id row) c receipt
       (mirror_writeback_status_to_action now (ob_action_id row) (dr_status receipt)
         (put_outbox now row2 db2)))"
    using evolves_trans [OF append_receipt_evolves [OF app]] evolves_receipts receipts_of_append [OF app]
    by (elim returns_mono) auto
qed

lemma deliver_outbox_post:
  assumes "deliver_outbox env now io oid st = (st', r)"
  obtains (kept) "os_log st' = os_log st" "evolves quiet (os_db st) (os_db st')"
  | (sent) row where "os_log st' = os_log st @ [Submitted oid]"
      "deliverable (oe_worker_id env) (os_db st) oid row" "evolves quiet (os_db st) (os_db st')"
      "receipts_of (os_db st') (ob_writeback_id row) \<noteq> []" "r = Inr ()"
  | (lost) row e where "os_log st' = os_log st @ [Submitted oid]"
      "deliverable (oe_worker_id env) (os_db st) oid row" "os_db st' = os_db st" "r = Inl e"
proof (cases "delivery_gate env now oid (os_db st)")
  case (Inl e)
  with assms kept show ?thesis by (auto simp: deliver_outbox_def deliver_outbox_in_tx_def)
next
  case (Inr g)
  note post = returnsD [OF delivery_gate_post Inr]
  show ?thesis
  proof (cases g)
    case (Stop db')
    with Inr assms post kept show ?thesis
      by (auto simp: deliver_outbox_def deliver_outbox_in_tx_def)
  next
    case (Go row action c ad)
    with post have go: "deliverable (oe_worker_id env) (os_db st) oid row" by simp
    then have got: "get_outbox (os_db st) oid = Some row" by (simp add: deliverable_def)
    let ?m = "bind_res (di_submit io) (\<lambda>receipt. record_submission env io row c ad receipt (os_db st))"
    have out: "(st', r) = (case ?m of Inl e \<Rightarrow> (st\<lparr>os_log := os_log st @ [Submitted oid]\<rparr>, Inl e)
        | Inr db \<Rightarrow> (st\<lparr>os_log := os_log st @ [Submitted oid], os_db := db\<rparr>, Inr ()))"
      unfolding assms [symmetric] deliver_outbox_def deliver_outbox_in_tx_def Inr Go
      by (simp add: Let_def)
    show ?thesis
    proof (cases ?m)
      case (Inl e)
      with out show ?thesis by (intro lost [OF _ go]) simp_all
    next
      case (Inr db)
      then obtain sub where "record_submission env io row c ad sub (os_db st) = Inr db" by auto
      with returnsD [OF record_submission_post [OF got]] out Inr show ?thesis
        by (intro sent [OF _ go]) simp_all
    qed
  qed
qed

section \<open>Failed deliveries\<close>

lemma report_evolves:
  assumes "evolves P db0 db"
  shows "returns (evolves P db0)
     (case get_action db a of
        None \<Rightarrow> Inr db
      | Some action \<Rightarrow>
          bind_res (apply_action_terminal_from_receipt now action receipt db) (\<lambda>db1.
          bind_res m (\<lambda>_. persist_execution_job_from_receipt env now action receipt db1)))"
  by (intro returns_rules persist_evolves assms) (rule terminal_evolves [OF assms])

lemma deterministic_evolves:
  assumes "get_outbox db oid = Some r" and "same_command r row"
  shows "returns (evolves quiet db)
           (apply_deterministic_rejection_terminal_state env now row fs code txt db)"
  unfolding apply_deterministic_rejection_terminal_state_def
  apply (intro returns_bind returns_let returns_pair report_evolves)
  apply (simp only:, rule mirror_evolves, erule evolves_then_receipt [rotated])
  apply (rule put_quiet [OF assms(1)], rule quiet_settled)
  apply (simp_all add: waiting_def assms(2))
  done

lemma on_leased_evolves:
  assumes "\<And>row. get_outbox db oid = Some row \<Longrightarrow> returns (evolves quiet db) (f row db)"
  shows "returns (evolves quiet db) (on_leased oid f db)"
  unfolding on_leased_def by (intro returns_rules assms) simp_all

lemma conflict_evolves:
  "returns (evolves quiet db) (mark_delivery_conflict env now oid code txt db)"
  unfolding mark_delivery_conflict_def
  apply (rule on_leased_evolves)
  apply (intro returns_bind returns_let returns_pair report_evolves)
  apply (simp only:, rule mirror_evolves)
  apply (rule evolves_trans [OF append_receipt_evolves put_quiet row_transp(2)])
      apply assumption
     apply simp
    apply (simp add: get_after_receipt)
   apply (rule quiet_settled)
  apply (simp_all add: waiting_def)
  done

lemma paused_unknown_evolves:
  "returns (evolves quiet db) (mark_delivery_paused_unknown env now oid code txt db)"
  unfolding mark_delivery_paused_unknown_def
  apply (rule on_leased_evolves)
  apply (intro returns_bind returns_let returns_pair returns_Inr mirror_evolves)
  apply (simp only:, erule evolves_then_receipt [rotated])
  apply (erule put_quiet)
  apply (erule returnsD [OF pause_unknown_row, rotated 2])
  apply (simp_all add: quiet_def waiting_def)
  done

lemma mark_dead_letter_evolves:
  "returns (evolves quiet db) (mark_delivery_dead_letter now oid code detail db)"
  unfolding mark_delivery_dead_letter_def
  by (intro returns_rules) (auto intro: put_quiet dest: returnsD [OF dead_letter_row])

lemma handle_evolves: "returns (evolves quiet db) (handle_delivery_error env now render oid e db)"
  unfolding handle_delivery_error_def
  by (auto split: prod.splits DispositionDeliveryErrorKind.splits
      intro: mark_dead_letter_evolves conflict_evolves paused_unknown_evolves
        on_leased_evolves deterministic_evolves [OF _ same_refl]
      simp: mark_delivery_deterministic_rejection_def)

section \<open>Claims\<close>

lemma get_of_row:
  assumes "distinct_outboxes db" and "row \<in> set (db_outboxes db)"
  shows "get_outbox db (ob_outbox_id row) = Some row"
proof -
  have "distinct (map ob_outbox_id rows) \<Longrightarrow> row \<in> set rows
          \<Longrightarrow> find (\<lambda>r. ob_outbox_id r = ob_outbox_id row) rows = Some row" for rows
    by (induction rows) (auto simp: rev_image_eqI)
  with assms show ?thesis by (simp add: get_outbox_def)
qed

definition rows_of :: "database \<Rightarrow> outbox_row list \<Rightarrow> bool" where
  "rows_of db rows \<longleftrightarrow>
     distinct (map ob_outbox_id rows) \<and> (\<forall>row\<in>set rows. get_outbox db (ob_outbox_id row) = Some row)"

lemma batch_rows_of:
  assumes "distinct_outboxes db"
  shows "rows_of db (take n (sort_key k (filter P (db_outboxes db))))"
proof -
  let ?rows = "sort_key k (filter P (db_outboxes db))"
  have "mset (map ob_outbox_id ?rows) = mset (map ob_outbox_id (filter P (db_outboxes db)))"
    by simp
  then have "distinct (map ob_outbox_id ?rows) = distinct (map ob_outbox_id (filter P (db_outboxes db)))"
    by (rule mset_eq_imp_distinct_iff)
  then have "distinct (map ob_outbox_id ?rows)" using assms by (simp add: distinct_map_filter)
  then have "distinct (map ob_outbox_id (take n ?rows))"
    by (simp add: take_map [symmetric] distinct_take)
  moreover have "set (take n ?rows) \<subseteq> set (db_outboxes db)"
    using set_take_subset [of n ?rows] by auto
  ultimately show ?thesis unfolding rows_of_def using get_of_row [OF assms] by blast
qed

lemma rows_of_Cons:
  "rows_of db (row # rows) \<longleftrightarrow>
     ob_outbox_id row \<notin> ob_outbox_id ` set rows \<and> get_outbox db (ob_outbox_id row) = Some row
     \<and> rows_of db rows"
  by (auto simp: rows_of_def)

lemma rows_of_after:
  assumes "rows_of db rows" and "\<And>oid. oid \<noteq> i \<Longrightarrow> get_outbox db' oid = get_outbox db oid"
    and "i \<notin> ob_outbox_id ` set rows"
  shows "rows_of db' rows"
  using assms unfolding rows_of_def by (metis imageI)

lemma get_put_outbox_other: "oid \<noteq> ob_outbox_id row \<Longrightarrow> get_outbox (put_outbox now row db) oid = get_outbox db oid"
  by (simp add: put_outbox_def outboxes_table.get_put_other)

lemma get_mirror [simp]: "get_outbox (mirror_writeback_status_to_action now a w db) = get_outbox db"
  by (rule ext) (simp add: get_outbox_def)

definition claim_post :: "string \<Rightarrow> database \<Rightarrow> outbox_row \<Rightarrow> bool \<times> database \<Rightarrow> bool" where
  "claim_post w db row = (\<lambda>(claimed, db').
     evolves (claims_for w) db db' \<and> (claimed \<longrightarrow> waiting row)
     \<and> (\<forall>oid. oid \<noteq> ob_outbox_id row \<longrightarrow> get_outbox db' oid = get_outbox db oid))"

lemma claim_outbox_post:
  assumes got: "get_outbox db (ob_outbox_id row) = Some row"
  shows "returns (claim_post (oe_worker_id env) db row) (claim_outbox env now row db)"
  unfolding claim_outbox_def
proof (intro returns_rules, goal_cases)
  case (1 current)
  then show ?case unfolding claim_post_def
    by (auto simp: get_put_outbox_other intro!: evolves_mono [OF put_quiet [OF got]] quiet_claims)
      (simp add: quiet_def waiting_def)
next
  case (2 current row')
  then have "quiet row row'" using returnsD [OF lease_expiry_row] by blast
  then show ?case unfolding claim_post_def
    by (auto simp: get_put_outbox_other dest: same_id [OF quiet_same]
        intro!: mirror_evolves evolves_mono [OF put_quiet [OF got]] quiet_claims)
next
  case (3 current u)
  then have "OD_LEASED \<in> OUTBOX_DELIVERY_TRANSITIONS current"
    using outbox_machine.accepts_edge [of _ current OD_LEASED] by (auto simp: edge_allowed_def)
  with 3 have "waiting row" unfolding waiting_def by (cases current) auto
  then show ?case unfolding claim_post_def
    by (auto simp: get_put_outbox_other claims_for_def waiting_def intro!: evolves_put_row [OF got])
qed

lemma claim_outboxes_post:
  "rows_of db rows \<Longrightarrow>
   returns (\<lambda>(ids, db'). evolves (claims_for (oe_worker_id env)) db db' \<and> distinct ids
       \<and> (\<forall>oid\<in>set ids. \<exists>row\<in>set rows. ob_outbox_id row = oid \<and> waiting row))
     (claim_outboxes env now rows db)"
proof (induction rows arbitrary: db)
  case Nil
  then show ?case by (simp add: returns_def)
next
  case (Cons row rows)
  then have got: "get_outbox db (ob_outbox_id row) = Some row"
    and fresh: "ob_outbox_id row \<notin> ob_outbox_id ` set rows" and rest: "rows_of db rows"
    by (simp_all add: rows_of_Cons)
  let ?P = "claims_for (oe_worker_id env)"
  have step: "evolves ?P db db2 \<and> distinct ids' \<and>
      (\<forall>oid\<in>set ids'. \<exists>r\<in>set (row # rows). ob_outbox_id r = oid \<and> waiting r)"
    if c: "claim_outbox env now row db = Inr (claimed, db1)"
      and cs: "claim_outboxes env now rows db1 = Inr (ids, db2)"
      and ids': "ids' = (if claimed then ob_outbox_id row # ids else ids)" for claimed db1 ids db2 ids'
  proof -
    have post: "evolves ?P db db1" "claimed \<Longrightarrow> waiting row"
      "\<And>oid. oid \<noteq> ob_outbox_id row \<Longrightarrow> get_outbox db1 oid = get_outbox db oid"
      using returnsD [OF claim_outbox_post [OF got] c] by (auto simp: claim_post_def)
    have "rows_of db1 rows" by (rule rows_of_after [OF rest post(3) fresh])
    from returnsD [OF Cons.IH [OF this] cs]
    have rec: "evolves ?P db1 db2" "distinct ids"
      "\<forall>oid\<in>set ids. \<exists>r\<in>set rows. ob_outbox_id r = oid \<and> waiting r" by auto
    from rec(3) fresh have "ob_outbox_id row \<notin> set ids" by (metis imageI)
    with rec post(2) evolves_trans [OF post(1) rec(1)] show ?thesis by (auto simp: ids')
  qed
  show ?case unfolding claim_outboxes.simps
    by (intro returns_bind returns_pair returns_Inr, simp only: prod.case, rule step) auto
qed

lemma claim_batch_post:
  assumes "distinct_outboxes db" and "outbox_claim_batch env now locked limit db = Inr (ids, db')"
  shows "evolves (claims_for (oe_worker_id env)) db db' \<and> distinct ids
     \<and> (\<forall>oid\<in>set ids. \<exists>row. get_outbox db oid = Some row \<and> waiting row)"
proof -
  let ?rows = "take limit (sort_key ob_created_at
      (filter (\<lambda>r. claimable_outbox now r \<and> \<not> locked (ob_outbox_id r)) (db_outboxes db)))"
  have rows: "rows_of db ?rows" by (rule batch_rows_of [OF assms(1)])
  from returnsD [OF claim_outboxes_post [OF rows] assms(2) [unfolded outbox_claim_batch_def]]
  show ?thesis using rows unfolding rows_of_def by (auto 0 4)
qed

lemma claim_paused_outbox_post:
  assumes "get_outbox db (ob_outbox_id row) = Some row" and "delivery OD_PAUSED row"
    and "claim_paused_outbox env now token render row db = (c, db')"
  shows "evolves quiet db db' \<and> (\<forall>oid. oid \<noteq> ob_outbox_id row \<longrightarrow> get_outbox db' oid = get_outbox db oid)"
  using assms(3) unfolding claim_paused_outbox_def
  by (auto simp: get_put_outbox_other waiting_def assms(2) split: sum.splits
      intro!: mirror_evolves put_quiet [OF assms(1)] quiet_settled)

lemma claim_paused_rows_post:
  assumes "rows_of db rows" and "\<forall>row\<in>set rows. delivery OD_PAUSED row"
    and "claim_paused_rows env now token render rows db = (cs, db')"
  shows "evolves quiet db db'"
  using assms
proof (induction rows arbitrary: db cs db')
  case Nil
  then show ?case by simp
next
  case (Cons row rows)
  obtain c db1 where c: "claim_paused_outbox env now token render row db = (c, db1)"
    by (cases "claim_paused_outbox env now token render row db")
  obtain cs1 db2 where cs: "claim_paused_rows env now token render rows db1 = (cs1, db2)"
    by (cases "claim_paused_rows env now token render rows db1")
  from Cons.prems(3) c cs have db': "db' = db2" by simp
  from Cons.prems(1) have row: "get_outbox db (ob_outbox_id row) = Some row"
    and fresh: "ob_outbox_id row \<notin> ob_outbox_id ` set rows" and rest: "rows_of db rows"
    by (simp_all add: rows_of_Cons)
  from claim_paused_outbox_post [OF row _ c] Cons.prems(2)
  have step: "evolves quiet db db1"
    and frame: "\<And>oid. oid \<noteq> ob_outbox_id row \<Longrightarrow> get_outbox db1 oid = get_outbox db oid" by auto
  have "evolves quiet db1 db2"
    by (rule Cons.IH [OF rows_of_after [OF rest frame fresh] _ cs]) (use Cons.prems(2) in auto)
  with step show ?case unfolding db' by (rule evolves_trans) simp
qed

lemma claim_paused_evolves:
  assumes "distinct_outboxes db"
    and "claim_paused_outboxes env now token render locked limit db = (cs, db')"
  shows "evolves quiet db db'"
proof (rule claim_paused_rows_post [OF batch_rows_of [OF assms(1)] _ assms(2) [unfolded claim_paused_outboxes_def]])
  show "\<forall>row\<in>set (take limit (sort_key ob_updated_at
      (filter (\<lambda>r. paused_claimable now r \<and> \<not> locked (ob_outbox_id r)) (db_outboxes db)))).
          delivery OD_PAUSED row"
    by (auto dest!: in_set_takeD simp: paused_claimable_def)
qed

section \<open>Lookups and the operator\<close>

lemma keep_paused_evolves:
  assumes "get_outbox db oid = Some r" and "same_command r row" and "delivery OD_PAUSED row"
    and "keep_paused now row code detail db = (x, db')"
  shows "evolves quiet db db'"
  using assms(4) unfolding keep_paused_def
  by (auto intro!: mirror_evolves put_quiet [OF assms(1)] quiet_settled simp: assms(2,3) waiting_def)

text \<open>The outcomes of a lookup: only \<open>NOT_FOUND\<close>, answered with \<open>PENDING\<close>, re-enqueues.\<close>

definition lookup_post ::
  "database \<Rightarrow> string \<Rightarrow> PausedLookupOutcome \<Rightarrow> (bool \<times> WritebackStatus option) \<times> database \<Rightarrow> bool" where
  "lookup_post db oid outcome = (\<lambda>((applied, status), db').
     evolves quiet db db'
     \<or> outcome = NOT_FOUND \<and> status = Some WB_PENDING \<and> evolves (clears oid) db db')"

lemma apply_not_found_post:
  assumes "get_outbox db oid = Some r" and "same_command r row" and "delivery OD_PAUSED row"
  shows "returns (lookup_post db oid NOT_FOUND) (apply_not_found env now claim row db)"
  unfolding apply_not_found_def
proof (intro returns_rules, goal_cases)
  case (1 db')
  then show ?case using returnsD [OF deterministic_evolves [OF assms(1,2)]] by (simp add: lookup_post_def)
next
  case 2
  show ?case
    using keep_paused_evolves [OF assms]
    by (cases "keep_paused now row ''lookup_not_found''
          ''lookup found no submission and adapter does not allow safe retry'' db")
      (auto simp: lookup_post_def)
next
  case (3 current u v)
  have "ob_outbox_id r = oid" by (rule outboxes_table.get_key [OF assms(1)])
  then show ?case
    by (auto simp: lookup_post_def clears_def assms(2)
        intro!: mirror_evolves evolves_put_row [OF assms(1)])
qed

lemma apply_found_evolves:
  assumes "get_outbox db oid = Some r" and "same_command r row" and "delivery OD_PAUSED row"
  shows "returns (\<lambda>(x, db'). evolves quiet db db') (apply_found env now claim receipt row db)"
  unfolding apply_found_def
proof (intro returns_bind returns_if returns_let returns_pair returns_Inr, goal_cases)
  case 1
  show ?case
    using keep_paused_evolves [OF assms]
    by (cases "keep_paused now row ''lookup_unknown'' ''lookup inconclusive; outbox remains paused'' db") auto
next
  case (2 current u z parsed db1 v db2 db3)
  then have app: "append_receipt env now row (Provided receipt) db = Inr (parsed, db1)" by simp
  have "evolves quiet db db2" unfolding 2
    by (rule evolves_trans [OF append_receipt_evolves [OF app] put_quiet [where r = r and oid = oid, OF _ quiet_settled]])
      (simp_all add: get_after_receipt [OF app] assms waiting_def)
  then show ?case
    using returnsD [OF projection_evolves [OF mirror_evolves] 2(8)] by simp
qed

lemma apply_paused_post:
  "returns (lookup_post db (plc_outbox_id claim) outcome) (apply_paused_lookup_outcome env now claim outcome db)"
proof (cases "get_outbox db (plc_outbox_id claim)")
  case None
  then show ?thesis by (simp add: apply_paused_lookup_outcome_def returns_def lookup_post_def)
next
  case (Some outbox)
  have found: "returns (lookup_post db (plc_outbox_id claim) outcome) (apply_found env now claim receipt row db)"
    if "same_command outbox row" "delivery OD_PAUSED row" for receipt row
    using apply_found_evolves [OF Some that]
    by (rule returns_mono) (auto simp: lookup_post_def)
  show ?thesis unfolding apply_paused_lookup_outcome_def Some option.case
  proof (intro returns_bind returns_if returns_let returns_Inr, goal_cases)
    case 1
    show ?case by (simp add: lookup_post_def)
  next
    case (2 status row)
    then have row: "same_command outbox row" "delivery OD_PAUSED row"
      by (simp_all add: claim_still_holds_def)
    show ?case
    proof (cases outcome)
      case (FOUND receipt)
      then show ?thesis using found [OF row] by simp
    next
      case NOT_FOUND
      then show ?thesis using apply_not_found_post [OF Some row] by simp
    next
      case (DEGRADED code detail)
      then show ?thesis using keep_paused_evolves [OF Some row]
        by (auto simp: returns_def lookup_post_def)
    qed
  qed
qed

lemma release_claim_evolves:
  "returns (evolves quiet db) (release_paused_lookup_claim now claim code detail db)"
  unfolding release_paused_lookup_claim_def
  by (intro returns_rules) (auto intro!: put_quiet quiet_settled simp: waiting_def)

lemma apply_outcome_post:
  assumes "apply_outcome env now render claim outcome st = (st', r)"
  shows "os_log st' = os_log st \<and> evolves quiet (os_db st) (os_db st')
       \<or> os_log st' = os_log st @ [Cleared (plc_outbox_id claim)]
         \<and> evolves (clears (plc_outbox_id claim)) (os_db st) (os_db st')"
proof (cases "apply_paused_lookup_outcome env now claim outcome (os_db st)")
  case (Inl e)
  with assms show ?thesis
    by (auto simp: apply_outcome_def split: sum.splits dest: returnsD [OF release_claim_evolves])
next
  case (Inr z)
  obtain applied status db where z: "z = ((applied, status), db)" by (metis surj_pair)
  from returnsD [OF apply_paused_post Inr]
  have "evolves quiet (os_db st) db \<or> outcome = NOT_FOUND \<and> status = Some WB_PENDING
      \<and> evolves (clears (plc_outbox_id claim)) (os_db st) db"
    by (simp add: z lookup_post_def)
  with assms Inr z show ?thesis
    by (auto simp: apply_outcome_def dest: evolves_mono [OF _ quiet_clears])
qed

lemma get_put_outbox_same:
  assumes "get_outbox db oid = Some r" and "same_command r row"
  shows "get_outbox (put_outbox now row db) oid = Some (row\<lparr>ob_updated_at := now\<rparr>)"
proof -
  have oid: "ob_outbox_id (row\<lparr>ob_updated_at := now\<rparr>) = oid"
    using same_id [OF assms(2)] outboxes_table.get_key [OF assms(1)] by simp
  show ?thesis unfolding put_outbox_def
    using outboxes_table.get_put_same [of db "row\<lparr>ob_updated_at := now\<rparr>"] assms(1)
    by (simp only: oid) simp
qed

lemma get_audit [simp]: "get_outbox (add_audit e f t op reason now db) = get_outbox db"
  by (rule ext) (simp add: get_outbox_def)

lemma audit_evolves: "evolves P db0 db \<Longrightarrow> evolves P db0 (add_audit e f t who why now db)"
  and retry_audit_evolves:
    "evolves P db0 db \<Longrightarrow> evolves P db0 (record_operator_retry_audit now r op oi re ar fd rs db)"
  by (erule evolves_then_same, simp add: same_outboxes_def)+

lemma pause_for_retry_post:
  assumes "get_outbox db oid = Some r" and "\<not> waiting r" and "\<not> delivery OD_LEASED r"
  shows "returns (\<lambda>(row, db'). evolves quiet db db' \<and> get_outbox db' oid = Some row
             \<and> ob_outbox_id row = oid \<and> \<not> waiting row \<and> \<not> delivery OD_LEASED row)
           (pause_for_retry now op reason status r db)"
  unfolding pause_for_retry_def
proof (intro returns_rules, goal_cases)
  case (1 u row)
  have row: "same_command r row" "\<not> waiting row" "\<not> delivery OD_LEASED row"
    "row\<lparr>ob_updated_at := now\<rparr> = row"
    by (simp_all add: 1 waiting_def)
  then show ?case
    using put_quiet [OF assms(1) quiet_settled] get_put_outbox_same [OF assms(1) row(1)]
      same_id [OF row(1)] outboxes_table.get_key [OF assms(1)]
    by (auto intro!: audit_evolves)
next
  case 2
  then show ?case using assms outboxes_table.get_key [OF assms(1)] by simp
qed

definition retry_post :: "database \<Rightarrow> string \<Rightarrow> OperatorRetryDecision option \<Rightarrow> database \<Rightarrow> bool" where
  "retry_post db oid decision db' \<longleftrightarrow>
     evolves quiet db db' \<or> (\<exists>b. decision = Some (RE_ENQUEUE b)) \<and> evolves (clears oid) db db'"

lemma retry_decision_post:
  assumes "get_outbox db oid = Some row" and "ob_outbox_id row = oid"
    and "\<not> waiting row" and "\<not> delivery OD_LEASED row"
  shows "returns (\<lambda>(x, db'). retry_post db oid (Some decision) db')
           (apply_retry_decision env now op oi reason latest row decision db)"
proof (cases decision)
  case (RECONCILE_TERMINAL receipt)
  have "evolves quiet db (put_outbox now row' db1)"
    if "append_receipt env now row (Provided receipt) db = Inr (parsed, db1)"
      and "same_command row row'" "delivery OD_DELIVERED row'" for parsed db1 row'
    by (rule evolves_trans [OF append_receipt_evolves [OF that(1)]
          put_quiet [where r = row and oid = oid, OF _ quiet_settled]])
      (simp_all add: get_after_receipt [OF that(1)] assms that(2,3) waiting_def)
  then show ?thesis
    unfolding apply_retry_decision_def RECONCILE_TERMINAL OperatorRetryDecision.case
    by (intro returns_rules)
      (auto simp: retry_post_def intro!: retry_audit_evolves mirror_evolves)
next
  case (BLOCKED why)
  then show ?thesis
    by (simp add: apply_retry_decision_def returns_def retry_post_def retry_audit_evolves)
next
  case (RE_ENQUEUE b)
  then show ?thesis
    unfolding apply_retry_decision_def RE_ENQUEUE OperatorRetryDecision.case
    by (intro returns_rules)
      (auto simp: retry_post_def clears_def assms(2) waiting_def
        intro!: retry_audit_evolves mirror_evolves evolves_put_row [OF assms(1)])
qed

lemma find_writeback_get:
  assumes "distinct_outboxes db" and "find_writeback db w = Some row"
  shows "get_outbox db (ob_outbox_id row) = Some row" and "ob_writeback_id row = w"
  using get_of_row [OF assms(1)] scalar_SomeD [OF assms(2) [unfolded find_writeback_def]] by simp_all

lemma retry_in_tx_post:
  assumes "distinct_outboxes db" and "find_writeback db w = Some outbox"
  shows "returns (\<lambda>((answer, decision), db'). retry_post db (ob_outbox_id outbox) decision db')
           (retry_in_tx env now io w op oi reason db)"
proof -
  note got = find_writeback_get(1) [OF assms]
  have tail: "returns (\<lambda>((answer, decision), db'). retry_post db (ob_outbox_id outbox) decision db')
     (bind_res (pause_for_retry now op reason status outbox db) (\<lambda>(row, db1).
      bind_res (evaluate_operator_retry_lookup env io row db1) (\<lambda>decision.
      bind_res (apply_retry_decision env now op oi reason latest row decision db1) (\<lambda>(answer, db2).
      Inr ((answer, Some decision), db2)))))"
    if "\<not> waiting outbox" "\<not> delivery OD_LEASED outbox" for status latest
  proof (intro returns_rules, goal_cases)
    case (1 x row db1 decision y answer db2)
    from returnsD [OF pause_for_retry_post [OF got that]] 1(1,2)
    have p: "evolves quiet db db1" "get_outbox db1 (ob_outbox_id outbox) = Some row"
      "ob_outbox_id row = ob_outbox_id outbox" "\<not> waiting row" "\<not> delivery OD_LEASED row" by auto
    from returnsD [OF retry_decision_post [OF p(2-5)]] 1(4,5)
    have "retry_post db1 (ob_outbox_id outbox) (Some decision) db2" by auto
    with p(1) show ?case
      by (auto simp: retry_post_def intro: evolves_trans evolves_mono [OF p(1) quiet_clears]
          dest: evolves_trans [OF evolves_mono [OF p(1) quiet_clears]])
  qed
  show ?thesis
    unfolding retry_in_tx_def assms(2) of_opt_def option.case bind_res.simps conflict_def
    by (intro returns_bind returns_if returns_Inl returns_Inr returns_option tail)
      (auto simp: retry_post_def waiting_def retry_audit_evolves)
qed

lemma retry_writeback_post:
  assumes "distinct_outboxes (os_db st)"
    and "retry_writeback env now io w op oi reason st = (st', r)"
  shows "os_log st' = os_log st \<and> evolves quiet (os_db st) (os_db st')
       \<or> (\<exists>oid. os_log st' = os_log st @ [Cleared oid] \<and> evolves (clears oid) (os_db st) (os_db st'))"
proof (cases "find_writeback (os_db st) w")
  case None
  then have "retry_in_tx env now io w op oi reason (os_db st) = Inl (EventNotFoundError w)"
    by (simp add: retry_in_tx_def of_opt_def)
  with assms(2) show ?thesis by (auto simp: retry_writeback_def split: if_splits)
next
  case (Some outbox)
  show ?thesis
  proof (cases "retry_in_tx env now io w op oi reason (os_db st)")
    case (Inl e)
    with assms(2) show ?thesis by (auto simp: retry_writeback_def split: if_splits)
  next
    case (Inr z)
    obtain answer decision db where z: "z = ((answer, decision), db)" by (metis surj_pair)
    from returnsD [OF retry_in_tx_post [OF assms(1) Some] Inr]
    have post: "retry_post (os_db st) (ob_outbox_id outbox) decision db" by (simp add: z)
    have st': "st' = st \<or> os_db st' = db \<and> os_log st' = os_log st @
        (case decision of Some (RE_ENQUEUE _) \<Rightarrow> [Cleared (ob_outbox_id outbox)] | _ \<Rightarrow> [])"
      using assms(2) unfolding retry_writeback_def Inr z Some
      by (auto simp only: sum.case prod.case option.case prod.inject split: if_splits) simp_all
    show ?thesis
    proof (cases "\<exists>b. decision = Some (RE_ENQUEUE b)")
      case True
      then have "evolves (clears (ob_outbox_id outbox)) (os_db st) db"
        using post evolves_mono [OF _ quiet_clears] by (auto simp: retry_post_def)
      with True st' show ?thesis by auto
    next
      case False
      then have "evolves quiet (os_db st) db" using post by (simp add: retry_post_def)
      with False st' show ?thesis by (auto split: option.splits OperatorRetryDecision.splits)
    qed
  qed
qed

lemma update_from_lookup_evolves:
  assumes "distinct_outboxes db"
  shows "returns (evolves quiet db) (update_writeback_status_from_lookup now w status db)"
proof (cases "find_writeback db w")
  case None
  then show ?thesis by (simp add: update_writeback_status_from_lookup_def returns_def)
next
  case (Some outbox)
  note got = find_writeback_get(1) [OF assms Some]
  let ?row = "outbox\<lparr>ob_latest_writeback_status := Some (WritebackStatus_value status)\<rparr>"
  have "quiet outbox ?row" by (simp add: quiet_def waiting_def)
  moreover have "quiet outbox (delivered_by_lookup now ?row)"
    by (rule quiet_settled) (simp_all add: delivered_by_lookup_def waiting_def)
  ultimately show ?thesis
    unfolding update_writeback_status_from_lookup_def Some option.case
    by (intro returns_rules) (auto intro!: mirror_evolves put_quiet [OF got] split: if_splits)
qed

lemma resolve_evolves:
  assumes "distinct_outboxes db"
  shows "returns (\<lambda>(status, db'). evolves quiet db db')
           (resolve_writeback env now manual w resolution comment ref db)"
proof (cases "find_writeback db w")
  case None
  show ?thesis unfolding resolve_writeback_def None of_opt_def option.case bind_res.simps
    by (intro returns_rules)
next
  case (Some outbox)
  note got = find_writeback_get(1) [OF assms Some]
  have put: "evolves quiet db (put_outbox now row' db1)"
    if "append_receipt env now outbox src db = Inr (parsed, db1)"
      and "same_command outbox row'" "delivery OD_DELIVERED row'" for src parsed db1 row'
    by (rule evolves_trans [OF append_receipt_evolves [OF that(1)]
          put_quiet [where r = outbox and oid = "ob_outbox_id outbox", OF _ quiet_settled]])
      (simp_all add: get_after_receipt [OF that(1)] got that(2,3) waiting_def)
  show ?thesis
    unfolding resolve_writeback_def Some of_opt_def option.case bind_res.simps
    apply (intro returns_rules)
     apply (simp only: prod.case evolves_refl row_reflp)
    apply (simp only: prod.case, rule mirror_evolves, rule put)
      apply assumption
     apply simp_all
    done
qed

lemma insert_evolves:
  assumes "insert_outbox row db = Inr db'"
  shows "evolves quiet db db'" and "get_outbox db' (ob_outbox_id row) = Some row"
    and "get_outbox db (ob_outbox_id row) = None"
proof -
  from assms have fresh: "\<forall>r\<in>set (db_outboxes db). ob_outbox_id r \<noteq> ob_outbox_id row"
    and db': "db' = db\<lparr>db_outboxes := db_outboxes db @ [row]\<rparr>"
    by (auto simp: insert_outbox_def outbox_violates_unique_def list_ex_iff)
  from fresh show none: "get_outbox db (ob_outbox_id row) = None"
    by (auto simp: outboxes_table.get_None_iff)
  then show "get_outbox db' (ob_outbox_id row) = Some row"
    by (simp add: db' get_outbox_def find_append)
  show "evolves quiet db db'" unfolding evolves_def
    using fresh by (auto simp: db' get_outbox_def find_append)
qed

text \<open>The head that a new command replaces is marked, the new row becomes the head.\<close>

lemma finalize_marks: "returns (\<lambda>row'. ob_superseded_by_disposition_id row' = Some d) (finalize_superseded_head now d row)"
  unfolding finalize_superseded_head_def by (intro returns_rules) (simp_all add: unlocked_def)

definition head_of :: "outbox_row \<Rightarrow> database \<Rightarrow> outbox_row option" where
  "head_of row db = active_head db (ob_event_id row) (ob_closure_cycle row) (ob_logical_slot row)"

lemma insert_head:
  assumes "insert_outbox row db = Inr db'"
    and "ob_intent_kind row = DispositionIntentKind_value IK_EVENT_STATUS_UPDATE"
    and "ob_superseded_by_disposition_id row = None"
  shows "head_of row db' = Some row"
proof -
  from assms have "find (\<lambda>r. ob_event_id r = ob_event_id row \<and> ob_closure_cycle r = ob_closure_cycle row
       \<and> ob_intent_kind r = DispositionIntentKind_value IK_EVENT_STATUS_UPDATE
       \<and> ob_logical_slot r = ob_logical_slot row \<and> ob_superseded_by_disposition_id r = None)
       (db_outboxes db) = None"
    by (auto simp: insert_outbox_def outbox_violates_unique_def list_ex_iff find_None_iff)
  moreover have "db_outboxes db' = db_outboxes db @ [row]"
    using assms(1) by (auto simp: insert_outbox_def)
  ultimately show ?thesis
    using assms(2,3) by (simp add: head_of_def active_head_def scalar_def find_append)
qed

lemma head_of_frame: "db_outboxes db' = db_outboxes db \<Longrightarrow> head_of row db' = head_of row db"
  by (simp add: head_of_def active_head_def)

definition marked :: "database \<Rightarrow> string \<Rightarrow> bool" where
  "marked db oid \<longleftrightarrow> (\<exists>r. get_outbox db oid = Some r \<and> ob_superseded_by_disposition_id r \<noteq> None)"

definition added_post :: "outbox_row option \<Rightarrow> outbox_row \<Rightarrow> database \<Rightarrow> outbox_row \<times> database \<Rightarrow> bool" where
  "added_post prior row db = (\<lambda>(row', db').
     row' = row \<and> evolves quiet db db' \<and> get_outbox db (ob_outbox_id row) = None
     \<and> get_outbox db' (ob_outbox_id row) = Some row
     \<and> (\<forall>head. prior = Some head \<longrightarrow> marked db' (ob_outbox_id head))
     \<and> (ob_intent_kind row = DispositionIntentKind_value IK_EVENT_STATUS_UPDATE
        \<and> ob_superseded_by_disposition_id row = None \<longrightarrow> head_of row db' = Some row))"

lemma evolves_marked: "evolves quiet db db' \<Longrightarrow> marked db oid \<Longrightarrow> marked db' oid"
  unfolding evolves_def marked_def quiet_def same_command_def by metis

lemma evolves_None: "evolves P db db' \<Longrightarrow> get_outbox db' oid = None \<Longrightarrow> get_outbox db oid = None"
  unfolding evolves_def by (metis not_None_eq)

lemma close_prior_post:
  assumes "\<And>head. prior = Some head \<Longrightarrow> get_outbox db (ob_outbox_id head) = Some head"
  shows "returns (\<lambda>db'. evolves quiet db db' \<and> (\<forall>head. prior = Some head \<longrightarrow> marked db' (ob_outbox_id head)))
     (case prior of None \<Rightarrow> Inr db
      | Some head \<Rightarrow> bind_res (finalize_superseded_head now d head) (\<lambda>head'.
          Inr (put_outbox now head' db)))"
proof (intro returns_rules, goal_cases)
  case (2 head head')
  have q: "quiet head head'" by (rule returnsD [OF finalize_row 2(2)])
  note got = assms [OF 2(1)]
  show ?case
    using put_quiet [OF got q] get_put_outbox_same [OF got quiet_same [OF q]] returnsD [OF finalize_marks 2(2)] 2(1)
    by (auto simp: marked_def)
qed simp

lemma add_outbox_post:
  assumes "\<And>head. prior = Some head \<Longrightarrow> get_outbox db (ob_outbox_id head) = Some head"
  shows "returns (added_post prior row db) (add_outbox env now prior row db)"
proof -
  have "added_post prior row db (row, db3)"
    if close: "(case prior of None \<Rightarrow> Inr db
          | Some head \<Rightarrow> bind_res (finalize_superseded_head now (ob_disposition_id row) head) (\<lambda>head'.
              Inr (put_outbox now head' db))) = Inr db1"
      and ins: "insert_outbox row db1 = Inr db2"
      and jour: "append_list_context_journal_in_session e f v db2 = Inr (n, db3)" for db1 db2 db3 e f v n
  proof -
    note frame = journal_frame [OF jour]
    have same: "same_outboxes db2 db3" by (simp add: same_outboxes_def frame)
    have get3: "get_outbox db3 = get_outbox db2" by (rule ext) (simp add: get_outbox_def frame)
    have ev1: "evolves quiet db db1" and mark: "\<forall>head. prior = Some head \<longrightarrow> marked db1 (ob_outbox_id head)"
      using returnsD [OF close_prior_post [OF assms] close] by auto
    have ev2: "evolves quiet db1 db3" by (rule evolves_then_same [OF insert_evolves(1) [OF ins] same])
    show ?thesis unfolding added_post_def
      using evolves_trans [OF ev1 ev2] evolves_marked [OF ev2] mark evolves_None [OF ev1]
        insert_evolves(2,3) [OF ins] insert_head [OF ins] head_of_frame [OF frame(1)]
      by (auto simp: get3)
  qed
  then show ?thesis unfolding add_outbox_def by (intro returns_rules) auto
qed

lemma active_head_frame:
  "db_outboxes db' = db_outboxes db \<Longrightarrow> active_head db' e cy sl = active_head db e cy sl"
  by (simp add: active_head_def)

text \<open>Enqueueing returns the head it found, or adds a row for the slot.\<close>

lemma enqueue_cases:
  assumes "enqueue_command env now oid wid c event src slot gx db = Inr (row, db')"
  obtains db1 prior where "same_outboxes db db1"
    "prior = (if dc_intent_kind c = IK_EVENT_STATUS_UPDATE
              then active_head db event (dc_closure_cycle c) slot else None)"
    "prior = Some row \<and> db' = db1
     \<or> (\<exists>new. add_outbox env now prior new db1 = Inr (row, db')
          \<and> ob_outbox_id new = oid
          \<and> ob_event_id new = event \<and> ob_closure_cycle new = dc_closure_cycle c
          \<and> ob_logical_slot new = slot \<and> ob_superseded_by_disposition_id new = None
          \<and> ob_intent_kind new = DispositionIntentKind_value (dc_intent_kind c))"
proof -
  let ?db1 = "\<lambda>source. put_source (source\<lparr>so_next_outbox_sequence := so_next_outbox_sequence source + 1\<rparr>) db"
  have "\<exists>source.
     (case if dc_intent_kind c = IK_EVENT_STATUS_UPDATE
           then active_head (?db1 source) event (dc_closure_cycle c) slot else None of
        None \<Rightarrow> add_outbox env now None
                  (new_outbox env now oid wid c event src (so_next_outbox_sequence source + 1) slot) (?db1 source)
      | Some head \<Rightarrow>
          if ob_idempotency_key head = dc_idempotency_key c
             \<and> ob_command_payload_sha256 head = oe_payload_sha256 env (oe_dump_command env c)
          then Inr (head, ?db1 source)
          else add_outbox env now (Some head)
                 (new_outbox env now oid wid
                    (c\<lparr>dc_supersedes_disposition_id := Some (ob_disposition_id head)\<rparr>)
                    event src (so_next_outbox_sequence source + 1) slot) (?db1 source)) = Inr (row, db')"
    using assms unfolding enqueue_command_def Let_def bind_res_Inr_iff
    by (elim exE conjE) (rule exI, assumption)
  then obtain source where rest:
     "(case if dc_intent_kind c = IK_EVENT_STATUS_UPDATE
           then active_head (?db1 source) event (dc_closure_cycle c) slot else None of
        None \<Rightarrow> add_outbox env now None
                  (new_outbox env now oid wid c event src (so_next_outbox_sequence source + 1) slot) (?db1 source)
      | Some head \<Rightarrow>
          if ob_idempotency_key head = dc_idempotency_key c
             \<and> ob_command_payload_sha256 head = oe_payload_sha256 env (oe_dump_command env c)
          then Inr (head, ?db1 source)
          else add_outbox env now (Some head)
                 (new_outbox env now oid wid
                    (c\<lparr>dc_supersedes_disposition_id := Some (ob_disposition_id head)\<rparr>)
                    event src (so_next_outbox_sequence source + 1) slot) (?db1 source)) = Inr (row, db')" ..
  define db1 where "db1 = ?db1 source"
  have same: "same_outboxes db db1" by (simp add: db1_def put_source_def same_outboxes_def)
  have head: "active_head db1 = active_head db"
    by (intro ext active_head_frame) (use same in \<open>simp add: same_outboxes_def\<close>)
  let ?prior = "if dc_intent_kind c = IK_EVENT_STATUS_UPDATE
      then active_head db event (dc_closure_cycle c) slot else None"
  note rest' = rest [folded db1_def, unfolded head]
  show ?thesis
  proof (rule that [OF same refl], cases ?prior)
    case None
    note rest' [unfolded None option.case]
    then show "?prior = Some row \<and> db' = db1 \<or> (\<exists>new. add_outbox env now ?prior new db1 = Inr (row, db')
          \<and> ob_outbox_id new = oid
          \<and> ob_event_id new = event \<and> ob_closure_cycle new = dc_closure_cycle c
          \<and> ob_logical_slot new = slot \<and> ob_superseded_by_disposition_id new = None
          \<and> ob_intent_kind new = DispositionIntentKind_value (dc_intent_kind c))"
      unfolding None by (intro disjI2 exI conjI) (assumption, simp_all add: new_outbox_def)
  next
    case (Some head)
    note step = rest' [unfolded Some option.case]
    show "?prior = Some row \<and> db' = db1 \<or> (\<exists>new. add_outbox env now ?prior new db1 = Inr (row, db')
          \<and> ob_outbox_id new = oid
          \<and> ob_event_id new = event \<and> ob_closure_cycle new = dc_closure_cycle c
          \<and> ob_logical_slot new = slot \<and> ob_superseded_by_disposition_id new = None
          \<and> ob_intent_kind new = DispositionIntentKind_value (dc_intent_kind c))"
    proof (cases "ob_idempotency_key head = dc_idempotency_key c
        \<and> ob_command_payload_sha256 head = oe_payload_sha256 env (oe_dump_command env c)")
      case True
      with step show ?thesis unfolding Some by simp
    next
      case False
      note step [unfolded if_not_P [OF False]]
      then show ?thesis
        unfolding Some by (intro disjI2 exI conjI) (assumption, simp_all add: new_outbox_def)
    qed
  qed
qed

lemma enqueue_post:
  assumes "distinct_outboxes db"
    and enq: "enqueue_command env now oid wid c event src slot gx db = Inr (row, db')"
  shows "evolves quiet db db'
     \<and> (\<forall>head. dc_intent_kind c = IK_EVENT_STATUS_UPDATE
          \<longrightarrow> active_head db event (dc_closure_cycle c) slot = Some head \<longrightarrow> row \<noteq> head
          \<longrightarrow> marked db' (ob_outbox_id head)
              \<and> active_head db' event (dc_closure_cycle c) slot = Some row)"
proof -
  from enq obtain db1 prior where same: "same_outboxes db db1"
    and prior: "prior = (if dc_intent_kind c = IK_EVENT_STATUS_UPDATE
              then active_head db event (dc_closure_cycle c) slot else None)"
    and cases: "prior = Some row \<and> db' = db1
     \<or> (\<exists>new. add_outbox env now prior new db1 = Inr (row, db')
          \<and> ob_outbox_id new = oid
          \<and> ob_event_id new = event \<and> ob_closure_cycle new = dc_closure_cycle c
          \<and> ob_logical_slot new = slot \<and> ob_superseded_by_disposition_id new = None
          \<and> ob_intent_kind new = DispositionIntentKind_value (dc_intent_kind c))"
    by (rule enqueue_cases)
  have ev: "evolves quiet db db1" by (rule evolves_same [OF _ same]) simp
  have got: "get_outbox db1 (ob_outbox_id head) = Some head" if "prior = Some head" for head
  proof -
    have "head \<in> set (db_outboxes db)"
      using that unfolding prior active_head_def by (auto dest: scalar_SomeD split: if_splits)
    then have "get_outbox db (ob_outbox_id head) = Some head" by (rule get_of_row [OF assms(1)])
    then show ?thesis using same by (simp add: get_outbox_def same_outboxes_def)
  qed
  from cases show ?thesis
  proof
    assume "prior = Some row \<and> db' = db1"
    then show ?thesis using ev by (auto simp: prior)
  next
    assume "\<exists>new. add_outbox env now prior new db1 = Inr (row, db')
          \<and> ob_outbox_id new = oid
          \<and> ob_event_id new = event \<and> ob_closure_cycle new = dc_closure_cycle c
          \<and> ob_logical_slot new = slot \<and> ob_superseded_by_disposition_id new = None
          \<and> ob_intent_kind new = DispositionIntentKind_value (dc_intent_kind c)"
    then obtain new where add: "add_outbox env now prior new db1 = Inr (row, db')"
      and new: "ob_event_id new = event" "ob_closure_cycle new = dc_closure_cycle c"
        "ob_logical_slot new = slot" "ob_superseded_by_disposition_id new = None"
        "ob_intent_kind new = DispositionIntentKind_value (dc_intent_kind c)" by blast
    from returnsD [OF add_outbox_post [OF got] add] show ?thesis
      using evolves_trans [OF ev] new by (auto simp: added_post_def prior head_of_def)
  qed
qed

end
