(* ===== verification/Outbox_Runs.thy ===== *)
theory Outbox_Runs
  imports Outbox_Facts State_Machine_Facts
begin

text \<open>
  Runs of the outbox: every interleaving of the transactions of any number of workers,
  request handlers and operators, each with its own configuration, clock and provider
  answers, and of transactions of other services. A crash between two transactions is a run
  that stops there. The log says what left for the provider and what a lookup cleared.
\<close>

section \<open>Steps\<close>

text \<open>The transactions that are not part of a delivery.\<close>

inductive service_step :: "outbox_state \<Rightarrow> outbox_state \<Rightarrow> bool" where
  enqueued: "enqueue_command env now oid wid c event src slot gx (os_db st) = Inr (row, db)
    \<Longrightarrow> service_step st (st\<lparr>os_db := db\<rparr>)"
| paused_claimed: "claim_paused_outboxes env now token render locked limit (os_db st) = (claims, db)
    \<Longrightarrow> service_step st (st\<lparr>os_db := db\<rparr>)"
| looked_up: "apply_outcome env now render claim (lookup_paused_outbox render lio claim) st = (st', r)
    \<Longrightarrow> service_step st st'"
| retried: "retry_writeback env now lio wid operator operation_id reason st = (st', w)
    \<Longrightarrow> service_step st st'"
| updated: "update_writeback_status_from_lookup now wid status (os_db st) = Inr db
    \<Longrightarrow> service_step st (st\<lparr>os_db := db\<rparr>)"
| resolved: "resolve_writeback env now manual wid resolution comment evidence_ref (os_db st) = Inr (status, db)
    \<Longrightarrow> service_step st (st\<lparr>os_db := db\<rparr>)"
| others: "db_outboxes db = db_outboxes (os_db st) \<Longrightarrow> db_receipts db = db_receipts (os_db st)
    \<Longrightarrow> service_step st (st\<lparr>os_db := db\<rparr>)"

inductive outbox_step :: "outbox_state \<Rightarrow> outbox_state \<Rightarrow> bool" where
  service: "service_step st st' \<Longrightarrow> outbox_step st st'"
| claimed: "outbox_claim_batch env now locked limit (os_db st) = Inr (ids, db)
    \<Longrightarrow> outbox_step st (st\<lparr>os_db := db\<rparr>)"
| delivered: "deliver_outbox env now dio oid st = (st', r) \<Longrightarrow> outbox_step st st'"
| failed: "handle_delivery_error env now render oid e (os_db st) = Inr db
    \<Longrightarrow> outbox_step st (st\<lparr>os_db := db\<rparr>)"

abbreviation outbox_run :: "outbox_state \<Rightarrow> outbox_state \<Rightarrow> bool" where
  "outbox_run \<equiv> outbox_step\<^sup>*\<^sup>*"

lemma service_step_post:
  assumes "service_step st st'" and "distinct_outboxes (os_db st)"
  shows "os_log st' = os_log st \<and> evolves quiet (os_db st) (os_db st')
     \<or> (\<exists>oid. os_log st' = os_log st @ [Cleared oid] \<and> evolves (clears oid) (os_db st) (os_db st'))"
  using assms
proof (induction rule: service_step.induct)
  case (enqueued env now oid wid c event src slot gx st row db)
  then show ?case using enqueue_post [OF enqueued(2,1)] by simp
next
  case (paused_claimed env now token render locked limit st claims db)
  then show ?case using claim_paused_evolves [OF paused_claimed(2,1)] by simp
next
  case (looked_up env now render claim lio st st' r)
  then show ?case using apply_outcome_post [OF looked_up(1)] by blast
next
  case (retried env now lio wid operator operation_id reason st st' w)
  then show ?case using retry_writeback_post [OF retried(2,1)] by blast
next
  case (updated now wid status st db)
  then show ?case using returnsD [OF update_from_lookup_evolves [OF updated(2)] updated(1)] by simp
next
  case (resolved env now manual wid resolution comment evidence_ref st status db)
  then show ?case using returnsD [OF resolve_evolves [OF resolved(2)] resolved(1)] by simp
next
  case (others db st)
  then show ?case by (simp add: evolves_frame)
qed

text \<open>
  A step keeps every command and every receipt; it submits at most one command, one that
  passed the gate.
\<close>

lemma outbox_step_post:
  assumes "outbox_step st st'" and "distinct_outboxes (os_db st)"
  shows "evolves same_command (os_db st) (os_db st')
     \<and> (\<forall>oid. count_list (os_log st') (Submitted oid) = count_list (os_log st) (Submitted oid)
          \<or> (\<exists>w row. deliverable w (os_db st) oid row))"
  using assms
proof (induction rule: outbox_step.induct)
  case (service st st')
  then show ?case using service_step_post [OF service]
    by (auto intro: evolves_mono quiet_same clears_same)
next
  case (claimed env now locked limit st ids db)
  then show ?case using claim_batch_post [OF claimed(2,1)] by (auto intro: evolves_mono claims_same)
next
  case (delivered env now dio oid st st' r)
  from delivered(1) show ?case
    by (rule deliver_outbox_post) (auto intro: evolves_mono quiet_same)
next
  case (failed env now render oid e st db)
  then show ?case using returnsD [OF handle_evolves failed(1)] by (auto intro: evolves_mono quiet_same)
qed

section \<open>Commands that are settled\<close>

text \<open>A receipt is stored for the command, or another command replaced it.\<close>

definition settled :: "database \<Rightarrow> string \<Rightarrow> bool" where
  "settled db oid \<longleftrightarrow>
     (\<exists>row. get_outbox db oid = Some row
        \<and> (ob_superseded_by_disposition_id row \<noteq> None \<or> receipts_of db (ob_writeback_id row) \<noteq> []))"

lemma settled_step: "evolves same_command db db' \<Longrightarrow> settled db oid \<Longrightarrow> settled db' oid"
  unfolding settled_def using evolves_receipts [of same_command db db']
  by (auto simp: evolves_def same_command_def) metis+

lemma settled_blocks: "settled db oid \<Longrightarrow> \<not> deliverable w db oid row"
  by (auto simp: settled_def deliverable_def)

lemma settled_run:
  assumes "outbox_run st st'" and "distinct_outboxes (os_db st)" and "settled (os_db st) oid"
  shows "count_list (os_log st') (Submitted oid) = count_list (os_log st) (Submitted oid)
     \<and> distinct_outboxes (os_db st') \<and> settled (os_db st') oid"
  using assms
proof (induction rule: rtranclp_induct)
  case base
  then show ?case by simp
next
  case (step st1 st2)
  then have "distinct_outboxes (os_db st1)" and settled: "settled (os_db st1) oid" by auto
  note post = outbox_step_post [OF step(2) this(1)]
  from post have "distinct_outboxes (os_db st2)" using step by (simp add: evolves_def)
  then show ?case
    using step post settled_step settled settled_blocks [OF settled] by metis
qed

section \<open>Examples\<close>

definition example_command :: DispositionCommand where
  "example_command =
     \<lparr> dc_disposition_id = ''dsp-1'', dc_action_id = ''act-9'', dc_closure_cycle = 1,
       dc_intent_kind = IK_EVENT_STATUS_UPDATE,
       dc_source_locator = \<lparr> sl_source_product = ''mock_xdr'', sl_source_tenant_id = ''t1'',
         sl_connector_id = ''c1'', sl_source_kind = ''incident'', sl_source_object_id = ''inc-1'' \<rparr>,
       dc_operation_code = ''set_event_disposition'',
       dc_operation_params = SetEventDispositionParams SD_COMPLETED None, dc_target_results = [],
       dc_operator_id = ''system'', dc_idempotency_key = ''idem-1'',
       dc_source_concurrency_token = None, dc_execution_owner = EO_XDR_MANAGED,
       dc_parent_disposition_id = None, dc_supersedes_disposition_id = None \<rparr>"

definition example_adapter :: BaseDispositionAdapter where
  "example_adapter =
     \<lparr> da_name = ''mock_xdr'',
       da_capabilities = \<lparr> cap_supports_idempotency = True, cap_supports_status_query = True,
         cap_supports_lookup_by_idempotency = True, cap_supports_readback_confirmation = False,
         cap_supports_entity_effect_readback = False \<rparr>,
       da_validate_command = (\<lambda>_. Inr ()) \<rparr>"

definition example_outbox_env :: outbox_env where
  "example_outbox_env =
     \<lparr> oe_settings = example_settings, oe_max_attempts = 5, oe_backoff_us = 30000000,
       oe_backoff_max_us = 600000000, oe_worker_id = ''outbox-worker-1'',
       oe_adapters = [(''mock_xdr'', example_adapter)],
       oe_decode_command = (\<lambda>_. Some example_command),
       oe_dump_command = (\<lambda>_. ob_command_payload example_outbox), oe_dump_receipt = (\<lambda>_. JNull),
       oe_payload_sha256 = (\<lambda>_. ''p1''), oe_sha256 = id, oe_locator_hash = (\<lambda>_. ''h1''),
       oe_redact = id, oe_sanitize_raw = id, oe_content_ok = (\<lambda>_. True) \<rparr>"

definition example_receipt :: "WritebackStatus \<Rightarrow> DispositionReceipt" where
  "example_receipt status =
     \<lparr> dr_writeback_id = ''prov-1'', dr_sequence = 1, dr_disposition_id = ''dsp-1'',
       dr_action_id = ''act-9'', dr_source_record_id = ''src-1'', dr_status = status,
       dr_confirmation_evidence = None, dr_provider_record_id = Some ''rec-1'',
       dr_provider_job_id = None, dr_provider_message = None, dr_observed_at = Some 2,
       dr_submitted_at = Some 2, dr_confirmed_at = None, dr_raw_result = [], dr_simulated = True \<rparr>"

definition example_ready :: outbox_row where
  "example_ready =
     example_outbox\<lparr>ob_delivery_status := OutboxDeliveryStatus_value OD_READY,
       ob_latest_writeback_status := None, ob_delivered_at := None\<rparr>"

definition example_state :: outbox_state where
  "example_state =
     \<lparr> os_db = empty_database\<lparr>db_events := [example_event], db_actions := [example_deferred],
                 db_outboxes := [example_ready],
                 db_sources := [\<lparr> so_source_record_id = ''src-1'', so_source_product = ''mock_xdr'',
                   so_source_tenant_id = ''t1'', so_connector_id = ''c1'', so_source_kind = ''incident'',
                   so_source_object_id = ''inc-1'', so_next_outbox_sequence = 1,
                   so_current_concurrency_token = Some ''v1'' \<rparr>]\<rparr>,
       os_log = [] \<rparr>"

definition example_io :: "DispositionReceipt res \<Rightarrow> delivery_io" where
  "example_io answer = \<lparr> di_submit = answer, di_readback = Inr None, di_done_at = 2 \<rparr>"

text \<open>The example command after the provider has accepted it.\<close>

definition example_accepted :: outbox_state where
  "example_accepted =
     fst (deliver_outbox example_outbox_env 1 (example_io (Inr (example_receipt WB_ACCEPTED))) ''obx-1''
            example_state)"

section \<open>What stops a submission\<close>

text \<open>
  C2: In every run of the outbox, whatever the workers, operators and crashes, a command for
  which a receipt is stored is never submitted to the provider again.
\<close>

theorem receipt_stops_egress:
  assumes "outbox_run st st'" and "distinct (map ob_outbox_id (db_outboxes (os_db st)))"
    and "get_outbox (os_db st) oid = Some row"
    and "receipts_of (os_db st) (ob_writeback_id row) \<noteq> []"
  shows "count_list (os_log st') (Submitted oid) = count_list (os_log st) (Submitted oid)"
  using settled_run [OF assms(1,2)] assms(3,4) by (auto simp: settled_def)

theorem receipt_stops_egress_witness:
  "os_log example_accepted = [Submitted ''obx-1'']
   \<and> count_list (os_log (fst (deliver_outbox example_outbox_env 9
        (example_io (Inr (example_receipt WB_ACCEPTED))) ''obx-1'' example_accepted))) (Submitted ''obx-1'') = 1"
proof -
  let ?st = "fst (deliver_outbox example_outbox_env 9
        (example_io (Inr (example_receipt WB_ACCEPTED))) ''obx-1'' example_accepted)"
  have log: "os_log example_accepted = [Submitted ''obx-1'']" by code_simp
  have row: "get_outbox (os_db example_accepted) ''obx-1'' = Some (hd (db_outboxes (os_db example_accepted)))"
    by code_simp
  have "receipts_of (os_db example_accepted)
      (ob_writeback_id (hd (db_outboxes (os_db example_accepted)))) \<noteq> []" by code_simp
  moreover have "outbox_run example_accepted ?st"
    by (rule r_into_rtranclp, rule outbox_step.delivered, rule prod.collapse [symmetric])
  moreover have "distinct (map ob_outbox_id (db_outboxes (os_db example_accepted)))" by code_simp
  ultimately show ?thesis using receipt_stops_egress [OF _ _ row] log by simp
qed

text \<open>
  C4: When a new command for an event's status replaces the active one of its slot, the new
  row is the active head, and in every run from there the replaced command is never submitted
  again.
\<close>

theorem replaced_head_never_egresses:
  assumes "enqueue_command env now outbox_id writeback_id c event_id source_record_id slot gx (os_db st)
             = Inr (row, db)"
    and "distinct (map ob_outbox_id (db_outboxes (os_db st)))"
    and "dc_intent_kind c = IK_EVENT_STATUS_UPDATE"
    and "active_head (os_db st) event_id (dc_closure_cycle c) slot = Some head" and "row \<noteq> head"
    and "outbox_run (st\<lparr>os_db := db\<rparr>) st'"
  shows "active_head db event_id (dc_closure_cycle c) slot = Some row
     \<and> count_list (os_log st') (Submitted (ob_outbox_id head))
       = count_list (os_log st) (Submitted (ob_outbox_id head))"
proof -
  note post = enqueue_post [OF assms(2,1)]
  then have "settled db (ob_outbox_id head)" using assms(3-5) by (auto simp: settled_def marked_def)
  moreover have "distinct_outboxes db" using post assms(2) by (simp add: evolves_def)
  ultimately show ?thesis using post assms(3-5) settled_run [OF assms(6)] by simp
qed

definition example_next_command :: DispositionCommand where
  "example_next_command = example_command\<lparr>dc_disposition_id := ''dsp-2'', dc_idempotency_key := ''idem-2''\<rparr>"

definition example_replaced :: "(outbox_row \<times> database) res" where
  "example_replaced =
     enqueue_command example_outbox_env 3 ''obx-2'' ''wbk-2'' example_next_command ''evt-1'' ''src-1''
       ''default'' \<lparr> gx_source_locator = None, gx_approved_action_ids = Some [''act-9''] \<rparr>
       (os_db example_state)"

theorem replaced_head_never_egresses_witness:
  "\<exists>row db. example_replaced = Inr (row, db) \<and> ob_outbox_id row = ''obx-2''
     \<and> count_list (os_log (fst (deliver_outbox example_outbox_env 9
           (example_io (Inr (example_receipt WB_ACCEPTED))) ''obx-1'' (example_state\<lparr>os_db := db\<rparr>))))
         (Submitted ''obx-1'') = 0"
proof -
  obtain row db where r: "example_replaced = Inr (row, db)"
    and id: "ob_outbox_id row = ''obx-2''"
  proof -
    have "case example_replaced of Inr (row, db) \<Rightarrow> ob_outbox_id row = ''obx-2'' | Inl e \<Rightarrow> False"
      by code_simp
    then show ?thesis using that by (auto split: sum.splits prod.splits)
  qed
  have head: "active_head (os_db example_state) ''evt-1'' (dc_closure_cycle example_next_command) ''default''
      = Some example_ready" by code_simp
  have ready: "ob_outbox_id example_ready = ''obx-1''" by code_simp
  then have "row \<noteq> example_ready" using id by auto
  moreover have "dc_intent_kind example_next_command = IK_EVENT_STATUS_UPDATE" by code_simp
  moreover have "distinct (map ob_outbox_id (db_outboxes (os_db example_state)))" by code_simp
  moreover have "outbox_run (example_state\<lparr>os_db := db\<rparr>) (fst (deliver_outbox example_outbox_env 9
           (example_io (Inr (example_receipt WB_ACCEPTED))) ''obx-1'' (example_state\<lparr>os_db := db\<rparr>)))"
    by (rule r_into_rtranclp, rule outbox_step.delivered, rule prod.collapse [symmetric])
  ultimately have "count_list (os_log (fst (deliver_outbox example_outbox_env 9
           (example_io (Inr (example_receipt WB_ACCEPTED))) ''obx-1'' (example_state\<lparr>os_db := db\<rparr>))))
         (Submitted ''obx-1'') = count_list (os_log example_state) (Submitted ''obx-1'')"
    using replaced_head_never_egresses [OF r [unfolded example_replaced_def] _ _ head] ready by simp
  moreover have "os_log example_state = []" by code_simp
  ultimately show ?thesis using r id by auto
qed

section \<open>Submissions whose outcome is not stored\<close>

lemma ready_pause_refused:
  assumes "delivery OD_READY row"
  shows "\<exists>e. pause_outbox_after_unknown_submission now code detail row = Inl e"
proof -
  have "\<not> outbox_accepts default_outbox_evidence OD_READY OD_PAUSED"
    using outbox_machine.accepts_edge [of default_outbox_evidence OD_READY OD_PAUSED] by auto
  then obtain e where "validate_outbox_delivery_transition default_outbox_evidence OD_READY OD_PAUSED = Inl e"
    using unit_sum_cases by blast
  moreover have "delivery_of row = Inr OD_READY" using assms by simp
  ultimately show ?thesis by (simp add: pause_outbox_after_unknown_submission_def del: delivery_of_iff)
qed

lemma unknown_receipt_not_recorded:
  assumes "delivery OD_READY row" and "dr_status sub = WB_UNKNOWN" and "\<forall>r. di_readback io \<noteq> Inr (Some r)"
  shows "\<exists>e. record_submission env io row c ad sub db = Inl e"
proof (cases "append_receipt env (di_done_at io) row (Provided sub) db")
  case (Inl e)
  then show ?thesis by (simp add: record_submission_def)
next
  case (Inr z)
  obtain parsed db1 where z: "z = (parsed, db1)" by (cases z)
  have rb: "readback_confirmation env io row c ad parsed db1 = (parsed, db1)"
    using assms(3) by (auto simp: readback_confirmation_def split: sum.splits option.splits)
  have status: "dr_status parsed = WB_UNKNOWN"
    using Inr assms(2) by (auto simp: z append_receipt_def parse_receipt_def
        sanitize_disposition_receipt_def Let_def)
  have "\<exists>e. pause_outbox_after_unknown_submission (di_done_at io) ''submission_unknown''
      ''provider submission result unknown; lookup required before retry''
      (row\<lparr>ob_latest_writeback_status := Some (WritebackStatus_value WB_UNKNOWN)\<rparr>) = Inl e"
    by (rule ready_pause_refused) (simp add: assms(1))
  then show ?thesis using Inr rb status by (auto simp: record_submission_def z)
qed

text \<open>
  C9: A delivery of a ready outbox, as the request that enqueued it makes, whose submission
  raises or is answered with an unknown outcome, fails and leaves the database as it was, so
  the outbox is still ready and the next delivery submits the command again with no lookup in
  between.
\<close>

theorem unknown_outcome_of_ready_resent:
  assumes "delivery_gate env now oid (os_db st) = Inr (Go row action command adapter)"
    and "ob_delivery_status row = OutboxDeliveryStatus_value OD_READY"
    and "(\<exists>e. di_submit io = Inl e)
       \<or> (\<exists>r. di_submit io = Inr r \<and> dr_status r = WB_UNKNOWN) \<and> (\<forall>r. di_readback io \<noteq> Inr (Some r))"
  shows "\<exists>e. deliver_outbox env now io oid st = (st\<lparr>os_log := os_log st @ [Submitted oid]\<rparr>, Inl e)
     \<and> os_log (fst (deliver_outbox env now io' oid (st\<lparr>os_log := os_log st @ [Submitted oid]\<rparr>)))
       = os_log st @ [Submitted oid, Submitted oid]"
proof -
  have "\<exists>e. bind_res (di_submit io) (\<lambda>sub. record_submission env io row command adapter sub (os_db st)) = Inl e"
    using assms(3) unknown_receipt_not_recorded [OF assms(2)] by auto
  then obtain e where e: "bind_res (di_submit io)
      (\<lambda>sub. record_submission env io row command adapter sub (os_db st)) = Inl e" ..
  have "deliver_outbox env now io oid st = (st\<lparr>os_log := os_log st @ [Submitted oid]\<rparr>, Inl e)"
    using assms(1) e by (simp add: deliver_outbox_def deliver_outbox_in_tx_def)
  moreover have "os_log (fst (deliver_outbox env now io' oid (st\<lparr>os_log := os_log st @ [Submitted oid]\<rparr>)))
       = os_log st @ [Submitted oid, Submitted oid]"
    using assms(1) by (simp add: deliver_outbox_def deliver_outbox_in_tx_def Let_def split: sum.split)
  ultimately show ?thesis by blast
qed

definition example_worker_io :: "delivery_io \<Rightarrow> worker_io" where
  "example_worker_io dio =
     \<lparr> wi_now = 5, wi_token = id, wi_render = (\<lambda>_. ''error''), wi_locked = (\<lambda>_. False),
       wi_lookup = (\<lambda>_. \<lparr> li_lookup_submission = Inr None, li_get_status = Inr None \<rparr>),
       wi_delivery = (\<lambda>_. dio) \<rparr>"

text \<open>The request's delivery times out; the worker's next pass sends the command again.\<close>

theorem unknown_outcome_of_ready_resent_witness:
  "(\<exists>e. deliver_outbox example_outbox_env 1 (example_io (Inr (example_receipt WB_UNKNOWN))) ''obx-1'' example_state
      = (example_state\<lparr>os_log := [Submitted ''obx-1'']\<rparr>, Inl e))
   \<and> os_log (fst (run_once example_outbox_env
        (example_worker_io (example_io (Inr (example_receipt WB_ACCEPTED)))) 10
        (example_state\<lparr>os_log := [Submitted ''obx-1'']\<rparr>)))
      = [Submitted ''obx-1'', Submitted ''obx-1'']"
proof -
  have "case delivery_gate example_outbox_env 1 ''obx-1'' (os_db example_state) of
      Inr (Go row _ _ _) \<Rightarrow> ob_delivery_status row = OutboxDeliveryStatus_value OD_READY | _ \<Rightarrow> False"
    by code_simp
  then obtain row action command adapter
    where gate: "delivery_gate example_outbox_env 1 ''obx-1'' (os_db example_state)
             = Inr (Go row action command adapter)"
      and ready: "ob_delivery_status row = OutboxDeliveryStatus_value OD_READY"
    by (auto split: sum.splits gate.splits)
  have log: "os_log example_state = []" by code_simp
  have "os_log (fst (run_once example_outbox_env
        (example_worker_io (example_io (Inr (example_receipt WB_ACCEPTED)))) 10
        (example_state\<lparr>os_log := [Submitted ''obx-1'']\<rparr>))) = [Submitted ''obx-1'', Submitted ''obx-1'']"
    by code_simp
  then show ?thesis
    using unknown_outcome_of_ready_resent [OF gate ready,
        of "example_io (Inr (example_receipt WB_UNKNOWN))"] log
    by (auto simp: example_io_def example_receipt_def)
qed

section \<open>A pass of the worker\<close>

lemma apply_claims_run: "apply_claims env io claims st = (st', r) \<Longrightarrow> service_step\<^sup>*\<^sup>* st st'"
proof (induction claims arbitrary: st st' r)
  case Nil
  then show ?case by simp
next
  case (Cons claim claims)
  let ?outcome = "lookup_paused_outbox (wi_render io) (wi_lookup io (plc_outbox_id claim)) claim"
  obtain st1 a where a: "apply_outcome env (wi_now io) (wi_render io) claim ?outcome st = (st1, a)"
    by (cases "apply_outcome env (wi_now io) (wi_render io) claim ?outcome st")
  then have step: "service_step\<^sup>*\<^sup>* st st1" by (blast intro: service_step.looked_up)
  obtain st2 b where b: "apply_claims env io claims st1 = (st2, b)" by (cases "apply_claims env io claims st1")
  show ?case
    using Cons.prems step rtranclp_trans [OF step Cons.IH [OF b]] a b
    by (cases a; cases b) auto
qed

lemma service_run: "service_step\<^sup>*\<^sup>* st st' \<Longrightarrow> outbox_run st st'"
  by (rule rtranclp_mono [THEN predicate2D]) (auto intro: outbox_step.service)

lemma deliver_claimed_run: "deliver_claimed env io ids st = (st', r) \<Longrightarrow> outbox_run st st'"
proof (induction ids arbitrary: st)
  case Nil
  then show ?case by simp
next
  case (Cons oid ids)
  obtain st1 a where a: "deliver_outbox env (wi_now io) (wi_delivery io oid) oid st = (st1, a)"
    by (cases "deliver_outbox env (wi_now io) (wi_delivery io oid) oid st")
  then have step: "outbox_step st st1" by (rule outbox_step.delivered)
  show ?case
  proof (cases a)
    case (Inr u)
    with a Cons.prems have "deliver_claimed env io ids st1 = (st', r)" by simp
    from converse_rtranclp_into_rtranclp [OF step Cons.IH [OF this]] show ?thesis .
  next
    case (Inl e)
    show ?thesis
    proof (cases "handle_delivery_error env (wi_now io) (wi_render io) oid e (os_db st1)")
      case (Inl e')
      with \<open>a = Inl e\<close> a Cons.prems have "st' = st1" by simp
      with step show ?thesis by blast
    next
      case (Inr db)
      with \<open>a = Inl e\<close> a Cons.prems have rest: "deliver_claimed env io ids (st1\<lparr>os_db := db\<rparr>) = (st', r)" by simp
      have "outbox_step st1 (st1\<lparr>os_db := db\<rparr>)" by (rule outbox_step.failed [OF Inr])
      with step Cons.IH [OF rest] show ?thesis by (meson converse_rtranclp_into_rtranclp)
    qed
  qed
qed



section \<open>Receipts read back\<close>

lemma receipt_of_receipt_row:
  "confirmed_requires_evidence r \<Longrightarrow> receipt_of_row (receipt_row_of r) = Inr r"
  by (cases r; cases "dr_confirmation_evidence r")
    (simp_all add: receipt_of_row_def receipt_row_of_def of_opt_def WritebackStatus_enum.parse_val
      ConfirmationEvidence_enum.parse_val ensure_def Let_def)

lemma next_sequence_above: "r \<in> set (receipts_of db w) \<Longrightarrow> rc_sequence r < next_sequence db w"
  using max_of_SomeD(1) [of rc_sequence "receipts_of db w"]
  by (fastforce simp: next_sequence_def split: option.splits)

lemma append_receipt_sequence:
  assumes "append_receipt env now row src db = Inr (r, db')"
  shows "dr_sequence r = next_sequence db (ob_writeback_id row)"
  using assms
  by (auto simp: append_receipt_def parse_receipt_def sanitize_disposition_receipt_def Let_def
      split: receipt_source.splits)

lemma max_by_last:
  assumes "\<forall>x\<in>set xs. k x < k y"
  shows "max_by k (xs @ [y]) = Some y"
  using assms by (induction xs) (auto split: option.splits)

text \<open>
  C15: The receipt a delivery, a lookup or an adjudication appends is the one the writeback
  shows afterwards, under a sequence number above all earlier ones.
\<close>

theorem appended_receipt_reads_back:
  assumes "append_receipt env now row source db = Inr (receipt, db')"
    and "find_writeback db (ob_writeback_id row) = Some row" and "outbox_record_ok row"
    and "confirmed_requires_evidence receipt"
  shows "get_writeback (ob_writeback_id row) db' = Inr (row, Some receipt)
     \<and> (\<forall>r\<in>set (receipts_of db (ob_writeback_id row)). rc_sequence r < dr_sequence receipt)"
proof
  let ?w = "ob_writeback_id row"
  note post = append_receipt_db [OF assms(1)]
  show above: "\<forall>r\<in>set (receipts_of db ?w). rc_sequence r < dr_sequence receipt"
    using next_sequence_above append_receipt_sequence [OF assms(1)] by simp
  have "receipts_of db' ?w = receipts_of db ?w @ [receipt_row_of receipt]"
    using post(2,3) by (simp add: receipts_of_def receipt_row_of_def)
  then have "max_by rc_sequence (receipts_of db' ?w) = Some (receipt_row_of receipt)"
    using above by (simp add: max_by_last receipt_row_of_def)
  moreover have "find_writeback db' ?w = Some row" using assms(2) post(1) by (simp add: find_writeback_def)
  ultimately show "get_writeback ?w db' = Inr (row, Some receipt)"
    using assms(3,4) by (simp add: get_writeback_def of_opt_def ensure_def receipt_of_receipt_row)
qed

theorem appended_receipt_reads_back_witness:
  "\<exists>receipt db'. append_receipt example_outbox_env 2 example_ready (Provided (example_receipt WB_ACCEPTED))
       (os_db example_state) = Inr (receipt, db')
     \<and> get_writeback ''wbk-1'' db' = Inr (example_ready, Some receipt)"
proof -
  have "case append_receipt example_outbox_env 2 example_ready (Provided (example_receipt WB_ACCEPTED))
       (os_db example_state) of Inr (receipt, db') \<Rightarrow> confirmed_requires_evidence receipt | Inl e \<Rightarrow> False"
    by code_simp
  then obtain receipt db' where app: "append_receipt example_outbox_env 2 example_ready
       (Provided (example_receipt WB_ACCEPTED)) (os_db example_state) = Inr (receipt, db')"
    and ok: "confirmed_requires_evidence receipt"
    by (auto split: sum.splits)
  have "find_writeback (os_db example_state) (ob_writeback_id example_ready) = Some example_ready"
    and "outbox_record_ok example_ready" and "ob_writeback_id example_ready = ''wbk-1''"
    by (code_simp, code_simp, code_simp)
  with appended_receipt_reads_back [OF app] app ok show ?thesis by auto
qed

end
