(* ===== verification/Outbox_Workers.thy ===== *)
theory Outbox_Workers
  imports Outbox_Runs
begin

text \<open>
  The loops of the workers, one sequential loop per worker id, interleaved with the other
  transactions of the service: what a worker holds between two of its transactions is the
  rest of the batch it claimed, and the exception of a delivery it has not handled yet.
\<close>

section \<open>Interleaved loops\<close>

record workers =
  ws_outbox :: outbox_state
  ws_queue :: "string \<Rightarrow> string list"
  ws_failed :: "string \<Rightarrow> (string \<times> st_error) option"

abbreviation ws_db :: "workers \<Rightarrow> database" where
  "ws_db s \<equiv> os_db (ws_outbox s)"

abbreviation ws_log :: "workers \<Rightarrow> egress list" where
  "ws_log s \<equiv> os_log (ws_outbox s)"

text \<open>
  The loop of \<open>run_once\<close>, transaction by transaction. \<open>deliver\<close> is restricted to a worker that
  is in time: the row it comes to has not been made deliverable again behind its back, which
  takes an expired lease.
\<close>

inductive worker_step :: "workers \<Rightarrow> workers \<Rightarrow> bool" where
  service: "service_step (ws_outbox s) st \<Longrightarrow> worker_step s (s\<lparr>ws_outbox := st\<rparr>)"
| claim: "ws_queue s (oe_worker_id env) = [] \<Longrightarrow> ws_failed s (oe_worker_id env) = None
    \<Longrightarrow> outbox_claim_batch env now locked limit (ws_db s) = Inr (ids, db)
    \<Longrightarrow> worker_step s (s\<lparr>ws_outbox := (ws_outbox s)\<lparr>os_db := db\<rparr>,
                          ws_queue := (ws_queue s)(oe_worker_id env := ids)\<rparr>)"
| deliver: "ws_queue s (oe_worker_id env) = oid # rest \<Longrightarrow> ws_failed s (oe_worker_id env) = None
    \<Longrightarrow> (\<forall>row. get_outbox (ws_db s) oid = Some row \<longrightarrow> \<not> waiting row)
    \<Longrightarrow> deliver_outbox env now dio oid (ws_outbox s) = (st, r)
    \<Longrightarrow> worker_step s (s\<lparr>ws_outbox := st, ws_queue := (ws_queue s)(oe_worker_id env := rest),
                          ws_failed := (ws_failed s)(oe_worker_id env :=
                            (case r of Inl e \<Rightarrow> Some (oid, e) | Inr _ \<Rightarrow> None))\<rparr>)"
| handled: "ws_failed s (oe_worker_id env) = Some (oid, e)
    \<Longrightarrow> handle_delivery_error env now render oid e (ws_db s) = Inr db
    \<Longrightarrow> worker_step s (s\<lparr>ws_outbox := (ws_outbox s)\<lparr>os_db := db\<rparr>,
                          ws_failed := (ws_failed s)(oe_worker_id env := None)\<rparr>)"
| stopped: "worker_step s (s\<lparr>ws_queue := (ws_queue s)(w := []), ws_failed := (ws_failed s)(w := None)\<rparr>)"

abbreviation worker_run :: "workers \<Rightarrow> workers \<Rightarrow> bool" where
  "worker_run \<equiv> worker_step\<^sup>*\<^sup>*"

section \<open>Submissions and lookups in the log\<close>

definition note_egress :: "string \<Rightarrow> bool \<Rightarrow> egress \<Rightarrow> bool" where
  "note_egress oid b e = (if e = Submitted oid then True else if e = Cleared oid then False else b)"

text \<open>The outbox has been submitted since it was last cleared.\<close>

definition unresolved :: "string \<Rightarrow> egress list \<Rightarrow> bool" where
  "unresolved oid log = foldl (note_egress oid) False log"

definition lookup_first :: "egress list \<Rightarrow> bool" where
  "lookup_first log \<longleftrightarrow>
     (\<forall>oid xs ys zs. log = xs @ Submitted oid # ys @ Submitted oid # zs \<longrightarrow> Cleared oid \<in> set ys)"

lemma unresolved_snoc [simp]:
  "unresolved oid (log @ [e]) = note_egress oid (unresolved oid log) e"
  by (simp add: unresolved_def)

lemma unresolved_kept: "Cleared oid \<notin> set ys \<Longrightarrow> foldl (note_egress oid) True ys"
  by (induction ys) (auto simp: note_egress_def)

lemma unresolved_after: "Cleared oid \<notin> set ys \<Longrightarrow> unresolved oid (xs @ Submitted oid # ys)"
  by (simp add: unresolved_def note_egress_def unresolved_kept)

lemma lookup_first_Cleared: "lookup_first log \<Longrightarrow> lookup_first (log @ [Cleared i])"
  unfolding lookup_first_def
proof (intro allI impI)
  fix oid xs ys zs
  assume IH: "\<forall>oid xs ys zs. log = xs @ Submitted oid # ys @ Submitted oid # zs \<longrightarrow> Cleared oid \<in> set ys"
    and eq: "log @ [Cleared i] = xs @ Submitted oid # ys @ Submitted oid # zs"
  show "Cleared oid \<in> set ys"
  proof (cases zs rule: rev_cases)
    case Nil
    with eq have "last (log @ [Cleared i]) = Submitted oid" by simp
    then show ?thesis by simp
  next
    case (snoc zs' z)
    with eq have "log = xs @ Submitted oid # ys @ Submitted oid # zs'" by simp
    with IH show ?thesis by blast
  qed
qed

lemma lookup_first_Submitted:
  assumes "lookup_first log" and "\<not> unresolved i log"
  shows "lookup_first (log @ [Submitted i])"
  unfolding lookup_first_def
proof (intro allI impI)
  fix oid xs ys zs
  assume eq: "log @ [Submitted i] = xs @ Submitted oid # ys @ Submitted oid # zs"
  show "Cleared oid \<in> set ys"
  proof (cases zs rule: rev_cases)
    case Nil
    with eq have "i = oid" and log: "log = xs @ Submitted oid # ys" by simp_all
    with assms(2) unresolved_after [of oid ys xs] show ?thesis by blast
  next
    case (snoc zs' z)
    with eq have "log = xs @ Submitted oid # ys @ Submitted oid # zs'" by simp
    with assms(1) show ?thesis unfolding lookup_first_def by blast
  qed
qed

section \<open>The invariant\<close>

text \<open>
  A command that was submitted and not cleared since has a receipt, or its row is out of
  reach of every worker: it is not waiting, and where a worker still leases it that worker
  has it no longer in its batch.
\<close>

definition out_of_reach :: "database \<Rightarrow> (string \<Rightarrow> string list) \<Rightarrow> string \<Rightarrow> bool" where
  "out_of_reach db queue oid \<longleftrightarrow>
     (\<exists>row. get_outbox db oid = Some row
        \<and> (receipts_of db (ob_writeback_id row) \<noteq> []
           \<or> \<not> waiting row
             \<and> (\<forall>w. delivery OD_LEASED row \<longrightarrow> ob_locked_by row = Some w \<longrightarrow> oid \<notin> set (queue w))))"

definition workers_inv :: "workers \<Rightarrow> bool" where
  "workers_inv s \<longleftrightarrow>
     distinct_outboxes (ws_db s) \<and> (\<forall>w. distinct (ws_queue s w)) \<and> lookup_first (ws_log s)
     \<and> (\<forall>oid. unresolved oid (ws_log s) \<longrightarrow> out_of_reach (ws_db s) (ws_queue s) oid)"

lemma out_of_reach_evolves:
  assumes "out_of_reach db queue oid" and "evolves P db db'"
    and "\<And>r r'. get_outbox db oid = Some r \<Longrightarrow> P r r' \<Longrightarrow> same_command r r'
           \<and> (\<not> waiting r \<longrightarrow> \<not> waiting r'
               \<and> (delivery OD_LEASED r' \<longrightarrow> delivery OD_LEASED r \<and> ob_locked_by r' = ob_locked_by r))"
    and "\<And>w. set (queue' w) \<subseteq> set (queue w)
           \<or> oid \<notin> set (queue' w) \<or> (\<exists>r. get_outbox db oid = Some r \<and> waiting r)"
  shows "out_of_reach db' queue' oid"
proof -
  from assms(1) obtain row where row: "get_outbox db oid = Some row"
    and reach: "receipts_of db (ob_writeback_id row) \<noteq> [] \<or> \<not> waiting row
       \<and> (\<forall>w. delivery OD_LEASED row \<longrightarrow> ob_locked_by row = Some w \<longrightarrow> oid \<notin> set (queue w))"
    by (auto simp: out_of_reach_def)
  from assms(2) row obtain row' where row': "get_outbox db' oid = Some row'" and P: "P row row'"
    unfolding evolves_def by blast
  note rel = assms(3) [OF row P]
  from reach show ?thesis
  proof
    assume "receipts_of db (ob_writeback_id row) \<noteq> []"
    then have "receipts_of db' (ob_writeback_id row') \<noteq> []"
      using evolves_receipts [OF assms(2)] rel by (simp add: same_command_def)
    with row' show ?thesis by (auto simp: out_of_reach_def)
  next
    assume r: "\<not> waiting row
       \<and> (\<forall>w. delivery OD_LEASED row \<longrightarrow> ob_locked_by row = Some w \<longrightarrow> oid \<notin> set (queue w))"
    then have "oid \<notin> set (queue' w)" if "delivery OD_LEASED row'" "ob_locked_by row' = Some w" for w
      using assms(4) [of w] rel that row by auto
    with r rel row' show ?thesis by (auto simp: out_of_reach_def)
  qed
qed

lemma reach_quiet:
  assumes "out_of_reach db queue oid" and "evolves quiet db db'"
    and "\<And>w. set (queue' w) \<subseteq> set (queue w)"
  shows "out_of_reach db' queue' oid"
  by (rule out_of_reach_evolves [OF assms(1,2)]) (use assms(3) in \<open>auto simp: quiet_def\<close>)

lemma reach_clears:
  assumes "out_of_reach db queue oid" and "evolves (clears i) db db'" and "i \<noteq> oid"
  shows "out_of_reach db' queue oid"
  by (rule out_of_reach_evolves [OF assms(1,2)])
    (use assms(3) outboxes_table.get_key in \<open>auto simp: clears_def\<close>)

lemma reach_claims:
  assumes "out_of_reach db queue oid" and "evolves (claims_for w) db db'"
    and "\<forall>i\<in>set ids. \<exists>row. get_outbox db i = Some row \<and> waiting row"
  shows "out_of_reach db' (queue(w := ids)) oid"
  by (rule out_of_reach_evolves [OF assms(1,2)]) (use assms(3) in \<open>auto simp: claims_for_def\<close>)

lemma evolves_distinct: "evolves P db db' \<Longrightarrow> distinct_outboxes db \<Longrightarrow> distinct_outboxes db'"
  by (simp add: evolves_def)

lemma unresolved_not_deliverable:
  assumes "out_of_reach db queue oid" and "deliverable w db oid row" and "\<not> waiting row"
    and "oid \<in> set (queue w)"
  shows False
  using assms by (auto simp: out_of_reach_def deliverable_def)

lemma workers_invD:
  assumes "workers_inv s"
  shows "distinct_outboxes (ws_db s)" and "lookup_first (ws_log s)"
    and "\<And>oid. unresolved oid (ws_log s) \<Longrightarrow> out_of_reach (ws_db s) (ws_queue s) oid"
    and "\<forall>w. distinct (ws_queue s w)"
  using assms by (auto simp: workers_inv_def)

lemma workers_inv_quiet:
  assumes "workers_inv s" and "evolves quiet (ws_db s) (ws_db s')" and "ws_log s' = ws_log s"
    and "\<And>w. set (ws_queue s' w) \<subseteq> set (ws_queue s w)" and "\<forall>w. distinct (ws_queue s' w)"
  shows "workers_inv s'"
  using workers_invD [OF assms(1)] evolves_distinct [OF assms(2)] reach_quiet [OF _ assms(2,4)] assms(3,5)
  by (auto simp: workers_inv_def)

lemma service_inv:
  assumes "service_step (ws_outbox s) st" and "workers_inv s"
  shows "workers_inv (s\<lparr>ws_outbox := st\<rparr>)"
proof -
  note inv = workers_invD [OF assms(2)]
  from service_step_post [OF assms(1) inv(1)] show ?thesis
  proof (elim disjE exE conjE)
    assume "os_log st = ws_log s" and "evolves quiet (ws_db s) (os_db st)"
    then show ?thesis using inv(4) by (intro workers_inv_quiet [OF assms(2)]) simp_all
  next
    fix i assume log: "os_log st = ws_log s @ [Cleared i]" and ev: "evolves (clears i) (ws_db s) (os_db st)"
    have "out_of_reach (os_db st) (ws_queue s) oid" if "unresolved oid (os_log st)" for oid
      using that inv(3) [of oid]
      by (intro reach_clears [OF _ ev]) (auto simp: log note_egress_def split: if_splits)
    then show ?thesis
      using inv evolves_distinct [OF ev] lookup_first_Cleared by (auto simp: workers_inv_def log)
  qed
qed

lemma claim_inv:
  assumes "outbox_claim_batch env now locked limit (ws_db s) = Inr (ids, db)" and "workers_inv s"
  shows "workers_inv (s\<lparr>ws_outbox := (ws_outbox s)\<lparr>os_db := db\<rparr>,
           ws_queue := (ws_queue s)(oe_worker_id env := ids)\<rparr>)"
  using claim_batch_post [OF workers_invD(1) [OF assms(2)] assms(1)] workers_invD [OF assms(2)]
  by (auto simp: workers_inv_def intro: reach_claims evolves_distinct)

text \<open>After a submission: the row has a receipt, or it is leased to the worker that is done with it.\<close>

lemma submitted_inv:
  assumes "workers_inv s" and "deliverable w (ws_db s) oid row" and "\<not> waiting row"
    and "ws_queue s w = oid # rest" and "evolves quiet (ws_db s) (os_db st)"
    and "os_log st = ws_log s @ [Submitted oid]"
    and "receipts_of (os_db st) (ob_writeback_id row) \<noteq> [] \<or> os_db st = ws_db s"
  shows "workers_inv (s\<lparr>ws_outbox := st, ws_queue := (ws_queue s)(w := rest), ws_failed := f\<rparr>)"
proof -
  note inv = workers_invD [OF assms(1)]
  let ?queue = "(ws_queue s)(w := rest)"
  have sub: "set (?queue v) \<subseteq> set (ws_queue s v)" for v using assms(4) by auto
  have q: "distinct (oid # rest)" using inv(4) assms(4) by metis
  have "\<not> unresolved oid (ws_log s)"
    using unresolved_not_deliverable [OF inv(3) assms(2,3)] assms(4) by auto
  then have first: "lookup_first (os_log st)" using lookup_first_Submitted [OF inv(2)] assms(6) by simp
  have "out_of_reach (os_db st) ?queue i" if "unresolved i (os_log st)" for i
  proof (cases "i = oid")
    case True
    obtain row' where row': "get_outbox (os_db st) oid = Some row'" "quiet row row'"
      using assms(2,5) by (auto simp: deliverable_def evolves_def)
    from assms(7) show ?thesis
    proof
      assume "receipts_of (os_db st) (ob_writeback_id row) \<noteq> []"
      then show ?thesis using row' True by (auto simp: out_of_reach_def quiet_def same_command_def)
    next
      assume "os_db st = ws_db s"
      then show ?thesis using assms(2,3) q True by (auto simp: out_of_reach_def deliverable_def)
    qed
  next
    case False
    with that assms(6) have "unresolved i (ws_log s)" by (simp add: note_egress_def)
    then show ?thesis by (intro reach_quiet [OF inv(3) assms(5) sub])
  qed
  then show ?thesis
    using inv(1,4) q first evolves_distinct [OF assms(5)] by (auto simp: workers_inv_def)
qed

lemma deliver_inv:
  assumes "ws_queue s (oe_worker_id env) = oid # rest"
    and "\<forall>row. get_outbox (ws_db s) oid = Some row \<longrightarrow> \<not> waiting row"
    and "deliver_outbox env now dio oid (ws_outbox s) = (st, r)" and "workers_inv s"
  shows "workers_inv (s\<lparr>ws_outbox := st, ws_queue := (ws_queue s)(oe_worker_id env := rest),
           ws_failed := f\<rparr>)"
  using assms(3)
proof (cases rule: deliver_outbox_post)
  case kept
  then show ?thesis using workers_invD(4) [OF assms(4)] assms(1)
    by (intro workers_inv_quiet [OF assms(4)]) (auto, metis distinct.simps(2))
next
  case (sent row)
  have "\<not> waiting row" using sent(2) assms(2) by (simp add: deliverable_def)
  with sent show ?thesis by (intro submitted_inv [OF assms(4) sent(2) _ assms(1)]) simp_all
next
  case (lost row e)
  have "\<not> waiting row" using lost(2) assms(2) by (simp add: deliverable_def)
  with lost show ?thesis by (intro submitted_inv [OF assms(4) lost(2) _ assms(1)]) simp_all
qed

lemma worker_step_inv:
  assumes "worker_step s s'" and "workers_inv s"
  shows "workers_inv s'"
  using assms
proof (induction rule: worker_step.induct)
  case (service s st)
  then show ?case by (rule service_inv)
next
  case (claim s env now locked limit ids db)
  then show ?case by (intro claim_inv)
next
  case (deliver s env oid rest now dio st r)
  then show ?case by (intro deliver_inv)
next
  case (handled s env oid e now render db)
  then show ?case
    using returnsD [OF handle_evolves handled(2)] workers_invD(4) [OF handled(3)]
    by (intro workers_inv_quiet [OF handled(3)]) simp_all
next
  case (stopped s w)
  then show ?case
    using workers_invD(4) [OF stopped] by (intro workers_inv_quiet [OF stopped]) simp_all
qed


text \<open>
  A worker claims the example outbox, submits it and stops before it stores the outcome; the
  lease runs out, the row is paused, a lookup finds no submission, and the row is claimed and
  submitted a second time.
\<close>

definition example_claim :: "int \<Rightarrow> outbox_state \<Rightarrow> string list \<times> outbox_state" where
  "example_claim now st =
     (case outbox_claim_batch example_outbox_env now (\<lambda>_. False) 10 (os_db st) of
        Inr (ids, db) \<Rightarrow> (ids, st\<lparr>os_db := db\<rparr>)
      | Inl e \<Rightarrow> ([], st))"

definition example_lookup :: "int \<Rightarrow> outbox_state \<Rightarrow> outbox_state" where
  "example_lookup now st =
     fst (apply_claims example_outbox_env
            (example_worker_io (example_io (Inr (example_receipt WB_ACCEPTED))))
            (fst (claim_paused_outboxes example_outbox_env now id (\<lambda>_. []) (\<lambda>_. False) 10 (os_db st)))
            (st\<lparr>os_db := snd (claim_paused_outboxes example_outbox_env now id (\<lambda>_. []) (\<lambda>_. False) 10 (os_db st))\<rparr>))"

definition example_try :: "int \<Rightarrow> DispositionReceipt res \<Rightarrow> outbox_state \<Rightarrow> outbox_state" where
  "example_try now answer st =
     fst (deliver_outbox example_outbox_env now (example_io answer) ''obx-1'' st)"

definition idle :: "outbox_state \<Rightarrow> workers" where
  "idle st = \<lparr> ws_outbox = st, ws_queue = (\<lambda>_. []), ws_failed = (\<lambda>_. None) \<rparr>"

lemma claim_idle:
  "worker_run (idle st) ((idle (snd (example_claim now st)))
     \<lparr>ws_queue := (\<lambda>_. [])(oe_worker_id example_outbox_env := fst (example_claim now st))\<rparr>)"
proof (cases "outbox_claim_batch example_outbox_env now (\<lambda>_. False) 10 (os_db st)")
  case (Inl e)
  then show ?thesis by (simp add: example_claim_def idle_def fun_upd_def)
next
  case (Inr z)
  then show ?thesis
    using worker_step.claim [of "idle st" example_outbox_env now "\<lambda>_. False" 10 "fst z" "snd z"]
    by (auto simp: idle_def example_claim_def split: prod.splits)
qed

lemma expire_idle:
  "fst (example_claim now st) = [] \<Longrightarrow> worker_run (idle st) (idle (snd (example_claim now st)))"
  using claim_idle [of st now] by (simp add: idle_def fun_upd_def)

lemma attempt_idle:
  assumes "fst (example_claim now st) = [''obx-1'']"
    and "case get_outbox (os_db (snd (example_claim now st))) ''obx-1'' of
           None \<Rightarrow> True | Some row \<Rightarrow> \<not> waiting row"
  shows "worker_run (idle st) (idle (example_try now answer (snd (example_claim now st))))"
proof -
  let ?st = "snd (example_claim now st)" and ?w = "oe_worker_id example_outbox_env"
  let ?s = "(idle ?st)\<lparr>ws_queue := (\<lambda>_. [])(?w := [''obx-1''])\<rparr>"
  let ?d = "deliver_outbox example_outbox_env now (example_io answer) ''obx-1'' ?st"
  have "worker_step ?s (?s\<lparr>ws_outbox := fst ?d, ws_queue := (ws_queue ?s)(?w := []),
      ws_failed := (ws_failed ?s)(?w := (case snd ?d of Inl e \<Rightarrow> Some (''obx-1'', e) | Inr _ \<Rightarrow> None))\<rparr>)"
    by (rule worker_step.deliver) (use assms(2) in \<open>auto simp: idle_def split: option.splits\<close>)
  moreover have "worker_step (?s\<lparr>ws_outbox := fst ?d, ws_queue := (ws_queue ?s)(?w := []),
      ws_failed := (ws_failed ?s)(?w := f)\<rparr>) (idle (example_try now answer ?st))" for f
    using worker_step.stopped [of "?s\<lparr>ws_outbox := fst ?d, ws_queue := (ws_queue ?s)(?w := []),
      ws_failed := (ws_failed ?s)(?w := f)\<rparr>" ?w]
    by (simp add: idle_def example_try_def fun_upd_def if_distrib cong: if_cong)
  ultimately show ?thesis
    using claim_idle [of st now] unfolding assms(1) by (meson rtranclp.rtrancl_into_rtrancl)
qed

lemma lookup_idle: "worker_run (idle st) (idle (example_lookup now st))"
proof -
  have lift: "worker_run (idle a) (idle b)" if "service_step\<^sup>*\<^sup>* a b" for a b
    using that
  proof (induction rule: rtranclp_induct)
    case (step b c)
    have "worker_step (idle b) (idle c)"
      using worker_step.service [of "idle b" c] step(2) by (simp add: idle_def)
    with step(3) show ?case by simp
  qed simp
  let ?c = "claim_paused_outboxes example_outbox_env now id (\<lambda>_. []) (\<lambda>_. False) 10 (os_db st)"
  have "service_step st (st\<lparr>os_db := snd ?c\<rparr>)" by (rule service_step.paused_claimed) (rule prod.collapse [symmetric])
  moreover have "service_step\<^sup>*\<^sup>* (st\<lparr>os_db := snd ?c\<rparr>) (example_lookup now st)"
    unfolding example_lookup_def by (rule apply_claims_run, rule prod.collapse [symmetric])
  ultimately show ?thesis by (intro lift) (rule converse_rtranclp_into_rtranclp)
qed

definition example_first :: outbox_state where
  "example_first = example_try 1 (Inl (ProviderError ''timeout'')) (snd (example_claim 1 example_state))"

definition example_cleared :: outbox_state where
  "example_cleared = example_lookup 40000001 (snd (example_claim 40000000 example_first))"

definition example_second :: outbox_state where
  "example_second =
     example_try 40000002 (Inr (example_receipt WB_ACCEPTED)) (snd (example_claim 40000002 example_cleared))"


end
