(* ===== verification/Spec2Isabelle.thy ===== *)
theory Spec2Isabelle
  imports Workflow_Facts State_Machine_Facts Context_Store_Facts Approval_Decisions Audit_Trail
    Tool_Executor_Facts Intents_Reconcile Claim_Order_Facts Outbox_Workers
begin

text \<open>
  \<^bold>\<open>ShadowTrace: the control plane of an automated incident response system.\<close>

  \<^medskip> \<^bold>\<open>The program.\<close> A security event is ingested, investigated by agents, answered by a
  plan of response actions, and closed. What the backend (\<open>src/backend/app\<close>) must get right
  is the control plane around the agents: when an investigation starts and how often, who
  may execute an action, what reaches a provider and how many times, what is written back to
  the source product, and on which evidence an event closes. That control plane is what this
  development models. Its parts interact through the PostgreSQL tables:

  \<^item> \<open>InvestigationIntentService\<close> records that an event is to be investigated, claims the
    intents in the scheduler's order and publishes one broker task per claim;
  \<^item> the agents write the plan as action rows; \<open>ApprovalEngine\<close> decides them, by policy or
    through a human, and advances the event when a plan is decided;
  \<^item> \<open>ActionExecutionService\<close> claims approved actions, \<open>ToolExecutor\<close> sends their calls through
    the registry, the circuit breaker and the job store, and reconciliation settles
    executions whose lease ran out;
  \<^item> \<open>DispositionSyncService\<close> and its workers deliver disposition commands to the source
    product from a durable outbox, and record the receipts;
  \<^item> \<open>StateMachineService\<close> moves the event; its \<open>CLOSED\<close> gate reads what all the others left
    in the tables; \<open>EventContextStore\<close> keeps the versioned fields they share.

  \<^medskip> \<^bold>\<open>Conventions.\<close> A database is a record of tables, a table the list of its rows
  (\<open>Store\<close>). Status columns hold the raw strings of the rows; a service that calls
  \<open>E(row.status)\<close> calls \<open>E_parse\<close> here, which fails on an unknown string. A fallible
  operation returns \<open>Inl\<close> of the exception or \<open>Inr\<close> of its value (\<open>Errors\<close>). A transaction
  is one atomic function on the state; an exception rolls it back unless the code catches it
  inside. Interleavings are inductive step relations over such transactions; a row lock held by another
  session (\<open>FOR UPDATE SKIP LOCKED\<close>) is an arbitrary predicate, and a crash is a run that
  stops between two steps. Times are integers in microseconds. What is not part of the
  repository, or is generated, is a parameter: SHA-256, the JSON decoders of pydantic, the
  text redaction patterns, clocks, random identifiers, the broker, and a provider's answers.
  Rational numbers stand for the floats of the scheduler's priority. Logging, metrics, traces
  and published notifications are left out; they read the state and never change it.

  \<^medskip> \<^bold>\<open>The theories and the code they model.\<close>

  \<^item> \<open>ST_Prelude\<close>: results and their postcondition calculus (\<open>returns\<close>), list and string
    helpers, the shared contracts: \<open>str_enum\<close> for enumerations, \<open>keyed_table\<close> for tables
    addressed by a key, \<open>guarded_table\<close> for guarded transition tables. The contracts are interpreted on every
    enumeration and on the tables of \<open>Store\<close> and \<open>Outbox\<close>.
  \<^item> \<open>Enums\<close> (\<open>models/enums.py\<close>), \<open>Errors\<close> and \<open>Error_Taxonomy\<close> (\<open>core/errors.py\<close>),
    \<open>Store\<close> (\<open>db/models.py\<close>, \<open>db/orm/approval.py\<close>), \<open>Config_Auth\<close> (what the services read of
    \<open>core/config.py\<close> and \<open>core/auth.py\<close>, the side-effect fence and the level policy).
  \<^item> \<open>Workflow\<close> and \<open>Close_Gate\<close> (\<open>models/workflow.py\<close>): the transition tables of events,
    actions, jobs, outboxes and writebacks with the validators that guard them, and the
    \<open>CLOSED\<close> gate. \<open>Workflow_Facts\<close>: every status reaches \<open>CLOSED\<close>, nothing above the
    auto-approvable levels executes without approval evidence, confirmed stays confirmed.
  \<^item> \<open>Convergence_Model\<close> and \<open>Convergence\<close> (\<open>services/side_effect_convergence.py\<close>,
    \<open>services/writeback_close_gate.py\<close>, \<open>models/verification_readiness.py\<close>): the views the gate
    judges, projected from the tables. \<open>Convergence_Facts\<close>: no active job is hidden.
  \<^item> \<open>Action_Model\<close> (\<open>models/action.py\<close> and the two row mappings) and \<open>Approval_Binding\<close>
    (\<open>services/playbook_approval_binding.py\<close>): well-formed actions, and drift of what was
    approved.
  \<^item> \<open>Execution\<close> (\<open>services/action_execution_service.py\<close>): claim, repair, adjudication and
    reconciliation. \<open>Execution_Facts\<close>: a claim is exclusive, reconciliation is total and
    touches only executions in flight.
  \<^item> \<open>State_Machine\<close> (\<open>services/state_machine_service.py\<close>): \<open>transition\<close>, \<open>force_close\<close>, the
    context rebuilt from the tables. \<open>State_Machine_Facts\<close>: what a close proves about the
    committed database, and the invariants of \<open>system_step\<close>, the interleaving of the
    modelled services. \<open>Audit_Trail\<close>: the audit rows replay the status changes.
  \<^item> \<open>Context_Store\<close> (\<open>services/context_service.py\<close>): the journal and its version counter.
    \<open>Context_Store_Facts\<close>: refinement to a versioned map, compare-and-set loses no update.
  \<^item> \<open>Approval\<close> (\<open>services/approval_engine.py\<close>): the gates, the records, decisions and their
    replay, timeouts and the advance of a plan. \<open>Approval_Facts\<close>: the human in the loop
    along every run of approval, execution and state machine. \<open>Approval_Decisions\<close>: single
    decisions.
  \<^item> \<open>Tool_Model\<close> (\<open>models/tool_meta.py\<close>), \<open>Tool_Guards\<close> (\<open>tools/circuit_breaker.py\<close>,
    \<open>orchestration/convergence_guard.py\<close>, \<open>tools/registry.py\<close>), \<open>Tool_Executor\<close>
    (\<open>tools/executor.py\<close>). \<open>Tool_Guards_Facts\<close> and \<open>Tool_Executor_Facts\<close>: an open breaker
    refuses, the guard bounds the steps of an event, a side effect reaches its provider at
    most once under every interleaving, and what an unreported probe leaves behind.
  \<^item> \<open>Intent_Policy\<close> (\<open>services/auto_investigate_policy.py\<close>, \<open>services/auto_response_policy.py\<close>,
    \<open>services/cmu_scheduler.py\<close>) and \<open>Intents\<close> (\<open>services/investigation_intent_service.py\<close>).
    \<open>Intents_Ledger\<close> refines every operation to a small transition system, from which
    \<open>Intents_Facts\<close> derives the fencing of superseded tasks, one investigation in flight per
    event and the idempotent intake; \<open>Intents_Reconcile\<close> and \<open>Claim_Order_Facts\<close> add the
    liveness of reconciliation and the bound on overtaking.
  \<^item> \<open>Disposition_Model\<close> (\<open>models/disposition.py\<close>, \<open>adapters/disposition\<close>, the outbound guard)
    and \<open>Outbox\<close> (\<open>services/disposition_sync_service.py\<close>): enqueue, delivery, the error
    handling, paused lookups, operator retry and resolution, the worker's pass.
    \<open>Outbox_Facts\<close> shows how each operation evolves a row; \<open>Outbox_Runs\<close> and
    \<open>Outbox_Workers\<close> derive, over every interleaving, when a command may leave for the
    provider.

  \<^medskip> \<^bold>\<open>Bounds and fuel.\<close> No definition runs on fuel. Loops over query results are structural
  recursion on the rows; the search of \<open>main_path_reaches_closed\<close> has a termination proof by
  a measure on unvisited states; the retry loop of the executor recurses on the number of
  retries left. Python integers are unbounded and so are \<open>int\<close>; no machine word occurs in
  the modelled code.

  \<^medskip> \<^bold>\<open>Not modelled.\<close> The agents (\<open>agents/\<close>), prompts, model and embedding providers
  (\<open>core/llm*\<close>, \<open>rag/\<close>, \<open>knowledge/\<close>), detection and evaluation: their results are free text
  or model output, which the control plane treats as data it does not trust. The graph
  engine (\<open>orchestration/workflow_graph.py\<close> and its checkpointer) is built on an external
  library whose scheduling it inherits; its nodes call the modelled services, which are
  therefore shown correct under every order of calls. HTTP handlers (\<open>api/\<close>), Celery tasks
  (\<open>tasks/\<close>), the concrete source-product adapters (\<open>adapters/\<close>, \<open>mock_xdr/\<close>), data generators and
  the frontend are input and output. Ingestion, reporting, memory governance and the
  decision record are services of the same kind as those modelled but share no invariant
  with them beyond the rows they read; they are left for later.
\<close>

end
